(* ===== verification/Prelude.thy ===== *)
theory Prelude
  imports Main
begin

text \<open>
  The prelude of the development: the collections of rewrite rules the component theories
  extend, generic lemmas on lists that the components share (indexed maps, removal by
  position, splitting and joining at a separator), and the decimal and hexadecimal
  numerals of the source language.
\<close>

named_theorems js_simps \<open>equations of the JavaScript primitives on constructor arguments\<close>
named_theorems page_defs \<open>definitions of the handlers of the pages\<close>

section \<open>Lists\<close>

text \<open>\<open>mapi f i xs\<close> is \<open>xs.map((x, k) => f(k, x))\<close> with the positions starting at \<open>i\<close>.\<close>

primrec mapi :: "(nat \<Rightarrow> 'a \<Rightarrow> 'b) \<Rightarrow> nat \<Rightarrow> 'a list \<Rightarrow> 'b list" where
  "mapi f i [] = []"
| "mapi f i (x # xs) = f i x # mapi f (Suc i) xs"

lemma length_mapi [simp]: "length (mapi f i xs) = length xs"
  by (induction xs arbitrary: i) auto

lemma nth_mapi [simp]: "k < length xs \<Longrightarrow> mapi f i xs ! k = f (i + k) (xs ! k)"
proof (induction xs arbitrary: i k)
  case (Cons x xs)
  then show ?case by (cases k) auto
qed simp

lemma mapi_append: "mapi f i (xs @ ys) = mapi f i xs @ mapi f (i + length xs) ys"
  by (induction xs arbitrary: i) auto

lemma mapi_mapi: "mapi f i (mapi g i xs) = mapi (\<lambda>k x. f k (g k x)) i xs"
  by (induction xs arbitrary: i) auto

lemma mapi_cong:
  "(\<And>k. k < length xs \<Longrightarrow> f (i + k) (xs ! k) = g (i + k) (xs ! k)) \<Longrightarrow> mapi f i xs = mapi g i xs"
  by (rule nth_equalityI) auto

lemma set_mapi: "set (mapi f i xs) = {f (i + k) (xs ! k) | k. k < length xs}"
  by (auto simp: set_conv_nth) (metis length_mapi nth_mapi)+

lemma map_mapi: "map g (mapi f i xs) = mapi (\<lambda>k x. g (f k x)) i xs"
  by (induction xs arbitrary: i) auto

text \<open>\<open>xs.splice(i, 1)\<close> for a position of the array; beyond its end nothing is removed.\<close>

definition remove_at :: "nat \<Rightarrow> 'a list \<Rightarrow> 'a list" where
  "remove_at i xs = take i xs @ drop (Suc i) xs"

lemma length_remove_at [simp]:
  "length (remove_at i xs) = (if i < length xs then length xs - 1 else length xs)"
  by (auto simp: remove_at_def)

lemma remove_at_beyond [simp]: "length xs \<le> i \<Longrightarrow> remove_at i xs = xs"
  by (simp add: remove_at_def)

lemma set_remove_at_subset: "set (remove_at i xs) \<subseteq> set xs"
  by (auto simp: remove_at_def dest: in_set_takeD in_set_dropD)

lemma distinct_remove_at: "distinct xs \<Longrightarrow> distinct (remove_at i xs)"
proof -
  assume d: "distinct xs"
  have "distinct (take i xs @ drop i xs)" using d by simp
  then have "set (take i xs) \<inter> set (drop i xs) = {}" by (simp only: distinct_append)
  moreover have "set (drop (Suc i) xs) \<subseteq> set (drop i xs)"
    by (simp add: set_drop_subset_set_drop)
  ultimately have "set (take i xs) \<inter> set (drop (Suc i) xs) = {}" by blast
  with d show ?thesis by (simp add: remove_at_def)
qed

lemma nth_remove_at:
  "i < length xs \<Longrightarrow> k < length xs - 1 \<Longrightarrow>
   remove_at i xs ! k = (if k < i then xs ! k else xs ! Suc k)"
  by (auto simp: remove_at_def nth_append min_def)

lemma remove_at_map: "remove_at i (map f xs) = map f (remove_at i xs)"
  by (simp add: remove_at_def take_map drop_map)

lemma set_remove_at_distinct: "distinct xs \<Longrightarrow> i < length xs \<Longrightarrow> set (remove_at i xs) = set xs - {xs ! i}"
proof -
  assume d: "distinct xs" and i: "i < length xs"
  have "xs = take i xs @ xs ! i # drop (Suc i) xs" using i by (rule id_take_nth_drop)
  then have "set xs = insert (xs ! i) (set (remove_at i xs))"
    unfolding remove_at_def by (metis list.set(2) set_append Un_insert_right)
  moreover have "xs ! i \<notin> set (remove_at i xs)"
    using d i \<open>xs = take i xs @ xs ! i # drop (Suc i) xs\<close> unfolding remove_at_def
    by (metis distinct.simps(2) distinct_append disjoint_insert(1) list.set(2) set_append Un_iff)
  ultimately show ?thesis by auto
qed

section \<open>Splitting and joining strings\<close>

text \<open>\<open>s.split(c)\<close> for a separator of one character and \<open>xs.join(c)\<close>.\<close>

fun split_on :: "'a \<Rightarrow> 'a list \<Rightarrow> 'a list list" where
  "split_on c [] = [[]]"
| "split_on c (x # xs) =
     (if x = c then [] # split_on c xs
      else case split_on c xs of [] \<Rightarrow> [[x]] | y # ys \<Rightarrow> (x # y) # ys)"

fun join_with :: "'a list \<Rightarrow> 'a list list \<Rightarrow> 'a list" where
  "join_with sep [] = []"
| "join_with sep [x] = x"
| "join_with sep (x # y # xs) = x @ sep @ join_with sep (y # xs)"

lemma split_on_nonempty [simp]: "split_on c xs \<noteq> []"
  by (induction xs) (auto split: list.splits)

lemma split_on_clean [simp]: "c \<notin> set xs \<Longrightarrow> split_on c xs = [xs]"
  by (induction xs) auto

lemma split_on_append [simp]:
  "c \<notin> set xs \<Longrightarrow> split_on c (xs @ c # ys) = xs # split_on c ys"
  by (induction xs) (auto split: list.splits)

lemma split_on_join:
  "xs \<noteq> [] \<Longrightarrow> (\<And>x. x \<in> set xs \<Longrightarrow> c \<notin> set x) \<Longrightarrow> split_on c (join_with [c] xs) = xs"
  by (induction "[c]" xs rule: join_with.induct) auto

lemma split_on_parts: "x \<in> set (split_on c xs) \<Longrightarrow> c \<notin> set x"
  by (induction xs arbitrary: x) (auto split: if_splits list.splits)

lemma join_split_on: "join_with [c] (split_on c xs) = xs"
proof (induction xs)
  case (Cons x xs)
  obtain y ys where s: "split_on c xs = y # ys" by (meson neq_Nil_conv split_on_nonempty)
  with Cons show ?case by (cases ys) auto
qed simp

end
