(* ===== verification/JSValue.thy ===== *)
theory JSValue
  imports Prelude
begin

text \<open>
  The values and primitive operations of JavaScript that the web client uses. A value is a
  tree: primitives, arrays and objects with their own properties in insertion order.
  Numbers are the integers and NaN: every number the client computes with is an identifier,
  a VLAN, a bandwidth, a count or a time, and below 2^53 in absolute value IEEE doubles
  agree with the integers. Strings are lists of characters with codes below 256.
  Where the source may throw, an operation returns a value of type \<open>'a res\<close>, whose left
  injection is the exception.
\<close>

section \<open>Values\<close>

datatype jsval =
    JUndef
  | JNull
  | JBool bool
  | JNum int
  | JNaN
  | JStr string
  | JArr "jsval list"
  | JObj "(string \<times> jsval) list"

type_synonym props = "(string \<times> jsval) list"

datatype exn =
    TypeError
  | ReferenceError
  | SyntaxError
  | URIError
  | NetworkError
  | Throw jsval

type_synonym 'a res = "exn + 'a"

fun rbind :: "'a res \<Rightarrow> ('a \<Rightarrow> 'b res) \<Rightarrow> 'b res" where
  "rbind (Inl e) f = Inl e"
| "rbind (Inr x) f = f x"

fun try_catch :: "'a res \<Rightarrow> (exn \<Rightarrow> 'a res) \<Rightarrow> 'a res" where
  "try_catch (Inl e) h = h e"
| "try_catch (Inr x) h = Inr x"

text \<open>A \<open>forEach\<close> or \<open>map\<close> whose callback may throw: the first exception ends the loop.\<close>

fun rmap :: "('a \<Rightarrow> 'b res) \<Rightarrow> 'a list \<Rightarrow> 'b list res" where
  "rmap f [] = Inr []"
| "rmap f (x # xs) = rbind (f x) (\<lambda>y. rbind (rmap f xs) (\<lambda>ys. Inr (y # ys)))"

lemma rbind_Inr_iff: "rbind m f = Inr y \<longleftrightarrow> (\<exists>x. m = Inr x \<and> f x = Inr y)"
  by (cases m) auto

lemma rbind_Inl_iff: "rbind m f = Inl e \<longleftrightarrow> m = Inl e \<or> (\<exists>x. m = Inr x \<and> f x = Inl e)"
  by (cases m) auto

lemma rbind_assoc: "rbind (rbind m f) g = rbind m (\<lambda>x. rbind (f x) g)"
  by (cases m) auto

lemma rmap_Inr_iff:
  "rmap f xs = Inr ys \<longleftrightarrow> length ys = length xs \<and> (\<forall>i < length xs. f (xs ! i) = Inr (ys ! i))"
proof (induction xs arbitrary: ys)
  case (Cons x xs)
  show ?case
    by (cases ys) (auto simp: rbind_Inr_iff Cons.IH All_less_Suc2)
qed auto

lemma rmap_total: "(\<And>x. x \<in> set xs \<Longrightarrow> f x = Inr (g x)) \<Longrightarrow> rmap f xs = Inr (map g xs)"
  by (induction xs) auto

lemma rmap_Inl_iff:
  "rmap f xs = Inl e \<longleftrightarrow>
   (\<exists>k < length xs. f (xs ! k) = Inl e \<and> (\<forall>j < k. \<exists>y. f (xs ! j) = Inr y))"
proof (induction xs)
  case (Cons x xs)
  show ?case
  proof (cases "f x")
    case (Inl e')
    have "(\<forall>j < k. \<exists>y. f ((x # xs) ! j) = Inr y) \<longleftrightarrow> k = 0" for k
      using Inl by (cases k) auto
    with Inl show ?thesis by auto
  next
    case (Inr y)
    have "(\<exists>k < length (x # xs). f ((x # xs) ! k) = Inl e \<and> (\<forall>j < k. \<exists>y. f ((x # xs) ! j) = Inr y))
      \<longleftrightarrow> (\<exists>k < length xs. f (xs ! k) = Inl e \<and> (\<forall>j < k. \<exists>y. f (xs ! j) = Inr y))" (is "?L = ?R")
    proof
      assume ?L
      then obtain k where k: "k < length (x # xs)" "f ((x # xs) ! k) = Inl e"
        "\<forall>j < k. \<exists>y. f ((x # xs) ! j) = Inr y" by blast
      with Inr obtain k' where "k = Suc k'" by (cases k) auto
      with k show ?R by (auto intro!: exI [of _ k'])
    next
      assume ?R
      then obtain k where "k < length xs" "f (xs ! k) = Inl e" "\<forall>j < k. \<exists>y. f (xs ! j) = Inr y"
        by blast
      with Inr show ?L
        by (intro exI [of _ "Suc k"]) (auto simp: nth_Cons split: nat.splits)
    qed
    with Inr show ?thesis by (simp add: Cons.IH rbind_Inl_iff)
  qed
qed simp

section \<open>Numerals\<close>

definition digit_chr :: "nat \<Rightarrow> char" where
  "digit_chr d = ''0123456789abcdef'' ! d"

fun show_nat :: "nat \<Rightarrow> string" where
  "show_nat n = (if n < 10 then [digit_chr n] else show_nat (n div 10) @ [digit_chr (n mod 10)])"

declare show_nat.simps [simp del]

definition show_int :: "int \<Rightarrow> string" where
  "show_int i = (if i < 0 then CHR ''-'' # show_nat (nat (- i)) else show_nat (nat i))"

text \<open>The value of a digit, at most 15; the letters in either case.\<close>

fun index_of :: "'a list \<Rightarrow> 'a \<Rightarrow> nat" where
  "index_of [] x = 0"
| "index_of (y # ys) x = (if x = y then 0 else Suc (index_of ys x))"

definition digits10 :: string where "digits10 = ''0123456789''"

definition is_digit :: "char \<Rightarrow> bool" where
  "is_digit c = (c \<in> set digits10)"

definition is_hex :: "char \<Rightarrow> bool" where
  "is_hex c = (c \<in> set ''0123456789ABCDEFabcdef'')"

definition digit_val :: "char \<Rightarrow> nat" where
  "digit_val c = (let i = index_of ''0123456789abcdefABCDEF'' c in if i < 16 then i else i - 6)"

definition read_digits :: "nat \<Rightarrow> string \<Rightarrow> nat" where
  "read_digits base s = foldl (\<lambda>n c. base * n + digit_val c) 0 s"

lemma digits10_nth: "digits10 = map digit_chr [0..<10]"
  by (simp add: digits10_def digit_chr_def upt_rec)

lemma is_digit_digit_chr [simp]: "d < 10 \<Longrightarrow> is_digit (digit_chr d)"
  by (simp add: is_digit_def digits10_nth)

lemma index_of_nth: "distinct xs \<Longrightarrow> i < length xs \<Longrightarrow> index_of xs (xs ! i) = i"
proof (induction xs arbitrary: i)
  case (Cons y ys)
  then show ?case by (cases i) (auto simp: nth_mem)
qed simp

lemma index_of_append: "x \<in> set xs \<Longrightarrow> index_of (xs @ ys) x = index_of xs x"
  by (induction xs) auto

lemma digit_val_digit_chr [simp]:
  assumes "d < 10"
  shows "digit_val (digit_chr d) = d"
proof -
  let ?lo = "''0123456789abcdef''"
  have "index_of (?lo @ ''ABCDEF'') (?lo ! d) = index_of ?lo (?lo ! d)"
    using assms by (intro index_of_append nth_mem) simp
  also have "\<dots> = d"
    using assms by (intro index_of_nth) simp_all
  finally show ?thesis
    using assms by (simp add: digit_val_def digit_chr_def)
qed

lemma is_digit_imp_chr: "is_digit c \<Longrightarrow> \<exists>d < 10. c = digit_chr d"
  by (auto simp: is_digit_def digits10_nth)

lemma show_nat_digits: "c \<in> set (show_nat n) \<Longrightarrow> is_digit c"
proof (induction n rule: show_nat.induct)
  case (1 n)
  then show ?case
    by (cases "n < 10") (auto simp: show_nat.simps [of n])
qed

lemma show_nat_nonempty [simp]: "show_nat n \<noteq> []"
  by (subst show_nat.simps) simp

lemma read_digits_append:
  "read_digits b (s @ [c]) = b * read_digits b s + digit_val c"
  by (simp add: read_digits_def)

lemma read_show_nat [simp]: "read_digits 10 (show_nat n) = n"
proof (induction n rule: show_nat.induct)
  case (1 n)
  show ?case
  proof (cases "n < 10")
    case True
    then show ?thesis by (simp add: show_nat.simps [of n] read_digits_def)
  next
    case False
    with "1" have "read_digits 10 (show_nat (n div 10)) = n div 10" by simp
    with False show ?thesis by (simp add: show_nat.simps [of n] read_digits_append)
  qed
qed

lemma show_nat_inject [simp]: "show_nat m = show_nat n \<longleftrightarrow> m = n"
  by (metis read_show_nat)

lemma show_nat_no_char: "\<not> is_digit c \<Longrightarrow> c \<notin> set (show_nat n)"
  by (auto dest: show_nat_digits)

lemma show_nat_hd_digit: "is_digit (hd (show_nat n))"
  by (rule show_nat_digits [of _ n]) simp

lemma is_digit_simps [simp]:
  "\<not> is_digit CHR ''-''" "\<not> is_digit CHR ''&''" "\<not> is_digit CHR ''=''" "\<not> is_digit CHR ''.''"
  "\<not> is_digit CHR ''/''" "\<not> is_digit CHR '':''" "\<not> is_digit CHR '',''" "\<not> is_digit CHR ''%''"
  by (simp_all add: is_digit_def digits10_def)

lemma show_int_inject [simp]: "show_int i = show_int j \<longleftrightarrow> i = j"
proof -
  have m: "CHR ''-'' # s \<noteq> show_nat n" for s n
    using show_nat_digits [of "CHR ''-''" n] by (metis is_digit_simps(1) list.set_intros(1))
  from m [symmetric] m show ?thesis by (simp add: show_int_def) linarith
qed

section \<open>Conversions and operators\<close>

fun truthy :: "jsval \<Rightarrow> bool" where
  "truthy JUndef = False"
| "truthy JNull = False"
| "truthy (JBool b) = b"
| "truthy (JNum n) = (n \<noteq> 0)"
| "truthy JNaN = False"
| "truthy (JStr s) = (s \<noteq> [])"
| "truthy (JArr xs) = True"
| "truthy (JObj ps) = True"

text \<open>\<open>a || b\<close>.\<close>

definition js_or :: "jsval \<Rightarrow> jsval \<Rightarrow> jsval" where
  "js_or a b = (if truthy a then a else b)"

text \<open>String conversion, as in template literals and \<open>FormData.append\<close>.\<close>

fun to_str :: "jsval \<Rightarrow> string" where
  "to_str JUndef = ''undefined''"
| "to_str JNull = ''null''"
| "to_str (JBool b) = (if b then ''true'' else ''false'')"
| "to_str (JNum n) = show_int n"
| "to_str JNaN = ''NaN''"
| "to_str (JStr s) = s"
| "to_str (JArr xs) =
     join_with '','' (map (\<lambda>x. if x = JUndef \<or> x = JNull then [] else to_str x) xs)"
| "to_str (JObj ps) = ''[object Object]''"

text \<open>Assignment to \<open>innerHTML\<close>: null becomes the empty string, everything else is converted.\<close>

definition html_of :: "jsval \<Rightarrow> string" where
  "html_of v = (if v = JNull then [] else to_str v)"

definition is_ws :: "char \<Rightarrow> bool" where
  "is_ws c = (c = CHR '' '' \<or> c = CHR 0x09 \<or> c = CHR 0x0A \<or> c = CHR 0x0B \<or> c = CHR 0x0C
     \<or> c = CHR 0x0D \<or> c = CHR 0xA0)"

definition trim :: "string \<Rightarrow> string" where
  "trim s = rev (dropWhile is_ws (rev (dropWhile is_ws s)))"

text \<open>
  The number of a string, as \<open>==\<close> and the relational operators convert it: white space is
  ignored, the empty string is 0, a decimal integer with an optional sign is its value and
  anything else is NaN (fractions and exponents, which no field of the client holds,
  are not distinguished from the rest).
\<close>

definition str_to_num :: "string \<Rightarrow> jsval" where
  "str_to_num s = (let t = trim s in
     if t = [] then JNum 0
     else if list_all is_digit t then JNum (int (read_digits 10 t))
     else case t of
       c # ds \<Rightarrow>
         if ds \<noteq> [] \<and> list_all is_digit ds \<and> c = CHR ''-'' then JNum (- int (read_digits 10 ds))
         else if ds \<noteq> [] \<and> list_all is_digit ds \<and> c = CHR ''+'' then JNum (int (read_digits 10 ds))
         else JNaN)"

fun to_num :: "jsval \<Rightarrow> jsval" where
  "to_num JUndef = JNaN"
| "to_num JNull = JNum 0"
| "to_num (JBool b) = JNum (if b then 1 else 0)"
| "to_num (JNum n) = JNum n"
| "to_num JNaN = JNaN"
| "to_num (JStr s) = str_to_num s"
| "to_num v = str_to_num (to_str v)"

text \<open>\<open>parseInt(v)\<close>: the longest decimal (or, after \<open>0x\<close>, hexadecimal) prefix.\<close>

definition parse_prefix :: "string \<Rightarrow> nat option" where
  "parse_prefix t =
     (let hexa = (take 2 t = ''0x'' \<or> take 2 t = ''0X'');
          ds = (if hexa then takeWhile is_hex (drop 2 t) else takeWhile is_digit t)
      in if ds = [] then None else Some (read_digits (if hexa then 16 else 10) ds))"

definition parse_int :: "jsval \<Rightarrow> jsval" where
  "parse_int v =
     (let t = dropWhile is_ws (to_str v);
          neg = (t \<noteq> [] \<and> hd t = CHR ''-'');
          u = (if t \<noteq> [] \<and> (hd t = CHR ''-'' \<or> hd t = CHR ''+'') then tl t else t)
      in case parse_prefix u of
           None \<Rightarrow> JNaN
         | Some n \<Rightarrow> JNum (if neg then - int n else int n))"

text \<open>Strict equality. Two arrays or objects are equal only when they are the same object,
  which a comparison with a literal never is.\<close>

fun strict_eq :: "jsval \<Rightarrow> jsval \<Rightarrow> bool" where
  "strict_eq JUndef JUndef = True"
| "strict_eq JNull JNull = True"
| "strict_eq (JBool a) (JBool b) = (a = b)"
| "strict_eq (JNum a) (JNum b) = (a = b)"
| "strict_eq (JStr a) (JStr b) = (a = b)"
| "strict_eq _ _ = False"

fun is_nullish :: "jsval \<Rightarrow> bool" where
  "is_nullish JUndef = True"
| "is_nullish JNull = True"
| "is_nullish _ = False"

fun is_obj :: "jsval \<Rightarrow> bool" where
  "is_obj (JArr _) = True"
| "is_obj (JObj _) = True"
| "is_obj _ = False"

text \<open>Loose equality: null and undefined are equal to each other only, two strings are compared
  as strings, an object against a primitive by its string, and the rest as numbers.\<close>

definition loose_eq :: "jsval \<Rightarrow> jsval \<Rightarrow> bool" where
  "loose_eq a b =
     (if is_nullish a \<or> is_nullish b then is_nullish a \<and> is_nullish b
      else if is_obj a \<and> is_obj b then False
      else let a' = (if is_obj a then JStr (to_str a) else a);
               b' = (if is_obj b then JStr (to_str b) else b)
           in case (a', b') of
                (JStr s, JStr t) \<Rightarrow> s = t
              | _ \<Rightarrow> strict_eq (to_num a') (to_num b'))"

fun str_less :: "string \<Rightarrow> string \<Rightarrow> bool" where
  "str_less [] [] = False"
| "str_less [] (y # ys) = True"
| "str_less (x # xs) [] = False"
| "str_less (x # xs) (y # ys) =
     (of_char x < (of_char y :: nat) \<or> (x = y \<and> str_less xs ys))"

text \<open>\<open>a < b\<close>: strings in code order, everything else as numbers; NaN is never less.\<close>

definition js_less :: "jsval \<Rightarrow> jsval \<Rightarrow> bool" where
  "js_less a b = (case (a, b) of
       (JStr s, JStr t) \<Rightarrow> str_less s t
     | _ \<Rightarrow> (case (to_num a, to_num b) of (JNum m, JNum n) \<Rightarrow> m < n | _ \<Rightarrow> False))"

definition js_le :: "jsval \<Rightarrow> jsval \<Rightarrow> bool" where
  "js_le a b = (case (a, b) of
       (JStr s, JStr t) \<Rightarrow> \<not> str_less t s
     | _ \<Rightarrow> (case (to_num a, to_num b) of (JNum m, JNum n) \<Rightarrow> m \<le> n | _ \<Rightarrow> False))"

section \<open>Properties of objects\<close>

text \<open>Reading a property that the object lacks gives undefined; reading any property of
  undefined or null throws.\<close>

definition pget :: "props \<Rightarrow> string \<Rightarrow> jsval" where
  "pget ps k = (case map_of ps k of None \<Rightarrow> JUndef | Some v \<Rightarrow> v)"

definition phas :: "props \<Rightarrow> string \<Rightarrow> bool" where
  "phas ps k = (k \<in> fst ` set ps)"

text \<open>An assignment keeps the place of a property the object has and appends a new one.\<close>

fun pset :: "props \<Rightarrow> string \<Rightarrow> jsval \<Rightarrow> props" where
  "pset [] k v = [(k, v)]"
| "pset ((k', v') # ps) k v = (if k = k' then (k, v) # ps else (k', v') # pset ps k v)"

fun jget :: "jsval \<Rightarrow> string \<Rightarrow> jsval res" where
  "jget JUndef k = Inl TypeError"
| "jget JNull k = Inl TypeError"
| "jget (JObj ps) k = Inr (pget ps k)"
| "jget (JArr xs) k = Inr (if k = ''length'' then JNum (int (length xs)) else JUndef)"
| "jget (JStr s) k = Inr (if k = ''length'' then JNum (int (length s)) else JUndef)"
| "jget _ k = Inr JUndef"

text \<open>\<open>v[i]\<close> for an index.\<close>

fun jidx :: "jsval \<Rightarrow> nat \<Rightarrow> jsval res" where
  "jidx JUndef i = Inl TypeError"
| "jidx JNull i = Inl TypeError"
| "jidx (JArr xs) i = Inr (if i < length xs then xs ! i else JUndef)"
| "jidx (JStr s) i = Inr (if i < length s then JStr [s ! i] else JUndef)"
| "jidx (JObj ps) i = Inr (pget ps (show_nat i))"
| "jidx _ i = Inr JUndef"

text \<open>\<open>k in v\<close>: throws on anything that is not an object.\<close>

fun jin :: "string \<Rightarrow> jsval \<Rightarrow> bool res" where
  "jin k (JObj ps) = Inr (phas ps k)"
| "jin k (JArr xs) = Inr (k = ''length'')"
| "jin k _ = Inl TypeError"

lemma pget_pset [simp]: "pget (pset ps k v) k' = (if k' = k then v else pget ps k')"
  by (induction ps k v rule: pset.induct) (auto simp: pget_def)

lemma phas_pset [simp]: "phas (pset ps k v) k' \<longleftrightarrow> k' = k \<or> phas ps k'"
  by (induction ps k v rule: pset.induct) (auto simp: phas_def)

lemma pset_pset_same [simp]: "pset (pset ps k v) k w = pset ps k w"
  by (induction ps k v rule: pset.induct) auto

lemma pset_pset_other: "k \<noteq> l \<Longrightarrow> pset (pset (pset ps k a) l b) k c = pset (pset ps k c) l b"
  by (induction ps k a rule: pset.induct) auto

lemma pset_commute: "k \<noteq> l \<Longrightarrow> phas ps k \<Longrightarrow> pset (pset ps l b) k c = pset (pset ps k c) l b"
  by (induction ps l b rule: pset.induct) (auto simp: phas_def)

lemma keys_pset: "map fst (pset ps k v) = (if phas ps k then map fst ps else map fst ps @ [k])"
  by (induction ps k v rule: pset.induct) (auto simp: phas_def)

lemma distinct_keys_pset: "distinct (map fst ps) \<Longrightarrow> distinct (map fst (pset ps k v))"
  by (auto simp: keys_pset phas_def)

lemma pget_Cons [simp]: "pget ((k, v) # ps) k' = (if k' = k then v else pget ps k')"
  by (auto simp: pget_def)

lemma pget_Nil [simp]: "pget [] k = JUndef"
  by (simp add: pget_def)

lemma phas_Cons [simp]: "phas ((k, v) # ps) k' \<longleftrightarrow> k' = k \<or> phas ps k'"
  by (auto simp: phas_def)

lemma phas_Nil [simp]: "\<not> phas [] k"
  by (simp add: phas_def)

lemma pset_id: "phas ps k \<Longrightarrow> pset ps k (pget ps k) = ps"
  by (induction ps) auto

lemma pget_append: "pget (ps @ qs) k = (if phas ps k then pget ps k else pget qs k)"
  by (induction ps) auto

lemma phas_append [simp]: "phas (ps @ qs) k \<longleftrightarrow> phas ps k \<or> phas qs k"
  by (induction ps) auto

lemma not_phas_pget: "\<not> phas ps k \<Longrightarrow> pget ps k = JUndef"
  by (induction ps) auto

text \<open>\<open>Object.assign\<close>-like sequences of assignments.\<close>

definition psets :: "props \<Rightarrow> props \<Rightarrow> props" where
  "psets ps qs = foldl (\<lambda>acc (k, v). pset acc k v) ps qs"

lemma psets_Nil [simp]: "psets ps [] = ps"
  by (simp add: psets_def)

lemma psets_Cons [simp]: "psets ps ((k, v) # qs) = psets (pset ps k v) qs"
  by (simp add: psets_def)

lemma pget_psets_not_in: "\<not> phas qs k \<Longrightarrow> pget (psets ps qs) k = pget ps k"
  by (induction qs arbitrary: ps) auto

lemma pget_psets_in:
  "distinct (map fst qs) \<Longrightarrow> phas qs k \<Longrightarrow> pget (psets ps qs) k = pget qs k"
proof (induction qs arbitrary: ps)
  case (Cons q qs)
  obtain k' v where q: "q = (k', v)" by (cases q)
  show ?case
  proof (cases "phas qs k")
    case True
    with Cons.prems q have "k \<noteq> k'" by (auto simp: phas_def)
    with True Cons q show ?thesis by simp
  next
    case False
    with Cons.prems q show ?thesis by (simp add: pget_psets_not_in)
  qed
qed simp

lemma phas_psets [simp]: "phas (psets ps qs) k \<longleftrightarrow> phas ps k \<or> phas qs k"
  by (induction qs arbitrary: ps) auto

lemma loose_eq_refl_prim: "v \<noteq> JNaN \<Longrightarrow> \<not> is_obj v \<Longrightarrow> loose_eq v v"
  by (cases v) (auto simp: loose_eq_def)

lemma strict_eq_Num [simp]: "strict_eq v (JNum n) \<longleftrightarrow> v = JNum n"
  by (cases v) auto

lemma strict_eq_Str [simp]: "strict_eq v (JStr s) \<longleftrightarrow> v = JStr s"
  by (cases v) auto

lemma strict_eq_Null [simp]: "strict_eq v JNull \<longleftrightarrow> v = JNull"
  by (cases v) auto

lemma strict_eq_Undef [simp]: "strict_eq v JUndef \<longleftrightarrow> v = JUndef"
  by (cases v) auto

lemma is_nullish_iff: "is_nullish v \<longleftrightarrow> v = JUndef \<or> v = JNull"
  by (cases v) auto

text \<open>Reading a decimal back.\<close>

lemma trim_show_nat [simp]: "trim (show_nat n) = show_nat n"
proof -
  have ws: "\<not> is_ws c" if "c \<in> set (show_nat n)" for c
  proof
    assume "is_ws c"
    moreover from that have "is_digit c" by (rule show_nat_digits)
    ultimately show False by (auto simp: is_ws_def is_digit_def digits10_def)
  qed
  have d: "dropWhile is_ws xs = xs" if "set xs \<subseteq> set (show_nat n)" for xs
    using that ws by (cases xs) auto
  show ?thesis by (simp add: trim_def d)
qed

lemma str_to_num_show_int [simp]: "str_to_num (show_int i) = JNum i"
proof (cases "i < 0")
  case True
  let ?s = "show_nat (nat (- i))"
  have "trim (CHR ''-'' # ?s) = CHR ''-'' # ?s"
  proof -
    have "dropWhile is_ws (rev ?s @ [CHR ''-'']) = rev ?s @ [CHR ''-'']"
    proof -
      obtain c cs where r: "rev ?s = c # cs" by (cases "rev ?s") auto
      then have "c \<in> set ?s" by (metis list.set_intros(1) set_rev)
      then have "\<not> is_ws c"
        using show_nat_digits [of c] by (auto simp: is_ws_def is_digit_def digits10_def)
      with r show ?thesis by simp
    qed
    then show ?thesis by (simp add: trim_def is_ws_def)
  qed
  moreover have "list_all is_digit ?s" by (auto simp: list_all_iff dest: show_nat_digits)
  ultimately show ?thesis using True by (simp add: str_to_num_def show_int_def)
next
  case False
  then have "list_all is_digit (show_nat (nat i))" by (auto simp: list_all_iff dest: show_nat_digits)
  with False show ?thesis by (simp add: str_to_num_def show_int_def)
qed

end
