(* ===== verification/Regex.thy ===== *)
theory Regex
  imports JSValue
begin

text \<open>
  Regular expressions as the client writes them: character classes, concatenation,
  alternation, bounded repetition and iteration, matched against a whole string (every
  pattern of the sources is anchored at both ends, has no back reference and no look-ahead,
  so a backtracking match succeeds exactly on the strings of the language). \<open>rmatch\<close> computes
  a match by derivatives; \<open>rmatch_iff\<close> relates it to the language \<open>rlang\<close>.
\<close>

datatype rx =
    RZero
  | ROne
  | RCls string
  | RDot
  | RSeq rx rx
  | RAlt rx rx
  | RStar rx

definition newline_chars :: string where
  "newline_chars = [CHR 0x0A, CHR 0x0D]"

definition cat :: "string set \<Rightarrow> string set \<Rightarrow> string set" where
  "cat A B = {u @ v | u v. u \<in> A \<and> v \<in> B}"

inductive_set star_lang :: "string set \<Rightarrow> string set" for A where
  star_nil: "[] \<in> star_lang A"
| star_step: "u \<in> A \<Longrightarrow> v \<in> star_lang A \<Longrightarrow> u @ v \<in> star_lang A"

primrec rlang :: "rx \<Rightarrow> string set" where
  "rlang RZero = {}"
| "rlang ROne = {[]}"
| "rlang (RCls cs) = {[c] | c. c \<in> set cs}"
| "rlang RDot = {[c] | c. c \<notin> set newline_chars}"
| "rlang (RSeq r s) = cat (rlang r) (rlang s)"
| "rlang (RAlt r s) = rlang r \<union> rlang s"
| "rlang (RStar r) = star_lang (rlang r)"

primrec nullable :: "rx \<Rightarrow> bool" where
  "nullable RZero = False"
| "nullable ROne = True"
| "nullable (RCls cs) = False"
| "nullable RDot = False"
| "nullable (RSeq r s) = (nullable r \<and> nullable s)"
| "nullable (RAlt r s) = (nullable r \<or> nullable s)"
| "nullable (RStar r) = True"

text \<open>Constructors that drop dead branches keep the derivatives small.\<close>

fun mk_seq :: "rx \<Rightarrow> rx \<Rightarrow> rx" where
  "mk_seq RZero s = RZero"
| "mk_seq ROne s = s"
| "mk_seq r s = RSeq r s"

fun mk_alt :: "rx \<Rightarrow> rx \<Rightarrow> rx" where
  "mk_alt RZero s = s"
| "mk_alt r RZero = r"
| "mk_alt r s = RAlt r s"

primrec rderiv :: "char \<Rightarrow> rx \<Rightarrow> rx" where
  "rderiv c RZero = RZero"
| "rderiv c ROne = RZero"
| "rderiv c (RCls cs) = (if c \<in> set cs then ROne else RZero)"
| "rderiv c RDot = (if c \<in> set newline_chars then RZero else ROne)"
| "rderiv c (RSeq r s) =
     (if nullable r then mk_alt (mk_seq (rderiv c r) s) (rderiv c s) else mk_seq (rderiv c r) s)"
| "rderiv c (RAlt r s) = mk_alt (rderiv c r) (rderiv c s)"
| "rderiv c (RStar r) = mk_seq (rderiv c r) (RStar r)"

fun rmatch :: "rx \<Rightarrow> string \<Rightarrow> bool" where
  "rmatch r [] = nullable r"
| "rmatch r (c # s) = rmatch (rderiv c r) s"

section \<open>Correctness of the matcher\<close>

lemma catI [intro]: "u \<in> A \<Longrightarrow> v \<in> B \<Longrightarrow> u @ v \<in> cat A B"
  by (auto simp: cat_def)

lemma catE [elim]: "w \<in> cat A B \<Longrightarrow> (\<And>u v. w = u @ v \<Longrightarrow> u \<in> A \<Longrightarrow> v \<in> B \<Longrightarrow> P) \<Longrightarrow> P"
  by (auto simp: cat_def)

lemma cat_empty [simp]: "cat {} B = {}" "cat A {} = {}"
  by (auto simp: cat_def)

lemma cat_eps [simp]: "cat {[]} B = B" "cat A {[]} = A"
  by (auto simp: cat_def)

lemma cat_assoc: "cat (cat A B) C = cat A (cat B C)"
  by (auto simp: cat_def) (metis append_assoc)+

lemma cat_Un: "cat (A \<union> B) C = cat A C \<union> cat B C" "cat A (B \<union> C) = cat A B \<union> cat A C"
  by (auto simp: cat_def)

lemma nil_in_cat [simp]: "[] \<in> cat A B \<longleftrightarrow> [] \<in> A \<and> [] \<in> B"
  by (auto simp: cat_def)

lemma nullable_iff: "nullable r \<longleftrightarrow> [] \<in> rlang r"
  by (induction r) (auto intro: star_lang.star_nil)

lemma rlang_mk_seq [simp]: "rlang (mk_seq r s) = cat (rlang r) (rlang s)"
  by (cases r) auto

lemma rlang_mk_alt [simp]: "rlang (mk_alt r s) = rlang r \<union> rlang s"
  by (cases r; cases s) auto

lemma Cons_in_cat:
  "c # w \<in> cat A B \<longleftrightarrow> (\<exists>u v. w = u @ v \<and> c # u \<in> A \<and> v \<in> B) \<or> ([] \<in> A \<and> c # w \<in> B)"
  by (auto simp: cat_def Cons_eq_append_conv)

lemma Cons_in_star:
  "c # w \<in> star_lang A \<longleftrightarrow> (\<exists>u v. w = u @ v \<and> c # u \<in> A \<and> v \<in> star_lang A)" (is "?L = ?R")
proof
  assume ?L
  then show ?R
  proof (induction "c # w" rule: star_lang.induct)
    case (star_step u v)
    then show ?case by (cases u) auto
  qed
next
  assume ?R
  then obtain u v where "w = u @ v" "c # u \<in> A" "v \<in> star_lang A" by blast
  then show ?L using star_lang.star_step [of "c # u" A v] by simp
qed

lemma rlang_rderiv: "w \<in> rlang (rderiv c r) \<longleftrightarrow> c # w \<in> rlang r"
proof (induction r arbitrary: w)
  case (RSeq r s)
  have "w \<in> rlang (rderiv c (RSeq r s)) \<longleftrightarrow>
      w \<in> cat (rlang (rderiv c r)) (rlang s) \<or> ([] \<in> rlang r \<and> w \<in> rlang (rderiv c s))"
    by (simp add: nullable_iff)
  also have "w \<in> cat (rlang (rderiv c r)) (rlang s) \<longleftrightarrow>
      (\<exists>u v. w = u @ v \<and> c # u \<in> rlang r \<and> v \<in> rlang s)"
    by (auto simp: cat_def RSeq.IH)
  finally show ?case by (simp add: Cons_in_cat RSeq.IH)
next
  case (RStar r)
  then show ?case by (auto simp: Cons_in_star cat_def)
qed auto

lemma rmatch_iff: "rmatch r w \<longleftrightarrow> w \<in> rlang r"
  by (induction w arbitrary: r) (auto simp: nullable_iff rlang_rderiv)

section \<open>Derived forms\<close>

definition RChr :: "char \<Rightarrow> rx" where "RChr c = RCls [c]"

definition ROpt :: "rx \<Rightarrow> rx" where "ROpt r = RAlt ROne r"

text \<open>\<open>r{n}\<close> and \<open>r{m,m+k}\<close>.\<close>

primrec RPow :: "nat \<Rightarrow> rx \<Rightarrow> rx" where
  "RPow 0 r = ROne"
| "RPow (Suc n) r = RSeq r (RPow n r)"

primrec RUpTo :: "nat \<Rightarrow> rx \<Rightarrow> rx" where
  "RUpTo 0 r = ROne"
| "RUpTo (Suc n) r = RAlt ROne (RSeq r (RUpTo n r))"

definition RRange :: "nat \<Rightarrow> nat \<Rightarrow> rx \<Rightarrow> rx" where
  "RRange m n r = RSeq (RPow m r) (RUpTo (n - m) r)"

fun RSeqs :: "rx list \<Rightarrow> rx" where
  "RSeqs [] = ROne"
| "RSeqs [r] = r"
| "RSeqs (r # s # rs) = RSeq r (RSeqs (s # rs))"

fun RAlts :: "rx list \<Rightarrow> rx" where
  "RAlts [] = RZero"
| "RAlts [r] = r"
| "RAlts (r # s # rs) = RAlt r (RAlts (s # rs))"

lemma rlang_RChr [simp]: "rlang (RChr c) = {[c]}"
  by (auto simp: RChr_def)

lemma rlang_ROpt [simp]: "rlang (ROpt r) = insert [] (rlang r)"
  by (auto simp: ROpt_def)

lemma rlang_RPow: "rlang (RPow n r) = {concat xs | xs. length xs = n \<and> set xs \<subseteq> rlang r}"
proof (induction n)
  case (Suc n)
  show ?case
  proof (intro set_eqI iffI)
    fix w
    assume "w \<in> rlang (RPow (Suc n) r)"
    then obtain u xs where "w = u @ concat xs" "u \<in> rlang r" "length xs = n" "set xs \<subseteq> rlang r"
      by (auto simp: Suc.IH cat_def)
    then show "w \<in> {concat xs | xs. length xs = Suc n \<and> set xs \<subseteq> rlang r}"
      by (intro CollectI exI [of _ "u # xs"]) simp
  next
    fix w
    assume "w \<in> {concat xs | xs. length xs = Suc n \<and> set xs \<subseteq> rlang r}"
    then obtain u xs where "w = u @ concat xs" "u \<in> rlang r" "length xs = n" "set xs \<subseteq> rlang r"
      by (auto simp: length_Suc_conv)
    then show "w \<in> rlang (RPow (Suc n) r)" by (auto simp: Suc.IH cat_def)
  qed
qed auto

lemma rlang_RUpTo: "rlang (RUpTo n r) = (\<Union>k \<le> n. rlang (RPow k r))"
proof (induction n)
  case (Suc n)
  have "(\<Union>k \<le> Suc n. rlang (RPow k r)) = rlang (RPow 0 r) \<union> (\<Union>k \<le> n. rlang (RPow (Suc k) r))"
    by (simp only: atMost_Suc_eq_insert_0 UN_insert UN_simps image_image)
  also have "(\<Union>k \<le> n. rlang (RPow (Suc k) r)) = cat (rlang r) (\<Union>k \<le> n. rlang (RPow k r))"
    by (auto simp: cat_def)
  finally show ?case by (simp add: Suc.IH)
qed auto

lemma rlang_RRange:
  assumes "m \<le> n"
  shows "rlang (RRange m n r) = {concat xs | xs. m \<le> length xs \<and> length xs \<le> n \<and> set xs \<subseteq> rlang r}"
proof (intro set_eqI iffI)
  fix w
  assume "w \<in> rlang (RRange m n r)"
  then obtain xs ys where "w = concat xs @ concat ys" "length xs = m" "length ys \<le> n - m"
    "set xs \<subseteq> rlang r" "set ys \<subseteq> rlang r"
    by (auto simp: RRange_def rlang_RUpTo rlang_RPow cat_def)
  with assms show "w \<in> {concat xs | xs. m \<le> length xs \<and> length xs \<le> n \<and> set xs \<subseteq> rlang r}"
    by (intro CollectI exI [of _ "xs @ ys"]) auto
next
  fix w
  assume "w \<in> {concat xs | xs. m \<le> length xs \<and> length xs \<le> n \<and> set xs \<subseteq> rlang r}"
  then obtain xs where xs: "w = concat xs" "m \<le> length xs" "length xs \<le> n" "set xs \<subseteq> rlang r"
    by auto
  let ?u = "concat (take m xs)" and ?v = "concat (drop m xs)"
  have "?u \<in> rlang (RPow m r)"
    using xs by (auto simp: rlang_RPow dest: in_set_takeD intro!: exI [of _ "take m xs"])
  moreover have "?v \<in> rlang (RUpTo (n - m) r)"
    using xs by (auto simp: rlang_RUpTo rlang_RPow dest: in_set_dropD
        intro!: bexI [of _ "length xs - m"] exI [of _ "drop m xs"])
  moreover have "w = ?u @ ?v"
    using xs(1) by (metis append_take_drop_id concat_append)
  ultimately show "w \<in> rlang (RRange m n r)" by (auto simp: RRange_def)
qed

lemma rlang_RSeqs_Cons: "rlang (RSeqs (r # rs)) = cat (rlang r) (rlang (RSeqs rs))"
  by (cases rs) auto

lemma rlang_RAlts: "rlang (RAlts rs) = (\<Union>r \<in> set rs. rlang r)"
  by (induction rs rule: RAlts.induct) auto

lemma rlang_RSeqs_Nil: "rlang (RSeqs []) = {[]}"
  by simp

end
