(* ===== verification/IPPatterns.thy ===== *)
theory IPPatterns
  imports Regex
begin

text \<open>
  \<^verbatim>\<open>js_templates/api/validateIP.js\<close>: the patterns for IPv4 and IPv6 addresses and subnets,
  written out constructor by constructor as in the source, and the functions that attach
  them to an input element together with a listener that sets the element's custom error.
  The theorems say which strings the patterns accept, in terms of the numbers and groups
  they denote.
\<close>

section \<open>Patterns\<close>

definition d09 :: rx where "d09 = RCls ''0123456789''"
definition d19 :: rx where "d19 = RCls ''123456789''"
definition hexd :: rx where "hexd = RCls ''0123456789ABCDEFabcdef''"

text \<open>\<open>[0-9]|[1-9][0-9]|1[0-9]{2}|2[0-4][0-9]|25[0-5]\<close>\<close>

definition octet :: rx where
  "octet = RAlts [d09, RSeq d19 d09, RSeq (RChr CHR ''1'') (RPow 2 d09),
     RSeqs [RChr CHR ''2'', RCls ''01234'', d09], RSeqs [RChr CHR ''2'', RChr CHR ''5'', RCls ''012345'']]"

definition IPv4 :: rx where
  "IPv4 = RSeq (RPow 3 (RSeq octet (RChr CHR ''.''))) octet"

definition IPv4Placeholder :: string where "IPv4Placeholder = ''192.168.1.1''"

definition prefix4 :: rx where
  "prefix4 = RAlts [d09, RSeq (RCls ''12'') d09, RSeq (RChr CHR ''3'') (RCls ''012'')]"

definition IPv4CIDR :: rx where
  "IPv4CIDR = RSeq (RPow 3 (RSeq octet (RChr CHR ''.'')))
     (RSeq octet (RSeq (RChr CHR ''/'') prefix4))"

definition IPv4CIDRPlaceholder :: string where "IPv4CIDRPlaceholder = ''192.168.1.1/24''"

text \<open>\<open>25[0-5]|2[0-4]\d|1\d\d|[1-9]?\d\<close>, the octet of the IPv6 patterns.\<close>

definition octet6 :: rx where
  "octet6 = RAlts [RSeqs [RChr CHR ''2'', RChr CHR ''5'', RCls ''012345''],
     RSeqs [RChr CHR ''2'', RCls ''01234'', d09], RSeqs [RChr CHR ''1'', d09, d09], RSeq (ROpt d19) d09]"

definition quad6 :: rx where
  "quad6 = RSeq octet6 (RPow 3 (RSeq (RChr CHR ''.'') octet6))"

definition hgroup :: rx where "hgroup = RRange 1 4 hexd"
definition hcolon :: rx where "hcolon = RSeq hgroup (RChr CHR '':'')"
definition colonh :: rx where "colonh = RSeq (RChr CHR '':'') hgroup"
definition colon :: rx where "colon = RChr CHR '':''"

definition ip6_core :: rx where
  "ip6_core = RAlts [
     RSeq (RPow 7 hcolon) (RAlt hgroup colon),
     RSeq (RPow 6 hcolon) (RAlts [colonh, quad6, colon]),
     RSeq (RPow 5 hcolon) (RAlts [RRange 1 2 colonh, RSeq colon quad6, colon]),
     RSeq (RPow 4 hcolon) (RAlts [RRange 1 3 colonh, RSeq (ROpt colonh) (RSeq colon quad6), colon]),
     RSeq (RPow 3 hcolon) (RAlts [RRange 1 4 colonh, RSeq (RRange 0 2 colonh) (RSeq colon quad6), colon]),
     RSeq (RPow 2 hcolon) (RAlts [RRange 1 5 colonh, RSeq (RRange 0 3 colonh) (RSeq colon quad6), colon]),
     RSeq (RPow 1 hcolon) (RAlts [RRange 1 6 colonh, RSeq (RRange 0 4 colonh) (RSeq colon quad6), colon]),
     RSeq colon (RAlts [RRange 1 7 colonh, RSeq (RRange 0 5 colonh) (RSeq colon quad6), colon])]"

text \<open>\<open>(%.+)?\<close>\<close>

definition zone_opt :: rx where
  "zone_opt = ROpt (RSeq (RChr CHR ''%'') (RSeq RDot (RStar RDot)))"

definition IPv6 :: rx where "IPv6 = RSeq ip6_core zone_opt"

definition IPv6Placeholder :: string where
  "IPv6Placeholder = ''fe80:0000:0000:0000:0204:61ff:fe9d:f156''"

definition prefix6 :: rx where
  "prefix6 = RAlts [d09, RSeq d09 d09, RSeqs [RChr CHR ''1'', RCls ''01'', d09],
     RSeqs [RChr CHR ''1'', RChr CHR ''2'', RCls ''012345678'']]"

definition IPv6CIDR :: rx where
  "IPv6CIDR = RSeq ip6_core (RSeq zone_opt (RSeq (RChr CHR ''/'') prefix6))"

definition IPv6CIDRPlaceholder :: string where
  "IPv6CIDRPlaceholder = ''fe80:0000:0000:0000:0204:61ff:fe9d:f156/64''"

definition IPv4orIPv6 :: rx where "IPv4orIPv6 = RAlt IPv4 IPv6"

definition IPv4orIPv6Placeholder :: string where
  "IPv4orIPv6Placeholder = ''192.168.1.1 or fe80:0000:0000:0000:0204:61ff:fe9d:f156''"

definition IPv4CIDRorIPv6CIDR :: rx where "IPv4CIDRorIPv6CIDR = RAlt IPv4CIDR IPv6CIDR"

definition IPv4CIDRorIPv6CIDRPlaceholder :: string where
  "IPv4CIDRorIPv6CIDRPlaceholder =
     ''192.168.1.1/24 or fe80:0000:0000:0000:0204:61ff:fe9d:f156/64''"

section \<open>Decimal octets\<close>

lemma class_digits:
  "set ''0123456789'' = digit_chr ` {0..<10}"
  "set ''123456789'' = digit_chr ` {1..<10}"
  "set ''012345678'' = digit_chr ` {0..<9}"
  "set ''01234'' = digit_chr ` {0..<5}"
  "set ''012345'' = digit_chr ` {0..<6}"
  "set ''012'' = digit_chr ` {0..<3}"
  "set ''01'' = digit_chr ` {0..<2}"
  "set ''12'' = digit_chr ` {1..<3}"
  by (simp_all add: digit_chr_def atLeastLessThan_upt upt_rec flip: set_map)

lemma show_nat_1: "n < 10 \<Longrightarrow> show_nat n = [digit_chr n]"
  by (simp add: show_nat.simps)

lemma show_nat_2:
  "1 \<le> a \<Longrightarrow> a < 10 \<Longrightarrow> b < 10 \<Longrightarrow> show_nat (10 * a + b) = [digit_chr a, digit_chr b]"
  by (subst show_nat.simps) (simp add: show_nat_1)

lemma show_nat_3:
  "1 \<le> a \<Longrightarrow> a < 10 \<Longrightarrow> b < 10 \<Longrightarrow> c < 10 \<Longrightarrow>
   show_nat (100 * a + 10 * b + c) = [digit_chr a, digit_chr b, digit_chr c]"
proof -
  assume *: "1 \<le> a" "a < 10" "b < 10" "c < 10"
  have e: "100 * a + 10 * b + c = c + (10 * a + b) * 10" by simp
  have "(100 * a + 10 * b + c) div 10 = 10 * a + b" "(100 * a + 10 * b + c) mod 10 = c"
    unfolding e using * by (simp_all only: div_mult_self1 mod_mult_self1) simp_all
  with * show ?thesis by (subst show_nat.simps) (simp add: show_nat_2)
qed

lemma three_digits: "(n::nat) = 100 * (n div 100) + 10 * (n div 10 mod 10) + n mod 10"
proof -
  have "n = 10 * (n div 10) + n mod 10" by simp
  moreover have "n div 10 = 10 * (n div 10 div 10) + n div 10 mod 10" by simp
  moreover have "n div 10 div 10 = n div 100" by (simp add: div_mult2_eq [symmetric])
  ultimately show ?thesis by linarith
qed

text \<open>Strings of one digit between two bounds.\<close>

definition dig :: "nat \<Rightarrow> nat \<Rightarrow> string set" where
  "dig m n = {[digit_chr d] | d. m \<le> d \<and> d < n}"

lemma rlang_RCls_image: "set cs = digit_chr ` {m..<n} \<Longrightarrow> rlang (RCls cs) = dig m n"
  by (auto simp: dig_def)

lemma rlang_classes:
  "rlang d09 = dig 0 10" "rlang d19 = dig 1 10"
  "rlang (RCls ''012345678'') = dig 0 9" "rlang (RCls ''01234'') = dig 0 5"
  "rlang (RCls ''012345'') = dig 0 6" "rlang (RCls ''012'') = dig 0 3"
  "rlang (RCls ''01'') = dig 0 2" "rlang (RCls ''12'') = dig 1 3"
  unfolding d09_def d19_def by (rule rlang_RCls_image, rule class_digits)+

lemma rlang_chars:
  "rlang (RChr CHR ''1'') = {[digit_chr 1]}" "rlang (RChr CHR ''2'') = {[digit_chr 2]}"
  "rlang (RChr CHR ''3'') = {[digit_chr 3]}" "rlang (RChr CHR ''5'') = {[digit_chr 5]}"
  by (simp_all add: digit_chr_def)

declare rlang_RChr [simp del] RSeqs.simps [simp del] rlang.simps(3) [simp del]

lemma cat_dig: "w \<in> cat (dig m n) B \<longleftrightarrow> (\<exists>d v. w = digit_chr d # v \<and> m \<le> d \<and> d < n \<and> v \<in> B)"
  by (auto simp: cat_def dig_def) (metis append_Cons append_Nil)

lemma cat_chr: "w \<in> cat {[x]} B \<longleftrightarrow> (\<exists>v. w = x # v \<and> v \<in> B)"
  by (auto simp: cat_def)

lemma in_dig: "w \<in> dig m n \<longleftrightarrow> (\<exists>d. w = [digit_chr d] \<and> m \<le> d \<and> d < n)"
  by (auto simp: dig_def)

lemmas digit_rules = rlang_RAlts rlang_RSeqs_Cons rlang_RSeqs_Nil rlang_classes rlang_chars
  cat_dig cat_chr in_dig

definition octet_shape :: "string \<Rightarrow> bool" where
  "octet_shape s \<longleftrightarrow>
     (\<exists>d. s = [digit_chr d] \<and> d < 10) \<or>
     (\<exists>a b. s = [digit_chr a, digit_chr b] \<and> 1 \<le> a \<and> a < 10 \<and> b < 10) \<or>
     (\<exists>b c. s = [digit_chr 1, digit_chr b, digit_chr c] \<and> b < 10 \<and> c < 10) \<or>
     (\<exists>b c. s = [digit_chr 2, digit_chr b, digit_chr c] \<and> b < 5 \<and> c < 10) \<or>
     (\<exists>c. s = [digit_chr 2, digit_chr 5, digit_chr c] \<and> c < 6)"

lemma octet_shape_show:
  assumes "octet_shape s"
  shows "\<exists>n \<le> 255. s = show_nat n"
  using assms unfolding octet_shape_def
proof (elim disjE exE conjE)
  fix d
  assume "s = [digit_chr d]" "d < 10"
  then show ?thesis by (intro exI [of _ d]) (simp add: show_nat_1)
next
  fix a b
  assume "s = [digit_chr a, digit_chr b]" "1 \<le> a" "a < 10" "b < 10"
  then show ?thesis by (intro exI [of _ "10 * a + b"]) (simp add: show_nat_2)
next
  fix b c
  assume "s = [digit_chr 1, digit_chr b, digit_chr c]" "b < 10" "c < 10"
  then show ?thesis using show_nat_3 [of 1 b c] by (intro exI [of _ "100 + 10 * b + c"]) simp
next
  fix b c
  assume "s = [digit_chr 2, digit_chr b, digit_chr c]" "b < 5" "c < 10"
  then show ?thesis using show_nat_3 [of 2 b c] by (intro exI [of _ "200 + 10 * b + c"]) simp
next
  fix c
  assume "s = [digit_chr 2, digit_chr 5, digit_chr c]" "c < 6"
  then show ?thesis using show_nat_3 [of 2 5 c] by (intro exI [of _ "250 + c"]) simp
qed

lemma octet_arith:
  "n = 100 * a + 10 * b + c \<Longrightarrow> n \<le> 255 \<Longrightarrow> 1 \<le> a \<Longrightarrow> b < 10 \<Longrightarrow> c < 10 \<Longrightarrow>
   a = 1 \<or> a = 2 \<and> (b < 5 \<or> b = 5 \<and> c < (6::nat))"
  by auto

lemma octet_shape_of_show:
  assumes "n \<le> 255"
  shows "octet_shape (show_nat n)"
proof -
  consider "n < 10" | "10 \<le> n" "n < 100" | "100 \<le> n" by linarith
  then show ?thesis
  proof cases
    case 1
    then show ?thesis by (auto simp: show_nat_1 octet_shape_def)
  next
    case 2
    then have "show_nat n = [digit_chr (n div 10), digit_chr (n mod 10)]"
      using show_nat_2 [of "n div 10" "n mod 10"] by simp
    moreover have "1 \<le> n div 10" "n div 10 < 10" "n mod 10 < 10" using 2 by auto
    ultimately show ?thesis unfolding octet_shape_def by blast
  next
    case 3
    let ?a = "n div 100" and ?b = "n div 10 mod 10" and ?c = "n mod 10"
    have n: "n = 100 * ?a + 10 * ?b + ?c" by (rule three_digits)
    have bounds: "1 \<le> ?a" "?b < 10" "?c < 10" using 3 by auto
    moreover have "?a < 10" using assms by auto
    ultimately have "show_nat n = [digit_chr ?a, digit_chr ?b, digit_chr ?c]"
      using show_nat_3 [of ?a ?b ?c] n by simp
    moreover have "?a = 1 \<or> ?a = 2 \<and> (?b < 5 \<or> ?b = 5 \<and> ?c < 6)"
      using n assms bounds by (rule octet_arith)
    ultimately show ?thesis using bounds unfolding octet_shape_def by metis
  qed
qed

lemma octet_shape_iff: "octet_shape s \<longleftrightarrow> (\<exists>n \<le> 255. s = show_nat n)"
  using octet_shape_show octet_shape_of_show by blast

text \<open>Both patterns for an octet denote the decimals from 0 to 255 without leading zeros.\<close>

lemma three_digit_parts:
  "s \<in> rlang (RSeqs [RChr CHR ''1'', d09, d09]) \<longleftrightarrow>
     (\<exists>b c. s = [digit_chr 1, digit_chr b, digit_chr c] \<and> b < 10 \<and> c < 10)"
  "s \<in> rlang (RSeqs [RChr CHR ''2'', RCls ''01234'', d09]) \<longleftrightarrow>
     (\<exists>b c. s = [digit_chr 2, digit_chr b, digit_chr c] \<and> b < 5 \<and> c < 10)"
  "s \<in> rlang (RSeqs [RChr CHR ''2'', RChr CHR ''5'', RCls ''012345'']) \<longleftrightarrow>
     (\<exists>c. s = [digit_chr 2, digit_chr 5, digit_chr c] \<and> c < 6)"
  by (simp add: digit_rules; blast)+

lemma in_d09: "s \<in> rlang d09 \<longleftrightarrow> (\<exists>d. s = [digit_chr d] \<and> d < 10)"
  by (simp add: digit_rules)

lemma in_d19_d09: "s \<in> rlang (RSeq d19 d09) \<longleftrightarrow>
    (\<exists>a b. s = [digit_chr a, digit_chr b] \<and> 1 \<le> a \<and> a < 10 \<and> b < 10)"
  by (simp add: digit_rules) blast

lemma in_octet: "s \<in> rlang octet \<longleftrightarrow> octet_shape s"
proof -
  have "s \<in> rlang (RSeq (RChr CHR ''1'') (RPow 2 d09)) \<longleftrightarrow> s \<in> rlang (RSeqs [RChr CHR ''1'', d09, d09])"
    by (simp add: rlang_RSeqs_Cons rlang_RSeqs_Nil numeral_2_eq_2)
  then show ?thesis
    unfolding octet_def rlang_RAlts list.set UN_insert UN_empty Un_iff octet_shape_def
      in_d09 in_d19_d09 three_digit_parts by simp
qed

lemma in_octet6: "s \<in> rlang octet6 \<longleftrightarrow> octet_shape s"
proof -
  have "s \<in> rlang (RSeq (ROpt d19) d09) \<longleftrightarrow> s \<in> rlang d09 \<or> s \<in> rlang (RSeq d19 d09)"
    by (auto simp: cat_def)
  then show ?thesis
    unfolding octet6_def rlang_RAlts list.set UN_insert UN_empty Un_iff octet_shape_def
      in_d09 in_d19_d09 three_digit_parts by auto
qed

lemma rlang_octet: "rlang octet = {show_nat n | n. n \<le> 255}"
  by (auto simp: in_octet octet_shape_iff)

lemma rlang_octet6: "rlang octet6 = {show_nat n | n. n \<le> 255}"
  by (auto simp: in_octet6 octet_shape_iff)

section \<open>IPv4 addresses and subnets\<close>

definition dotted :: "nat \<Rightarrow> nat \<Rightarrow> nat \<Rightarrow> nat \<Rightarrow> string" where
  "dotted a b c d = show_nat a @ ''.'' @ show_nat b @ ''.'' @ show_nat c @ ''.'' @ show_nat d"

definition dotted_quad :: "string \<Rightarrow> bool" where
  "dotted_quad s \<longleftrightarrow> (\<exists>a b c d. a \<le> 255 \<and> b \<le> 255 \<and> c \<le> 255 \<and> d \<le> 255 \<and> s = dotted a b c d)"

lemma in_octet_cat: "s \<in> cat (rlang octet) B \<longleftrightarrow> (\<exists>n v. s = show_nat n @ v \<and> n \<le> 255 \<and> v \<in> B)"
  by (auto simp: cat_def rlang_octet)

lemma in_chr_cat: "s \<in> cat (rlang (RChr x)) B \<longleftrightarrow> (\<exists>v. s = x # v \<and> v \<in> B)"
  by (auto simp: cat_def rlang_RChr)

lemma in_octet_dot_cat:
  "s \<in> cat (rlang (RSeq octet (RChr CHR ''.''))) B \<longleftrightarrow>
   (\<exists>n v. n \<le> 255 \<and> v \<in> B \<and> s = show_nat n @ ''.'' @ v)"
  by (auto simp: cat_assoc in_octet_cat in_chr_cat)

lemma in_IPv4_cat:
  "s \<in> cat (rlang (RPow 3 (RSeq octet (RChr CHR ''.'')))) (cat (rlang octet) B) \<longleftrightarrow>
   (\<exists>q v. s = q @ v \<and> dotted_quad q \<and> v \<in> B)" (is "?L \<longleftrightarrow> ?R")
proof -
  let ?D = "rlang (RSeq octet (RChr CHR ''.''))"
  have "rlang (RPow 3 (RSeq octet (RChr CHR ''.''))) = cat ?D (cat ?D ?D)"
    by (simp add: numeral_3_eq_3)
  then have L: "?L \<longleftrightarrow> s \<in> cat ?D (cat ?D (cat ?D (cat (rlang octet) B)))"
    by (simp only: cat_assoc)
  show ?thesis
  proof
    assume ?L
    then obtain a v1 where 1: "a \<le> 255" "s = show_nat a @ ''.'' @ v1"
      "v1 \<in> cat ?D (cat ?D (cat (rlang octet) B))" unfolding L in_octet_dot_cat by metis
    then obtain b v2 where 2: "b \<le> 255" "v1 = show_nat b @ ''.'' @ v2"
      "v2 \<in> cat ?D (cat (rlang octet) B)" unfolding in_octet_dot_cat by metis
    then obtain c v3 where 3: "c \<le> 255" "v2 = show_nat c @ ''.'' @ v3"
      "v3 \<in> cat (rlang octet) B" unfolding in_octet_dot_cat by metis
    then obtain d v where 4: "d \<le> 255" "v3 = show_nat d @ v" "v \<in> B"
      unfolding in_octet_cat by metis
    from 1 2 3 4 have "s = dotted a b c d @ v" "dotted_quad (dotted a b c d)"
      by (simp add: dotted_def) (use 1 2 3 4 in \<open>auto simp: dotted_quad_def\<close>)
    with 4 show ?R by metis
  next
    assume ?R
    then obtain a b c d v where q: "a \<le> 255" "b \<le> 255" "c \<le> 255" "d \<le> 255" "v \<in> B"
      "s = dotted a b c d @ v" unfolding dotted_quad_def by metis
    have "show_nat d @ v \<in> cat (rlang octet) B"
      using q unfolding in_octet_cat by metis
    then have "show_nat c @ ''.'' @ show_nat d @ v \<in> cat ?D (cat (rlang octet) B)"
      using q unfolding in_octet_dot_cat by metis
    then have "show_nat b @ ''.'' @ show_nat c @ ''.'' @ show_nat d @ v \<in> cat ?D (cat ?D (cat (rlang octet) B))"
      using q unfolding in_octet_dot_cat [of _ "cat ?D (cat (rlang octet) B)"] by metis
    then have "show_nat a @ ''.'' @ show_nat b @ ''.'' @ show_nat c @ ''.'' @ show_nat d @ v
        \<in> cat ?D (cat ?D (cat ?D (cat (rlang octet) B)))"
      using q unfolding in_octet_dot_cat [of _ "cat ?D (cat ?D (cat (rlang octet) B))"] by metis
    then show ?L unfolding L by (simp add: q dotted_def)
  qed
qed

lemma in_IPv4: "s \<in> rlang IPv4 \<longleftrightarrow> dotted_quad s"
  using in_IPv4_cat [of s "{[]}"] by (simp add: IPv4_def)

lemma prefix4_parts:
  "s \<in> rlang (RSeq (RCls ''12'') d09) \<longleftrightarrow>
     (\<exists>a b. s = [digit_chr a, digit_chr b] \<and> 1 \<le> a \<and> a < 3 \<and> b < 10)"
  "s \<in> rlang (RSeq (RChr CHR ''3'') (RCls ''012'')) \<longleftrightarrow>
     (\<exists>b. s = [digit_chr 3, digit_chr b] \<and> b < 3)"
  by (simp add: digit_rules; blast)+

lemma prefix4_cases:
  "s \<in> rlang prefix4 \<longleftrightarrow> (\<exists>d. s = [digit_chr d] \<and> d < 10) \<or>
     (\<exists>a b. s = [digit_chr a, digit_chr b] \<and> 1 \<le> a \<and> a < 3 \<and> b < 10) \<or>
     (\<exists>b. s = [digit_chr 3, digit_chr b] \<and> b < 3)"
  unfolding prefix4_def rlang_RAlts list.set UN_insert UN_empty Un_iff in_d09 prefix4_parts by simp

lemma in_prefix4: "s \<in> rlang prefix4 \<longleftrightarrow> (\<exists>n \<le> 32. s = show_nat n)"
proof
  assume "s \<in> rlang prefix4"
  then consider d where "s = [digit_chr d]" "d < 10"
    | a b where "s = [digit_chr a, digit_chr b]" "1 \<le> a" "a < 3" "b < 10"
    | b where "s = [digit_chr 3, digit_chr b]" "b < 3"
    unfolding prefix4_cases by metis
  then show "\<exists>n \<le> 32. s = show_nat n"
  proof cases
    case 1
    then show ?thesis by (intro exI [of _ d]) (simp add: show_nat_1)
  next
    case 2
    then show ?thesis by (intro exI [of _ "10 * a + b"]) (simp add: show_nat_2)
  next
    case 3
    then show ?thesis using show_nat_2 [of 3 b] by (intro exI [of _ "30 + b"]) simp
  qed
next
  assume "\<exists>n \<le> 32. s = show_nat n"
  then obtain n where n: "n \<le> 32" "s = show_nat n" by blast
  show "s \<in> rlang prefix4"
  proof (cases "n < 10")
    case True
    with n show ?thesis unfolding prefix4_cases by (metis show_nat_1)
  next
    case False
    let ?a = "n div 10" and ?b = "n mod 10"
    have s: "s = [digit_chr ?a, digit_chr ?b]"
      using show_nat_2 [of ?a ?b] n False by simp
    have "n = 10 * ?a + ?b" "?b < 10" by simp_all
    then have "1 \<le> ?a" "?a < 3 \<or> ?a = 3 \<and> ?b < 3" using n(1) False by linarith+
    with s \<open>?b < 10\<close> show ?thesis unfolding prefix4_cases by metis
  qed
qed

lemma in_IPv4CIDR: "s \<in> rlang IPv4CIDR \<longleftrightarrow> (\<exists>q n. n \<le> 32 \<and> dotted_quad q \<and> s = q @ ''/'' @ show_nat n)"
  using in_IPv4_cat [of s "cat (rlang (RChr CHR ''/'')) (rlang prefix4)"]
  by (auto simp: IPv4CIDR_def in_chr_cat in_prefix4)

section \<open>IPv6 addresses and subnets\<close>

text \<open>
  The text forms of RFC 4291: eight groups of one to four hexadecimal digits, or six groups
  and a dotted quad, or either with one \<open>::\<close> in place of at least one group.
\<close>

definition hex_group :: "string \<Rightarrow> bool" where
  "hex_group h \<longleftrightarrow> 1 \<le> length h \<and> length h \<le> 4 \<and> list_all is_hex h"

definition ipv6_text :: "string \<Rightarrow> bool" where
  "ipv6_text s \<longleftrightarrow>
     (\<exists>gs. length gs = 8 \<and> list_all hex_group gs \<and> s = join_with '':'' gs) \<or>
     (\<exists>gs q. length gs = 6 \<and> list_all hex_group gs \<and> dotted_quad q \<and> s = join_with '':'' (gs @ [q])) \<or>
     (\<exists>ls rs. length ls + length rs \<le> 7 \<and> list_all hex_group (ls @ rs) \<and>
        s = join_with '':'' ls @ ''::'' @ join_with '':'' rs) \<or>
     (\<exists>ls rs q. length ls + length rs \<le> 5 \<and> list_all hex_group (ls @ rs) \<and> dotted_quad q \<and>
        s = join_with '':'' ls @ ''::'' @ join_with '':'' (rs @ [q]))"

lemma join_with_snoc: "xs \<noteq> [] \<Longrightarrow> join_with sep (xs @ [y]) = join_with sep xs @ sep @ y"
  by (induction sep xs rule: join_with.induct) auto

lemma concat_pre: "concat (map (\<lambda>h. h @ [c]) ls) = (if ls = [] then [] else join_with [c] ls @ [c])"
  by (induction ls) (auto simp: neq_Nil_conv)

lemma concat_post: "concat (map (\<lambda>h. c # h) rs) = (if rs = [] then [] else c # join_with [c] rs)"
  by (induction rs) (auto simp: neq_Nil_conv)

lemma subset_image_map: "set xs \<subseteq> f ` A \<longleftrightarrow> (\<exists>ys. xs = map f ys \<and> set ys \<subseteq> A)"
proof (induction xs)
  case (Cons x xs)
  show ?case
  proof
    assume "set (x # xs) \<subseteq> f ` A"
    with Cons obtain ys y where "xs = map f ys" "set ys \<subseteq> A" "x = f y" "y \<in> A" by auto
    then show "\<exists>ys. x # xs = map f ys \<and> set ys \<subseteq> A" by (intro exI [of _ "y # ys"]) simp
  next
    assume "\<exists>ys. x # xs = map f ys \<and> set ys \<subseteq> A"
    then obtain ys where "x # xs = map f ys" "set ys \<subseteq> A" by (elim exE conjE)
    then show "set (x # xs) \<subseteq> f ` A" by (metis image_mono list.set_map)
  qed
qed simp

lemma compr_cong: "(\<And>x. P x \<Longrightarrow> f x = g x) \<Longrightarrow> (\<And>x. P x = Q x) \<Longrightarrow> {f x | x. P x} = {g x | x. Q x}"
  by (rule Collect_cong) metis

lemma concat_images:
  "{concat xs | xs. Q (length xs) \<and> set xs \<subseteq> f ` A} = {concat (map f ys) | ys. Q (length ys) \<and> set ys \<subseteq> A}"
  unfolding subset_image_map by (rule Collect_cong) (metis length_map)

lemma rlang_hgroup: "rlang hgroup = {h. hex_group h}"
proof -
  have hexd: "rlang hexd = (\<lambda>c. [c]) ` {c. is_hex c}"
    unfolding hexd_def is_hex_def rlang.simps(3) by blast
  have "rlang hgroup = {concat xs | xs. (1 \<le> length xs \<and> length xs \<le> 4) \<and> set xs \<subseteq> (\<lambda>c. [c]) ` {c. is_hex c}}"
    by (simp add: hgroup_def rlang_RRange hexd)
  also have "\<dots> = {concat (map (\<lambda>c. [c]) h) | h. (1 \<le> length h \<and> length h \<le> 4) \<and> set h \<subseteq> {c. is_hex c}}"
    by (rule concat_images)
  also have "\<dots> = {h. hex_group h}"
    by (auto simp: hex_group_def list_all_iff)
  finally show ?thesis .
qed

lemma rlang_hcolon: "rlang hcolon = (\<lambda>h. h @ '':'') ` {h. hex_group h}"
  by (auto simp: hcolon_def rlang_hgroup rlang_RChr cat_def)

lemma rlang_colonh: "rlang colonh = (\<lambda>h. CHR '':'' # h) ` {h. hex_group h}"
  by (auto simp: colonh_def rlang_hgroup rlang_RChr cat_def)

lemma rlang_quad6: "rlang quad6 = {q. dotted_quad q}"
proof -
  have o: "rlang octet6 = rlang octet" by (simp only: rlang_octet rlang_octet6)
  have "rlang quad6 = rlang IPv4"
    unfolding quad6_def IPv4_def numeral_3_eq_3 RPow.simps rlang.simps o cat_assoc cat_eps ..
  then show ?thesis using in_IPv4 by (simp only: set_eq_iff mem_Collect_eq) simp
qed

text \<open>What stands before and after the second colon of \<open>::\<close>.\<close>

definition pre6 :: "nat \<Rightarrow> string set" where
  "pre6 k = {join_with '':'' ls @ '':'' | ls. length ls = k \<and> list_all hex_group ls}"

definition suf6 :: "nat \<Rightarrow> nat \<Rightarrow> string set" where
  "suf6 m n = {'':'' @ join_with '':'' rs | rs. (m \<le> length rs \<and> length rs \<le> n) \<and> list_all hex_group rs}"

definition suf6q :: "nat \<Rightarrow> string set" where
  "suf6q n = {'':'' @ join_with '':'' (rs @ [q]) | rs q. length rs \<le> n \<and> list_all hex_group rs \<and> dotted_quad q}"

lemma rlang_pre6: "k \<noteq> 0 \<Longrightarrow> rlang (RPow k hcolon) = pre6 k"
proof -
  assume k: "k \<noteq> 0"
  have "rlang (RPow k hcolon) =
      {concat (map (\<lambda>h. h @ '':'') ls) | ls. length ls = k \<and> set ls \<subseteq> {h. hex_group h}}"
    unfolding rlang_RPow rlang_hcolon by (rule concat_images)
  also have "\<dots> = pre6 k"
    unfolding pre6_def using k by (intro compr_cong) (auto simp: concat_pre list_all_iff)
  finally show ?thesis .
qed

lemma rlang_suf6: "1 \<le> m \<Longrightarrow> m \<le> n \<Longrightarrow> rlang (RRange m n colonh) = suf6 m n"
proof -
  assume mn: "1 \<le> m" "m \<le> n"
  have "rlang (RRange m n colonh) =
      {concat xs | xs. (m \<le> length xs \<and> length xs \<le> n) \<and> set xs \<subseteq> (\<lambda>h. CHR '':'' # h) ` {h. hex_group h}}"
    using mn by (simp add: rlang_RRange rlang_colonh)
  also have "\<dots> = {concat (map (\<lambda>h. CHR '':'' # h) rs) | rs. (m \<le> length rs \<and> length rs \<le> n) \<and> set rs \<subseteq> {h. hex_group h}}"
    by (rule concat_images)
  also have "\<dots> = suf6 m n"
    unfolding suf6_def using mn by (intro compr_cong) (auto simp: concat_post list_all_iff)
  finally show ?thesis .
qed

lemma rlang_suf6q: "rlang (RSeq (RRange 0 n colonh) (RSeq colon quad6)) = suf6q n"
proof -
  have "rlang (RRange 0 n colonh) =
      {concat xs | xs. length xs \<le> n \<and> set xs \<subseteq> (\<lambda>h. CHR '':'' # h) ` {h. hex_group h}}"
    by (simp add: rlang_RRange rlang_colonh)
  also have "\<dots> = {concat (map (\<lambda>h. CHR '':'' # h) rs) | rs. length rs \<le> n \<and> set rs \<subseteq> {h. hex_group h}}"
    by (rule concat_images)
  finally have r: "rlang (RRange 0 n colonh) =
      {concat (map (\<lambda>h. CHR '':'' # h) rs) | rs. length rs \<le> n \<and> list_all hex_group rs}"
    by (simp add: list_all_iff subset_eq)
  have c: "concat (map (\<lambda>h. CHR '':'' # h) rs) @ '':'' @ q = '':'' @ join_with '':'' (rs @ [q])" for rs q
    by (cases "rs = []") (simp_all add: concat_post join_with_snoc)
  have "rlang (RSeq (RRange 0 n colonh) (RSeq colon quad6)) =
      {concat (map (\<lambda>h. CHR '':'' # h) rs) @ '':'' @ q | rs q.
        length rs \<le> n \<and> list_all hex_group rs \<and> dotted_quad q}"
    unfolding rlang.simps r by (auto simp: cat_def colon_def rlang_RChr rlang_quad6)
  then show ?thesis by (simp only: c suf6q_def)
qed

definition comp6 :: "nat \<Rightarrow> nat \<Rightarrow> string \<Rightarrow> bool" where
  "comp6 k n s \<longleftrightarrow> (\<exists>ls rs. length ls = k \<and> length rs \<le> n \<and> list_all hex_group (ls @ rs) \<and>
     s = join_with '':'' ls @ ''::'' @ join_with '':'' rs)"

definition comp6q :: "nat \<Rightarrow> nat \<Rightarrow> string \<Rightarrow> bool" where
  "comp6q k n s \<longleftrightarrow> (\<exists>ls rs q. length ls = k \<and> length rs \<le> n \<and> list_all hex_group (ls @ rs) \<and>
     dotted_quad q \<and> s = join_with '':'' ls @ ''::'' @ join_with '':'' (rs @ [q]))"

lemma rlang_colon: "rlang colon = pre6 0" "rlang colon = suf6 0 0"
  by (auto simp: colon_def rlang_RChr pre6_def suf6_def)

lemma suf6_Un: "suf6 1 n \<union> suf6 0 0 = suf6 0 n"
proof (intro set_eqI iffI)
  fix s
  assume "s \<in> suf6 1 n \<union> suf6 0 0"
  then obtain rs where "s = '':'' @ join_with '':'' rs" "length rs \<le> n" "list_all hex_group rs"
    unfolding suf6_def by (auto intro: that [of "[]"])
  then show "s \<in> suf6 0 n" unfolding suf6_def by blast
next
  fix s
  assume "s \<in> suf6 0 n"
  then obtain rs where "s = '':'' @ join_with '':'' rs" "length rs \<le> n" "list_all hex_group rs"
    by (auto simp: suf6_def)
  then show "s \<in> suf6 1 n \<union> suf6 0 0" by (cases rs) (auto simp: suf6_def)
qed

lemma cat_pre6: "s \<in> cat (pre6 k) B \<longleftrightarrow>
    (\<exists>ls v. s = (join_with '':'' ls @ '':'') @ v \<and> length ls = k \<and> list_all hex_group ls \<and> v \<in> B)"
  unfolding cat_def mem_Collect_eq pre6_def by blast

lemma cat_pre6_suf6: "s \<in> cat (pre6 k) (suf6 0 n) \<longleftrightarrow> comp6 k n s"
proof -
  have "s \<in> cat (pre6 k) (suf6 0 n) \<longleftrightarrow> (\<exists>ls rs. s = (join_with '':'' ls @ '':'') @ '':'' @ join_with '':'' rs
      \<and> length ls = k \<and> length rs \<le> n \<and> list_all hex_group ls \<and> list_all hex_group rs)"
    unfolding cat_pre6 suf6_def mem_Collect_eq by blast
  then show ?thesis unfolding comp6_def by simp metis
qed

lemma cat_pre6_suf6q: "s \<in> cat (pre6 k) (suf6q n) \<longleftrightarrow> comp6q k n s"
proof -
  have "s \<in> cat (pre6 k) (suf6q n) \<longleftrightarrow> (\<exists>ls rs q. s = (join_with '':'' ls @ '':'') @ '':'' @ join_with '':'' (rs @ [q])
      \<and> length ls = k \<and> length rs \<le> n \<and> list_all hex_group ls \<and> list_all hex_group rs \<and> dotted_quad q)"
    unfolding cat_pre6 suf6q_def mem_Collect_eq by blast
  then show ?thesis unfolding comp6q_def by simp metis
qed

lemma ip6_branch:
  assumes "rlang r = pre6 k" "1 \<le> n"
  shows "s \<in> rlang (RSeq r (RAlts [RRange 1 n colonh, RSeq (RRange 0 m colonh) (RSeq colon quad6), colon]))
    \<longleftrightarrow> comp6 k n s \<or> comp6q k m s"
proof -
  have "rlang (RAlts [RRange 1 n colonh, RSeq (RRange 0 m colonh) (RSeq colon quad6), colon])
      = suf6 1 n \<union> suf6 0 0 \<union> suf6q m"
    unfolding rlang_RAlts list.set UN_insert UN_empty rlang_suf6q rlang_colon(2) using assms(2)
    by (auto simp: rlang_suf6)
  then show ?thesis
    by (simp only: rlang.simps assms(1) suf6_Un cat_Un Un_iff cat_pre6_suf6 cat_pre6_suf6q)
qed

lemma ip6_branches:
  "s \<in> rlang (RSeq (RPow 7 hcolon) (RAlt hgroup colon)) \<longleftrightarrow>
     (\<exists>gs. length gs = 8 \<and> list_all hex_group gs \<and> s = join_with '':'' gs) \<or> comp6 7 0 s"
  "s \<in> rlang (RSeq (RPow 6 hcolon) (RAlts [colonh, quad6, colon])) \<longleftrightarrow>
     (\<exists>gs q. length gs = 6 \<and> list_all hex_group gs \<and> dotted_quad q \<and> s = join_with '':'' (gs @ [q])) \<or>
     comp6 6 1 s"
  "s \<in> rlang (RSeq (RPow 5 hcolon) (RAlts [RRange 1 2 colonh, RSeq colon quad6, colon])) \<longleftrightarrow>
     comp6 5 2 s \<or> comp6q 5 0 s"
  "s \<in> rlang (RSeq (RPow 4 hcolon)
      (RAlts [RRange 1 3 colonh, RSeq (ROpt colonh) (RSeq colon quad6), colon])) \<longleftrightarrow>
     comp6 4 3 s \<or> comp6q 4 1 s"
proof -
  have s7: "(7::nat) \<noteq> 0" and s6: "(6::nat) \<noteq> 0" by simp_all
  have snoc: "(\<exists>ls h. s = (join_with '':'' ls @ '':'') @ h \<and> length ls = k \<and> list_all hex_group ls \<and> Q h)
      \<longleftrightarrow> (\<exists>gs h. length gs = k \<and> list_all hex_group gs \<and> Q h \<and> s = join_with '':'' (gs @ [h]))"
    if "k \<noteq> 0" for k Q
  proof -
    have "join_with '':'' (ls @ [h]) = (join_with '':'' ls @ '':'') @ h" if "length ls = k" for ls and h :: string
      using that \<open>k \<noteq> 0\<close> by (subst join_with_snoc) auto
    then show ?thesis by metis
  qed
  have full: "(\<exists>gs h. length gs = 7 \<and> list_all hex_group gs \<and> hex_group h \<and> s = join_with '':'' (gs @ [h]))
      \<longleftrightarrow> (\<exists>gs. length gs = 8 \<and> list_all hex_group gs \<and> s = join_with '':'' gs)" (is "?L \<longleftrightarrow> ?R")
  proof
    assume ?L
    then obtain gs h where "length gs = 7" "list_all hex_group gs" "hex_group h" "s = join_with '':'' (gs @ [h])"
      by blast
    then show ?R by (intro exI [of _ "gs @ [h]"]) simp
  next
    assume ?R
    then obtain gs where "length gs = 8" "list_all hex_group gs" "s = join_with '':'' gs" by blast
    then show ?L
      by (intro exI [of _ "butlast gs"] exI [of _ "last gs"])
        (cases gs rule: rev_cases; simp)
  qed
  show "s \<in> rlang (RSeq (RPow 7 hcolon) (RAlt hgroup colon)) \<longleftrightarrow>
     (\<exists>gs. length gs = 8 \<and> list_all hex_group gs \<and> s = join_with '':'' gs) \<or> comp6 7 0 s"
    unfolding rlang.simps rlang_colon(2) cat_Un Un_iff full [symmetric] rlang_hgroup
      rlang_pre6 [OF s7] cat_pre6_suf6 cat_pre6 [of s 7 "{h. hex_group h}"] mem_Collect_eq
      snoc [OF s7] ..
  have one: "rlang colonh = rlang (RRange 1 1 colonh)"
    by (simp add: RRange_def)
  show "s \<in> rlang (RSeq (RPow 6 hcolon) (RAlts [colonh, quad6, colon])) \<longleftrightarrow>
     (\<exists>gs q. length gs = 6 \<and> list_all hex_group gs \<and> dotted_quad q \<and> s = join_with '':'' (gs @ [q])) \<or>
     comp6 6 1 s"
  proof -
    have "rlang (RAlts [colonh, quad6, colon]) = suf6 0 1 \<union> {q. dotted_quad q}"
      unfolding rlang_RAlts list.set UN_insert UN_empty rlang_colon(2) rlang_quad6 one
      using suf6_Un [of 1] by (auto simp: rlang_suf6)
    then show ?thesis
      unfolding rlang.simps rlang_pre6 [OF s6]
      by (simp only: cat_Un Un_iff cat_pre6_suf6 cat_pre6 [of s 6 "{h. dotted_quad h}"] mem_Collect_eq
          snoc [OF s6] disj_commute)
  qed
  have opt: "rlang (RSeq (RRange 0 0 colonh) (RSeq colon quad6)) = rlang (RSeq colon quad6)"
    "rlang (RSeq (RRange 0 1 colonh) (RSeq colon quad6)) = rlang (RSeq (ROpt colonh) (RSeq colon quad6))"
    by (simp_all add: RRange_def)
  show "s \<in> rlang (RSeq (RPow 5 hcolon) (RAlts [RRange 1 2 colonh, RSeq colon quad6, colon])) \<longleftrightarrow>
     comp6 5 2 s \<or> comp6q 5 0 s"
    using ip6_branch [of "RPow 5 hcolon" 5 2 s 0] opt(1)
    by (simp only: rlang_RAlts list.set UN_insert UN_empty rlang.simps rlang_pre6; simp?)
  show "s \<in> rlang (RSeq (RPow 4 hcolon)
      (RAlts [RRange 1 3 colonh, RSeq (ROpt colonh) (RSeq colon quad6), colon])) \<longleftrightarrow>
     comp6 4 3 s \<or> comp6q 4 1 s"
    using ip6_branch [of "RPow 4 hcolon" 4 3 s 1] opt(2)
    by (simp only: rlang_RAlts list.set UN_insert UN_empty rlang.simps rlang_pre6; simp?)
qed

text \<open>A sum bounded by a constant, split by its first summand.\<close>

lemma sum_split:
  "(\<exists>xs ys. f xs + g ys \<le> (n::nat) \<and> P xs ys) \<longleftrightarrow> (\<exists>k \<le> n. \<exists>xs ys. f xs = k \<and> g ys \<le> n - k \<and> P xs ys)"
proof -
  have "f xs + g ys \<le> n \<longleftrightarrow> f xs \<le> n \<and> g ys \<le> n - f xs" for xs ys by auto
  then show ?thesis by blast
qed

lemma comp6_all: "(\<exists>ls rs. length ls + length rs \<le> 7 \<and> list_all hex_group (ls @ rs) \<and>
     s = join_with '':'' ls @ ''::'' @ join_with '':'' rs) \<longleftrightarrow> (\<exists>k \<le> 7. comp6 k (7 - k) s)"
  unfolding comp6_def by (rule sum_split)

lemma comp6q_all: "(\<exists>ls rs q. length ls + length rs \<le> 5 \<and> list_all hex_group (ls @ rs) \<and> dotted_quad q \<and>
     s = join_with '':'' ls @ ''::'' @ join_with '':'' (rs @ [q])) \<longleftrightarrow> (\<exists>k \<le> 5. comp6q k (5 - k) s)"
proof -
  have "length ls + length rs \<le> 5 \<longleftrightarrow> length ls \<le> 5 \<and> length rs \<le> 5 - length ls"
    for ls rs :: "string list" by auto
  then show ?thesis unfolding comp6q_def by blast
qed

lemma ex_le_Suc: "(\<exists>k \<le> Suc n. P k) \<longleftrightarrow> P (Suc n) \<or> (\<exists>k \<le> n. P k)"
  by (auto simp: le_Suc_eq)

lemma upto_7: "(\<exists>k \<le> 7. P k) \<longleftrightarrow> P 7 \<or> P 6 \<or> P 5 \<or> P 4 \<or> P 3 \<or> P 2 \<or> P 1 \<or> P (0::nat)"
  by (simp add: ex_le_Suc numeral_eq_Suc)

lemma upto_5: "(\<exists>k \<le> 5. P k) \<longleftrightarrow> P 5 \<or> P 4 \<or> P 3 \<or> P 2 \<or> P 1 \<or> P (0::nat)"
  by (simp add: ex_le_Suc numeral_eq_Suc)

lemma in_ip6_core: "s \<in> rlang ip6_core \<longleftrightarrow> ipv6_text s"
proof -
  have b: "s \<in> rlang (RSeq (RPow 3 hcolon)
      (RAlts [RRange 1 4 colonh, RSeq (RRange 0 2 colonh) (RSeq colon quad6), colon])) \<longleftrightarrow> comp6 3 4 s \<or> comp6q 3 2 s"
    "s \<in> rlang (RSeq (RPow 2 hcolon)
      (RAlts [RRange 1 5 colonh, RSeq (RRange 0 3 colonh) (RSeq colon quad6), colon])) \<longleftrightarrow> comp6 2 5 s \<or> comp6q 2 3 s"
    "s \<in> rlang (RSeq (RPow 1 hcolon)
      (RAlts [RRange 1 6 colonh, RSeq (RRange 0 4 colonh) (RSeq colon quad6), colon])) \<longleftrightarrow> comp6 1 6 s \<or> comp6q 1 4 s"
    "s \<in> rlang (RSeq colon
      (RAlts [RRange 1 7 colonh, RSeq (RRange 0 5 colonh) (RSeq colon quad6), colon])) \<longleftrightarrow> comp6 0 7 s \<or> comp6q 0 5 s"
    by (rule ip6_branch; (rule rlang_pre6 rlang_colon(1))?; simp)+
  show ?thesis
    unfolding ip6_core_def rlang_RAlts list.set UN_insert UN_empty Un_iff ip6_branches b
      ipv6_text_def comp6_all comp6q_all upto_7 upto_5 by auto
qed

definition zone_text :: "string \<Rightarrow> bool" where
  "zone_text z \<longleftrightarrow> z = [] \<or> (\<exists>c cs. z = CHR ''%'' # c # cs \<and> list_all (\<lambda>x. x \<notin> set newline_chars) (c # cs))"

lemma star_RDot: "s \<in> star_lang (rlang RDot) \<longleftrightarrow> list_all (\<lambda>x. x \<notin> set newline_chars) s"
proof (induction s)
  case Nil
  show ?case by (simp add: star_lang.star_nil)
next
  case (Cons c s)
  then show ?case by (auto simp: Cons_in_star)
qed

lemma in_RDot: "s \<in> rlang RDot \<longleftrightarrow> (\<exists>c. s = [c] \<and> c \<notin> set newline_chars)"
  unfolding rlang.simps by blast

lemma in_RDot_cat: "s \<in> cat (rlang RDot) B \<longleftrightarrow> (\<exists>c v. s = c # v \<and> c \<notin> set newline_chars \<and> v \<in> B)"
proof
  assume "s \<in> cat (rlang RDot) B"
  then obtain u v where uv: "s = u @ v" "u \<in> rlang RDot" "v \<in> B" unfolding cat_def by blast
  then obtain c where "u = [c]" "c \<notin> set newline_chars" unfolding in_RDot by blast
  with uv show "\<exists>c v. s = c # v \<and> c \<notin> set newline_chars \<and> v \<in> B" by simp
next
  assume "\<exists>c v. s = c # v \<and> c \<notin> set newline_chars \<and> v \<in> B"
  then obtain c v where cv: "s = c # v" "c \<notin> set newline_chars" "v \<in> B" by blast
  then have "s = [c] @ v" "[c] \<in> rlang RDot" unfolding in_RDot by simp_all
  with cv show "s \<in> cat (rlang RDot) B" unfolding cat_def by blast
qed

lemma in_zone_opt: "s \<in> rlang zone_opt \<longleftrightarrow> zone_text s"
  unfolding zone_opt_def rlang_ROpt insert_iff rlang.simps(5,7) in_chr_cat zone_text_def in_RDot_cat star_RDot
    list.pred_inject
  by blast

text \<open>A prefix length: 0 to 128, a single digit possibly with one leading zero.\<close>

definition prefix6_text :: "string \<Rightarrow> bool" where
  "prefix6_text p \<longleftrightarrow> (\<exists>n \<le> 128. p = show_nat n) \<or> (\<exists>n < 10. p = ''0'' @ show_nat n)"

lemma prefix6_parts:
  "s \<in> rlang (RSeq d09 d09) \<longleftrightarrow> (\<exists>a b. s = [digit_chr a, digit_chr b] \<and> a < 10 \<and> b < 10)"
  "s \<in> rlang (RSeqs [RChr CHR ''1'', RCls ''01'', d09]) \<longleftrightarrow>
     (\<exists>b c. s = [digit_chr 1, digit_chr b, digit_chr c] \<and> b < 2 \<and> c < 10)"
  "s \<in> rlang (RSeqs [RChr CHR ''1'', RChr CHR ''2'', RCls ''012345678'']) \<longleftrightarrow>
     (\<exists>c. s = [digit_chr 1, digit_chr 2, digit_chr c] \<and> c < 9)"
  by (simp add: digit_rules; blast)+

lemma prefix6_cases:
  "s \<in> rlang prefix6 \<longleftrightarrow> (\<exists>d. s = [digit_chr d] \<and> d < 10) \<or>
     (\<exists>a b. s = [digit_chr a, digit_chr b] \<and> a < 10 \<and> b < 10) \<or>
     (\<exists>b c. s = [digit_chr 1, digit_chr b, digit_chr c] \<and> b < 2 \<and> c < 10) \<or>
     (\<exists>c. s = [digit_chr 1, digit_chr 2, digit_chr c] \<and> c < 9)"
  unfolding prefix6_def rlang_RAlts list.set UN_insert UN_empty Un_iff in_d09 prefix6_parts by simp

lemma zero_digit: "''0'' = [digit_chr 0]"
  by (simp add: digit_chr_def)

lemma in_prefix6: "s \<in> rlang prefix6 \<longleftrightarrow> prefix6_text s"
proof
  assume "s \<in> rlang prefix6"
  then consider d where "s = [digit_chr d]" "d < 10"
    | a b where "s = [digit_chr a, digit_chr b]" "a < 10" "b < 10"
    | b c where "s = [digit_chr 1, digit_chr b, digit_chr c]" "b < 2" "c < 10"
    | c where "s = [digit_chr 1, digit_chr 2, digit_chr c]" "c < 9"
    unfolding prefix6_cases by metis
  then show "prefix6_text s"
  proof cases
    case 1
    then show ?thesis unfolding prefix6_text_def by (intro disjI1 exI [of _ d]) (simp add: show_nat_1)
  next
    case 2
    show ?thesis
    proof (cases "a = 0")
      case True
      with 2 show ?thesis unfolding prefix6_text_def zero_digit
        by (intro disjI2 exI [of _ b]) (simp add: show_nat_1)
    next
      case False
      with 2 show ?thesis unfolding prefix6_text_def
        by (intro disjI1 exI [of _ "10 * a + b"]) (simp add: show_nat_2)
    qed
  next
    case 3
    then show ?thesis using show_nat_3 [of 1 b c] unfolding prefix6_text_def
      by (intro disjI1 exI [of _ "100 + 10 * b + c"]) simp
  next
    case 4
    then show ?thesis using show_nat_3 [of 1 2 c] unfolding prefix6_text_def
      by (intro disjI1 exI [of _ "120 + c"]) simp
  qed
next
  assume "prefix6_text s"
  then consider n where "n < 10" "s = show_nat n" | n where "10 \<le> n" "n < 100" "s = show_nat n"
    | n where "100 \<le> n" "n \<le> 128" "s = show_nat n" | n where "n < 10" "s = ''0'' @ show_nat n"
    unfolding prefix6_text_def by (metis not_le)
  then show "s \<in> rlang prefix6"
  proof cases
    case 1
    then show ?thesis unfolding prefix6_cases by (metis show_nat_1)
  next
    case 2
    then have "s = [digit_chr (n div 10), digit_chr (n mod 10)]" "n div 10 < 10" "n mod 10 < 10"
      using show_nat_2 [of "n div 10" "n mod 10"] by auto
    then show ?thesis unfolding prefix6_cases by blast
  next
    case 3
    let ?b = "n div 10 mod 10" and ?c = "n mod 10"
    have "n div 100 = 1" using 3 by auto
    then have n: "n = 100 + 10 * ?b + ?c" using three_digits [of n] by linarith
    have c: "?c < 10" "?b < 10" by simp_all
    have s: "s = [digit_chr 1, digit_chr ?b, digit_chr ?c]"
      using show_nat_3 [of 1 ?b ?c] c n 3 by simp
    have "?b < 2 \<or> ?b = 2 \<and> ?c < 9" using n 3 c by linarith
    with s c show ?thesis unfolding prefix6_cases by metis
  next
    case 4
    then have "s = [digit_chr 0, digit_chr n]" by (simp add: show_nat_1 digit_chr_def)
    with 4 show ?thesis unfolding prefix6_cases by (metis zero_less_numeral)
  qed
qed

text \<open>The full IPv6 patterns: an address with an optional zone, and a subnet.\<close>

definition ipv6_zoned :: "string \<Rightarrow> bool" where
  "ipv6_zoned s \<longleftrightarrow> (\<exists>a z. ipv6_text a \<and> zone_text z \<and> s = a @ z)"

lemma in_IPv6: "s \<in> rlang IPv6 \<longleftrightarrow> ipv6_zoned s"
  unfolding IPv6_def rlang.simps(5) cat_def ipv6_zoned_def in_ip6_core [symmetric] in_zone_opt [symmetric] by blast

lemma rlang_IPv6CIDR: "rlang IPv6CIDR = cat (rlang IPv6) (cat (rlang (RChr CHR ''/'')) (rlang prefix6))"
  unfolding IPv6CIDR_def IPv6_def rlang.simps(5) cat_assoc ..

lemma in_IPv6CIDR:
  "s \<in> rlang IPv6CIDR \<longleftrightarrow> (\<exists>a p. ipv6_zoned a \<and> prefix6_text p \<and> s = a @ ''/'' @ p)"
proof
  assume "s \<in> rlang IPv6CIDR"
  then obtain u v where u: "u \<in> rlang IPv6" and v: "v \<in> cat (rlang (RChr CHR ''/'')) (rlang prefix6)" and s: "s = u @ v"
    unfolding rlang_IPv6CIDR cat_def by blast
  then obtain p where "v = CHR ''/'' # p" "p \<in> rlang prefix6" unfolding in_chr_cat by blast
  with u s show "\<exists>a p. ipv6_zoned a \<and> prefix6_text p \<and> s = a @ ''/'' @ p"
    unfolding in_IPv6 in_prefix6 by (intro exI [of _ u] exI [of _ p]) simp
next
  assume "\<exists>a p. ipv6_zoned a \<and> prefix6_text p \<and> s = a @ ''/'' @ p"
  then obtain a p where a: "a \<in> rlang IPv6" and p: "p \<in> rlang prefix6" and s: "s = a @ (CHR ''/'' # p)"
    unfolding in_IPv6 in_prefix6 by auto
  have "CHR ''/'' # p \<in> cat (rlang (RChr CHR ''/'')) (rlang prefix6)" using p unfolding in_chr_cat by blast
  then show "s \<in> rlang IPv6CIDR"
    using a s unfolding rlang_IPv6CIDR cat_def [of "rlang IPv6"] by blast
qed

end
