(* ===== verification/Dom.thy ===== *)
theory Dom
  imports Regex
begin

text \<open>
  The form controls the pages of \<^verbatim>\<open>frontend/www\<close> read and write: text and number inputs with their
  constraint validation, check boxes as booleans, and select boxes with an index into their
  options.  This is the part of the HTML standard the sources rely on (the attributes
  \<^verbatim>\<open>required\<close>, \<^verbatim>\<open>disabled\<close>, \<^verbatim>\<open>pattern\<close>, \<^verbatim>\<open>min\<close>, \<^verbatim>\<open>max\<close>, the method \<^verbatim>\<open>setCustomValidity\<close> and the
  flags of \<^verbatim>\<open>validity\<close>).  Number inputs hold decimal integers; a number input without a
  \<^verbatim>\<open>step\<close> attribute rejects fractions.
\<close>

section \<open>Inputs\<close>

record input_el =
  el_type :: string
  el_pattern :: "rx option"
  el_min :: "int option"
  el_max :: "int option"
  el_required :: bool
  el_disabled :: bool
  el_placeholder :: string
  el_value :: string
  el_custom :: string
  el_listeners :: "string list"

text \<open>
  The field \<open>el_listeners\<close> holds the \<^verbatim>\<open>input\<close> listeners of the element in the order they were
  added.  All of them are instances of one closure, which differ in the message they set on
  a pattern mismatch only, so a listener is that message.
\<close>

definition value_missing :: "input_el \<Rightarrow> bool" where
  "value_missing el \<longleftrightarrow> el_required el \<and> \<not> el_disabled el \<and> el_value el = []"

definition pattern_mismatch :: "input_el \<Rightarrow> bool" where
  "pattern_mismatch el \<longleftrightarrow> el_type el \<noteq> ''number'' \<and> el_value el \<noteq> [] \<and>
     (case el_pattern el of None \<Rightarrow> False | Some r \<Rightarrow> \<not> rmatch r (el_value el))"

definition range_mismatch :: "input_el \<Rightarrow> bool" where
  "range_mismatch el \<longleftrightarrow> el_type el = ''number'' \<and> el_value el \<noteq> [] \<and>
     (case str_to_num (el_value el) of
        JNum n \<Rightarrow> (case el_min el of None \<Rightarrow> False | Some m \<Rightarrow> n < m) \<or> (case el_max el of None \<Rightarrow> False | Some m \<Rightarrow> m < n)
      | _ \<Rightarrow> True)"

definition el_valid :: "input_el \<Rightarrow> bool" where
  "el_valid el \<longleftrightarrow> \<not> value_missing el \<and> \<not> pattern_mismatch el \<and> \<not> range_mismatch el \<and> el_custom el = []"

definition set_custom_validity :: "string \<Rightarrow> input_el \<Rightarrow> input_el" where
  "set_custom_validity m el = el\<lparr>el_custom := m\<rparr>"

text \<open>A plain text input as the templates declare them.\<close>

definition text_input :: "bool \<Rightarrow> input_el" where
  "text_input req = \<lparr>el_type = ''text'', el_pattern = None, el_min = None, el_max = None, el_required = req,
     el_disabled = False, el_placeholder = [], el_value = [], el_custom = [], el_listeners = []\<rparr>"

definition number_input :: "int \<Rightarrow> int \<Rightarrow> input_el" where
  "number_input lo hi = (text_input True)\<lparr>el_type := ''number'', el_min := Some lo, el_max := Some hi\<rparr>"

section \<open>Select boxes\<close>

record option_el =
  opt_value :: string
  opt_text :: string
  opt_disabled :: bool

record select_el =
  sel_options :: "option_el list"
  sel_index :: int
  sel_disabled :: bool

text \<open>\<open>options[selectedIndex].value\<close> raises a TypeError when nothing is selected.\<close>

definition selected :: "select_el \<Rightarrow> option_el option" where
  "selected s = (if 0 \<le> sel_index s \<and> nat (sel_index s) < length (sel_options s)
     then Some (sel_options s ! nat (sel_index s)) else None)"

definition selected_value :: "select_el \<Rightarrow> string res" where
  "selected_value s = (case selected s of None \<Rightarrow> Inl TypeError | Some p \<Rightarrow> Inr (opt_value p))"

text \<open>\<open>select.value\<close> is the empty string then.\<close>

definition select_get_value :: "select_el \<Rightarrow> string" where
  "select_get_value s = (case selected s of None \<Rightarrow> [] | Some p \<Rightarrow> opt_value p)"

text \<open>Assigning \<open>select.value\<close> selects the first option with that value, or none.\<close>

fun first_index :: "('a \<Rightarrow> bool) \<Rightarrow> 'a list \<Rightarrow> nat option" where
  "first_index P [] = None"
| "first_index P (x # xs) = (if P x then Some 0 else map_option Suc (first_index P xs))"

definition select_set_value :: "string \<Rightarrow> select_el \<Rightarrow> select_el" where
  "select_set_value v s = s\<lparr>sel_index := (case first_index (\<lambda>p. opt_value p = v) (sel_options s) of
     None \<Rightarrow> - 1 | Some i \<Rightarrow> int i)\<rparr>"

lemma validity_custom [simp]:
  "value_missing (el\<lparr>el_custom := m\<rparr>) = value_missing el"
  "pattern_mismatch (el\<lparr>el_custom := m\<rparr>) = pattern_mismatch el"
  "range_mismatch (el\<lparr>el_custom := m\<rparr>) = range_mismatch el"
  by (simp_all add: value_missing_def pattern_mismatch_def range_mismatch_def cong: option.case_cong jsval.case_cong)

lemma first_index_Some:
  "first_index P xs = Some i \<Longrightarrow> i < length xs \<and> P (xs ! i) \<and> (\<forall>j < i. \<not> P (xs ! j))"
proof (induction xs arbitrary: i)
  case (Cons x xs)
  then show ?case by (auto split: if_splits simp: nth_Cons split: nat.split)
qed simp

lemma first_index_None: "first_index P xs = None \<longleftrightarrow> (\<forall>x \<in> set xs. \<not> P x)"
  by (induction xs) auto

lemma select_set_get:
  "select_get_value (select_set_value v s) = (if v \<in> opt_value ` set (sel_options s) then v else [])"
proof (cases "first_index (\<lambda>p. opt_value p = v) (sel_options s)")
  case None
  then have "v \<notin> opt_value ` set (sel_options s)" by (auto simp: first_index_None)
  with None show ?thesis by (simp add: select_get_value_def select_set_value_def selected_def)
next
  case (Some i)
  then show ?thesis using first_index_Some [OF Some]
    by (simp add: select_get_value_def select_set_value_def selected_def) (metis image_eqI nth_mem)
qed

end
