(* ===== verification/ValidateIP.thy ===== *)
theory ValidateIP
  imports IPPatterns Dom
begin

text \<open>
  \<^verbatim>\<open>js_templates/api/validateIP.js\<close>, functions: each attaches one of the patterns of \<open>IPPatterns\<close> to
  an input element, with a placeholder and a listener that keeps the custom error of the
  element in step with what the user types.  The contract the six functions share is the
  locale \<open>ip_validator\<close>, interpreted once per function.
\<close>

section \<open>The functions\<close>

text \<open>The listener: the body of the closure the functions pass to \<^verbatim>\<open>addEventListener\<close>.\<close>

definition input_listener :: "string \<Rightarrow> input_el \<Rightarrow> input_el" where
  "input_listener msg el =
     (if value_missing el then set_custom_validity ''Please fill out this field.'' el
      else if pattern_mismatch el then set_custom_validity msg el
      else set_custom_validity [] el)"

definition set_pattern :: "rx \<Rightarrow> string \<Rightarrow> string \<Rightarrow> input_el \<Rightarrow> input_el" where
  "set_pattern r ph msg el = el\<lparr>el_type := ''text'', el_pattern := Some r, el_placeholder := ph,
     el_listeners := el_listeners el @ [msg]\<rparr>"

definition asIPv4 :: "input_el \<Rightarrow> input_el" where
  "asIPv4 = set_pattern IPv4 IPv4Placeholder ''Please input a valid IPv4 address.''"

definition asIPv4CIDR :: "input_el \<Rightarrow> input_el" where
  "asIPv4CIDR = set_pattern IPv4CIDR IPv4CIDRPlaceholder ''Please input a valid IPv4 subnet in CIDR notation.''"

definition asIPv6 :: "input_el \<Rightarrow> input_el" where
  "asIPv6 = set_pattern IPv6 IPv6Placeholder ''Please input a valid IPv6 address.''"

definition asIPv6CIDR :: "input_el \<Rightarrow> input_el" where
  "asIPv6CIDR = set_pattern IPv6CIDR IPv6CIDRPlaceholder ''Please input a valid IPv6 subnet in CIDR notation.''"

definition asIPv4orIPv6 :: "input_el \<Rightarrow> input_el" where
  "asIPv4orIPv6 = set_pattern IPv4orIPv6 IPv4orIPv6Placeholder ''Please input a valid IPv4 or IPv6 address.''"

definition asIPv4CIDRorIPv6CIDR :: "input_el \<Rightarrow> input_el" where
  "asIPv4CIDRorIPv6CIDR = set_pattern IPv4CIDRorIPv6CIDR IPv4CIDRorIPv6CIDRPlaceholder
     ''Please input a valid IPv4 or IPv6 subnet in CIDR notation.''"

text \<open>The user typing \<open>v\<close>: the value changes and the listeners run in the order they were added.\<close>

definition user_input :: "string \<Rightarrow> input_el \<Rightarrow> input_el" where
  "user_input v el = fold input_listener (el_listeners el) (el\<lparr>el_value := v\<rparr>)"

section \<open>The contract of the functions\<close>

lemma input_listener_eq:
  "input_listener m el = el\<lparr>el_custom := (if value_missing el then ''Please fill out this field.''
     else if pattern_mismatch el then m else [])\<rparr>"
  by (simp add: input_listener_def set_custom_validity_def)

lemma fold_listeners_frame [simp]:
  "el_value (fold input_listener ms el) = el_value el"
  "el_pattern (fold input_listener ms el) = el_pattern el"
  "el_type (fold input_listener ms el) = el_type el"
  "el_required (fold input_listener ms el) = el_required el"
  "el_disabled (fold input_listener ms el) = el_disabled el"
  "value_missing (fold input_listener ms el) = value_missing el"
  "pattern_mismatch (fold input_listener ms el) = pattern_mismatch el"
  "range_mismatch (fold input_listener ms el) = range_mismatch el"
  by (induction ms arbitrary: el) (simp_all add: input_listener_eq)

lemma input_listener_custom:
  "el_custom (input_listener m el) = (if value_missing el then ''Please fill out this field.''
     else if pattern_mismatch el then m else [])"
  by (simp add: input_listener_eq)

locale ip_validator =
  fixes attach :: "input_el \<Rightarrow> input_el" and pat :: rx and msg :: string
  assumes attach_pattern: "el_pattern (attach el) = Some pat"
    and attach_type: "el_type (attach el) = ''text''"
    and attach_listeners: "el_listeners (attach el) = el_listeners el @ [msg]"
    and attach_required: "el_required (attach el) = el_required el"
    and attach_disabled: "el_disabled (attach el) = el_disabled el"
    and attach_custom: "el_custom (attach el) = el_custom el"
    and attach_value: "el_value (attach el) = el_value el"
    and msg_nonempty: "msg \<noteq> []"
begin

lemma mismatch_after_input:
  "pattern_mismatch (user_input v (attach el)) \<longleftrightarrow> v \<noteq> [] \<and> \<not> rmatch pat v"
  by (simp add: user_input_def pattern_mismatch_def attach_pattern attach_type)

lemma missing_after_input:
  "value_missing (user_input v (attach el)) \<longleftrightarrow> v = [] \<and> el_required el \<and> \<not> el_disabled el"
  by (auto simp: user_input_def value_missing_def attach_required attach_disabled)

lemma range_after_input: "\<not> range_mismatch (user_input v (attach el))"
  by (simp add: user_input_def range_mismatch_def attach_type)

lemma custom_after_input:
  "el_custom (user_input v (attach el)) =
     (if v = [] \<and> el_required el \<and> \<not> el_disabled el then ''Please fill out this field.''
      else if v \<noteq> [] \<and> \<not> rmatch pat v then msg else [])"
proof -
  have "value_missing (attach el\<lparr>el_value := v\<rparr>) \<longleftrightarrow> v = [] \<and> el_required el \<and> \<not> el_disabled el"
    by (auto simp: value_missing_def attach_required attach_disabled)
  moreover have "pattern_mismatch (attach el\<lparr>el_value := v\<rparr>) \<longleftrightarrow> v \<noteq> [] \<and> \<not> rmatch pat v"
    by (simp add: pattern_mismatch_def attach_pattern attach_type)
  ultimately show ?thesis unfolding user_input_def attach_listeners
    by (cases "v = []") (simp_all add: input_listener_custom)
qed

lemma valid_after_input:
  "el_valid (user_input v (attach el)) \<longleftrightarrow>
     (if v = [] then \<not> (el_required el \<and> \<not> el_disabled el) else rmatch pat v)"
  using msg_nonempty
  by (auto simp: el_valid_def missing_after_input mismatch_after_input range_after_input custom_after_input)

lemma valid_before_input:
  "el_valid (attach el) \<Longrightarrow> el_value el \<noteq> [] \<Longrightarrow> rmatch pat (el_value el) \<and> el_custom el = []"
  by (simp add: el_valid_def pattern_mismatch_def attach_pattern attach_type attach_value attach_custom)

end

lemmas attach_defs = asIPv4_def asIPv4CIDR_def asIPv6_def asIPv6CIDR_def asIPv4orIPv6_def
  asIPv4CIDRorIPv6CIDR_def set_pattern_def

interpretation v4: ip_validator asIPv4 IPv4 "''Please input a valid IPv4 address.''"
  by unfold_locales (simp_all add: attach_defs)

interpretation v4c: ip_validator asIPv4CIDR IPv4CIDR "''Please input a valid IPv4 subnet in CIDR notation.''"
  by unfold_locales (simp_all add: attach_defs)

interpretation v6: ip_validator asIPv6 IPv6 "''Please input a valid IPv6 address.''"
  by unfold_locales (simp_all add: attach_defs)

interpretation v6c: ip_validator asIPv6CIDR IPv6CIDR "''Please input a valid IPv6 subnet in CIDR notation.''"
  by unfold_locales (simp_all add: attach_defs)

interpretation v46: ip_validator asIPv4orIPv6 IPv4orIPv6 "''Please input a valid IPv4 or IPv6 address.''"
  by unfold_locales (simp_all add: attach_defs)

interpretation v46c: ip_validator asIPv4CIDRorIPv6CIDR IPv4CIDRorIPv6CIDR
    "''Please input a valid IPv4 or IPv6 subnet in CIDR notation.''"
  by unfold_locales (simp_all add: attach_defs)

section \<open>Properties\<close>

text \<open>
  An input made an IPv4 field is valid after the user types \<open>v\<close> exactly when \<open>v\<close> is four
  decimal numbers of at most 255 without leading zeros separated by dots, or \<open>v\<close> is empty
  and the field may be left empty; whatever listeners the element had before.
\<close>

theorem asIPv4_valid_iff:
  "el_valid (user_input v (asIPv4 el)) =
     (if v = [] then \<not> (el_required el \<and> \<not> el_disabled el) else dotted_quad v)"
  unfolding v4.valid_after_input rmatch_iff in_IPv4 ..

text \<open>
  (C40) An input made an IPv4-or-IPv6 subnet field is valid after the user types a non-empty
  \<open>v\<close> exactly when \<open>v\<close> is a dotted quad with a prefix length of at most 32, or one of the
  text forms of RFC 4291 for an IPv6 address (eight groups of one to four hexadecimal
  digits, a compressed run of groups, or a dotted quad for the last two groups), an
  optional zone, and a prefix length of at most 128.
\<close>

theorem asIPv4CIDRorIPv6CIDR_valid_iff:
  "el_valid (user_input v (asIPv4CIDRorIPv6CIDR el)) =
     (if v = [] then \<not> (el_required el \<and> \<not> el_disabled el)
      else (\<exists>q n. n \<le> 32 \<and> dotted_quad q \<and> v = q @ ''/'' @ show_nat n) \<or>
        (\<exists>a z p. ipv6_text a \<and> zone_text z \<and> prefix6_text p \<and> v = a @ z @ ''/'' @ p))"
proof -
  have "v \<in> rlang IPv4CIDRorIPv6CIDR \<longleftrightarrow> (\<exists>q n. n \<le> 32 \<and> dotted_quad q \<and> v = q @ ''/'' @ show_nat n) \<or>
      (\<exists>a p. (\<exists>b z. ipv6_text b \<and> zone_text z \<and> a = b @ z) \<and> prefix6_text p \<and> v = a @ ''/'' @ p)"
    unfolding IPv4CIDRorIPv6CIDR_def rlang.simps(6) Un_iff in_IPv4CIDR in_IPv6CIDR ipv6_zoned_def ..
  also have "(\<exists>a p. (\<exists>b z. ipv6_text b \<and> zone_text z \<and> a = b @ z) \<and> prefix6_text p \<and> v = a @ ''/'' @ p) \<longleftrightarrow>
      (\<exists>a z p. ipv6_text a \<and> zone_text z \<and> prefix6_text p \<and> v = a @ z @ ''/'' @ p)"
    by (metis append_assoc)
  finally show ?thesis unfolding v46c.valid_after_input rmatch_iff by argo
qed

text \<open>
  The message of an IPv6 field always tells why it is invalid: after any input the
  custom error is the fill-out message exactly for a missing value, the IPv6 message
  exactly for a non-empty text that is not an IPv6 address, and empty otherwise.
\<close>

theorem asIPv6_message:
  "el_custom (user_input v (asIPv6 el)) =
     (if v = [] then (if el_required el \<and> \<not> el_disabled el then ''Please fill out this field.'' else [])
      else if ipv6_zoned v then [] else ''Please input a valid IPv6 address.'')"
  unfolding v6.custom_after_input rmatch_iff in_IPv6 by simp

end
