(* ===== verification/JSJson.thy ===== *)
theory JSJson
  imports JSValue
begin

text \<open>
  \<^verbatim>\<open>JSON.stringify\<close> and \<^verbatim>\<open>JSON.parse\<close>, which the sources use to put endpoint objects into a form
  (\<^verbatim>\<open>api/circuit.js\<close>, \<^verbatim>\<open>api/vrf.js\<close>) and the session into the browser's storage (\<^verbatim>\<open>cookie.js\<close>).
  The reader is a recursive descent parser with fuel; the fuel \<open>2 * length s + 2\<close> is proved
  to be enough for every text the printer produces, so that reading back what was printed
  succeeds.  Numbers are integers, so a literal with a fraction or an exponent is rejected.
\<close>

section \<open>Printing\<close>

definition json_char :: "char \<Rightarrow> string" where
  "json_char c =
     (if c = CHR 0x22 then [CHR 0x5C, CHR 0x22]
      else if c = CHR 0x5C then [CHR 0x5C, CHR 0x5C]
      else if c = CHR 0x08 then [CHR 0x5C, CHR ''b'']
      else if c = CHR 0x0C then [CHR 0x5C, CHR ''f'']
      else if c = CHR 0x0A then [CHR 0x5C, CHR ''n'']
      else if c = CHR 0x0D then [CHR 0x5C, CHR ''r'']
      else if c = CHR 0x09 then [CHR 0x5C, CHR ''t'']
      else if (of_char c :: nat) < 32 then [CHR 0x5C, CHR ''u'', CHR ''0'', CHR ''0'', digit_chr (of_char c div 16), digit_chr (of_char c mod 16)]
      else [c])"

definition json_quote :: "string \<Rightarrow> string" where
  "json_quote s = CHR 0x22 # concat (map json_char s) @ [CHR 0x22]"

fun json_text :: "jsval \<Rightarrow> string" where
  "json_text JUndef = ''null''"
| "json_text JNull = ''null''"
| "json_text (JBool b) = (if b then ''true'' else ''false'')"
| "json_text (JNum i) = show_int i"
| "json_text JNaN = ''null''"
| "json_text (JStr s) = json_quote s"
| "json_text (JArr vs) = ''['' @ join_with '','' (map json_text vs) @ '']''"
| "json_text (JObj ps) = ''{'' @ join_with '',''
     (map (\<lambda>(k, v). json_quote k @ '':'' @ json_text v) (filter (\<lambda>(k, v). v \<noteq> JUndef) ps)) @ ''}''"

definition stringify :: "jsval \<Rightarrow> string option" where
  "stringify v = (if v = JUndef then None else Some (json_text v))"

section \<open>Reading\<close>

definition json_ws :: "char \<Rightarrow> bool" where
  "json_ws c \<longleftrightarrow> c = CHR '' '' \<or> c = CHR 0x09 \<or> c = CHR 0x0A \<or> c = CHR 0x0D"

definition skip_ws :: "string \<Rightarrow> string" where
  "skip_ws s = dropWhile json_ws s"

definition unescape :: "char \<Rightarrow> char option" where
  "unescape c =
     (if c = CHR 0x22 \<or> c = CHR 0x5C \<or> c = CHR ''/'' then Some c
      else if c = CHR ''b'' then Some (CHR 0x08)
      else if c = CHR ''f'' then Some (CHR 0x0C)
      else if c = CHR ''n'' then Some (CHR 0x0A)
      else if c = CHR ''r'' then Some (CHR 0x0D)
      else if c = CHR ''t'' then Some (CHR 0x09)
      else None)"

definition hex4 :: "string \<Rightarrow> nat option" where
  "hex4 s = (if length s = 4 \<and> list_all is_hex s then Some (read_digits 16 s) else None)"

text \<open>The rest of a string literal after its opening quote.\<close>

function read_str :: "string \<Rightarrow> (string \<times> string) option" where
  "read_str [] = None"
| "read_str (c # s) =
     (if c = CHR 0x22 then Some ([], s)
      else if c = CHR 0x5C then
        (if s = [] then None
         else if hd s = CHR ''u'' then
           (case hex4 (take 4 (tl s)) of
              None \<Rightarrow> None
            | Some n \<Rightarrow> if n < 256 then map_option (apfst (Cons (char_of n))) (read_str (drop 4 (tl s))) else None)
         else (case unescape (hd s) of
              None \<Rightarrow> None
            | Some d \<Rightarrow> map_option (apfst (Cons d)) (read_str (tl s))))
      else if (of_char c :: nat) < 32 then None
      else map_option (apfst (Cons c)) (read_str s))"
  by pat_completeness auto
termination by (relation "measure length") (auto simp: hex4_def)

definition read_num :: "string \<Rightarrow> (jsval \<times> string) option" where
  "read_num s =
     (let neg = s \<noteq> [] \<and> hd s = CHR ''-''; t = (if neg then tl s else s);
          ds = takeWhile is_digit t; rest = dropWhile is_digit t
      in if ds = [] \<or> (1 < length ds \<and> hd ds = CHR ''0'') \<or> (rest \<noteq> [] \<and> hd rest \<in> {CHR ''.'', CHR ''e'', CHR ''E''})
         then None
         else Some (JNum (if neg then - int (read_digits 10 ds) else int (read_digits 10 ds)), rest))"

definition strip :: "string \<Rightarrow> string \<Rightarrow> string option" where
  "strip pre s = (if take (length pre) s = pre then Some (drop (length pre) s) else None)"

fun read_val :: "nat \<Rightarrow> string \<Rightarrow> (jsval \<times> string) option"
  and read_elems :: "nat \<Rightarrow> jsval list \<Rightarrow> string \<Rightarrow> (jsval \<times> string) option"
  and read_members :: "nat \<Rightarrow> props \<Rightarrow> string \<Rightarrow> (jsval \<times> string) option" where
  "read_val 0 s = None"
| "read_val (Suc n) s =
     (let t = skip_ws s in
      if t = [] then None
      else if hd t = CHR ''{'' then
        (let r = skip_ws (tl t) in if r \<noteq> [] \<and> hd r = CHR ''}'' then Some (JObj [], tl r) else read_members n [] r)
      else if hd t = CHR ''['' then
        (let r = skip_ws (tl t) in if r \<noteq> [] \<and> hd r = CHR '']'' then Some (JArr [], tl r) else read_elems n [] r)
      else if hd t = CHR 0x22 then map_option (apfst JStr) (read_str (tl t))
      else if hd t = CHR ''n'' then map_option (Pair JNull) (strip ''null'' t)
      else if hd t = CHR ''t'' then map_option (Pair (JBool True)) (strip ''true'' t)
      else if hd t = CHR ''f'' then map_option (Pair (JBool False)) (strip ''false'' t)
      else read_num t)"
| "read_elems 0 acc s = None"
| "read_elems (Suc n) acc s =
     (case read_val n s of
        None \<Rightarrow> None
      | Some (v, r) \<Rightarrow>
          (let t = skip_ws r in
           if t \<noteq> [] \<and> hd t = CHR '','' then read_elems n (acc @ [v]) (tl t)
           else if t \<noteq> [] \<and> hd t = CHR '']'' then Some (JArr (acc @ [v]), tl t)
           else None))"
| "read_members 0 acc s = None"
| "read_members (Suc n) acc s =
     (let t = skip_ws s in
      if t = [] \<or> hd t \<noteq> CHR 0x22 then None
      else (case read_str (tl t) of
        None \<Rightarrow> None
      | Some (k, r) \<Rightarrow>
          (let u = skip_ws r in
           if u = [] \<or> hd u \<noteq> CHR '':'' then None
           else (case read_val n (tl u) of
             None \<Rightarrow> None
           | Some (v, r') \<Rightarrow>
               (let w = skip_ws r' in
                if w \<noteq> [] \<and> hd w = CHR '','' then read_members n (pset acc k v) (tl w)
                else if w \<noteq> [] \<and> hd w = CHR ''}'' then Some (JObj (pset acc k v), tl w)
                else None)))))"

definition json_parse :: "string \<Rightarrow> jsval res" where
  "json_parse s = (case read_val (2 * length s + 2) s of
     None \<Rightarrow> Inl SyntaxError
   | Some (v, r) \<Rightarrow> if skip_ws r = [] then Inr v else Inl SyntaxError)"

text \<open>What survives printing: undefined members go, undefined elements and NaN become null.\<close>

fun json_norm :: "jsval \<Rightarrow> jsval" where
  "json_norm JUndef = JNull"
| "json_norm JNull = JNull"
| "json_norm (JBool b) = JBool b"
| "json_norm (JNum i) = JNum i"
| "json_norm JNaN = JNull"
| "json_norm (JStr s) = JStr s"
| "json_norm (JArr vs) = JArr (map json_norm vs)"
| "json_norm (JObj ps) = JObj (map (\<lambda>(k, v). (k, json_norm v)) (filter (\<lambda>(k, v). v \<noteq> JUndef) ps))"

fun wf_js :: "jsval \<Rightarrow> bool" where
  "wf_js (JArr vs) \<longleftrightarrow> list_all wf_js vs"
| "wf_js (JObj ps) \<longleftrightarrow> distinct (map fst ps) \<and> list_all (\<lambda>(k, v). wf_js v) ps"
| "wf_js _ \<longleftrightarrow> True"

section \<open>Reading back what was printed\<close>

definition ends :: "string \<Rightarrow> bool" where
  "ends r \<longleftrightarrow> r = [] \<or> hd r \<in> {CHR '','', CHR '']'', CHR ''}''}"

lemma ends_simps [simp]: "ends []" "ends (CHR '','' # r)" "ends (CHR '']'' # r)" "ends (CHR ''}'' # r)"
  by (simp_all add: ends_def)

lemma is_hex_digit_chr: "d < 16 \<Longrightarrow> is_hex (digit_chr d)"
proof -
  assume "d < 16"
  then have "d \<in> set [0..<16]" by simp
  moreover have "list_all (\<lambda>d. is_hex (digit_chr d)) [0..<16]" by code_simp
  ultimately show ?thesis by (simp add: list_all_iff)
qed

lemma digit_val_hex: "d < 16 \<Longrightarrow> digit_val (digit_chr d) = d"
proof -
  assume "d < 16"
  then have "d \<in> set [0..<16]" by simp
  moreover have "list_all (\<lambda>d. digit_val (digit_chr d) = d) [0..<16]" by code_simp
  ultimately show ?thesis by (simp add: list_all_iff)
qed

lemma hex4_control:
  "n < 256 \<Longrightarrow> hex4 [CHR ''0'', CHR ''0'', digit_chr (n div 16), digit_chr (n mod 16)] = Some n"
proof -
  assume "n < 256"
  then have n: "n div 16 < 16" "n mod 16 < 16" by auto
  have "is_hex CHR ''0''" "digit_val CHR ''0'' = 0" by code_simp+
  with n show ?thesis by (simp add: hex4_def read_digits_def is_hex_digit_chr digit_val_hex)
qed

lemma read_str_char: "read_str (json_char c @ r) = map_option (apfst (Cons c)) (read_str r)"
proof (cases "c \<in> {CHR 0x22, CHR 0x5C, CHR 0x08, CHR 0x0C, CHR 0x0A, CHR 0x0D, CHR 0x09}")
  case True
  then show ?thesis by (auto simp: json_char_def unescape_def)
next
  case False
  show ?thesis
  proof (cases "(of_char c :: nat) < 32")
    case True
    then have "hex4 [CHR ''0'', CHR ''0'', digit_chr (of_char c div 16), digit_chr (of_char c mod 16)] = Some (of_char c)"
      by (intro hex4_control) simp
    with False True show ?thesis by (simp add: json_char_def)
  next
    case 32: False
    with False show ?thesis by (simp add: json_char_def)
  qed
qed

lemma read_str_quote: "read_str (concat (map json_char s) @ CHR 0x22 # r) = Some (s, r)"
  by (induction s) (simp_all add: read_str_char)

lemma show_nat_hd_nonzero: "10 \<le> n \<Longrightarrow> hd (show_nat n) \<noteq> CHR ''0''"
proof (induction n rule: less_induct)
  case (less n)
  show ?case
  proof (cases "n div 10 < 10")
    case True
    have "digit_chr d \<noteq> CHR ''0''" if "0 < d" "d < 10" for d
    proof -
      have "d \<in> set [1..<10]" using that by simp
      moreover have "list_all (\<lambda>d. digit_chr d \<noteq> CHR ''0'') [1..<10]" by code_simp
      ultimately show ?thesis by (simp add: list_all_iff)
    qed
    with True less.prems show ?thesis by (subst show_nat.simps) (simp add: show_nat.simps [of "n div 10"])
  next
    case False
    then have "hd (show_nat (n div 10)) \<noteq> CHR ''0''" using less.prems by (intro less.IH) auto
    with less.prems show ?thesis by (subst show_nat.simps) simp
  qed
qed

lemma show_nat_no_leading_zero: "1 < length (show_nat n) \<Longrightarrow> hd (show_nat n) \<noteq> CHR ''0''"
  by (cases "n < 10") (simp add: show_nat.simps [of n], simp add: show_nat_hd_nonzero)

lemma ends_no_digit: "ends r \<Longrightarrow> r = [] \<or> \<not> is_digit (hd r)"
proof -
  have "\<not> is_digit c" if "c \<in> {CHR '','', CHR '']'', CHR ''}''}" for c
  proof -
    have "list_all (\<lambda>c. \<not> is_digit c) [CHR '','', CHR '']'', CHR ''}'']" by code_simp
    with that show ?thesis by auto
  qed
  then show "ends r \<Longrightarrow> r = [] \<or> \<not> is_digit (hd r)" unfolding ends_def by blast
qed

lemma take_drop_digits:
  assumes "ends r"
  shows "takeWhile is_digit (show_nat n @ r) = show_nat n" "dropWhile is_digit (show_nat n @ r) = r"
proof -
  have r: "takeWhile is_digit r = []" "dropWhile is_digit r = r"
    using ends_no_digit [OF assms] by (cases r; simp)+
  have all: "\<And>c. c \<in> set (show_nat n) \<Longrightarrow> is_digit c" by (rule show_nat_digits)
  show "takeWhile is_digit (show_nat n @ r) = show_nat n" using takeWhile_append2 [of "show_nat n" is_digit r] all r by simp
  show "dropWhile is_digit (show_nat n @ r) = r" using dropWhile_append2 [of "show_nat n" is_digit r] all r by simp
qed

lemma read_num_show_int: "ends r \<Longrightarrow> read_num (show_int i @ r) = Some (JNum i, r)"
proof -
  assume r: "ends r"
  then have e: "\<not> (r \<noteq> [] \<and> hd r \<in> {CHR ''.'', CHR ''e'', CHR ''E''})" by (auto simp: ends_def)
  have z: "\<not> (show_nat n = [] \<or> 1 < length (show_nat n) \<and> hd (show_nat n) = CHR ''0'' \<or>
      r \<noteq> [] \<and> hd r \<in> {CHR ''.'', CHR ''e'', CHR ''E''})" for n
    using show_nat_no_leading_zero [of n] e by auto
  have m: "hd (show_nat n @ r) \<noteq> CHR ''-''" for n
  proof -
    have "is_digit (hd (show_nat n @ r))" using show_nat_hd_digit [of n] by simp
    then show ?thesis by fastforce
  qed
  show ?thesis
  proof (cases "i < 0")
    case True
    then have s: "show_int i @ r = CHR ''-'' # show_nat (nat (- i)) @ r" by (simp add: show_int_def)
    show ?thesis unfolding s read_num_def Let_def list.sel take_drop_digits [OF r]
      using z True by (simp add: take_drop_digits [OF r])
  next
    case False
    then have s: "show_int i @ r = show_nat (nat i) @ r" by (simp add: show_int_def)
    show ?thesis unfolding s read_num_def Let_def
      using z [of "nat i"] m [of "nat i"] False by (simp add: take_drop_digits [OF r])
  qed
qed

lemma show_int_hd: "hd (show_int i) = CHR ''-'' \<or> is_digit (hd (show_int i))" "show_int i \<noteq> []"
  using show_nat_hd_digit by (simp_all add: show_int_def)

lemma digit_start:
  "is_digit c \<or> c = CHR ''-'' \<Longrightarrow> \<not> json_ws c \<and> c \<notin> {CHR ''{'', CHR ''['', CHR 0x22, CHR ''n'', CHR ''t'', CHR ''f''}"
proof -
  assume "is_digit c \<or> c = CHR ''-''"
  then have "c \<in> set (CHR ''-'' # digits10)" by (auto simp: is_digit_def)
  moreover have "list_all (\<lambda>c. \<not> json_ws c \<and> c \<notin> set [CHR ''{'', CHR ''['', CHR 0x22, CHR ''n'', CHR ''t'', CHR ''f''])
      (CHR ''-'' # digits10)" by code_simp
  ultimately show ?thesis unfolding list_all_iff by auto
qed

text \<open>The first character of a printed value, and that no white space is skipped before it.\<close>

lemma skip_ws_Cons: "\<not> json_ws c \<Longrightarrow> skip_ws (c # s) = c # s"
  by (simp add: skip_ws_def)

lemma json_ws_simps [simp]:
  "\<not> json_ws CHR ''{''" "\<not> json_ws CHR ''[''" "\<not> json_ws CHR 0x22" "\<not> json_ws CHR ''n''" "\<not> json_ws CHR ''t''"
  "\<not> json_ws CHR ''f''" "\<not> json_ws CHR '',''" "\<not> json_ws CHR '']''" "\<not> json_ws CHR ''}''" "\<not> json_ws CHR '':''"
  by (simp_all add: json_ws_def)

lemma read_val_num: "ends r \<Longrightarrow> read_val (Suc n) (show_int i @ r) = Some (JNum i, r)"
proof -
  assume r: "ends r"
  obtain c cs where c: "show_int i = c # cs" using show_int_hd(2) by (cases "show_int i") auto
  then have d: "is_digit c \<or> c = CHR ''-''" using show_int_hd(1) [of i] by auto
  have "read_val (Suc n) (c # cs @ r) = read_num (c # cs @ r)"
    using digit_start [OF d] by (simp add: skip_ws_Cons)
  with read_num_show_int [OF r, of i] c show ?thesis by simp
qed

lemma read_val_str: "read_val (Suc n) (json_quote s @ r) = Some (JStr s, r)"
  by (simp add: json_quote_def skip_ws_Cons read_str_quote)

lemma read_val_lit:
  "read_val (Suc n) (''null'' @ r) = Some (JNull, r)"
  "read_val (Suc n) (''true'' @ r) = Some (JBool True, r)"
  "read_val (Suc n) (''false'' @ r) = Some (JBool False, r)"
  by (simp_all add: skip_ws_Cons strip_def)

lemma json_text_nonempty [simp]: "json_text v \<noteq> []"
  by (cases v) (simp_all add: show_int_hd json_quote_def)

definition reads :: "jsval \<Rightarrow> bool" where
  "reads v \<longleftrightarrow> (\<forall>n r. 2 * length (json_text v) + 1 \<le> n \<longrightarrow> ends r \<longrightarrow>
     read_val n (json_text v @ r) = Some (json_norm v, r))"

lemma readsD: "reads v \<Longrightarrow> 2 * length (json_text v) + 1 \<le> n \<Longrightarrow> ends r \<Longrightarrow>
    read_val n (json_text v @ r) = Some (json_norm v, r)"
  unfolding reads_def by blast

lemma read_elems_join:
  "vs \<noteq> [] \<Longrightarrow> \<forall>v \<in> set vs. reads v \<Longrightarrow> 2 * length (join_with '','' (map json_text vs)) + 2 \<le> n \<Longrightarrow>
   read_elems n acc (join_with '','' (map json_text vs) @ CHR '']'' # r) = Some (JArr (acc @ map json_norm vs), r)"
proof (induction vs arbitrary: n acc)
  case (Cons v vs)
  then obtain m where n: "n = Suc m" by (cases n) auto
  show ?case
  proof (cases vs)
    case Nil
    have "read_val m (json_text v @ CHR '']'' # r) = Some (json_norm v, CHR '']'' # r)"
      using Cons.prems n Nil by (intro readsD) auto
    then show ?thesis using Nil n by (simp add: skip_ws_Cons)
  next
    case (Cons w ws)
    let ?t = "join_with '','' (map json_text vs) @ CHR '']'' # r"
    have "read_val m (json_text v @ CHR '','' # ?t) = Some (json_norm v, CHR '','' # ?t)"
      using Cons.prems n Cons by (intro readsD) auto
    moreover have "read_elems m (acc @ [json_norm v]) ?t = Some (JArr ((acc @ [json_norm v]) @ map json_norm vs), r)"
      using Cons.prems n Cons by (intro Cons.IH) auto
    ultimately show ?thesis using Cons n by (simp add: skip_ws_Cons)
  qed
qed simp

definition member_text :: "string \<times> jsval \<Rightarrow> string" where
  "member_text kv = json_quote (fst kv) @ '':'' @ json_text (snd kv)"

lemma pset_new: "\<not> phas ps k \<Longrightarrow> pset ps k v = ps @ [(k, v)]"
  by (induction ps k v rule: pset.induct) auto

lemma read_members_join:
  "ps \<noteq> [] \<Longrightarrow> \<forall>kv \<in> set ps. reads (snd kv) \<Longrightarrow> distinct (map fst acc @ map fst ps) \<Longrightarrow>
   2 * length (join_with '','' (map member_text ps)) + 2 \<le> n \<Longrightarrow>
   read_members n acc (join_with '','' (map member_text ps) @ CHR ''}'' # r) =
     Some (JObj (acc @ map (\<lambda>(k, v). (k, json_norm v)) ps), r)"
proof (induction ps arbitrary: n acc)
  case (Cons kv ps)
  obtain k v where kv: "kv = (k, v)" by (cases kv)
  from Cons.prems obtain m where n: "n = Suc m" by (cases n) auto
  have new: "pset acc k x = acc @ [(k, x)]" for x
    using Cons.prems(3) kv by (intro pset_new) (auto simp: phas_def)
  let ?q = "\<lambda>r. concat (map json_char k) @ CHR 0x22 # CHR '':'' # r"
  show ?case
  proof (cases ps)
    case Nil
    have "read_val m (json_text v @ CHR ''}'' # r) = Some (json_norm v, CHR ''}'' # r)"
      using Cons.prems n Nil kv by (intro readsD) (auto simp: member_text_def)
    then show ?thesis using Nil n kv new
      by (simp add: member_text_def json_quote_def skip_ws_Cons read_str_quote)
  next
    case (Cons w ws)
    let ?t = "join_with '','' (map member_text ps) @ CHR ''}'' # r"
    have "read_val m (json_text v @ CHR '','' # ?t) = Some (json_norm v, CHR '','' # ?t)"
      using Cons.prems n Cons kv by (intro readsD) (auto simp: member_text_def)
    moreover have "read_members m (acc @ [(k, json_norm v)]) ?t =
        Some (JObj ((acc @ [(k, json_norm v)]) @ map (\<lambda>(k, v). (k, json_norm v)) ps), r)"
      using Cons.prems n Cons kv by (intro Cons.IH) auto
    moreover have "join_with '','' (map member_text (kv # ps)) @ CHR ''}'' # r = CHR 0x22 # ?q (json_text v @ CHR '','' # ?t)"
      using Cons kv by (simp add: member_text_def json_quote_def)
    ultimately show ?thesis using n kv new by (simp add: skip_ws_Cons read_str_quote)
  qed
qed simp

lemma json_text_obj:
  "json_text (JObj ps) = ''{'' @ join_with '','' (map member_text (filter (\<lambda>(k, v). v \<noteq> JUndef) ps)) @ ''}''"
proof -
  have "(\<lambda>(k, v). json_quote k @ '':'' @ json_text v) = member_text" by (auto simp: member_text_def fun_eq_iff)
  then show ?thesis by simp
qed

lemma json_text_start: "\<not> json_ws (hd (json_text v)) \<and> hd (json_text v) \<noteq> CHR '']''"
proof (cases v)
  case (JNum i)
  have d: "is_digit (hd (show_int i)) \<or> hd (show_int i) = CHR ''-''" using show_int_hd(1) [of i] by blast
  have "\<not> is_digit CHR '']''" using ends_no_digit [of "'']''"] by simp
  then have "hd (show_int i) \<noteq> CHR '']''" using d by (auto simp del: is_digit_simps)
  with digit_start [OF d] show ?thesis unfolding JNum json_text.simps by blast
qed (simp_all add: json_quote_def)

lemma reads_arr: "\<forall>v \<in> set vs. reads v \<Longrightarrow> reads (JArr vs)"
  unfolding reads_def [of "JArr vs"]
proof (intro allI impI)
  fix n r
  assume vs: "\<forall>v \<in> set vs. reads v" and n: "2 * length (json_text (JArr vs)) + 1 \<le> n" and r: "ends r"
  obtain m where m: "n = Suc m" using n by (cases n) auto
  show "read_val n (json_text (JArr vs) @ r) = Some (json_norm (JArr vs), r)"
  proof (cases vs)
    case Nil
    then show ?thesis using m by (simp add: skip_ws_Cons)
  next
    case (Cons v ws)
    let ?t = "join_with '','' (map json_text vs) @ CHR '']'' # r"
    have e: "read_elems m [] ?t = Some (JArr ([] @ map json_norm vs), r)"
      using vs n m Cons by (intro read_elems_join) auto
    obtain c cs where c: "json_text v = c # cs" by (cases "json_text v") auto
    have "c \<noteq> CHR '']'' \<and> \<not> json_ws c" using json_text_start [of v] c by simp
    then have "skip_ws ?t = ?t" "hd ?t \<noteq> CHR '']''" "?t \<noteq> []"
      using c Cons by (cases ws; simp add: skip_ws_Cons)+
    with e m show ?thesis by (simp add: skip_ws_Cons Let_def del: join_with.simps)
  qed
qed

lemma reads_obj:
  assumes ps: "\<forall>kv \<in> set ps. reads (snd kv)" and d: "distinct (map fst ps)"
  shows "reads (JObj ps)"
  unfolding reads_def
proof (intro allI impI)
  fix n r
  assume n: "2 * length (json_text (JObj ps)) + 1 \<le> n" and r: "ends r"
  obtain m where m: "n = Suc m" using n by (cases n) auto
  let ?qs = "filter (\<lambda>(k, v). v \<noteq> JUndef) ps"
  show "read_val n (json_text (JObj ps) @ r) = Some (json_norm (JObj ps), r)"
  proof (cases ?qs)
    case Nil
    then show ?thesis using m by (simp add: skip_ws_Cons)
  next
    case (Cons kv ws)
    let ?t = "join_with '','' (map member_text ?qs) @ CHR ''}'' # r"
    have "distinct (map fst ?qs)" using d by (rule distinct_map_filter)
    moreover have "\<forall>kv \<in> set ?qs. reads (snd kv)" using ps by simp
    moreover have "2 * length (join_with '','' (map member_text ?qs)) + 2 \<le> m"
      using n m json_text_obj [of ps] by simp
    ultimately have e: "read_members m [] ?t = Some (JObj ([] @ map (\<lambda>(k, v). (k, json_norm v)) ?qs), r)"
      using Cons by (intro read_members_join) auto
    have "\<exists>u. ?t = CHR 0x22 # u" unfolding Cons by (cases ws) (simp_all add: member_text_def json_quote_def)
    then have "skip_ws ?t = ?t" "hd ?t \<noteq> CHR ''}''" "?t \<noteq> []" by (auto simp: skip_ws_Cons)
    moreover have "json_text (JObj ps) @ r = CHR ''{'' # ?t" using json_text_obj [of ps] by simp
    ultimately show ?thesis using e m by (simp add: skip_ws_Cons Let_def del: json_text.simps)
  qed
qed

lemma readsI:
  assumes "\<And>m r. ends r \<Longrightarrow> read_val (Suc m) (json_text v @ r) = Some (json_norm v, r)"
  shows "reads v"
  unfolding reads_def
proof (intro allI impI)
  fix n r
  assume "2 * length (json_text v) + 1 \<le> n" "ends r"
  then show "read_val n (json_text v @ r) = Some (json_norm v, r)" using assms [of r] by (cases n) auto
qed

lemma reads_leaf:
  "reads JUndef" "reads JNull" "reads (JBool b)" "reads (JNum i)" "reads JNaN" "reads (JStr s)"
  by (rule readsI; cases b; simp only: json_text.simps json_norm.simps if_True if_False
        read_val_lit read_val_num read_val_str)+

lemma json_reads: "wf_js v \<Longrightarrow> reads v"
proof (induction v rule: json_text.induct)
  case (7 vs)
  then show ?case by (intro reads_arr) (auto simp: list_all_iff)
next
  case (8 ps)
  have "reads w" if "(k, w) \<in> set ps" for k w
  proof (cases "w = JUndef")
    case True
    then show ?thesis by (simp add: reads_leaf)
  next
    case False
    with that 8 show ?thesis by (auto simp: list_all_iff)
  qed
  with 8 show ?case by (intro reads_obj) auto
qed (rule reads_leaf)+

lemma json_parse_text: "wf_js v \<Longrightarrow> json_parse (json_text v) = Inr (json_norm v)"
  using readsD [OF json_reads, of v "2 * length (json_text v) + 2" "[]"]
  by (simp add: json_parse_def skip_ws_def del: read_val.simps)

text \<open>A value without undefined parts and NaN comes back unchanged.\<close>

fun json_clean :: "jsval \<Rightarrow> bool" where
  "json_clean JUndef \<longleftrightarrow> False"
| "json_clean JNaN \<longleftrightarrow> False"
| "json_clean (JArr vs) \<longleftrightarrow> list_all json_clean vs"
| "json_clean (JObj ps) \<longleftrightarrow> list_all (\<lambda>(k, v). json_clean v) ps"
| "json_clean _ \<longleftrightarrow> True"

lemma json_norm_clean: "json_clean v \<Longrightarrow> json_norm v = v"
proof (induction v rule: json_norm.induct)
  case (7 vs)
  then show ?case by (simp add: list_all_iff map_idI)
next
  case (8 ps)
  have nu: "\<forall>(k, v) \<in> set ps. v \<noteq> JUndef" using 8(2) by (auto simp: list_all_iff)
  then have f: "filter (\<lambda>(k, v). v \<noteq> JUndef) ps = ps" by (simp add: filter_id_conv)
  have "json_norm v = v" if "(k, v) \<in> set ps" for k v
    using 8(1) [of "(k, v)" k v] 8(2) that nu by (auto simp: list_all_iff)
  then have "map (\<lambda>(k, v). (k, json_norm v)) ps = ps" by (intro map_idI) auto
  with f show ?case by simp
qed simp_all

end
