(* ===== verification/Io.thy ===== *)
theory Io
  imports JSJson
begin

text \<open>
  The effects of the client as a trace.  A computation takes the trace of what happened so
  far and returns its result, or the exception it ended with, and the longer trace.  What
  the program calls outside itself is in the record \<open>env\<close>, an argument of every definition
  that uses it: the server behind \<^verbatim>\<open>fetch(url).json()\<close>, which may answer each request
  depending on all that happened before, or fail; and the user answering a \<^verbatim>\<open>confirm\<close>.  The
  configuration variables the templates are expanded with are fields of the record as well.
\<close>

section \<open>Requests, events and the environment\<close>

datatype verb = GET | POST

record request =
  rq_verb :: verb
  rq_url :: string
  rq_form :: "(string \<times> string) list"

datatype event =
    Sent request
  | Alert string
  | Asked string
  | Navigate string
  | ModalShow string
  | ModalHide string

record env =
  path :: string
  approval_email :: string
  serve :: "event list \<Rightarrow> request \<Rightarrow> jsval res"
  answers :: "event list \<Rightarrow> string \<Rightarrow> bool"

type_synonym 'a io = "event list \<Rightarrow> 'a res \<times> event list"

definition get_request :: "string \<Rightarrow> request" where
  "get_request url = \<lparr>rq_verb = GET, rq_url = url, rq_form = []\<rparr>"

definition post_request :: "string \<Rightarrow> (string \<times> string) list \<Rightarrow> request" where
  "post_request url form = \<lparr>rq_verb = POST, rq_url = url, rq_form = form\<rparr>"

section \<open>Computations\<close>

definition io_ret :: "'a \<Rightarrow> 'a io" where
  "io_ret x t = (Inr x, t)"

definition io_lift :: "'a res \<Rightarrow> 'a io" where
  "io_lift r t = (r, t)"

definition io_bind :: "'a io \<Rightarrow> ('a \<Rightarrow> 'b io) \<Rightarrow> 'b io" where
  "io_bind m f t = (case m t of (Inl e, t') \<Rightarrow> (Inl e, t') | (Inr x, t') \<Rightarrow> f x t')"

definition io_try :: "'a io \<Rightarrow> (exn \<Rightarrow> 'a io) \<Rightarrow> 'a io" where
  "io_try m h t = (case m t of (Inl e, t') \<Rightarrow> h e t' | (Inr x, t') \<Rightarrow> (Inr x, t'))"

definition emit :: "event \<Rightarrow> unit io" where
  "emit ev t = (Inr (), t @ [ev])"

definition fetch_json :: "env \<Rightarrow> request \<Rightarrow> jsval io" where
  "fetch_json E rq t = (serve E t rq, t @ [Sent rq])"

definition confirm :: "env \<Rightarrow> string \<Rightarrow> bool io" where
  "confirm E s t = (Inr (answers E t s), t @ [Asked s])"

text \<open>What a template literal shows of an exception; the engine's own messages are not part
  of the program.\<close>

fun exn_text :: "exn \<Rightarrow> string" where
  "exn_text (Throw v) = to_str v"
| "exn_text TypeError = ''TypeError''"
| "exn_text ReferenceError = ''ReferenceError''"
| "exn_text SyntaxError = ''SyntaxError''"
| "exn_text URIError = ''URIError''"
| "exn_text NetworkError = ''TypeError: Failed to fetch''"

section \<open>Laws\<close>

lemma io_simps [simp]:
  "io_ret x t = (Inr x, t)"
  "io_lift r t = (r, t)"
  "emit ev t = (Inr (), t @ [ev])"
  "fetch_json E rq t = (serve E t rq, t @ [Sent rq])"
  "confirm E s t = (Inr (answers E t s), t @ [Asked s])"
  by (simp_all add: io_ret_def io_lift_def emit_def fetch_json_def confirm_def)

lemma io_bind_simps [simp]:
  "io_bind (io_ret x) f = f x"
  "io_bind (io_lift (Inr x)) f = f x"
  "io_bind (io_lift (Inl e)) f = io_lift (Inl e)"
  by (simp_all add: io_bind_def fun_eq_iff)

lemma io_bind_emit [simp]: "io_bind (emit ev) f t = f () (t @ [ev])"
  by (simp add: io_bind_def)

lemma io_bind_confirm [simp]: "io_bind (confirm E s) f t = f (answers E t s) (t @ [Asked s])"
  by (simp add: io_bind_def)

lemma io_bind_fetch:
  "io_bind (fetch_json E rq) f t = (case serve E t rq of
     Inl e \<Rightarrow> (Inl e, t @ [Sent rq]) | Inr v \<Rightarrow> f v (t @ [Sent rq]))"
  by (simp add: io_bind_def split: sum.split)

lemma io_bind_lift: "io_bind (io_lift r) f t = (case r of Inl e \<Rightarrow> (Inl e, t) | Inr x \<Rightarrow> f x t)"
  by (simp add: io_bind_def split: sum.split)

lemma io_bind_assoc: "io_bind (io_bind m f) g = io_bind m (\<lambda>x. io_bind (f x) g)"
  by (auto simp: io_bind_def fun_eq_iff split: prod.split sum.split)

lemma io_try_simps [simp]:
  "io_try (io_ret x) h = io_ret x"
  "io_try (io_lift (Inr x)) h = io_lift (Inr x)"
  "io_try (io_lift (Inl e)) h = h e"
  by (simp_all add: io_try_def fun_eq_iff)

lemma io_try_never_fails:
  "(\<And>e t'. \<exists>y. fst (h e t') = Inr y) \<Longrightarrow> \<exists>y. fst (io_try m h t) = Inr y"
  by (cases "m t"; cases "fst (m t)") (auto simp: io_try_def)

section \<open>The shape of the service calls\<close>

text \<open>
  Every function of \<^verbatim>\<open>api/*.js\<close> sends one request and examines the answer.  Most do so in a
  \<^verbatim>\<open>try\<close> block whose handler logs the error and returns a fixed value (\<open>api_get\<close>); the rest
  pass the exception on (\<open>api_call\<close>).
\<close>

definition api_call :: "env \<Rightarrow> request \<Rightarrow> (jsval \<Rightarrow> jsval res) \<Rightarrow> jsval io" where
  "api_call E rq post = io_bind (fetch_json E rq) (\<lambda>data. io_lift (post data))"

definition api_get :: "env \<Rightarrow> string \<Rightarrow> (jsval \<Rightarrow> jsval res) \<Rightarrow> jsval \<Rightarrow> jsval io" where
  "api_get E url post dflt = io_try (api_call E (get_request url) post) (\<lambda>error. io_ret dflt)"

text \<open>\<open>if (k in data) throw data.error_text\<close> and \<open>if (data.error_text) throw data.error_text\<close>.\<close>

definition err_in :: "string \<Rightarrow> jsval \<Rightarrow> jsval res" where
  "err_in k data = rbind (jin k data) (\<lambda>b.
     if b then rbind (jget data ''error_text'') (\<lambda>m. Inl (Throw m)) else Inr data)"

definition err_set :: "jsval \<Rightarrow> jsval res" where
  "err_set data = rbind (jget data ''error_text'') (\<lambda>m. if truthy m then Inl (Throw m) else Inr data)"

definition results :: "jsval \<Rightarrow> jsval res" where
  "results data = jget data ''results''"

definition results0 :: "jsval \<Rightarrow> jsval res" where
  "results0 data = rbind (results data) (\<lambda>r. jidx r 0)"

text \<open>A parameter with a default value.\<close>

definition dflt :: "jsval \<Rightarrow> jsval \<Rightarrow> jsval" where
  "dflt v d = (if v = JUndef then d else v)"

lemma api_call_eq:
  "api_call E rq post t = (rbind (serve E t rq) post, t @ [Sent rq])"
  by (simp add: api_call_def io_bind_fetch split: sum.split)

lemma api_get_eq:
  "api_get E url post d t =
     (case rbind (serve E t (get_request url)) post of Inl e \<Rightarrow> Inr d | Inr v \<Rightarrow> Inr v, t @ [Sent (get_request url)])"
  by (simp add: api_get_def io_try_def api_call_eq split: sum.split)

text \<open>The contract of the functions that never fail.\<close>

locale getter =
  fixes E :: env and run :: "jsval io" and url :: string and post :: "jsval \<Rightarrow> jsval res" and d :: jsval
  assumes run_eq: "run = api_get E url post d"
begin

lemma sends_one: "snd (run t) = t @ [Sent (get_request url)]"
  by (simp add: run_eq api_get_eq)

lemma never_throws: "\<exists>v. fst (run t) = Inr v"
  by (simp add: run_eq api_get_eq split: sum.split)

lemma on_failure: "rbind (serve E t (get_request url)) post = Inl e \<Longrightarrow> fst (run t) = Inr d"
  by (simp add: run_eq api_get_eq)

lemma on_success: "serve E t (get_request url) = Inr data \<Longrightarrow> post data = Inr v \<Longrightarrow> fst (run t) = Inr v"
  by (simp add: run_eq api_get_eq)

end

end
