(* ===== verification/Provisioning.thy ===== *)
theory Provisioning
  imports Io
begin

text \<open>
  \<^verbatim>\<open>js_templates/api/circuit.js\<close> and \<^verbatim>\<open>js_templates/api/vrf.js\<close>: the calls that provision, read and
  remove layer 2 circuits and layer 3 VRFs.  An endpoint is the list of its properties;
  the forms are the lists of their entries in order.
\<close>

section \<open>Circuits\<close>

definition deleteCircuit :: "env \<Rightarrow> jsval \<Rightarrow> jsval \<Rightarrow> jsval io" where
  "deleteCircuit E workgroupID circuitID =
     api_call E (get_request (path E @ ''services/circuit.cgi?method=remove'' @ ''&circuit_id='' @ to_str circuitID
         @ ''&workgroup_id='' @ to_str workgroupID))
       (\<lambda>data. rbind (err_in ''error_text'' data) results)"

text \<open>The object sent for one endpoint (the body of the \<^verbatim>\<open>forEach\<close>).\<close>

definition flag :: "jsval \<Rightarrow> jsval" where
  "flag v = JNum (if truthy v then 1 else 0)"

definition gateway :: "props \<Rightarrow> props" where
  "gateway ep = (if strict_eq (pget ep ''cloud_gateway_type'') JNull then []
     else [(''cloud_gateway_type'', pget ep ''cloud_gateway_type'')])"

definition circuit_endpoint :: "props \<Rightarrow> props" where
  "circuit_endpoint ep =
     [(''bandwidth'', pget ep ''bandwidth''),
      (''tag'', pget ep ''tag''),
      (''cloud_account_id'', pget ep ''cloud_account_id''),
      (''circuit_ep_id'', pget ep ''circuit_ep_id''),
      (''jumbo'', flag (pget ep ''jumbo''))]
     @ gateway ep
     @ (if phas ep ''entity_id'' \<and> strict_eq (pget ep ''name'') (JStr ''TBD'') \<and> strict_eq (pget ep ''interface'') (JStr ''TBD'')
        then [(''entity'', pget ep ''entity'')]
        else [(''interface'', pget ep ''interface''), (''node'', pget ep ''node''), (''entity'', pget ep ''entity'')])"

definition circuit_form :: "jsval \<Rightarrow> jsval \<Rightarrow> props list \<Rightarrow> jsval \<Rightarrow> jsval \<Rightarrow> jsval \<Rightarrow> (string \<times> string) list" where
  "circuit_form workgroupID description endpoints start stop circuitID =
     [(''method'', ''provision''),
      (''workgroup_id'', to_str workgroupID),
      (''description'', to_str description),
      (''static_mac'', to_str (JNum 0)),
      (''provision_time'', to_str (js_or (dflt start (JNum (- 1))) (JNum (- 1)))),
      (''remove_time'', to_str (js_or (dflt stop (JNum (- 1))) (JNum (- 1)))),
      (''restore_to_primary'', to_str (JNum 0)),
      (''circuit_id'', to_str (dflt circuitID (JNum (- 1))))]
     @ map (\<lambda>ep. (''endpoint'', json_text (JObj (circuit_endpoint ep)))) endpoints"

definition provisionCircuit :: "env \<Rightarrow> jsval \<Rightarrow> jsval \<Rightarrow> props list \<Rightarrow> jsval \<Rightarrow> jsval \<Rightarrow> jsval \<Rightarrow> jsval io" where
  "provisionCircuit E workgroupID description endpoints start stop circuitID =
     api_call E (post_request (path E @ ''services/circuit.cgi'')
         (circuit_form workgroupID description endpoints start stop circuitID))
       (err_in ''error_text'')"

definition getCircuit_url :: "env \<Rightarrow> jsval \<Rightarrow> jsval \<Rightarrow> string" where
  "getCircuit_url E ident workgroupId =
     path E @ ''services/circuit.cgi?method=get&circuit_id='' @ to_str ident @ ''&workgroup_id='' @ to_str workgroupId"

definition getCircuit_post :: "jsval \<Rightarrow> jsval res" where
  "getCircuit_post data =
     rbind (err_in ''error_text'' data) (\<lambda>data.
     rbind (results data) (\<lambda>r.
     rbind (jget r ''length'') (\<lambda>n.
       if loose_eq n (JNum 0) then Inl (Throw (JStr ''Circuit not found.'')) else jidx r 0)))"

definition getCircuit :: "env \<Rightarrow> jsval \<Rightarrow> jsval \<Rightarrow> jsval io" where
  "getCircuit E ident workgroupId = api_get E (getCircuit_url E ident workgroupId) getCircuit_post JNull"

definition getCircuits :: "env \<Rightarrow> jsval \<Rightarrow> jsval io" where
  "getCircuits E workgroupID =
     api_get E (path E @ ''services/circuit.cgi?method=get&workgroup_id='' @ to_str workgroupID)
       (\<lambda>data. rbind (err_in ''error_text'' data) results) (JArr [])"

definition getCircuitEvents :: "env \<Rightarrow> jsval \<Rightarrow> jsval io" where
  "getCircuitEvents E ident =
     api_get E (path E @ ''services/data.cgi?method=get_circuit_scheduled_events&circuit_id='' @ to_str ident) results JNull"

definition getCircuitHistory :: "env \<Rightarrow> jsval \<Rightarrow> jsval io" where
  "getCircuitHistory E ident =
     api_get E (path E @ ''services/data.cgi?method=get_circuit_history&circuit_id='' @ to_str ident) results JNull"

definition getRawCircuit :: "env \<Rightarrow> jsval \<Rightarrow> jsval io" where
  "getRawCircuit E ident =
     api_get E (path E @ ''services/data.cgi?method=generate_clr&circuit_id='' @ to_str ident)
       (\<lambda>data. rbind (err_in ''error_text'' data) (\<lambda>data. rbind (results data) (\<lambda>r. jget r ''clr''))) JNull"

section \<open>VRFs\<close>

text \<open>The two texts thrown for the cloud providers and the other two of \<^verbatim>\<open>provisionVRF\<close>.\<close>

definition no_peering_text :: string where
  "no_peering_text = ''At least one peering on each endpoint must be specified.''"

definition azure_ipv6_text :: string where
  "azure_ipv6_text = ''IPv6 peerings must be configured via the Azure Portal. Changes made via the Azure Portal may take up to 30 minutes to be reflected within OESS.''"

definition oracle_text :: string where
  "oracle_text = ''Oracle FastConnect endpoints must have a single IPv4 peering, and may have up to one IPv6 peering.''"

definition azure_text :: string where
  "azure_text = ''Azure ExpressRoute endpoints must have a single IPv4 peering, and may have up to one IPv6 peering.''"

definition format_text :: string where
  "format_text = ''Unexpected response format received from server.''"

definition vrf_peer :: "props \<Rightarrow> jsval" where
  "vrf_peer p = JObj
     [(''vrf_ep_peer_id'', pget p ''vrf_ep_peer_id''),
      (''peer_asn'', pget p ''peer_asn''),
      (''md5_key'', pget p ''md5_key''),
      (''local_ip'', pget p ''local_ip''),
      (''peer_ip'', pget p ''peer_ip''),
      (''ip_version'', pget p ''ip_version''),
      (''bfd'', flag (pget p ''bfd''))]"

text \<open>The loop over the peers: the two counters and the peers pushed so far.\<close>

fun as_props :: "jsval \<Rightarrow> props" where
  "as_props (JObj ps) = ps"
| "as_props _ = []"

fun vrf_peers :: "jsval \<Rightarrow> jsval list \<Rightarrow> nat \<Rightarrow> nat \<Rightarrow> jsval list \<Rightarrow> (nat \<times> nat \<times> jsval list) res" where
  "vrf_peers cit [] v4 v6 acc = Inr (v4, v6, acc)"
| "vrf_peers cit (q # ps) v4 v6 acc =
     (if is_nullish q then Inl TypeError
      else let p = as_props q;
          v4' = (if strict_eq (pget p ''ip_version'') (JStr ''ipv4'') then v4 + 1 else v4);
          v6' = (if strict_eq (pget p ''ip_version'') (JStr ''ipv4'') then v6 else v6 + 1)
      in if strict_eq cit (JStr ''azure-express-route'') \<and> strict_eq (pget p ''ip_version'') (JStr ''ipv6'')
             \<and> \<not> truthy (pget p ''vrf_ep_peer_id'')
         then Inl (Throw (JStr azure_ipv6_text))
         else vrf_peers cit ps v4' v6' (acc @ [vrf_peer p]))"

definition vrf_endpoint :: "props \<Rightarrow> props res" where
  "vrf_endpoint ep =
     (let cit = pget ep ''cloud_interconnect_type'';
          pre = [(''vrf_endpoint_id'', pget ep ''vrf_endpoint_id''),
                 (''bandwidth'', pget ep ''bandwidth''),
                 (''tag'', pget ep ''tag''),
                 (''jumbo'', flag (pget ep ''jumbo''))];
          post = [(''cloud_account_id'', pget ep ''cloud_account_id'')] @ gateway ep
            @ (if phas ep ''entity_id'' \<and> strict_eq (pget ep ''name'') (JStr ''TBD'') \<and> strict_eq (pget ep ''node'') (JStr ''TBD'')
               then [(''entity'', pget ep ''entity'')]
               else [(''interface'', pget ep ''interface''), (''node'', pget ep ''node''), (''entity'', pget ep ''entity'')])
      in rbind (jget (pget ep ''peers'') ''length'') (\<lambda>n.
         if js_less n (JNum 1) then Inl (Throw (JStr no_peering_text))
         else case pget ep ''peers'' of
           JArr ps \<Rightarrow>
             rbind (vrf_peers cit ps 0 0 []) (\<lambda>(v4, v6, sent).
             if strict_eq cit (JStr ''oracle-fast-connect'') \<and> \<not> (v4 = 1 \<and> v6 \<le> 1) then Inl (Throw (JStr oracle_text))
             else if strict_eq cit (JStr ''azure-express-route'') \<and> \<not> (v4 = 1 \<and> v6 \<le> 1) then Inl (Throw (JStr azure_text))
             else Inr (pre @ [(''peers'', JArr sent)] @ post))
         | _ \<Rightarrow> Inl TypeError))"

definition vrf_form :: "jsval \<Rightarrow> jsval \<Rightarrow> jsval \<Rightarrow> props list \<Rightarrow> jsval \<Rightarrow> jsval \<Rightarrow> jsval \<Rightarrow> (string \<times> string) list res" where
  "vrf_form workgroupID name description endpoints provisionTime removeTime vrfID =
     rbind (rmap vrf_endpoint endpoints) (\<lambda>es. Inr (
       [(''method'', ''provision''),
        (''name'', to_str name),
        (''description'', to_str description),
        (''local_asn'', to_str (JNum 1)),
        (''workgroup_id'', to_str workgroupID),
        (''provision_time'', to_str provisionTime),
        (''remove_time'', to_str removeTime),
        (''vrf_id'', to_str (dflt vrfID (JNum (- 1))))]
       @ map (\<lambda>e. (''endpoint'', json_text (JObj e))) es))"

definition vrf_reply :: "jsval \<Rightarrow> jsval res" where
  "vrf_reply data =
     rbind (err_in ''error_text'' data) (\<lambda>data.
     rbind (results data) (\<lambda>r.
     rbind (jget r ''success'') (\<lambda>s.
     if s = JUndef then Inl (Throw (JStr format_text))
     else rbind (jget r ''vrf_id'') (\<lambda>i.
       if i = JUndef then Inl (Throw (JStr format_text)) else Inr (parse_int i)))))"

definition provisionVRF ::
    "env \<Rightarrow> jsval \<Rightarrow> jsval \<Rightarrow> jsval \<Rightarrow> props list \<Rightarrow> jsval \<Rightarrow> jsval \<Rightarrow> jsval \<Rightarrow> jsval io" where
  "provisionVRF E workgroupID name description endpoints provisionTime removeTime vrfID =
     io_bind (io_lift (vrf_form workgroupID name description endpoints provisionTime removeTime vrfID)) (\<lambda>form.
     api_call E (post_request (path E @ ''services/vrf.cgi'') form) vrf_reply)"

definition getVRF :: "env \<Rightarrow> jsval \<Rightarrow> jsval \<Rightarrow> jsval io" where
  "getVRF E workgroupID vrfID =
     api_get E (path E @ ''services/vrf.cgi?method=get_vrf_details&vrf_id='' @ to_str vrfID @ ''&workgroup_id='' @ to_str workgroupID)
       results0 JNull"

definition getVRFHistory :: "env \<Rightarrow> jsval \<Rightarrow> jsval \<Rightarrow> jsval io" where
  "getVRFHistory E workgroupID ident =
     api_get E (path E @ ''services/vrf.cgi?method=get_vrf_history&vrf_id='' @ to_str ident @ ''&workgroup_id='' @ to_str workgroupID)
       results JUndef"

definition deleteVRF :: "env \<Rightarrow> jsval \<Rightarrow> jsval \<Rightarrow> jsval io" where
  "deleteVRF E workgroupID vrfID =
     api_call E (get_request (path E @ ''services/vrf.cgi?method=remove&vrf_id='' @ to_str vrfID @ ''&workgroup_id='' @ to_str workgroupID))
       (\<lambda>data. rbind (err_in ''error_text'' data) results)"

definition getVRFs :: "env \<Rightarrow> jsval \<Rightarrow> jsval io" where
  "getVRFs E workgroupID =
     api_get E (path E @ ''services/vrf.cgi?method=get_vrfs&workgroup_id='' @ to_str workgroupID) Inr JNull"

section \<open>The getters\<close>

interpretation getCircuit: getter E "getCircuit E ident wg" "getCircuit_url E ident wg" getCircuit_post JNull for E ident wg
  by unfold_locales (simp add: getCircuit_def)

interpretation getCircuits: getter E "getCircuits E wg"
    "path E @ ''services/circuit.cgi?method=get&workgroup_id='' @ to_str wg"
    "\<lambda>data. rbind (err_in ''error_text'' data) results" "JArr []" for E wg
  by unfold_locales (simp add: getCircuits_def)

interpretation getCircuitEvents: getter E "getCircuitEvents E ident"
    "path E @ ''services/data.cgi?method=get_circuit_scheduled_events&circuit_id='' @ to_str ident" results JNull for E ident
  by unfold_locales (simp add: getCircuitEvents_def)

interpretation getCircuitHistory: getter E "getCircuitHistory E ident"
    "path E @ ''services/data.cgi?method=get_circuit_history&circuit_id='' @ to_str ident" results JNull for E ident
  by unfold_locales (simp add: getCircuitHistory_def)

interpretation getRawCircuit: getter E "getRawCircuit E ident"
    "path E @ ''services/data.cgi?method=generate_clr&circuit_id='' @ to_str ident"
    "\<lambda>data. rbind (err_in ''error_text'' data) (\<lambda>data. rbind (results data) (\<lambda>r. jget r ''clr''))" JNull for E ident
  by unfold_locales (simp add: getRawCircuit_def)

interpretation getVRF: getter E "getVRF E wg ident"
    "path E @ ''services/vrf.cgi?method=get_vrf_details&vrf_id='' @ to_str ident @ ''&workgroup_id='' @ to_str wg"
    results0 JNull for E ident wg
  by unfold_locales (simp add: getVRF_def)

interpretation getVRFHistory: getter E "getVRFHistory E wg ident"
    "path E @ ''services/vrf.cgi?method=get_vrf_history&vrf_id='' @ to_str ident @ ''&workgroup_id='' @ to_str wg"
    results JUndef for E ident wg
  by unfold_locales (simp add: getVRFHistory_def)

interpretation getVRFs: getter E "getVRFs E wg" "path E @ ''services/vrf.cgi?method=get_vrfs&workgroup_id='' @ to_str wg"
    Inr JNull for E wg
  by unfold_locales (simp add: getVRFs_def)

section \<open>Which endpoints a VRF may have\<close>

text \<open>The rules \<^verbatim>\<open>provisionVRF\<close> enforces, stated without the loop and its counters.\<close>

definition is_ipv4 :: "jsval \<Rightarrow> bool" where
  "is_ipv4 q \<longleftrightarrow> pget (as_props q) ''ip_version'' = JStr ''ipv4''"

definition new_ipv6 :: "jsval \<Rightarrow> bool" where
  "new_ipv6 q \<longleftrightarrow> pget (as_props q) ''ip_version'' = JStr ''ipv6'' \<and> \<not> truthy (pget (as_props q) ''vrf_ep_peer_id'')"

definition one_ipv4 :: "jsval list \<Rightarrow> bool" where
  "one_ipv4 ps \<longleftrightarrow> length (filter is_ipv4 ps) = 1 \<and> length (filter (\<lambda>q. \<not> is_ipv4 q) ps) \<le> 1"

definition vrf_fault :: "props \<Rightarrow> jsval list \<Rightarrow> string option" where
  "vrf_fault ep ps =
     (let cit = pget ep ''cloud_interconnect_type'' in
      if ps = [] then Some no_peering_text
      else if cit = JStr ''azure-express-route'' \<and> list_ex new_ipv6 ps then Some azure_ipv6_text
      else if cit = JStr ''oracle-fast-connect'' \<and> \<not> one_ipv4 ps then Some oracle_text
      else if cit = JStr ''azure-express-route'' \<and> \<not> one_ipv4 ps then Some azure_text
      else None)"

fun first_fault :: "(props \<times> jsval list) list \<Rightarrow> string option" where
  "first_fault [] = None"
| "first_fault ((ep, ps) # eps) = (case vrf_fault ep ps of None \<Rightarrow> first_fault eps | Some m \<Rightarrow> Some m)"

text \<open>The object sent for an accepted endpoint.\<close>

definition vrf_object :: "props \<Rightarrow> jsval list \<Rightarrow> props" where
  "vrf_object ep ps =
     [(''vrf_endpoint_id'', pget ep ''vrf_endpoint_id''), (''bandwidth'', pget ep ''bandwidth''), (''tag'', pget ep ''tag''),
      (''jumbo'', flag (pget ep ''jumbo'')), (''peers'', JArr (map (vrf_peer \<circ> as_props) ps)),
      (''cloud_account_id'', pget ep ''cloud_account_id'')] @ gateway ep
      @ (if phas ep ''entity_id'' \<and> pget ep ''name'' = JStr ''TBD'' \<and> pget ep ''node'' = JStr ''TBD''
         then [(''entity'', pget ep ''entity'')]
         else [(''interface'', pget ep ''interface''), (''node'', pget ep ''node''), (''entity'', pget ep ''entity'')])"

lemma vrf_peers_eq:
  "list_all (\<lambda>q. \<not> is_nullish q) ps \<Longrightarrow> vrf_peers cit ps v4 v6 acc =
     (if cit = JStr ''azure-express-route'' \<and> list_ex new_ipv6 ps then Inl (Throw (JStr azure_ipv6_text))
      else Inr (v4 + length (filter is_ipv4 ps), v6 + length (filter (\<lambda>q. \<not> is_ipv4 q) ps), acc @ map (vrf_peer \<circ> as_props) ps))"
  by (induction ps arbitrary: v4 v6 acc) (auto simp: is_ipv4_def new_ipv6_def Let_def)

lemma vrf_endpoint_eq:
  assumes "pget ep ''peers'' = JArr ps" and "list_all (\<lambda>q. \<not> is_nullish q) ps"
  shows "vrf_endpoint ep = (case vrf_fault ep ps of Some m \<Rightarrow> Inl (Throw (JStr m)) | None \<Rightarrow> Inr (vrf_object ep ps))"
proof (cases "ps = []")
  case True
  with assms show ?thesis by (simp add: vrf_endpoint_def vrf_fault_def js_less_def)
next
  case False
  then have "\<not> js_less (JNum (int (length ps))) (JNum 1)" by (cases ps) (auto simp: js_less_def)
  with False show ?thesis
    by (simp add: vrf_endpoint_def assms(1) vrf_peers_eq [OF assms(2)] vrf_fault_def one_ipv4_def vrf_object_def Let_def)
qed

definition has_peers :: "props \<Rightarrow> jsval list \<Rightarrow> bool" where
  "has_peers ep ps \<longleftrightarrow> pget ep ''peers'' = JArr ps \<and> list_all (\<lambda>q. \<not> is_nullish q) ps"

lemma rmap_vrf_endpoint:
  "list_all (\<lambda>(ep, ps). has_peers ep ps) eps \<Longrightarrow> rmap vrf_endpoint (map fst eps) =
     (case first_fault eps of Some m \<Rightarrow> Inl (Throw (JStr m)) | None \<Rightarrow> Inr (map (\<lambda>x. vrf_object (fst x) (snd x)) eps))"
  by (induction eps) (auto simp: has_peers_def vrf_endpoint_eq split: option.splits)

definition vrf_request :: "env \<Rightarrow> jsval \<Rightarrow> jsval \<Rightarrow> jsval \<Rightarrow> (props \<times> jsval list) list \<Rightarrow> jsval \<Rightarrow> jsval \<Rightarrow> jsval \<Rightarrow> request" where
  "vrf_request E wg nm ds eps pt rt vid = post_request (path E @ ''services/vrf.cgi'')
     ([(''method'', ''provision''), (''name'', to_str nm), (''description'', to_str ds), (''local_asn'', ''1''),
       (''workgroup_id'', to_str wg), (''provision_time'', to_str pt), (''remove_time'', to_str rt),
       (''vrf_id'', to_str (dflt vid (JNum (- 1))))]
      @ map (\<lambda>x. (''endpoint'', json_text (JObj (vrf_object (fst x) (snd x))))) eps)"

lemma provisionVRF_eq:
  assumes "list_all (\<lambda>(ep, ps). has_peers ep ps) eps"
  shows "provisionVRF E wg nm ds (map fst eps) pt rt vid t =
    (case first_fault eps of
       Some m \<Rightarrow> (Inl (Throw (JStr m)), t)
     | None \<Rightarrow> let rq = vrf_request E wg nm ds eps pt rt vid in (rbind (serve E t rq) vrf_reply, t @ [Sent rq]))"
proof -
  have "show_int 1 = ''1''" by code_simp
  then show ?thesis
    by (auto simp: provisionVRF_def vrf_form_def rmap_vrf_endpoint [OF assms] io_bind_lift api_call_eq Let_def
        vrf_request_def comp_def simp del: json_text.simps(8) split: option.split)
qed

text \<open>Every endpoint object survives the way to the server.\<close>

definition wf_props :: "props \<Rightarrow> bool" where
  "wf_props ps \<longleftrightarrow> list_all (\<lambda>(k, v). wf_js v) ps"

lemma wf_pget: "wf_props ps \<Longrightarrow> wf_js (pget ps k)"
  by (induction ps) (auto simp: wf_props_def)

lemma wf_circuit_endpoint: "wf_props ep \<Longrightarrow> wf_js (JObj (circuit_endpoint ep))"
  by (simp add: circuit_endpoint_def gateway_def flag_def wf_pget)

lemma wf_vrf_peer: "wf_props p \<Longrightarrow> wf_js (vrf_peer p)"
  by (simp add: vrf_peer_def flag_def wf_pget)

lemma wf_as_props: "wf_js v \<Longrightarrow> wf_props (as_props v)"
  by (cases v) (auto simp: wf_props_def)

lemma wf_vrf_object:
  "wf_props ep \<Longrightarrow> list_all wf_js ps \<Longrightarrow> wf_js (JObj (vrf_object ep ps))"
  by (auto simp: vrf_object_def gateway_def flag_def wf_pget list_all_iff wf_vrf_peer wf_as_props)

lemma decode_circuit:
  "list_all wf_props eps \<Longrightarrow>
     map (\<lambda>(k, v). (k, json_parse v)) (map (\<lambda>ep. (''endpoint'', json_text (JObj (circuit_endpoint ep)))) eps) =
     map (\<lambda>ep. (''endpoint'', Inr (json_norm (JObj (circuit_endpoint ep))))) eps"
  by (induction eps) (auto simp: json_parse_text [OF wf_circuit_endpoint] simp del: json_text.simps(8) json_norm.simps(8))

lemma decode_vrf:
  "list_all (\<lambda>(ep, ps). wf_props ep \<and> list_all wf_js ps) eps \<Longrightarrow>
     map (\<lambda>(k, v). (k, json_parse v)) (map (\<lambda>x. (''endpoint'', json_text (JObj (vrf_object (fst x) (snd x))))) eps) =
     map (\<lambda>x. (''endpoint'', Inr (json_norm (JObj (vrf_object (fst x) (snd x)))))) eps"
  by (induction eps) (auto simp: json_parse_text [OF wf_vrf_object] simp del: json_text.simps(8) json_norm.simps(8))

section \<open>Properties\<close>

text \<open>
  (C1) Provisioning a VRF enforces the rules of the cloud providers before anything is
  sent.  When every endpoint has a list of peers, the call throws the message of the first
  endpoint that breaks a rule (no peering; a new IPv6 peering on Azure; on Oracle or Azure
  anything but one IPv4 peering and at most one other) and sends nothing.  When all obey,
  it sends one POST request: eight fixed fields, then for each endpoint in order a field
  that a JSON reader decodes to the object meant for it, without the undefined members;
  and its result is what the answer of the server amounts to.
\<close>

theorem provisionVRF_enforces_rules:
  assumes "list_all (\<lambda>(ep, ps). has_peers ep ps) eps"
    and "list_all (\<lambda>(ep, ps). wf_props ep \<and> list_all wf_js ps) eps"
  shows "case first_fault eps of
       Some m \<Rightarrow> provisionVRF E wg nm ds (map fst eps) pt rt vid t = (Inl (Throw (JStr m)), t)
     | None \<Rightarrow> \<exists>rq.
         provisionVRF E wg nm ds (map fst eps) pt rt vid t = (rbind (serve E t rq) vrf_reply, t @ [Sent rq]) \<and>
         rq_verb rq = POST \<and> rq_url rq = path E @ ''services/vrf.cgi'' \<and>
         take 8 (rq_form rq) =
           [(''method'', ''provision''), (''name'', to_str nm), (''description'', to_str ds), (''local_asn'', ''1''),
            (''workgroup_id'', to_str wg), (''provision_time'', to_str pt), (''remove_time'', to_str rt),
            (''vrf_id'', to_str (dflt vid (JNum (- 1))))] \<and>
         map (\<lambda>(k, v). (k, json_parse v)) (drop 8 (rq_form rq)) =
           map (\<lambda>x. (''endpoint'', Inr (json_norm (JObj (vrf_object (fst x) (snd x)))))) eps"
proof (cases "first_fault eps")
  case None
  then show ?thesis using decode_vrf [OF assms(2)]
    by (simp add: provisionVRF_eq [OF assms(1)] vrf_request_def post_request_def Let_def
        del: json_text.simps(8) json_norm.simps(8))
qed (simp add: provisionVRF_eq [OF assms(1)])

definition sample_env :: env where
  "sample_env = \<lparr>path = ''/oess/'', approval_email = [], serve = (\<lambda>t rq. Inr (JObj [])), answers = (\<lambda>t s. True)\<rparr>"

definition sample_peer :: jsval where
  "sample_peer = JObj [(''ip_version'', JStr ''ipv4''), (''peer_asn'', JStr ''64512'')]"

definition sample_endpoint :: "jsval list \<Rightarrow> props" where
  "sample_endpoint ps = [(''tag'', JNum 100), (''cloud_interconnect_type'', JStr ''oracle-fast-connect''), (''peers'', JArr ps)]"

text \<open>An Oracle endpoint with two IPv4 peerings is refused and nothing is sent.\<close>

theorem provisionVRF_enforces_rules_witness:
  "provisionVRF sample_env (JNum 1) (JStr ''n'') (JStr ''d'') [sample_endpoint [sample_peer, sample_peer]]
     (JNum (- 1)) (JNum (- 1)) (JNum (- 1)) [] = (Inl (Throw (JStr oracle_text)), [])"
  using provisionVRF_enforces_rules [of "[(sample_endpoint [sample_peer, sample_peer], [sample_peer, sample_peer])]"
      sample_env "JNum 1" "JStr ''n''" "JStr ''d''" "JNum (- 1)" "JNum (- 1)" "JNum (- 1)" "[]"]
  by (simp add: has_peers_def sample_endpoint_def sample_peer_def wf_props_def vrf_fault_def one_ipv4_def is_ipv4_def)



end
