(* ===== verification/Uri.thy ===== *)
theory Uri
  imports JSJson
begin

text \<open>
  \<^verbatim>\<open>encodeURIComponent\<close> and \<^verbatim>\<open>decodeURIComponent\<close> on strings of characters below 256: what is not
  unreserved is written as the percent-encoded bytes of its UTF-8 form, one byte below 128
  and two from there on.  Decoding throws a URIError on anything malformed, and on the
  longer forms, which stand for characters the model does not have.
\<close>

definition unreserved :: string where
  "unreserved = ''ABCDEFGHIJKLMNOPQRSTUVWXYZabcdefghijklmnopqrstuvwxyz0123456789-_.!~*'' @ [CHR 0x27] @ ''()''"

definition hex_upper :: "nat \<Rightarrow> char" where
  "hex_upper d = ''0123456789ABCDEF'' ! d"

definition pct :: "nat \<Rightarrow> string" where
  "pct b = [CHR ''%'', hex_upper (b div 16), hex_upper (b mod 16)]"

definition enc_char :: "char \<Rightarrow> string" where
  "enc_char c =
     (if c \<in> set unreserved then [c]
      else let n = of_char c :: nat in
           if n < 128 then pct n else pct (192 + n div 64) @ pct (128 + n mod 64))"

definition encodeURIComponent :: "string \<Rightarrow> string" where
  "encodeURIComponent s = concat (map enc_char s)"

text \<open>One percent-encoded byte at the front.\<close>

definition take_byte :: "string \<Rightarrow> (nat \<times> string) option" where
  "take_byte s =
     (if 3 \<le> length s \<and> hd s = CHR ''%'' \<and> is_hex (s ! 1) \<and> is_hex (s ! 2)
      then Some (read_digits 16 [s ! 1, s ! 2], drop 3 s) else None)"

lemma take_byte_length: "take_byte s = Some (b, r) \<Longrightarrow> length r < length s"
  by (auto simp: take_byte_def split: if_splits)

function decodeURIComponent :: "string \<Rightarrow> string res" where
  "decodeURIComponent [] = Inr []"
| "decodeURIComponent (c # s) =
     (if c \<noteq> CHR ''%'' then rbind (decodeURIComponent s) (\<lambda>t. Inr (c # t))
      else case take_byte (c # s) of
        None \<Rightarrow> Inl URIError
      | Some (b, r) \<Rightarrow>
          if b < 128 then rbind (decodeURIComponent r) (\<lambda>t. Inr (char_of b # t))
          else case take_byte r of
            None \<Rightarrow> Inl URIError
          | Some (b', r') \<Rightarrow>
              if (b = 194 \<or> b = 195) \<and> 128 \<le> b' \<and> b' < 192
              then rbind (decodeURIComponent r') (\<lambda>t. Inr (char_of ((b - 192) * 64 + (b' - 128)) # t))
              else Inl URIError)"
  by pat_completeness auto
termination
  by (relation "measure length") (auto dest!: take_byte_length)

section \<open>Decoding what was encoded\<close>

lemma hex_upper_props: "d < 16 \<Longrightarrow> is_hex (hex_upper d) \<and> digit_val (hex_upper d) = d"
proof -
  assume "d < 16"
  then have "d \<in> set [0..<16]" by simp
  moreover have "list_all (\<lambda>d. is_hex (hex_upper d) \<and> digit_val (hex_upper d) = d) [0..<16]" by code_simp
  ultimately show ?thesis by (simp add: list_all_iff)
qed

lemma take_byte_pct: "b < 256 \<Longrightarrow> take_byte (pct b @ r) = Some (b, r)"
proof -
  assume "b < 256"
  then have "b div 16 < 16" "b mod 16 < 16" by auto
  then show ?thesis by (simp add: take_byte_def pct_def read_digits_def hex_upper_props)
qed

lemma pct_Cons: "pct b @ r = CHR ''%'' # tl (pct b) @ r"
  by (simp add: pct_def)

lemma decode_byte: "b < 128 \<Longrightarrow> decodeURIComponent (pct b @ r) = rbind (decodeURIComponent r) (\<lambda>t. Inr (char_of b # t))"
  using take_byte_pct [of b r] unfolding pct_Cons by simp

lemma decode_bytes:
  "b = 194 \<or> b = 195 \<Longrightarrow> 128 \<le> b' \<Longrightarrow> b' < 192 \<Longrightarrow> decodeURIComponent (pct b @ pct b' @ r) =
     rbind (decodeURIComponent r) (\<lambda>t. Inr (char_of ((b - 192) * 64 + (b' - 128)) # t))"
  using take_byte_pct [of b "pct b' @ r"] take_byte_pct [of b' r] unfolding pct_Cons [of b] by auto

lemma div_64: "n < 256 \<Longrightarrow> \<not> n < 128 \<Longrightarrow> n div 64 = 2 \<or> n div 64 = (3 :: nat)"
  by auto

lemma decode_enc_char: "decodeURIComponent (enc_char c @ r) = rbind (decodeURIComponent r) (\<lambda>t. Inr (c # t))"
proof (cases "c \<in> set unreserved")
  case True
  moreover have "CHR ''%'' \<notin> set unreserved" by code_simp
  ultimately have "c \<noteq> CHR ''%''" by metis
  with True show ?thesis by (simp add: enc_char_def)
next
  case False
  let ?n = "of_char c :: nat"
  have n: "?n < 256" by simp
  show ?thesis
  proof (cases "?n < 128")
    case True
    then show ?thesis using False decode_byte [of ?n r] by (simp add: enc_char_def)
  next
    case 128: False
    have d: "?n div 64 = 2 \<or> ?n div 64 = 3" using 128 n div_64 [of ?n] by blast
    have m: "?n mod 64 < 64" by simp
    have "(192 + ?n div 64 - 192) * 64 + (128 + ?n mod 64 - 128) = ?n" by simp
    with decode_bytes [of "192 + ?n div 64" "128 + ?n mod 64" r] d m False 128 show ?thesis
      by (auto simp: enc_char_def Let_def)
  qed
qed

lemma decode_encode: "decodeURIComponent (encodeURIComponent s) = Inr s"
  unfolding encodeURIComponent_def by (induction s) (simp_all add: decode_enc_char)

text \<open>An encoded text has no separator of a URL or of a cookie.\<close>

lemma encode_chars: "c \<in> set (encodeURIComponent s) \<Longrightarrow> c \<in> set (CHR ''%'' # unreserved)"
proof -
  have u: "hex_upper d \<in> set unreserved" if "d < 16" for d
  proof -
    have "d \<in> set [0..<16]" using that by simp
    moreover have "list_all (\<lambda>d. hex_upper d \<in> set unreserved) [0..<16]" by code_simp
    ultimately show ?thesis by (simp add: list_all_iff)
  qed
  have p: "c \<in> set (pct b) \<Longrightarrow> c = CHR ''%'' \<or> c \<in> set unreserved" if "b < 256" for b
  proof -
    have "b div 16 < 16" "b mod 16 < 16" using that by auto
    then show "c \<in> set (pct b) \<Longrightarrow> c = CHR ''%'' \<or> c \<in> set unreserved" using u by (auto simp: pct_def)
  qed
  have e: "c \<in> set (enc_char x) \<Longrightarrow> c = CHR ''%'' \<or> c \<in> set unreserved" for x
  proof (cases "x \<in> set unreserved")
    case False
    let ?n = "of_char x :: nat"
    have "?n < 256" by simp
    moreover have "?n mod 64 < 64" by simp
    moreover have "?n div 64 < 4" using \<open>?n < 256\<close> by (simp add: less_mult_imp_div_less del: nat_of_char_less_256)
    ultimately have "192 + ?n div 64 < 256" "128 + ?n mod 64 < 256" by linarith+
    then show "c \<in> set (enc_char x) \<Longrightarrow> c = CHR ''%'' \<or> c \<in> set unreserved"
      using p [of ?n] p [of "192 + ?n div 64"] p [of "128 + ?n mod 64"] False \<open>?n < 256\<close>
      by (auto simp: enc_char_def Let_def split: if_splits)
  qed (simp add: enc_char_def)
  assume "c \<in> set (encodeURIComponent s)"
  then show ?thesis using e by (auto simp: encodeURIComponent_def)
qed

lemma encode_no_separator: "x \<in> set [CHR ''&'', CHR ''='', CHR '';'', CHR ''?'', CHR ''#'', CHR '' ''] \<Longrightarrow> x \<notin> set (encodeURIComponent s)"
proof -
  have "list_all (\<lambda>c. c \<notin> set (CHR ''%'' # unreserved)) [CHR ''&'', CHR ''='', CHR '';'', CHR ''?'', CHR ''#'', CHR '' '']"
    by code_simp
  then show "x \<in> set [CHR ''&'', CHR ''='', CHR '';'', CHR ''?'', CHR ''#'', CHR '' ''] \<Longrightarrow> x \<notin> set (encodeURIComponent s)"
    using encode_chars [of x s] unfolding list_all_iff by blast
qed

end
