(* ===== verification/ApiData.thy ===== *)
theory ApiData
  imports Io Uri
begin

text \<open>
  The remaining service calls of \<^verbatim>\<open>js_templates/api\<close>: access control lists, commands, configuration,
  entities, interfaces, the current user, VLANs and workgroups.
\<close>

section \<open>Access control lists (\<^verbatim>\<open>api/acl.js\<close>)\<close>

text \<open>\<open>if (data.error_text) throw ...; if (data.results.length < 1) return null;\<close> and the first result.\<close>

definition first_result :: "jsval \<Rightarrow> jsval res" where
  "first_result data =
     rbind (err_set data) (\<lambda>data.
     rbind (results data) (\<lambda>r.
     rbind (jget r ''length'') (\<lambda>n. if js_less n (JNum 1) then Inr JNull else jidx r 0)))"

definition manage_url :: "env \<Rightarrow> string" where
  "manage_url E = path E @ ''services/workgroup_manage.cgi?method=''"

definition getACL :: "env \<Rightarrow> jsval \<Rightarrow> jsval io" where
  "getACL E aclID = api_get E (manage_url E @ ''get_acls&interface_acl_id='' @ to_str aclID) first_result JNull"

definition getACLs :: "env \<Rightarrow> jsval \<Rightarrow> jsval io" where
  "getACLs E interfaceID =
     api_get E (manage_url E @ ''get_acls&interface_id='' @ to_str interfaceID)
       (\<lambda>data. rbind (err_set data) results) (JArr [])"

definition deleteACL :: "env \<Rightarrow> jsval \<Rightarrow> jsval io" where
  "deleteACL E aclID =
     api_get E (manage_url E @ ''remove_acl&interface_acl_id='' @ to_str aclID)
       (\<lambda>data. rbind (err_set data) (\<lambda>data.
        rbind (results data) (\<lambda>r.
        rbind (jget r ''length'') (\<lambda>n.
        if js_less n (JNum 1) then Inr JNull
        else rbind (jidx r 0) (\<lambda>x. rbind (jget x ''success'') (\<lambda>s. Inr (JBool (strict_eq s (JNum 1)))))))))
       (JBool False)"

definition modifyACL_url :: "env \<Rightarrow> props \<Rightarrow> string" where
  "modifyACL_url E acl =
     manage_url E @ ''update_acl&interface_acl_id='' @ to_str (pget acl ''aclID'')
     @ ''&eval_position='' @ to_str (pget acl ''position'')
     @ ''&allow_deny='' @ to_str (pget acl ''allow'')
     @ ''&start='' @ to_str (pget acl ''low'')
     @ (if phas acl ''interfaceID'' then ''&interface_id='' @ to_str (pget acl ''interfaceID'') else [])
     @ (if phas acl ''entityID'' \<and> truthy (pget acl ''entityID'') \<and> \<not> strict_eq (pget acl ''entityID'') (JNum (- 1))
        then ''&entity_id='' @ to_str (pget acl ''entityID'') else [])
     @ (if phas acl ''selectedWorkgroupID'' \<and> truthy (pget acl ''selectedWorkgroupID'')
        then ''&workgroup_id='' @ to_str (pget acl ''selectedWorkgroupID'') else [])
     @ ''&end='' @ to_str (pget acl ''high'')
     @ (if phas acl ''notes'' then ''&notes='' @ to_str (pget acl ''notes'') else [])"

definition modifyACL :: "env \<Rightarrow> props \<Rightarrow> jsval io" where
  "modifyACL E acl = api_get E (modifyACL_url E acl) first_result (JBool False)"

definition addACL_url :: "env \<Rightarrow> props \<Rightarrow> string" where
  "addACL_url E acl =
     manage_url E @ ''add_acl''
     @ ''&allow_deny='' @ to_str (pget acl ''allow'')
     @ ''&vlan_start='' @ to_str (pget acl ''low'')
     @ ''&interface_id='' @ to_str (pget acl ''interfaceID'')
     @ ''&entity_id='' @ to_str (pget acl ''entityID'')
     @ (if strict_eq (pget acl ''selectedWorkgroupID'') (JNum (- 1)) then []
        else ''&workgroup_id='' @ to_str (pget acl ''selectedWorkgroupID''))
     @ ''&vlan_end='' @ to_str (pget acl ''high'')
     @ ''&notes='' @ to_str (pget acl ''notes'')"

definition addACL :: "env \<Rightarrow> props \<Rightarrow> jsval io" where
  "addACL E acl = api_get E (addACL_url E acl) first_result (JBool False)"

section \<open>Commands and configuration (\<^verbatim>\<open>api/command.js\<close>, \<^verbatim>\<open>api/configuration.js\<close>)\<close>

definition getCommands :: "env \<Rightarrow> jsval io" where
  "getCommands E = api_get E (path E @ ''services/command.cgi?method=get_commands'') results JNull"

definition runCommand_url :: "env \<Rightarrow> jsval \<Rightarrow> jsval \<Rightarrow> props \<Rightarrow> string" where
  "runCommand_url E workgroupID commandID options =
     path E @ ''services/command.cgi?method=run_command&workgroup_id='' @ to_str workgroupID @ ''&command_id='' @ to_str commandID
     @ concat (map (\<lambda>(k, v). ''&'' @ k @ ''='' @ to_str v) options)"

definition runCommand :: "env \<Rightarrow> jsval \<Rightarrow> jsval \<Rightarrow> props \<Rightarrow> jsval io" where
  "runCommand E workgroupID commandID options =
     api_get E (runCommand_url E workgroupID commandID options) results JNull"

definition getConfiguration :: "env \<Rightarrow> jsval \<Rightarrow> jsval \<Rightarrow> jsval \<Rightarrow> jsval \<Rightarrow> jsval \<Rightarrow> jsval io" where
  "getConfiguration E workgroupId vrfEpId brand model release =
     api_get E (path E @ ''services/configuration.cgi?method=get&workgroup_id='' @ to_str workgroupId
         @ ''&vrf_ep_id='' @ to_str vrfEpId @ ''&make='' @ to_str brand @ ''&model='' @ to_str model @ ''&version='' @ to_str release)
       (\<lambda>data. rbind (err_in ''error_text'' data) results0) (JStr [])"

section \<open>Interfaces, the user, VLANs and workgroups\<close>

definition getInterfaces_url :: "env \<Rightarrow> jsval \<Rightarrow> jsval \<Rightarrow> jsval \<Rightarrow> string" where
  "getInterfaces_url E workgroupID nodeName trunk =
     path E @ ''services/data.cgi?method=get_node_interfaces&node='' @ encodeURIComponent (to_str nodeName)
     @ ''&workgroup_id='' @ to_str workgroupID @ ''&show_down=1&show_trunk='' @ to_str (dflt trunk (JNum 1))"

definition getInterfaces :: "env \<Rightarrow> jsval \<Rightarrow> jsval \<Rightarrow> jsval \<Rightarrow> jsval io" where
  "getInterfaces E workgroupID nodeName trunk =
     api_get E (getInterfaces_url E workgroupID nodeName trunk) results (JArr [])"

definition getInterfaceOptions :: "env \<Rightarrow> jsval io" where
  "getInterfaceOptions E = api_get E (path E @ ''services/interface.cgi?method=get_options'') results (JArr [])"

definition getInterfacesByWorkgroup :: "env \<Rightarrow> jsval \<Rightarrow> jsval io" where
  "getInterfacesByWorkgroup E workgroupID =
     api_get E (path E @ ''services/interface.cgi?method=get_workgroup_interfaces&workgroup_id='' @ to_str workgroupID)
       results (JArr [])"

definition getCurrentUser :: "env \<Rightarrow> jsval io" where
  "getCurrentUser E = api_get E (path E @ ''services/user.cgi?method=get_current'') results0 JNull"

text \<open>
  \<open>! vrfID == undefined\<close> compares a boolean with undefined.  The identifiers \<open>vrfId\<close> and
  \<open>circuitId\<close> the branches read are declared nowhere.
\<close>

definition getAvailableVLANs_url :: "env \<Rightarrow> jsval \<Rightarrow> jsval \<Rightarrow> jsval \<Rightarrow> jsval \<Rightarrow> string res" where
  "getAvailableVLANs_url E workgroupID interfaceID vrfID circuitID =
     (let url = path E @ ''services/interface.cgi?method=get_available_vlans&interface_id='' @ to_str interfaceID
            @ ''&workgroup_id='' @ to_str workgroupID
      in rbind (if loose_eq (JBool (\<not> truthy vrfID)) JUndef then Inl ReferenceError else Inr url) (\<lambda>url.
         if loose_eq (JBool (\<not> truthy circuitID)) JUndef then Inl ReferenceError else Inr url))"

definition getAvailableVLANs :: "env \<Rightarrow> jsval \<Rightarrow> jsval \<Rightarrow> jsval \<Rightarrow> jsval \<Rightarrow> jsval io" where
  "getAvailableVLANs E workgroupID interfaceID vrfID circuitID =
     (if strict_eq interfaceID (JNum (- 1)) then io_ret (JArr [])
      else io_bind (io_lift (getAvailableVLANs_url E workgroupID interfaceID vrfID circuitID)) (\<lambda>url.
        api_get E url (\<lambda>data. rbind (err_set data) (\<lambda>data. rbind (results data) (\<lambda>r. jget r ''available_vlans''))) (JArr [])))"

definition getWorkgroups :: "env \<Rightarrow> jsval io" where
  "getWorkgroups E = api_get E (path E @ ''services/data.cgi?method=get_workgroups'') results JNull"

definition getAllWorkgroups :: "env \<Rightarrow> jsval io" where
  "getAllWorkgroups E =
     api_get E (manage_url E @ ''get_all_workgroups'') (\<lambda>data. rbind (err_set data) results) (JArr [])"

section \<open>Entities (\<^verbatim>\<open>api/entity.js\<close>)\<close>

definition getEntities_url :: "env \<Rightarrow> jsval \<Rightarrow> jsval \<Rightarrow> jsval \<Rightarrow> string res" where
  "getEntities_url E workgroupID parentEntityID options =
     (let parent = dflt parentEntityID JNull;
          url = path E @ ''services/entity.cgi?method=get_entity&workgroup_id='' @ to_str workgroupID
            @ ''&entity_id='' @ (if strict_eq parent JNull then ''1'' else to_str parent)
      in if options = JUndef then Inr url
         else
           rbind (jget options ''vrf'') (\<lambda>vrf.
           rbind (if is_nullish vrf then Inr url
                  else rbind (jget vrf ''vrf_id'') (\<lambda>i. Inr (url @ ''&vrf_id='' @ to_str i))) (\<lambda>url.
           rbind (jget options ''circuit_id'') (\<lambda>cid.
           if is_nullish cid then Inr url
           else rbind (jget options ''circuit'') (\<lambda>c.
                rbind (jget c ''circuit_id'') (\<lambda>i. Inr (url @ ''&circuit_id='' @ to_str i)))))))"

definition getEntities :: "env \<Rightarrow> jsval \<Rightarrow> jsval \<Rightarrow> jsval \<Rightarrow> jsval io" where
  "getEntities E workgroupID parentEntityID options =
     io_bind (io_lift (getEntities_url E workgroupID parentEntityID options)) (\<lambda>url. api_get E url results (JArr []))"

definition getEntitiesAll :: "env \<Rightarrow> jsval \<Rightarrow> jsval \<Rightarrow> jsval io" where
  "getEntitiesAll E workgroupID queryString =
     api_get E (path E @ ''services/entity.cgi?method=get_entities&workgroup_id='' @ to_str workgroupID
         @ (if is_nullish (dflt queryString JNull) then [] else ''&name='' @ to_str queryString))
       results (JArr [])"

text \<open>The form fields are passed as elements; only their values are read.\<close>

definition opt_param :: "string \<Rightarrow> string \<Rightarrow> string" where
  "opt_param key v = (if v \<noteq> [] then key @ v else [])"

definition edit_entity :: "env \<Rightarrow> jsval \<Rightarrow> string \<Rightarrow> string \<Rightarrow> string \<Rightarrow> string \<Rightarrow> jsval io" where
  "edit_entity E entityID entity_name description logo_url entity_url =
     api_get E (path E @ ''services/entity.cgi?method=update_entity&entity_id='' @ to_str entityID
         @ opt_param ''&name='' entity_name @ opt_param ''&description='' description
         @ opt_param ''&logo_url='' logo_url @ opt_param ''&url='' entity_url)
       results0 JNull"

text \<open>
  The third parameter of \<open>add_entity\<close> is misspelt, so the description it reads is the global
  of that name, if there is one.
\<close>

definition add_entity :: "env \<Rightarrow> string option \<Rightarrow> jsval \<Rightarrow> string \<Rightarrow> string \<Rightarrow> string \<Rightarrow> string \<Rightarrow> jsval io" where
  "add_entity E global_description entityID entity_name desctiption logo_url entity_url =
     io_bind (getCurrentUser E) (\<lambda>user.
     io_bind (io_lift (jget user ''user_id'')) (\<lambda>uid.
     io_bind (io_lift (case global_description of None \<Rightarrow> Inl ReferenceError | Some d \<Rightarrow> Inr d)) (\<lambda>description.
     api_get E (path E @ ''services/entity.cgi?method=add_child_entity&current_entity_id='' @ to_str entityID @ ''&user_id='' @ to_str uid
         @ opt_param ''&name='' entity_name @ opt_param ''&description='' description
         @ opt_param ''&logo_url='' logo_url @ opt_param ''&url='' entity_url)
       (\<lambda>data. rbind (err_in ''error'' data) results0) JNull)))"

definition add_user :: "env \<Rightarrow> jsval \<Rightarrow> jsval \<Rightarrow> jsval io" where
  "add_user E user_id entityID =
     api_get E (path E @ ''services/entity.cgi?method=add_user&entity_id='' @ to_str entityID @ ''&user_id='' @ to_str user_id)
       (\<lambda>data. rbind (err_in ''error'' data) results0) JNull"

definition remove_user :: "env \<Rightarrow> jsval \<Rightarrow> jsval \<Rightarrow> jsval io" where
  "remove_user E user_id entityID =
     api_get E (path E @ ''services/entity.cgi?method=remove_user&entity_id='' @ to_str entityID @ ''&user_id='' @ to_str user_id)
       (\<lambda>data. rbind (err_in ''error'' data) results0) JNull"

section \<open>The getters\<close>

interpretation getACL: getter E "getACL E i" "manage_url E @ ''get_acls&interface_acl_id='' @ to_str i" first_result JNull for E i
  by unfold_locales (simp add: getACL_def)

interpretation getACLs: getter E "getACLs E i" "manage_url E @ ''get_acls&interface_id='' @ to_str i"
    "\<lambda>data. rbind (err_set data) results" "JArr []" for E i
  by unfold_locales (simp add: getACLs_def)

interpretation modifyACL: getter E "modifyACL E acl" "modifyACL_url E acl" first_result "JBool False" for E acl
  by unfold_locales (simp add: modifyACL_def)

interpretation addACL: getter E "addACL E acl" "addACL_url E acl" first_result "JBool False" for E acl
  by unfold_locales (simp add: addACL_def)

interpretation getCommands: getter E "getCommands E" "path E @ ''services/command.cgi?method=get_commands''" results JNull for E
  by unfold_locales (simp add: getCommands_def)

interpretation runCommand: getter E "runCommand E wg c opts" "runCommand_url E wg c opts" results JNull for E wg c opts
  by unfold_locales (simp add: runCommand_def)

interpretation getInterfaces: getter E "getInterfaces E wg n tr" "getInterfaces_url E wg n tr" results "JArr []" for E wg n tr
  by unfold_locales (simp add: getInterfaces_def)

interpretation getInterfaceOptions: getter E "getInterfaceOptions E"
    "path E @ ''services/interface.cgi?method=get_options''" results "JArr []" for E
  by unfold_locales (simp add: getInterfaceOptions_def)

interpretation getCurrentUser: getter E "getCurrentUser E" "path E @ ''services/user.cgi?method=get_current''" results0 JNull for E
  by unfold_locales (simp add: getCurrentUser_def)

interpretation getWorkgroups: getter E "getWorkgroups E" "path E @ ''services/data.cgi?method=get_workgroups''" results JNull for E
  by unfold_locales (simp add: getWorkgroups_def)

interpretation getAllWorkgroups: getter E "getAllWorkgroups E" "manage_url E @ ''get_all_workgroups''"
    "\<lambda>data. rbind (err_set data) results" "JArr []" for E
  by unfold_locales (simp add: getAllWorkgroups_def)

section \<open>Properties\<close>

lemma take_to_sep: "x \<notin> set s \<Longrightarrow> takeWhile (\<lambda>c. c \<noteq> x) (s @ x # r) = s"
  by (induction s) auto

text \<open>
  The node name a page asks the interfaces of reaches the server intact: the text
  after \<open>node=\<close> up to the next \<open>&\<close> of the URL decodes to the name, whatever it contains.
\<close>

theorem getInterfaces_node_roundtrip:
  "\<exists>pre rest. getInterfaces_url E wg node trunk = pre @ ''&node='' @ rest \<and>
     decodeURIComponent (takeWhile (\<lambda>c. c \<noteq> CHR ''&'') rest) = Inr (to_str node)"
proof -
  let ?rest = "encodeURIComponent (to_str node) @ CHR ''&'' # ''workgroup_id='' @ to_str wg @ ''&show_down=1&show_trunk='' @ to_str (dflt trunk (JNum 1))"
  have "takeWhile (\<lambda>c. c \<noteq> CHR ''&'') ?rest = encodeURIComponent (to_str node)"
    by (rule take_to_sep) (simp add: encode_no_separator)
  then show ?thesis unfolding getInterfaces_url_def
    by (intro exI [of _ "path E @ ''services/data.cgi?method=get_node_interfaces''"] exI [of _ ?rest])
      (simp add: decode_encode)
qed

text \<open>
  The VLANs of an interface are looked up without regard to the connection that is
  being edited: for every VRF or circuit passed, the call sends the same request and
  returns the same result as for none.
\<close>

theorem getAvailableVLANs_ignores_connection:
  "getAvailableVLANs E wg i vrf circuit = getAvailableVLANs E wg i JUndef JUndef"
  by (simp add: getAvailableVLANs_def getAvailableVLANs_url_def loose_eq_def)

end
