(* ===== verification/Session.thy ===== *)
theory Session
  imports ApiData "HOL-Library.Sublist"
begin

text \<open>
  \<^verbatim>\<open>js_templates/cookie.js\<close>, the session object kept in the browser's session storage or in a
  cookie, and \<^verbatim>\<open>js_templates/user_menu.js\<close>, which fills it from the current user.  The browser
  is a record of what the two files read: the address, the query parameters, the session
  storage and the cookie jar.
\<close>

section \<open>The browser\<close>

record browser =
  bw_href :: string
  bw_param :: "string \<Rightarrow> string option"
  bw_has_storage :: bool
  bw_store :: "string option"
  bw_cookies :: "(string \<times> string) list"

text \<open>\<open>s.split(sep)\<close> for a separator of two characters.\<close>

fun split2 :: "'a \<Rightarrow> 'a \<Rightarrow> 'a list \<Rightarrow> 'a list list" where
  "split2 a b [] = [[]]"
| "split2 a b [x] = [[x]]"
| "split2 a b (x # y # s) =
     (if x = a \<and> y = b then [] # split2 a b s
      else case split2 a b (y # s) of [] \<Rightarrow> [[x]] | z # zs \<Rightarrow> (x # z) # zs)"

text \<open>The value of \<open>document.cookie\<close>, and an assignment to it: the cookie replaces the one of the
  same name.\<close>

definition cookie_text :: "(string \<times> string) list \<Rightarrow> string" where
  "cookie_text jar = join_with ''; '' (map (\<lambda>(k, v). k @ ''='' @ v) jar)"

fun cookie_put :: "string \<Rightarrow> string \<Rightarrow> (string \<times> string) list \<Rightarrow> (string \<times> string) list" where
  "cookie_put k v [] = [(k, v)]"
| "cookie_put k v ((k', v') # jar) = (if k = k' then (k, v) # jar else (k', v') # cookie_put k v jar)"

text \<open>
  \<open>location.href.match(p)\<close> with a string or null \<open>p\<close>.  The string is the source of a regular
  expression; the identifiers it holds here contain no operator of regular expressions, so
  it matches where it occurs.
\<close>

definition href_match :: "browser \<Rightarrow> string option \<Rightarrow> bool" where
  "href_match B p = sublist (case p of None \<Rightarrow> ''null'' | Some s \<Rightarrow> s) (bw_href B)"

fun jset :: "jsval \<Rightarrow> string \<Rightarrow> jsval \<Rightarrow> jsval res" where
  "jset (JObj ps) k v = Inr (JObj (pset ps k v))"
| "jset JNull k v = Inl TypeError"
| "jset JUndef k v = Inl TypeError"
| "jset x k v = Inr x"

definition opt_str :: "string option \<Rightarrow> jsval" where
  "opt_str p = (case p of None \<Rightarrow> JNull | Some s \<Rightarrow> JStr s)"

section \<open>Cookie\<close>

definition session_text :: "jsval \<Rightarrow> string" where
  "session_text d = encodeURIComponent (case stringify d of None \<Rightarrow> ''undefined'' | Some s \<Rightarrow> s)"

definition save_store :: "jsval \<Rightarrow> browser \<Rightarrow> browser" where
  "save_store d B = B\<lparr>bw_store := Some (session_text d)\<rparr>"

definition save_cookie :: "jsval \<Rightarrow> browser \<Rightarrow> browser" where
  "save_cookie d B = B\<lparr>bw_cookies := cookie_put ''data'' (session_text d) (bw_cookies B)\<rparr>"

definition cookie_save :: "jsval \<Rightarrow> browser \<Rightarrow> browser" where
  "cookie_save d B = (if bw_has_storage B then save_store d B else save_cookie d B)"

definition load_store :: "jsval \<Rightarrow> browser \<Rightarrow> jsval res" where
  "load_store d B =
     rbind (decodeURIComponent (case bw_store B of None \<Rightarrow> ''undefined'' | Some s \<Rightarrow> s)) json_parse"

text \<open>The loop over the cookies; \<open>kvpair[1]\<close> is undefined when there is no equals sign.\<close>

fun load_cookies :: "string list \<Rightarrow> jsval \<Rightarrow> jsval res" where
  "load_cookies [] d = Inr d"
| "load_cookies (c # cs) d =
     (let kv = split_on CHR ''='' c in
      if hd kv = ''data''
      then rbind (rbind (decodeURIComponent (if 1 < length kv then kv ! 1 else ''undefined'')) json_parse) (load_cookies cs)
      else load_cookies cs d)"

definition load_cookie :: "jsval \<Rightarrow> browser \<Rightarrow> jsval res" where
  "load_cookie d B = load_cookies (split2 CHR '';'' CHR '' '' (cookie_text (bw_cookies B))) d"

definition workgroups_request :: request where
  "workgroups_request = get_request ''services/data.cgi?method=get_workgroups''"

text \<open>\<open>Cookie.load\<close>; the two lookups of the workgroup's name answer later (\<open>name_workgroup\<close>).\<close>

definition cookie_load :: "browser \<Rightarrow> jsval \<Rightarrow> jsval io" where
  "cookie_load B d =
     (let workgroup_id = bw_param B ''workgroup_id''; circuit_id = bw_param B ''circuit_id'';
          index = href_match B workgroup_id
      in io_bind (io_lift (if bw_has_storage B then load_store d B else load_cookie d B)) (\<lambda>d.
         io_bind (if index
             then io_bind (io_lift (jset d ''workgroup_id'' (opt_str workgroup_id))) (\<lambda>d.
                  io_bind (emit (Sent workgroups_request)) (\<lambda>_. io_ret d))
             else io_ret d) (\<lambda>d.
         io_bind (if href_match B circuit_id
             then io_bind (io_lift (jset d ''circuit_id'' (opt_str circuit_id))) (\<lambda>d.
                  if truthy (opt_str workgroup_id)
                  then io_bind (io_lift (jset d ''workgroup_id'' (opt_str workgroup_id))) (\<lambda>d.
                       if index then io_bind (emit (Sent workgroups_request)) (\<lambda>_. io_ret d) else io_lift (Inl TypeError))
                  else io_ret d)
             else io_ret d) (\<lambda>d.
         if truthy d then io_ret d
         else if \<not> sublist ''action=workgroups'' (bw_href B) \<and> \<not> sublist ''admin'' (bw_href B)
              then io_bind (emit (Navigate ''?action=workgroups'')) (\<lambda>_. io_ret d)
              else io_ret d))))"

text \<open>The answers to the two lookups: the first row of that workgroup.  The loops also write the
  name into the page.\<close>

fun name_workgroup :: "string \<Rightarrow> props list \<Rightarrow> props \<Rightarrow> props" where
  "name_workgroup wg [] d = d"
| "name_workgroup wg (row # rows) d =
     (if loose_eq (pget row ''workgroup_id'') (JStr wg)
      then psets d [(''workgroup_name'', pget row ''name''), (''username'', pget row ''username''),
                    (''workgroup_role'', pget row ''username'')]
      else name_workgroup wg rows d)"

fun name_workgroup2 :: "string \<Rightarrow> props list \<Rightarrow> props \<Rightarrow> props" where
  "name_workgroup2 wg [] d = d"
| "name_workgroup2 wg (row # rows) d =
     (if loose_eq (pget row ''workgroup_id'') (JStr wg)
      then psets d [(''workgroup_name'', pget row ''name''), (''username'', pget row ''username'')]
      else name_workgroup2 wg rows d)"

definition cookie_clear :: "bool \<Rightarrow> props \<Rightarrow> browser \<Rightarrow> props \<times> browser" where
  "cookie_clear workgroup_too d B =
     (let d' = (if workgroup_too then []
                else [(''workgroup_id'', pget d ''workgroup_id''), (''workgroup_name'', pget d ''workgroup_name''),
                      (''workgroup_type'', pget d ''workgroup_type''), (''workgroup_role'', pget d ''workgroup_role''),
                      (''username'', pget d ''username'')])
      in (d', cookie_save (JObj d') B))"

section \<open>User menu\<close>

record user_page =
  up_data :: props
  up_browser :: browser
  up_active :: string
  up_menu :: string

definition menu_head :: "props \<Rightarrow> string res" where
  "menu_head user =
     rbind (jidx (pget user ''usernames'') 0) (\<lambda>u. Inr (
       [CHR 0x0A] @ ''<li>'' @ [CHR 0x0A] @ ''  <a href='' @ [CHR 0x22] @ ''#'' @ [CHR 0x22] @ ''>'' @ [CHR 0x0A]
       @ ''    <b>'' @ to_str (pget user ''first_name'') @ '' '' @ to_str (pget user ''last_name'') @ ''</b><br/>'' @ [CHR 0x0A]
       @ ''    '' @ to_str u @ ''<br/>'' @ [CHR 0x0A]
       @ ''    '' @ to_str (pget user ''email'') @ [CHR 0x0A]
       @ ''  </a>'' @ [CHR 0x0A] @ ''</li>'' @ [CHR 0x0A]
       @ ''<li role='' @ [CHR 0x22] @ ''separator'' @ [CHR 0x22] @ '' class='' @ [CHR 0x22] @ ''divider'' @ [CHR 0x22] @ ''></li>'' @ [CHR 0x0A]))"

definition menu_item :: "props \<Rightarrow> string" where
  "menu_item grp = ''<li><a onclick='' @ [CHR 0x22] @ ''selectWorkgroup('' @ to_str (pget grp ''workgroup_id'') @ '')'' @ [CHR 0x22]
     @ '' href='' @ [CHR 0x22] @ ''#'' @ [CHR 0x22] @ ''>'' @ to_str (pget grp ''name'') @ ''</a></li>''"

text \<open>One round of the loop over the workgroups of the user: the session data, the text of the
  menu and the label of the active workgroup.\<close>

definition menu_group :: "jsval \<Rightarrow> props \<Rightarrow> props \<times> string \<times> string \<Rightarrow> props \<times> string \<times> string" where
  "menu_group username grp = (\<lambda>(d, html, active).
     let d1 = (if pget d ''workgroup_id'' = JUndef then pset d ''workgroup_id'' (pget grp ''workgroup_id'') else d);
         d2 = (if strict_eq (pget grp ''type'') (JStr ''admin'') then pset d1 ''isAdmin'' (JBool True) else d1);
         active' = (if loose_eq (pget d2 ''workgroup_id'') (pget grp ''workgroup_id'')
           then to_str username @ '' / '' @ to_str (pget grp ''name'') @ '' <span class='' @ [CHR 0x22] @ ''caret'' @ [CHR 0x22] @ ''></span>''
           else active)
     in (d2, html @ menu_item grp, active'))"

text \<open>\<open>loadUserMenu\<close> after the user has been fetched: the user's workgroups are an array of objects.\<close>

definition fill_menu :: "props \<Rightarrow> props list \<Rightarrow> user_page \<Rightarrow> user_page res" where
  "fill_menu user groups P =
     rbind (menu_head user) (\<lambda>html.
     rbind (jidx (pget user ''usernames'') 0) (\<lambda>u.
     let d = psets (up_data P) [(''isAdmin'', JBool False),
           (''isReadOnly'', JBool (strict_eq (pget user ''type'') (JStr ''read-only''))), (''username'', u)];
         (d', html', active') = fold (menu_group u) groups (d, html, up_active P)
     in Inr (P\<lparr>up_data := d', up_browser := cookie_save (JObj d') (up_browser P), up_active := active',
          up_menu := up_menu P @ html'\<rparr>)))"

fun as_objects :: "jsval \<Rightarrow> props list res" where
  "as_objects (JArr vs) = rmap (\<lambda>v. case v of JObj ps \<Rightarrow> Inr ps | _ \<Rightarrow> Inl TypeError) vs"
| "as_objects _ = Inl TypeError"

definition loadUserMenu :: "env \<Rightarrow> user_page \<Rightarrow> user_page io" where
  "loadUserMenu E P =
     io_bind (getCurrentUser E) (\<lambda>user.
     case user of
       JObj u \<Rightarrow> io_bind (io_lift (as_objects (pget u ''workgroups''))) (\<lambda>groups. io_lift (fill_menu u groups P))
     | _ \<Rightarrow> io_lift (Inl TypeError))"

definition selectWorkgroup :: "jsval \<Rightarrow> user_page \<Rightarrow> user_page" where
  "selectWorkgroup workgroupID P =
     (let d = pset (up_data P) ''workgroup_id'' workgroupID
      in P\<lparr>up_data := d, up_browser := cookie_save (JObj d) (up_browser P)\<rparr>)"

section \<open>The storage contract\<close>

lemma split2_clean: "a \<notin> set s \<Longrightarrow> split2 a b s = [s]"
  by (induction a b s rule: split2.induct) auto

lemma split2_append: "a \<notin> set s \<Longrightarrow> split2 a b (s @ a # b # r) = s # split2 a b r"
proof (induction s)
  case (Cons x s)
  then have "split2 a b (s @ a # b # r) = s # split2 a b r" by simp
  moreover obtain y t where "s @ a # b # r = y # t" by (cases s) auto
  ultimately show ?case using Cons.prems by auto
qed simp

lemma split2_join: "xs \<noteq> [] \<Longrightarrow> (\<And>x. x \<in> set xs \<Longrightarrow> a \<notin> set x) \<Longrightarrow> split2 a b (join_with [a, b] xs) = xs"
  by (induction "[a, b]" xs rule: join_with.induct) (auto simp: split2_clean split2_append)

definition wf_jar :: "(string \<times> string) list \<Rightarrow> bool" where
  "wf_jar jar \<longleftrightarrow> distinct (map fst jar) \<and>
     list_all (\<lambda>(k, v). CHR '';'' \<notin> set k \<and> CHR '';'' \<notin> set v \<and> CHR ''='' \<notin> set k) jar"

lemma cookie_put_keys: "fst ` set (cookie_put k v jar) = insert k (fst ` set jar)"
proof (induction jar)
  case (Cons x jar)
  then show ?case by (cases x) auto
qed simp

lemma distinct_cookie_put: "distinct (map fst jar) \<Longrightarrow> distinct (map fst (cookie_put k v jar))"
proof (induction jar)
  case (Cons x jar)
  then show ?case by (cases x) (simp add: cookie_put_keys)
qed simp

lemma set_cookie_put: "set (cookie_put k v jar) \<subseteq> insert (k, v) (set jar)"
  by (induction jar) (auto split: if_splits)

lemma map_of_cookie_put [simp]: "map_of (cookie_put k v jar) k = Some v"
  by (induction jar) auto

lemma cookie_put_nonempty [simp]: "cookie_put k v jar \<noteq> []"
  by (cases jar) (auto split: if_splits)

lemma wf_jar_put:
  "wf_jar jar \<Longrightarrow> CHR '';'' \<notin> set k \<Longrightarrow> CHR '';'' \<notin> set v \<Longrightarrow> CHR ''='' \<notin> set k \<Longrightarrow> wf_jar (cookie_put k v jar)"
  using set_cookie_put [of k v jar] by (fastforce simp: wf_jar_def distinct_cookie_put list_all_iff)

lemma load_cookies_none:
  "''data'' \<notin> fst ` set jar \<Longrightarrow> list_all (\<lambda>(k, v). CHR ''='' \<notin> set k) jar \<Longrightarrow>
   load_cookies (map (\<lambda>(k, v). k @ ''='' @ v) jar) d = Inr d"
  by (induction jar) auto

lemma load_cookies_data:
  "distinct (map fst jar) \<Longrightarrow> list_all (\<lambda>(k, v). CHR ''='' \<notin> set k) jar \<Longrightarrow> map_of jar ''data'' = Some v \<Longrightarrow>
   CHR ''='' \<notin> set v \<Longrightarrow> load_cookies (map (\<lambda>(k, v). k @ ''='' @ v) jar) d = rbind (decodeURIComponent v) json_parse"
proof (induction jar)
  case (Cons kv jar)
  obtain k w where kv: "kv = (k, w)" by (cases kv)
  show ?case
  proof (cases "k = ''data''")
    case True
    then have "w = v" "''data'' \<notin> fst ` set jar" using Cons.prems kv by auto
    moreover from this Cons.prems have "load_cookies (map (\<lambda>(k, v). k @ ''='' @ v) jar) = Inr"
      by (intro ext load_cookies_none) auto
    ultimately have "load_cookies (map (\<lambda>(k, v). k @ ''='' @ v) (kv # jar)) d =
        rbind (rbind (decodeURIComponent v) json_parse) Inr"
      using Cons.prems kv True by (simp add: Let_def)
    then show ?thesis by (cases "rbind (decodeURIComponent v) json_parse") auto
  qed (use Cons kv in auto)
qed simp

lemma session_text_loads:
  "wf_js d \<Longrightarrow> d \<noteq> JUndef \<Longrightarrow> rbind (decodeURIComponent (session_text d)) json_parse = Inr (json_norm d)"
  by (simp add: session_text_def stringify_def decode_encode json_parse_text)

locale session_storage =
  fixes save_to :: "jsval \<Rightarrow> browser \<Rightarrow> browser" and load_from :: "jsval \<Rightarrow> browser \<Rightarrow> jsval res" and ok :: "browser \<Rightarrow> bool"
  assumes save_ok: "ok B \<Longrightarrow> ok (save_to d B)"
    and load_save: "ok B \<Longrightarrow> wf_js d \<Longrightarrow> d \<noteq> JUndef \<Longrightarrow> load_from d0 (save_to d B) = Inr (json_norm d)"
begin

lemma load_save_clean: "ok B \<Longrightarrow> wf_js d \<Longrightarrow> json_clean d \<Longrightarrow> load_from d0 (save_to d B) = Inr d"
proof -
  assume "ok B" "wf_js d" and c: "json_clean d"
  moreover have "d \<noteq> JUndef" using c by auto
  ultimately show ?thesis by (simp add: load_save json_norm_clean)
qed

lemma last_save_wins:
  "ok B \<Longrightarrow> wf_js d \<Longrightarrow> d \<noteq> JUndef \<Longrightarrow> load_from d0 (save_to d (save_to d' B)) = Inr (json_norm d)"
  by (rule load_save) (rule save_ok)

end

interpretation store: session_storage save_store load_store "\<lambda>B. True"
  by unfold_locales (simp_all add: save_store_def load_store_def session_text_loads)

interpretation jar: session_storage save_cookie load_cookie "\<lambda>B. wf_jar (bw_cookies B)"
proof
  fix B :: browser and d
  assume ok: "wf_jar (bw_cookies B)"
  then show "wf_jar (bw_cookies (save_cookie d B))"
    by (simp add: save_cookie_def wf_jar_put session_text_def encode_no_separator)
next
  fix B :: browser and d d0
  assume ok: "wf_jar (bw_cookies B)" and d: "wf_js d" "d \<noteq> JUndef"
  let ?jar = "cookie_put ''data'' (session_text d) (bw_cookies B)"
  have e: "CHR '';'' \<notin> set (session_text d)" "CHR ''='' \<notin> set (session_text d)"
    by (simp_all add: session_text_def encode_no_separator)
  have wf: "wf_jar ?jar" using ok e by (simp add: wf_jar_put)
  have "split2 CHR '';'' CHR '' '' (cookie_text ?jar) = map (\<lambda>(k, v). k @ ''='' @ v) ?jar"
    unfolding cookie_text_def by (rule split2_join) (use wf in \<open>auto simp: wf_jar_def list_all_iff\<close>)
  moreover have "list_all (\<lambda>(k, v). CHR ''='' \<notin> set k) ?jar"
    using wf by (auto simp: wf_jar_def list_all_iff)
  ultimately show "load_cookie d0 (save_cookie d B) = Inr (json_norm d)"
    using wf e load_cookies_data [of ?jar "session_text d" d0] session_text_loads [OF d]
    by (simp add: load_cookie_def save_cookie_def wf_jar_def)
qed

section \<open>The user menu\<close>

lemma menu_group_simps:
  "fst (menu_group u g (d, html, a)) =
     (let d1 = (if pget d ''workgroup_id'' = JUndef then pset d ''workgroup_id'' (pget g ''workgroup_id'') else d)
      in if pget g ''type'' = JStr ''admin'' then pset d1 ''isAdmin'' (JBool True) else d1)"
  "fst (snd (menu_group u g (d, html, a))) = html @ menu_item g"
  by (simp_all add: menu_group_def Let_def)

lemma fold_menu_data:
  "list_all (\<lambda>g. pget g ''workgroup_id'' \<noteq> JUndef) gs \<Longrightarrow> fst (fold (menu_group u) gs (d, html, a)) = d' \<Longrightarrow>
     pget d' ''isAdmin'' = (if list_ex (\<lambda>g. pget g ''type'' = JStr ''admin'') gs then JBool True else pget d ''isAdmin'') \<and>
     pget d' ''workgroup_id'' = (if pget d ''workgroup_id'' = JUndef \<and> gs \<noteq> [] then pget (hd gs) ''workgroup_id'' else pget d ''workgroup_id'') \<and>
     (\<forall>k. k \<notin> {''isAdmin'', ''workgroup_id''} \<longrightarrow> pget d' k = pget d k)"
proof (induction gs arbitrary: d html a d')
  case (Cons g gs)
  obtain d1 html1 a1 where g: "menu_group u g (d, html, a) = (d1, html1, a1)" by (cases "menu_group u g (d, html, a)")
  then have d1: "d1 = fst (menu_group u g (d, html, a))" by simp
  have "fst (fold (menu_group u) gs (d1, html1, a1)) = d'" using Cons.prems g by simp
  moreover have "list_all (\<lambda>g. pget g ''workgroup_id'' \<noteq> JUndef) gs" using Cons.prems by simp
  ultimately show ?case using Cons.IH [of d1 html1 a1 d'] Cons.prems(1)
    by (auto simp: d1 menu_group_simps Let_def split: if_splits)
qed simp

lemma fold_menu_html: "fst (snd (fold (menu_group u) gs (d, html, a))) = html @ concat (map menu_item gs)"
proof (induction gs arbitrary: d html a)
  case (Cons g gs)
  obtain d1 html1 a1 where g: "menu_group u g (d, html, a) = (d1, html1, a1)" by (cases "menu_group u g (d, html, a)")
  then have "html1 = html @ menu_item g" using menu_group_simps(2) [of u g d html a] by simp
  with g Cons show ?case by simp
qed simp

lemma fill_menu_total: "jidx (pget user ''usernames'') 0 = Inr u \<Longrightarrow> \<exists>P'. fill_menu user gs P = Inr P'"
  by (simp add: fill_menu_def menu_head_def Let_def case_prod_beta)

section \<open>Properties\<close>


definition sample_browser :: browser where
  "sample_browser = \<lparr>bw_href = ''/oess/index.cgi?action=welcome'', bw_param = (\<lambda>k. None), bw_has_storage = False,
     bw_store = None, bw_cookies = [(''lang'', ''en=us'')]\<rparr>"


text \<open>
  Flushing the session keeps the workgroup and nothing else: after \<^verbatim>\<open>clear(false)\<close> the data
  has exactly the five fields of the workgroup and the user, with the values they had, and
  what a later page loads are those of them that were defined; after \<^verbatim>\<open>clear(true)\<close> it loads
  the empty object.
\<close>

theorem clear_keeps_workgroup:
  assumes "wf_jar (bw_cookies B)" and "wf_js (JObj d)" and "cookie_clear too d B = (d', B')"
  shows "load_cookie d0 (save_cookie (JObj d') B) =
      Inr (json_norm (JObj d')) \<and> load_store d0 (save_store (JObj d') B) = Inr (json_norm (JObj d')) \<and>
    B' = cookie_save (JObj d') B \<and>
    (if too then d' = [] else
      (\<forall>k. pget d' k = (if k \<in> {''workgroup_id'', ''workgroup_name'', ''workgroup_type'', ''workgroup_role'', ''username''}
         then pget d k else JUndef)))"
proof -
  have "wf_js (pget d k)" for k
    using assms(2) by (induction d) auto
  then have "wf_js (JObj d')" using assms(3) by (auto simp: cookie_clear_def Let_def split: if_splits)
  then show ?thesis using assms(1,3) jar.load_save [of B "JObj d'" d0] store.load_save [of "JObj d'" d0 B]
    by (auto simp: cookie_clear_def Let_def simp del: json_norm.simps)
qed

theorem clear_keeps_workgroup_witness:
  "load_cookie JUndef (snd (cookie_clear False [(''circuit_id'', JNum 4), (''workgroup_id'', JNum 7)] sample_browser)) =
     Inr (JObj [(''workgroup_id'', JNum 7)])"
  using clear_keeps_workgroup [of sample_browser "[(''circuit_id'', JNum 4), (''workgroup_id'', JNum 7)]" False
      "fst (cookie_clear False [(''circuit_id'', JNum 4), (''workgroup_id'', JNum 7)] sample_browser)"
      "snd (cookie_clear False [(''circuit_id'', JNum 4), (''workgroup_id'', JNum 7)] sample_browser)" JUndef]
  by (simp add: cookie_clear_def sample_browser_def wf_jar_def cookie_save_def Let_def)

text \<open>
  The user menu sets up the session from the user: the user is an administrator
  exactly when one of the workgroups is of type admin, read-only exactly when the account
  is; the selected workgroup stays, and is the first one of the user when none was
  selected; every other field keeps its value; the menu lists the workgroups in order; and
  the session is saved.
\<close>

theorem fill_menu_session:
  assumes "fill_menu user gs P = Inr P'" and "list_all (\<lambda>g. pget g ''workgroup_id'' \<noteq> JUndef) gs"
  shows "pget (up_data P') ''isAdmin'' = JBool (list_ex (\<lambda>g. pget g ''type'' = JStr ''admin'') gs) \<and>
    pget (up_data P') ''isReadOnly'' = JBool (pget user ''type'' = JStr ''read-only'') \<and>
    pget (up_data P') ''workgroup_id'' =
      (if pget (up_data P) ''workgroup_id'' = JUndef \<and> gs \<noteq> [] then pget (hd gs) ''workgroup_id''
       else pget (up_data P) ''workgroup_id'') \<and>
    (\<forall>k. k \<notin> {''isAdmin'', ''isReadOnly'', ''username'', ''workgroup_id''} \<longrightarrow> pget (up_data P') k = pget (up_data P) k) \<and>
    (\<exists>html. menu_head user = Inr html \<and> up_menu P' = up_menu P @ html @ concat (map menu_item gs)) \<and>
    up_browser P' = cookie_save (JObj (up_data P')) (up_browser P)"
proof -
  obtain html u where h: "menu_head user = Inr html" and u: "jidx (pget user ''usernames'') 0 = Inr u"
    using assms(1) by (auto simp: fill_menu_def rbind_Inr_iff)
  let ?d = "psets (up_data P) [(''isAdmin'', JBool False),
      (''isReadOnly'', JBool (pget user ''type'' = JStr ''read-only'')), (''username'', u)]"
  obtain d' html' a' where f: "fold (menu_group u) gs (?d, html, up_active P) = (d', html', a')"
    by (cases "fold (menu_group u) gs (?d, html, up_active P)")
  have "P' = P\<lparr>up_data := d', up_browser := cookie_save (JObj d') (up_browser P), up_active := a', up_menu := up_menu P @ html'\<rparr>"
    using assms(1) h u f by (simp add: fill_menu_def)
  moreover have "html' = html @ concat (map menu_item gs)" using fold_menu_html [of u gs ?d html "up_active P"] f by simp
  moreover have "fst (fold (menu_group u) gs (?d, html, up_active P)) = d'" using f by simp
  note fold_menu_data [OF assms(2) this]
  ultimately show ?thesis using h by auto
qed

theorem fill_menu_session_witness:
  "\<exists>P'. fill_menu [(''usernames'', JArr [JStr ''ada'']), (''type'', JStr ''read-only'')]
      [[(''workgroup_id'', JNum 3), (''type'', JStr ''normal'')], [(''workgroup_id'', JNum 1), (''type'', JStr ''admin'')]]
      \<lparr>up_data = [], up_browser = sample_browser, up_active = [], up_menu = []\<rparr> = Inr P' \<and>
    pget (up_data P') ''isAdmin'' = JBool True \<and> pget (up_data P') ''workgroup_id'' = JNum 3"
proof -
  let ?u = "[(''usernames'', JArr [JStr ''ada'']), (''type'', JStr ''read-only'')]"
  let ?gs = "[[(''workgroup_id'', JNum 3), (''type'', JStr ''normal'')], [(''workgroup_id'', JNum 1), (''type'', JStr ''admin'')]]"
  let ?P = "\<lparr>up_data = [], up_browser = sample_browser, up_active = [], up_menu = []\<rparr>"
  obtain P' where P': "fill_menu ?u ?gs ?P = Inr P'"
    using fill_menu_total [of ?u "JStr ''ada''" ?gs ?P] by auto
  then show ?thesis using fill_menu_session [of ?u ?gs ?P P'] by auto
qed

text \<open>
  A session that was never saved cannot be loaded: with session storage and nothing
  in it, \<^verbatim>\<open>load\<close> throws a syntax error before it looks at the address, so the redirect to
  the list of workgroups at its end is not reached.
\<close>

theorem load_fresh_session_throws:
  assumes "bw_has_storage B" and "bw_store B = None"
  shows "cookie_load B d t = (Inl SyntaxError, t)"
proof -
  have "rbind (decodeURIComponent ''undefined'') json_parse = Inl SyntaxError" by code_simp
  with assms show ?thesis by (simp add: cookie_load_def load_store_def io_bind_lift del: decodeURIComponent.simps)
qed

theorem load_fresh_session_throws_witness:
  "cookie_load (sample_browser\<lparr>bw_has_storage := True\<rparr>) (JObj []) [] = (Inl SyntaxError, [])"
  by (rule load_fresh_session_throws) (simp_all add: sample_browser_def)

end
