(* ===== verification/CircuitViews.thy ===== *)
theory CircuitViews
  imports Io
begin

text \<open>
  \<^verbatim>\<open>js_templates/component.js\<close>, \<^verbatim>\<open>js_templates/l2/circuit.js\<close> and \<^verbatim>\<open>js_templates/edit_circuit_name.js\<close>: the
  registry of components, the tables and the header of the circuit page, and the editor of
  a connection's name.  A rendered component is its HTML text; the text of a page element
  is kept as its lines, joined by newlines.
\<close>

section \<open>The registry of components\<close>

record 'c document =
  components :: "nat \<rightharpoonup> 'c"
  nextId :: nat

definition fresh_document :: "'c document" where
  "fresh_document = \<lparr>components = Map.empty, nextId = 0\<rparr>"

definition new_component :: "'c \<Rightarrow> 'c document \<Rightarrow> nat \<times> 'c document" where
  "new_component c D = (let i = Suc (nextId D) in (i, D\<lparr>nextId := i, components := (components D)(i \<mapsto> c)\<rparr>))"

fun new_components :: "'c list \<Rightarrow> 'c document \<Rightarrow> nat list \<times> 'c document" where
  "new_components [] D = ([], D)"
| "new_components (c # cs) D =
     (let (i, D1) = new_component c D; (is, D2) = new_components cs D1 in (i # is, D2))"

section \<open>The circuit page\<close>

definition html_lines :: "string list \<Rightarrow> string" where
  "html_lines ls = join_with [CHR 0x0A] ls"

definition CircuitRaw_render :: "jsval \<Rightarrow> string" where
  \<open>CircuitRaw_render raw = html_lines ['''', ''      <pre>'' @ to_str raw @ ''</pre>'', '''']\<close>

text \<open>The rows of the two tables; reading a row that is null throws.\<close>

definition event_row :: "jsval \<Rightarrow> string res" where
  \<open>event_row e =
     rbind (jget e ''fullname'') (\<lambda>u. rbind (jget e ''reason'') (\<lambda>r. rbind (jget e ''activated'') (\<lambda>a.
       Inr (''<tr><td>'' @ to_str u @ ''</td><td>'' @ to_str r @ ''</td><td>'' @ to_str a @ ''</td></tr>''))))\<close>

fun elements :: "jsval \<Rightarrow> jsval list res" where
  "elements (JArr vs) = Inr vs"
| "elements JNull = Inl TypeError"
| "elements JUndef = Inl TypeError"
| "elements _ = Inr []"

definition rows :: "jsval \<Rightarrow> string res" where
  "rows es = rbind (elements es) (\<lambda>vs. rbind (rmap event_row vs) (\<lambda>ts. Inr (concat ts)))"

definition CircuitEvents_render :: "jsval \<Rightarrow> string res" where
  \<open>CircuitEvents_render events =
     rbind (rows events) (\<lambda>eventRows. Inr (html_lines ['''',
       ''      <table align="left" class="table table-condensed">'',
       ''        <thead style="font-weight: bold">'',
       ''          <tr><th>User</th><th>Event</th><th>Start Date / Time</th><th>End Date / Time</th></tr>'',
       ''        </thead>'',
       ''        <tbody>'' @ eventRows @ ''</tbody>'',
       ''      </table>'', '''']))\<close>

definition CircuitHistory_render :: "jsval \<Rightarrow> string res" where
  \<open>CircuitHistory_render history =
     rbind (rows (if loose_eq history JNull then JArr [] else history)) (\<lambda>historyRows. Inr (html_lines ['''',
       ''      <table align="left" class="table table-condensed">'',
       ''        <thead style="font-weight: bold">'',
       ''          <tr><th>User</th><th>Event</th><th>Date / Time</th></tr>'',
       ''        </thead>'',
       ''        <tbody>'' @ historyRows @ ''</tbody>'',
       ''      </table>'', '''']))\<close>

text \<open>
  A row of the history of a VRF.  How the browser writes a date is the argument \<open>when\<close>; the
  link is made for resources of type \<open>l3connection\<close> only, other types have no link function.
\<close>

definition resource_row :: "(jsval \<Rightarrow> string) \<Rightarrow> jsval \<Rightarrow> string res" where
  \<open>resource_row when h =
     rbind (jget h ''object'') (\<lambda>ob.
     rbind (if ob = JUndef then Inl SyntaxError else rbind (json_parse (json_text ob)) (\<lambda>ob.
            rbind (jget h ''type'') (\<lambda>ty.
            if to_str ty = ''l3connection'' then rbind (json_parse (to_str ob)) (\<lambda>d. jget d ''vrf_id'') else Inl TypeError))) (\<lambda>vrf.
     Inr (html_lines ['''',
       ''        <tr class="table-hover">'',
       ''          <td>'' @ to_str (pget (case h of JObj ps \<Rightarrow> ps | _ \<Rightarrow> []) ''full_name'') @ ''</td>'',
       ''          <td><a href="index.cgi?action=modify_cloud&vrf_id='' @ to_str vrf @ ''"><code>''
          @ to_str (pget (case h of JObj ps \<Rightarrow> ps | _ \<Rightarrow> []) ''resource_id'') @ ''</code></a></td>'',
       ''          <td>'' @ to_str (pget (case h of JObj ps \<Rightarrow> ps | _ \<Rightarrow> []) ''event'') @ ''</td>'',
       ''          <td>l3connection</td>'',
       ''          <td>'' @ when (pget (case h of JObj ps \<Rightarrow> ps | _ \<Rightarrow> []) ''date'') @ ''</td>'',
       ''        </tr>'', ''      ''])))\<close>

definition ResourceHistoryTable_render :: "(jsval \<Rightarrow> string) \<Rightarrow> jsval \<Rightarrow> string res" where
  \<open>ResourceHistoryTable_render when history =
     rbind (elements (if loose_eq history JNull then JArr [] else history)) (\<lambda>hs.
     rbind (rmap (resource_row when) hs) (\<lambda>ts. Inr (html_lines ['''',
       ''      <table class="table table-hover" style="margin-top: 2em">'',
       ''        <thead style="font-weight: bold">'',
       ''          <tr><th>User</th><th>Resource ID</th><th>Event</th><th>Type</th><th>Date / Time</th></tr>'',
       ''        </thead>'',
       ''        <tbody>'',
       ''          '' @ concat ts,
       ''        </tbody>'',
       ''      </table>'', ''    ''])))\<close>

definition detail_line :: "string \<Rightarrow> jsval \<Rightarrow> string list" where
  \<open>detail_line label v =
     [''        <div class="form-group">'',
      ''          <label class="col-sm-3 control-label">'' @ label @ ''</label>'',
      ''          <div class="col-sm-9"><p class="form-control-static">'' @ to_str v @ ''</p></div>'',
      ''        </div>'']\<close>

definition CircuitDetails_render :: "props \<Rightarrow> string res" where
  \<open>CircuitDetails_render c =
     rbind (jget (pget c ''created_by'') ''email'') (\<lambda>cb.
     rbind (jget (pget c ''last_modified_by'') ''email'') (\<lambda>mb.
     Inr (html_lines (['''', ''      <div class="form-horizontal">'']
       @ detail_line ''Status'' (pget c ''state'')
       @ detail_line ''Created on'' (pget c ''created_on'')
       @ detail_line ''Created by'' cb
       @ detail_line ''Modified on'' (pget c ''last_modified_on'')
       @ detail_line ''Modified by'' mb
       @ [''      </div>'', '''']))))\<close>

text \<open>The header: what it shows and whether the save and delete buttons are visible.\<close>

record header_view =
  hd_description :: string
  hd_id :: string
  hd_name :: string
  hd_edits :: string

definition CircuitHeader_render :: "props \<Rightarrow> header_view" where
  "CircuitHeader_render ps = \<lparr>
     hd_description = to_str (pget ps ''description''),
     hd_id = to_str (pget ps ''connectionId''),
     hd_name = to_str (pget ps ''name''),
     hd_edits = (if truthy (pget ps ''editable'') then ''inline-block'' else ''none'')\<rparr>"

section \<open>The editor of the name\<close>

text \<open>
  The element \<open>#header-description\<close>: it shows a text, or an input field below a label.  The
  model covers names without markup, whose text content is the name.
\<close>

datatype name_view = Showing string | Editing string string

record name_editor =
  ne_view :: name_view
  ne_button :: string
  ne_change_hidden :: bool

definition edit_label :: string where
  "edit_label = ''new name input: ''"

text \<open>\<open>document.querySelector('#header-description').textContent\<close>, which the pages save.\<close>

fun text_content :: "name_view \<Rightarrow> string" where
  "text_content (Showing s) = s"
| "text_content (Editing placeholder input) =
     [CHR 0x0A] @ replicate 16 (CHR '' '') @ edit_label @ '' '' @ [CHR 0x0A] @ replicate 16 (CHR '' '') @ [CHR 0x0A] @ replicate 12 (CHR '' '')"

definition doneEditingName :: "string \<Rightarrow> name_editor \<Rightarrow> name_editor" where
  "doneEditingName name N = N\<lparr>ne_view := Showing (name @ '' ''), ne_change_hidden := True, ne_button := ''Edit Name''\<rparr>"

definition entered_name :: "string \<Rightarrow> string \<Rightarrow> string" where
  "entered_name default_name input = (if input = [] then default_name else input)"

text \<open>The buttons and the Enter key; without an input field the change button throws.\<close>

definition change_click :: "string \<Rightarrow> name_editor \<Rightarrow> name_editor res" where
  "change_click default_name N = (case ne_view N of
     Editing ph input \<Rightarrow> Inr (doneEditingName (entered_name default_name input) N)
   | Showing s \<Rightarrow> Inl TypeError)"

definition edit_click :: "string \<Rightarrow> name_editor \<Rightarrow> name_editor" where
  "edit_click default_name N =
     (if trim (ne_button N) = ''Edit Name''
      then N\<lparr>ne_view := Editing (text_content (ne_view N)) [], ne_button := ''Revert'', ne_change_hidden := False\<rparr>
      else doneEditingName default_name N)"

definition name_keyup :: "string \<Rightarrow> nat \<Rightarrow> name_editor \<Rightarrow> name_editor res" where
  "name_keyup default_name key N = (if key = 13 then change_click default_name N else Inr N)"

definition type_name :: "string \<Rightarrow> name_editor \<Rightarrow> name_editor" where
  "type_name s N = (case ne_view N of Editing ph _ \<Rightarrow> N\<lparr>ne_view := Editing ph s\<rparr> | Showing _ \<Rightarrow> N)"

section \<open>Facts\<close>

lemma new_components_ids:
  "new_components cs D = (is, D') \<Longrightarrow> is = [Suc (nextId D)..<Suc (nextId D + length cs)] \<and> nextId D' = nextId D + length cs"
proof (induction cs arbitrary: D "is" D')
  case (Cons c cs)
  obtain js D2 where r: "new_components cs (snd (new_component c D)) = (js, D2)"
    by (cases "new_components cs (snd (new_component c D))")
  then have d: "is = Suc (nextId D) # js" "D' = D2" using Cons.prems by (auto simp: new_component_def Let_def)
  have "nextId (snd (new_component c D)) = Suc (nextId D)" by (simp add: new_component_def Let_def)
  with Cons.IH [OF r] d show ?case by (auto simp: upt_rec)
qed simp

lemma new_components_lookup:
  "new_components cs D = (is, D') \<Longrightarrow> components D' i =
     (if nextId D < i \<and> i \<le> nextId D + length cs then Some (cs ! (i - Suc (nextId D))) else components D i)"
proof (induction cs arbitrary: D "is" D')
  case (Cons c cs)
  obtain js D2 where r: "new_components cs (snd (new_component c D)) = (js, D2)"
    by (cases "new_components cs (snd (new_component c D))")
  then have d: "D' = D2" using Cons.prems by (auto simp: new_component_def Let_def)
  have n: "nextId (snd (new_component c D)) = Suc (nextId D)"
    "components (snd (new_component c D)) = (components D)(Suc (nextId D) \<mapsto> c)"
    by (simp_all add: new_component_def Let_def)
  show ?case unfolding d Cons.IH [OF r] n by (auto simp: nth_Cons' Suc_diff_Suc)
qed auto

section \<open>Properties\<close>

text \<open>
  Components are registered under distinct ids: creating any sequence of components
  on a fresh page numbers them 1, 2, 3 and so on, and each id finds its component.
\<close>

theorem component_ids:
  assumes "new_components cs fresh_document = (is, D)"
  shows "is = [1..<Suc (length cs)] \<and> distinct is \<and> (\<forall>k < length cs. components D (is ! k) = Some (cs ! k))"
proof -
  have i: "is = [1..<Suc (length cs)]" using new_components_ids [OF assms] by (simp add: fresh_document_def)
  have "components D (is ! k) = Some (cs ! k)" if "k < length cs" for k
  proof -
    have "is ! k = Suc k" using that unfolding i by (subst nth_upt) auto
    with that show ?thesis using new_components_lookup [OF assms, of "Suc k"] by (simp add: fresh_document_def)
  qed
  with i show ?thesis by simp
qed

theorem component_ids_witness:
  "\<exists>D. new_components [CHR ''a'', CHR ''b''] fresh_document = ([1, 2], D) \<and> components D 2 = Some (CHR ''b'')"
proof -
  obtain "is" D where r: "new_components [CHR ''a'', CHR ''b''] fresh_document = (is, D)" by (cases "new_components [CHR ''a'', CHR ''b''] fresh_document")
  note component_ids [OF r]
  then have "is = [1, 2] \<and> components D (is ! 1) = Some (CHR ''b'')" by (auto simp: upt_rec)
  with r show ?thesis by auto
qed

text \<open>
  What the page saves as the name after an edit: entering a new name and confirming
  it, with the button or with Enter, leaves the new name, followed by a blank, as the text
  of the header; an empty entry and a revert leave the old name followed by a blank; and
  as long as the field is open the text is that of the label, whatever was typed.
\<close>

theorem edited_name_text:
  fixes typed name :: string
  assumes "trim (ne_button N) = ''Edit Name''" and "ne_view N = Showing old"
  defines "M \<equiv> type_name typed (edit_click name N)"
  shows "(\<exists>M'. change_click name M = Inr M' \<and> name_keyup name 13 M = Inr M' \<and>
        text_content (ne_view M') = (if typed = [] then name else typed) @ '' '' \<and> ne_button M' = ''Edit Name'') \<and>
      text_content (ne_view (edit_click name M)) = name @ '' '' \<and>
      trim (text_content (ne_view M)) = ''new name input:''"
proof -
  have t: "trim ''Revert'' \<noteq> ''Edit Name''" by code_simp
  have l: "trim (text_content (Editing old typed)) = ''new name input:''" by code_simp
  show ?thesis using assms(1,2) t l
    by (simp add: M_def edit_click_def type_name_def change_click_def name_keyup_def doneEditingName_def entered_name_def
        del: text_content.simps(2))
qed

theorem edited_name_text_witness:
  "\<exists>M'. change_click ''old'' (type_name ''new'' (edit_click ''old''
       \<lparr>ne_view = Showing ''old'', ne_button = '' Edit Name'', ne_change_hidden = True\<rparr>)) = Inr M' \<and>
     text_content (ne_view M') = ''new ''"
proof -
  have "trim '' Edit Name'' = ''Edit Name''" by code_simp
  then show ?thesis
    using edited_name_text [of "\<lparr>ne_view = Showing ''old'', ne_button = '' Edit Name'', ne_change_hidden = True\<rparr>" "''old''" "''old''" "''new''"]
    by auto
qed

text \<open>
  A failed lookup of the scheduled events breaks the page: their table throws on the
  null the lookup returns then, while the table of the history treats null as empty.
\<close>

lemma events_null_throws:
  "CircuitEvents_render JNull = Inl TypeError \<and> CircuitHistory_render JNull = CircuitHistory_render (JArr [])"
  by (simp add: CircuitEvents_render_def CircuitHistory_render_def rows_def loose_eq_def)

end
