(* ===== verification/EndpointCards.thy ===== *)
theory EndpointCards
  imports Io
begin

text \<open>
  What the pages show of an endpoint and of a peering: \<^verbatim>\<open>l2/endpoint.js\<close> (\<^verbatim>\<open>NewEndpoint\<close>),
  \<^verbatim>\<open>l3/endpoint.js\<close> (\<^verbatim>\<open>Endpoint2\<close>) and \<^verbatim>\<open>l3/peering.js\<close> (\<^verbatim>\<open>Peering2\<close>).  A card is the record of the
  texts and displays the constructors put into the template; its buttons refer to the
  endpoint object itself (\<open>EndpointStore\<close>).
\<close>

section \<open>Texts\<close>

definition dquote :: string where "dquote = [CHR 0x22]"

definition approval_html :: "env \<Rightarrow> string" where
  "approval_html E = ''This endpoint is pending approval. Please contact <a href='' @ dquote @ ''mailto: '' @ approval_email E @ dquote @ ''>''
     @ approval_email E @ ''</a> for additional information.''"

definition bandwidth_text :: "jsval \<Rightarrow> string" where
  "bandwidth_text b = (if loose_eq b JNull \<or> loose_eq b (JNum 0) then ''Unlimited'' else to_str b @ '' Mb/s'')"

definition mtu_text :: "props \<Rightarrow> string" where
  "mtu_text ep = (if phas ep ''mtu'' then html_of (pget ep ''mtu'')
     else if truthy (pget ep ''jumbo'') then ''Jumbo'' else ''Standard'')"

definition single_tagged :: "props \<Rightarrow> bool" where
  "single_tagged ep = (pget ep ''inner_tag'' = JUndef \<or> strict_eq (pget ep ''inner_tag'') JNull \<or> strict_eq (pget ep ''inner_tag'') (JStr []))"

section \<open>Layer 2\<close>

record l2_card =
  l2_warning :: "string option"
  l2_entity :: string
  l2_node :: string
  l2_interface :: string
  l2_description :: string
  l2_tag :: string
  l2_inner_tag :: string
  l2_bandwidth :: string
  l2_graph :: string
  l2_mtu :: string
  l2_d1q :: bool
  l2_qnq :: bool
  l2_buttons :: bool

definition NewEndpoint :: "env \<Rightarrow> string \<Rightarrow> props \<Rightarrow> l2_card" where
  "NewEndpoint E g_l2_port ep = \<lparr>
     l2_warning = (if loose_eq (pget ep ''state'') (JStr ''in-review'') then Some (approval_html E) else None),
     l2_entity = html_of (js_or (pget ep ''entity'') (JStr ''NA'')),
     l2_node = html_of (pget ep ''node''),
     l2_interface = html_of (pget ep ''interface''),
     l2_description = html_of (pget ep ''description''),
     l2_tag = html_of (pget ep ''tag''),
     l2_inner_tag = html_of (js_or (pget ep ''inner_tag'') JNull),
     l2_bandwidth = bandwidth_text (pget ep ''bandwidth''),
     l2_graph = g_l2_port @ ''&from=now-1h&to=now&var-node='' @ to_str (pget ep ''node'') @ ''&var-interface=''
       @ to_str (pget ep ''interface'') @ ''.'' @ to_str (pget ep ''tag'') @ ''&refresh=30s'',
     l2_mtu = mtu_text ep,
     l2_d1q = single_tagged ep,
     l2_qnq = (\<not> single_tagged ep),
     l2_buttons = truthy (pget ep ''editable'')\<rparr>"

section \<open>Layer 3\<close>

record l3_card =
  l3_index :: jsval
  l3_warning :: "string option"
  l3_entity :: string
  l3_node :: string
  l3_interface :: string
  l3_description :: string
  l3_tag :: string
  l3_inner_tag :: string
  l3_bandwidth :: string
  l3_mtu :: string
  l3_d1q :: bool
  l3_qnq :: bool
  l3_buttons :: bool
  l3_add_peering :: bool

definition Endpoint2 :: "env \<Rightarrow> props \<Rightarrow> l3_card" where
  "Endpoint2 E ep = \<lparr>
     l3_index = pget ep ''index'',
     l3_warning = (if loose_eq (pget ep ''state'') (JStr ''in-review'') then Some (approval_html E) else None),
     l3_entity = html_of (js_or (pget ep ''entity'') (JStr ''NA'')),
     l3_node = html_of (pget ep ''node''),
     l3_interface = html_of (pget ep ''interface''),
     l3_description = html_of (pget ep ''description''),
     l3_tag = html_of (pget ep ''tag''),
     l3_inner_tag = html_of (js_or (pget ep ''inner_tag'') JNull),
     l3_bandwidth = bandwidth_text (pget ep ''bandwidth''),
     l3_mtu = mtu_text ep,
     l3_d1q = single_tagged ep,
     l3_qnq = (\<not> single_tagged ep),
     l3_buttons = truthy (pget ep ''editable''),
     l3_add_peering = truthy (pget ep ''editable'')\<rparr>"

datatype arrow = ArrowUp | ArrowDown | Question

record peering_card =
  pc_index :: jsval
  pc_endpoint :: jsval
  pc_state :: arrow
  pc_version :: string
  pc_asn :: string
  pc_peer_ip :: string
  pc_key :: string
  pc_oess_ip :: string
  pc_bfd :: string
  pc_delete :: bool

definition peering_key :: "props \<Rightarrow> jsval" where
  "peering_key p =
     (let key = (if truthy (pget p ''isPeeringAutoGenerated'') then JStr ''*****'' else pget p ''md5_key'')
      in if strict_eq key JNull \<or> strict_eq key (JStr []) then JStr ''(unauthenticated)'' else key)"

definition Peering2 :: "props \<Rightarrow> peering_card" where
  "Peering2 p = \<lparr>
     pc_index = pget p ''index'',
     pc_endpoint = pget p ''endpointIndex'',
     pc_state = (if strict_eq (pget p ''operational_state'') (JStr ''up'') then ArrowUp
                 else if strict_eq (pget p ''operational_state'') (JStr ''down'') then ArrowDown else Question),
     pc_version = (if loose_eq (pget p ''ip_version'') (JStr ''ipv4'') then ''IPv4'' else ''IPv6''),
     pc_asn = html_of (pget p ''peer_asn''),
     pc_peer_ip = html_of (pget p ''peer_ip''),
     pc_key = html_of (peering_key p),
     pc_oess_ip = html_of (pget p ''local_ip''),
     pc_bfd = (if truthy (pget p ''bfd'') then ''enabled'' else ''disabled''),
     pc_delete = truthy (pget p ''editable'')\<rparr>"

section \<open>Properties\<close>

text \<open>
  The key of a peering that the cloud provider generates is never put into the page:
  two such peerings that differ in the key only have the same card.
\<close>

theorem generated_key_hidden:
  assumes "truthy (pget p ''isPeeringAutoGenerated'')"
  shows "Peering2 (pset p ''md5_key'' k) = Peering2 p \<and> pc_key (Peering2 p) = ''*****''"
  using assms by (simp add: Peering2_def peering_key_def html_of_def)

theorem generated_key_hidden_witness:
  "pc_key (Peering2 [(''md5_key'', JStr ''secret''), (''isPeeringAutoGenerated'', JBool True)]) = ''*****''"
  using generated_key_hidden [of "[(''md5_key'', JStr ''secret''), (''isPeeringAutoGenerated'', JBool True)]"] by simp

end
