(* ===== verification/EndpointStore.thy ===== *)
theory EndpointStore
  imports Io
begin

text \<open>
  The endpoint list the four provisioning pages keep (\<^verbatim>\<open>GlobalState\<close> of \<^verbatim>\<open>provision_l2vpn.js\<close>,
  \<^verbatim>\<open>modify_l2vpn.js\<close>, \<^verbatim>\<open>provision_cloud.js\<close> and \<^verbatim>\<open>modify_cloud.js\<close>).  The endpoints are objects that
  the list, the cards and the selection dialog share, and the pages change them in place,
  so the model has an explicit store: the list holds addresses into it.  A position of the
  array that was never assigned is \<open>None\<close>; \<^verbatim>\<open>map\<close> and \<^verbatim>\<open>forEach\<close> skip it.  The pages differ in what
  they write into an endpoint when they redraw, which is the argument \<open>mark\<close> of the
  operations, and the locale \<open>endpoint_page\<close> states what they have in common.
\<close>

section \<open>Objects and the list\<close>

record page =
  objs :: "props list"
  eps :: "nat option list"

definition obj :: "'a page_scheme \<Rightarrow> nat \<Rightarrow> props" where
  "obj P a = (if a < length (objs P) then objs P ! a else [])"

definition put_obj :: "nat \<Rightarrow> props \<Rightarrow> 'a page_scheme \<Rightarrow> 'a page_scheme" where
  "put_obj a ps P = P\<lparr>objs := (objs P)[a := ps]\<rparr>"

definition alloc :: "props \<Rightarrow> 'a page_scheme \<Rightarrow> nat \<times> 'a page_scheme" where
  "alloc ps P = (length (objs P), P\<lparr>objs := objs P @ [ps]\<rparr>)"

text \<open>The endpoint objects in order, as \<^verbatim>\<open>forEach\<close> visits them.\<close>

fun present :: "'b option list \<Rightarrow> 'b list" where
  "present [] = []"
| "present (None # xs) = present xs"
| "present (Some x # xs) = x # present xs"

definition endpoint_objs :: "'a page_scheme \<Rightarrow> props list" where
  "endpoint_objs P = map (obj P) (present (eps P))"

text \<open>\<open>xs[i] = x\<close> and \<open>xs.splice(v, 1)\<close>.\<close>

definition array_set :: "'b option list \<Rightarrow> nat \<Rightarrow> 'b \<Rightarrow> 'b option list" where
  "array_set xs i x = (if i < length xs then xs[i := Some x] else xs @ replicate (i - length xs) None @ [Some x])"

definition splice_start :: "jsval \<Rightarrow> nat \<Rightarrow> nat" where
  "splice_start v n = (case to_num v of
     JNum i \<Rightarrow> if i < 0 then nat (max 0 (int n + i)) else min (nat i) n | _ \<Rightarrow> 0)"

definition splice1 :: "jsval \<Rightarrow> 'b list \<Rightarrow> 'b list" where
  "splice1 v xs = remove_at (splice_start v (length xs)) xs"

section \<open>Operations\<close>

text \<open>The loop of \<^verbatim>\<open>update\<close> over the list.\<close>

fun reindex :: "(nat \<Rightarrow> props \<Rightarrow> props) \<Rightarrow> nat \<Rightarrow> nat option list \<Rightarrow> props list \<Rightarrow> props list" where
  "reindex mark i [] h = h"
| "reindex mark i (None # xs) h = reindex mark (Suc i) xs h"
| "reindex mark i (Some a # xs) h = reindex mark (Suc i) xs (h[a := mark i (h ! a)])"

definition redraw :: "(nat \<Rightarrow> props \<Rightarrow> props) \<Rightarrow> 'a page_scheme \<Rightarrow> 'a page_scheme" where
  "redraw mark P = P\<lparr>objs := reindex mark 0 (eps P) (objs P)\<rparr>"

definition store_endpoint :: "nat \<Rightarrow> 'a page_scheme \<Rightarrow> 'a page_scheme" where
  "store_endpoint a P =
     (let idx = pget (obj P a) ''index'' in
      if js_less idx (JNum 0) then P\<lparr>eps := eps P @ [Some a]\<rparr>
      else case idx of JNum i \<Rightarrow> P\<lparr>eps := array_set (eps P) (nat i) a\<rparr> | _ \<Rightarrow> P)"

definition update_endpoint :: "(nat \<Rightarrow> props \<Rightarrow> props) \<Rightarrow> nat \<Rightarrow> 'a page_scheme \<Rightarrow> 'a page_scheme" where
  "update_endpoint mark a P = redraw mark (store_endpoint a P)"

definition delete_endpoint :: "(nat \<Rightarrow> props \<Rightarrow> props) \<Rightarrow> jsval \<Rightarrow> 'a page_scheme \<Rightarrow> 'a page_scheme" where
  "delete_endpoint mark i P = redraw mark (P\<lparr>eps := splice1 i (eps P)\<rparr>)"

text \<open>The invariant: the list holds distinct objects, without gaps, and each knows its place.\<close>

definition wf_page :: "'a page_scheme \<Rightarrow> bool" where
  "wf_page P \<longleftrightarrow> None \<notin> set (eps P) \<and> distinct (eps P) \<and> (\<forall>a. Some a \<in> set (eps P) \<longrightarrow> a < length (objs P))"

definition indexed :: "'a page_scheme \<Rightarrow> bool" where
  "indexed P \<longleftrightarrow> (\<forall>i a. i < length (eps P) \<longrightarrow> eps P ! i = Some a \<longrightarrow> pget (obj P a) ''index'' = JNum (int i))"

text \<open>
  The specification of the list: a list of endpoints, each seen through a \<open>view\<close> that leaves
  out what the page manages itself; \<open>ep_fields\<close> is the view that hides a set of fields.
\<close>

definition ep_fields :: "string set \<Rightarrow> props \<Rightarrow> string \<Rightarrow> jsval" where
  "ep_fields managed ep k = (if k \<in> managed then JUndef else pget ep k)"

definition endpoint_views :: "(props \<Rightarrow> 'v) \<Rightarrow> 'a page_scheme \<Rightarrow> 'v list" where
  "endpoint_views view P = map view (endpoint_objs P)"

section \<open>Laws of the operations\<close>

lemma length_reindex [simp]: "length (reindex mark i xs h) = length h"
  by (induction mark i xs h rule: reindex.induct) auto

lemma reindex_other: "Some a \<notin> set xs \<Longrightarrow> reindex mark i xs h ! a = h ! a"
  by (induction mark i xs h rule: reindex.induct) (auto simp: nth_list_update)

lemma reindex_at:
  "distinct (filter (\<lambda>x. x \<noteq> None) xs) \<Longrightarrow> k < length xs \<Longrightarrow> xs ! k = Some a \<Longrightarrow> a < length h \<Longrightarrow>
   reindex mark i xs h ! a = mark (i + k) (h ! a)"
proof (induction mark i xs h arbitrary: k rule: reindex.induct)
  case (2 mark i xs h)
  then show ?case by (cases k) auto
next
  case (3 mark i b xs h)
  show ?case
  proof (cases k)
    case 0
    then have "a = b" "Some a \<notin> set xs" using 3 by auto
    with 0 3 show ?thesis by (simp add: reindex_other)
  next
    case (Suc j)
    then have "Some a \<in> set xs" using 3(3,4) by (auto simp: in_set_conv_nth)
    then have "a \<noteq> b" using 3 by auto
    with Suc 3 show ?thesis by auto
  qed
qed simp

lemma redraw_simps [simp]: "eps (redraw mark P) = eps P" "length (objs (redraw mark P)) = length (objs P)"
  by (simp_all add: redraw_def)

lemma wf_redraw [simp]: "wf_page (redraw mark P) = wf_page P"
  by (simp add: wf_page_def)

lemma obj_redraw_in:
  assumes "wf_page P" and "i < length (eps P)" and "eps P ! i = Some a"
  shows "obj (redraw mark P) a = mark i (obj P a)"
proof -
  have "a < length (objs P)" using assms by (auto simp: wf_page_def dest: nth_mem [of i "eps P"])
  moreover have "distinct (filter (\<lambda>x. x \<noteq> None) (eps P))" using assms by (simp add: wf_page_def)
  ultimately show ?thesis using reindex_at [of "eps P" i a "objs P" mark 0] assms
    by (simp add: obj_def redraw_def)
qed

lemma obj_redraw_out: "Some a \<notin> set (eps P) \<Longrightarrow> obj (redraw mark P) a = obj P a"
  by (simp add: obj_def redraw_def reindex_other)

lemma present_all: "None \<notin> set xs \<Longrightarrow> map Some (present xs) = xs"
  by (induction xs rule: present.induct) auto

lemma present_append: "present (xs @ ys) = present xs @ present ys"
  by (induction xs rule: present.induct) auto

lemma present_Some [simp]: "present (map Some xs) = xs"
  by (induction xs) auto

lemma length_present: "None \<notin> set xs \<Longrightarrow> length (present xs) = length xs"
  by (metis length_map present_all)

lemma nth_present: "None \<notin> set xs \<Longrightarrow> i < length xs \<Longrightarrow> xs ! i = Some (present xs ! i)"
  by (metis length_map nth_map present_all)

lemma eps_valid: "wf_page P \<Longrightarrow> i < length (eps P) \<Longrightarrow> eps P ! i = Some a \<Longrightarrow> a < length (objs P)"
  unfolding wf_page_def by (metis nth_mem)

lemma obj_list: "wf_page P \<Longrightarrow> endpoint_objs P = map (\<lambda>x. obj P (the x)) (eps P)"
proof -
  assume "wf_page P"
  then have "eps P = map Some (present (eps P))" using present_all [of "eps P"] by (simp add: wf_page_def)
  then have "map (\<lambda>x. obj P (the x)) (eps P) = map (\<lambda>x. obj P (the x)) (map Some (present (eps P)))" by simp
  then show ?thesis by (simp add: endpoint_objs_def)
qed

lemma splice1_int: "i < length xs \<Longrightarrow> splice1 (JNum (int i)) xs = remove_at i xs"
  by (simp add: splice1_def splice_start_def)

lemma page_cong:
  "objs P = objs Q \<Longrightarrow> obj P = obj Q"
  "objs P = objs Q \<Longrightarrow> eps P = eps Q \<Longrightarrow> wf_page P = wf_page Q"
  "objs P = objs Q \<Longrightarrow> eps P = eps Q \<Longrightarrow> indexed P = indexed Q"
  "objs P = objs Q \<Longrightarrow> eps P = eps Q \<Longrightarrow> endpoint_objs P = endpoint_objs Q"
  by (auto simp: obj_def fun_eq_iff wf_page_def indexed_def endpoint_objs_def)

lemma views_cong: "objs P = objs Q \<Longrightarrow> eps P = eps Q \<Longrightarrow> endpoint_views m P = endpoint_views m Q"
  by (simp add: endpoint_views_def page_cong(4) [of P Q])

lemma wf_put_obj [simp]: "wf_page (put_obj a ep P) = wf_page P"
  by (simp add: wf_page_def put_obj_def)

text \<open>Adding the object the dialog made, and deleting or editing a listed one.\<close>

lemma alloc_new:
  assumes "wf_page P" and "alloc ep P = (a, P1)"
  shows "wf_page P1" "a < length (objs P1)" "Some a \<notin> set (eps P1)" "obj P1 a = ep" "eps P1 = eps P"
    "endpoint_views m P1 = endpoint_views m P"
proof -
  have P1: "P1 = P\<lparr>objs := objs P @ [ep]\<rparr>" "a = length (objs P)" using assms(2) by (auto simp: alloc_def)
  show "wf_page P1" using assms(1) by (auto simp: P1 wf_page_def less_Suc_eq)
  show "a < length (objs P1)" "obj P1 a = ep" "eps P1 = eps P" by (simp_all add: P1 obj_def nth_append)
  show "Some a \<notin> set (eps P1)" using assms(1) by (auto simp: P1 wf_page_def)
  have "x < length (objs P)" if "x \<in> set (present (eps P))" for x
  proof -
    have n: "None \<notin> set (eps P)" using assms(1) by (simp add: wf_page_def)
    have "Some x \<in> set (map Some (present (eps P)))" using that by simp
    then have "Some x \<in> set (eps P)" unfolding present_all [OF n] .
    then show ?thesis using assms(1) by (simp add: wf_page_def)
  qed
  then have "obj P1 x = obj P x" if "x \<in> set (present (eps P))" for x
    using less_SucI [of x "length (objs P)"] that by (fastforce simp: P1 obj_def nth_append)
  then show "endpoint_views m P1 = endpoint_views m P" by (simp add: endpoint_views_def endpoint_objs_def P1)
qed

text \<open>What the three changes of the list do to the endpoints seen through any view.\<close>

lemma obj_put: "a < length (objs P) \<Longrightarrow> obj (put_obj a ep P) b = (if b = a then ep else obj P b)"
  by (simp add: obj_def put_obj_def)

lemma eps_put [simp]: "eps (put_obj a ep P) = eps P"
  by (simp add: put_obj_def)

lemma indexed_put:
  "indexed P \<Longrightarrow> a < length (objs P) \<Longrightarrow> pget ep ''index'' = pget (obj P a) ''index'' \<Longrightarrow> indexed (put_obj a ep P)"
  by (auto simp: indexed_def obj_put)

lemma views_put:
  assumes "wf_page P" and "i < length (eps P)" and "eps P ! i = Some a"
  shows "endpoint_views v (put_obj a ep P) = (endpoint_views v P)[i := v ep]"
proof (rule nth_equalityI)
  have n: "None \<notin> set (eps P)" and d: "distinct (eps P)" using assms(1) by (simp_all add: wf_page_def)
  have a: "a < length (objs P)" using eps_valid [OF assms] .
  fix j assume "j < length (endpoint_views v (put_obj a ep P))"
  then have j: "j < length (eps P)" using n by (simp add: endpoint_views_def endpoint_objs_def length_present)
  have "present (eps P) ! j = a \<longleftrightarrow> j = i"
    using nth_present [OF n j] nth_present [OF n assms(2)] nth_eq_iff_index_eq [OF d j assms(2)] assms(3) by auto
  then show "endpoint_views v (put_obj a ep P) ! j = (endpoint_views v P)[i := v ep] ! j"
    using j n assms(2) by (auto simp: endpoint_views_def endpoint_objs_def length_present nth_list_update obj_put [OF a])
qed (simp add: endpoint_views_def endpoint_objs_def)

lemma views_append: "endpoint_views v (P\<lparr>eps := eps P @ [Some a]\<rparr>) = endpoint_views v P @ [v (obj P a)]"
  by (simp add: endpoint_views_def endpoint_objs_def obj_def present_append)

lemma views_remove:
  assumes "wf_page P"
  shows "endpoint_views v (P\<lparr>eps := remove_at i (eps P)\<rparr>) = remove_at i (endpoint_views v P)"
proof -
  have "None \<notin> set (eps P)" using assms by (simp add: wf_page_def)
  then have "present (remove_at i (eps P)) = remove_at i (present (eps P))"
    by (metis present_all present_Some remove_at_map)
  then show ?thesis by (simp add: endpoint_views_def endpoint_objs_def obj_def remove_at_map)
qed

lemma store_replace:
  assumes "pget (obj P a) ''index'' = JNum (int i)" and "i < length (eps P)"
  shows "store_endpoint a P = P\<lparr>eps := (eps P)[i := Some a]\<rparr>"
  using assms by (simp add: store_endpoint_def js_less_def array_set_def)

lemma wf_replace:
  assumes "wf_page P" and "a < length (objs P)" and "Some a \<notin> set (eps P)"
  shows "wf_page (P\<lparr>eps := (eps P)[i := Some a]\<rparr>)"
  using assms set_update_subset_insert [of "eps P" i "Some a"] unfolding wf_page_def
  by (auto simp: distinct_list_update)

lemma views_replace:
  assumes "wf_page P" and "i < length (eps P)"
  shows "endpoint_views v (P\<lparr>eps := (eps P)[i := Some a]\<rparr>) = (endpoint_views v P)[i := v (obj P a)]"
proof -
  have "None \<notin> set (eps P)" using assms(1) by (simp add: wf_page_def)
  then have "present ((eps P)[i := Some a]) = (present (eps P))[i := a]"
    by (metis map_update present_Some present_all)
  moreover have "obj (P\<lparr>eps := x\<rparr>) = obj P" for x by (simp add: obj_def fun_eq_iff)
  ultimately show ?thesis by (simp add: endpoint_views_def endpoint_objs_def map_update)
qed

lemma wf_remove: "wf_page P \<Longrightarrow> wf_page (P\<lparr>eps := splice1 v (eps P)\<rparr>)"
  using set_remove_at_subset [of _ "eps P"] by (auto simp: wf_page_def splice1_def distinct_remove_at)

section \<open>What the pages have in common\<close>

text \<open>
  Redrawing writes the position into each endpoint and changes nothing of what is seen of
  it, and only the last redrawing counts.
\<close>

locale endpoint_page =
  fixes mark :: "nat \<Rightarrow> props \<Rightarrow> props" and view :: "props \<Rightarrow> 'v"
  assumes mark_index: "pget (mark i ep) ''index'' = JNum (int i)"
    and mark_view: "view (mark i ep) = view ep"
    and mark_again: "mark j (mark i ep) = mark j ep"
begin

lemma redraw_indexed: "wf_page P \<Longrightarrow> indexed (redraw mark P)"
  unfolding indexed_def by (simp add: obj_redraw_in mark_index)

lemma redraw_view:
  assumes "wf_page P"
  shows "view (obj (redraw mark P) a) = view (obj P a)"
proof (cases "Some a \<in> set (eps P)")
  case True
  then obtain i where "i < length (eps P)" "eps P ! i = Some a" by (auto simp: in_set_conv_nth)
  then show ?thesis using assms by (simp add: obj_redraw_in mark_view)
qed (simp add: obj_redraw_out)

lemma redraw_again:
  assumes "wf_page P"
  shows "redraw mark (redraw mark P) = redraw mark P"
proof -
  have "objs (redraw mark (redraw mark P)) ! a = objs (redraw mark P) ! a" if a: "a < length (objs P)" for a
  proof (cases "Some a \<in> set (eps P)")
    case True
    then obtain i where "i < length (eps P)" "eps P ! i = Some a" by (auto simp: in_set_conv_nth)
    then have "obj (redraw mark (redraw mark P)) a = obj (redraw mark P) a"
      using assms by (simp add: obj_redraw_in mark_again)
    then show ?thesis using a by (simp add: obj_def)
  next
    case False
    then have "obj (redraw mark (redraw mark P)) a = obj (redraw mark P) a" by (simp add: obj_redraw_out)
    then show ?thesis using a by (simp add: obj_def)
  qed
  then have "objs (redraw mark (redraw mark P)) = objs (redraw mark P)" by (intro nth_equalityI) auto
  then show ?thesis by (simp add: redraw_def)
qed

lemma views_redraw: "wf_page P \<Longrightarrow> endpoint_views view (redraw mark P) = endpoint_views view P"
  by (auto simp: endpoint_views_def endpoint_objs_def redraw_view)

text \<open>Storing an endpoint: a new one goes to the end, one of the list stays in its place.\<close>

lemma store_new:
  assumes "pget (obj P a) ''index'' = JNum (- 1)"
  shows "store_endpoint a P = P\<lparr>eps := eps P @ [Some a]\<rparr>"
  using assms by (simp add: store_endpoint_def js_less_def)

lemma store_listed:
  assumes "indexed P" and "i < length (eps P)" and "eps P ! i = Some a"
  shows "store_endpoint a P = P"
proof -
  have "pget (obj P a) ''index'' = JNum (int i)" using assms by (simp add: indexed_def)
  moreover have "array_set (eps P) i a = eps P" using assms by (simp add: array_set_def list_update_same_conv)
  ultimately show ?thesis using assms by (simp add: store_endpoint_def js_less_def)
qed

lemma update_new:
  assumes "wf_page P" and "a < length (objs P)" and "Some a \<notin> set (eps P)" and "pget (obj P a) ''index'' = JNum (- 1)"
  shows "wf_page (update_endpoint mark a P)" "indexed (update_endpoint mark a P)"
    "eps (update_endpoint mark a P) = eps P @ [Some a]"
proof -
  have wf: "wf_page (store_endpoint a P)" using assms by (auto simp: store_new wf_page_def)
  show "wf_page (update_endpoint mark a P)" using wf by (simp add: update_endpoint_def)
  show "indexed (update_endpoint mark a P)" using wf by (simp add: update_endpoint_def redraw_indexed)
  show "eps (update_endpoint mark a P) = eps P @ [Some a]"
    using assms by (simp add: update_endpoint_def store_new)
qed

lemma update_listed:
  assumes "wf_page P" and "indexed P" and "Some a \<in> set (eps P)"
  shows "update_endpoint mark a P = redraw mark P"
  using assms by (auto simp: update_endpoint_def in_set_conv_nth store_listed)

lemma update_twice:
  assumes "wf_page P" and "a < length (objs P)" and "Some a \<notin> set (eps P)" and "pget (obj P a) ''index'' = JNum (- 1)"
  shows "update_endpoint mark a (update_endpoint mark a P) = update_endpoint mark a P"
proof -
  note new = update_new [OF assms]
  then have "update_endpoint mark a (update_endpoint mark a P) = redraw mark (update_endpoint mark a P)"
    by (intro update_listed) auto
  also have "\<dots> = update_endpoint mark a P"
    using new(1) by (simp add: update_endpoint_def redraw_again)
  finally show ?thesis .
qed

lemma update_views_new:
  assumes "wf_page P" and "a < length (objs P)" and "Some a \<notin> set (eps P)" and "pget (obj P a) ''index'' = JNum (- 1)"
  shows "endpoint_views view (update_endpoint mark a P) = endpoint_views view P @ [view (obj P a)]"
proof -
  have "wf_page (P\<lparr>eps := eps P @ [Some a]\<rparr>)" using assms by (auto simp: wf_page_def)
  then show ?thesis using assms by (simp add: update_endpoint_def store_new views_redraw views_append)
qed

lemma update_views_listed:
  assumes "wf_page P" and "indexed P" and "i < length (eps P)" and "eps P ! i = Some a" and "pget ep ''index'' = pget (obj P a) ''index''"
  shows "endpoint_views view (update_endpoint mark a (put_obj a ep P)) = (endpoint_views view P)[i := view ep]"
    and "eps (update_endpoint mark a (put_obj a ep P)) = eps P"
    and "wf_page (update_endpoint mark a (put_obj a ep P))" and "indexed (update_endpoint mark a (put_obj a ep P))"
proof -
  let ?P = "put_obj a ep P"
  have wf: "wf_page ?P" using assms(1) by simp
  have ix: "indexed ?P" using indexed_put [OF assms(2) eps_valid [OF assms(1,3,4)] assms(5)] .
  have "Some a \<in> set (eps ?P)" using assms(3,4) by (auto simp: in_set_conv_nth)
  then have u: "update_endpoint mark a ?P = redraw mark ?P" by (rule update_listed [OF wf ix])
  show "eps (update_endpoint mark a ?P) = eps P" "wf_page (update_endpoint mark a ?P)" "indexed (update_endpoint mark a ?P)"
    using u wf redraw_indexed [OF wf] by simp_all
  show "endpoint_views view (update_endpoint mark a ?P) = (endpoint_views view P)[i := view ep]"
    using u wf views_put [OF assms(1,3,4)] by (simp add: views_redraw)
qed

text \<open>Deleting the endpoint of a card removes that endpoint and no other.\<close>

lemma delete_wf:
  assumes "wf_page P"
  shows "wf_page (delete_endpoint mark v P)" "indexed (delete_endpoint mark v P)"
  using wf_remove [OF assms] by (simp_all add: delete_endpoint_def redraw_indexed)

lemma delete_listed:
  assumes "wf_page P" and "indexed P" and "i < length (eps P)" and "eps P ! i = Some a"
  shows "eps (delete_endpoint mark (pget (obj P a) ''index'') P) = remove_at i (eps P)"
  using assms by (simp add: delete_endpoint_def indexed_def splice1_int)

lemma delete_views:
  assumes "wf_page P" and "indexed P" and "i < length (eps P)" and "eps P ! i = Some a"
  shows "endpoint_views view (delete_endpoint mark (pget (obj P a) ''index'') P) = remove_at i (endpoint_views view P)"
proof -
  have "pget (obj P a) ''index'' = JNum (int i)" using assms by (simp add: indexed_def)
  then show ?thesis using assms wf_remove [OF assms(1), of "JNum (int i)"]
    by (simp add: delete_endpoint_def splice1_int views_redraw views_remove)
qed

lemma delete_gone:
  assumes "wf_page P" and "indexed P" and "i < length (eps P)" and "eps P ! i = Some a"
  shows "set (eps (delete_endpoint mark (pget (obj P a) ''index'') P)) = set (eps P) - {Some a}"
  unfolding delete_listed [OF assms] using assms(1,3,4) set_remove_at_distinct [of "eps P" i]
  by (simp add: wf_page_def)

end

end
