(* ===== verification/L2Pages.thy ===== *)
theory L2Pages
  imports EndpointStore EndpointCards Provisioning CircuitViews
begin

text \<open>
  The two layer 2 pages: \<^verbatim>\<open>provision_l2vpn.js\<close> creates a circuit, \<^verbatim>\<open>modify_l2vpn.js\<close> edits one;
  and the schedule picker \<^verbatim>\<open>l2/schedule.js\<close>.  A page is the shared endpoint store extended
  with the circuit, the session and what is drawn.  A card on the page refers to the
  address of its endpoint, as the closures in the source do.
\<close>

section \<open>Schedule\<close>

record schedule =
  create_now :: bool
  create_value :: string
  create_shown :: bool
  remove_never :: bool
  remove_value :: string
  remove_shown :: bool

definition setCreatePickerDisplay :: "schedule \<Rightarrow> schedule" where
  "setCreatePickerDisplay S = (if create_now S then S\<lparr>create_shown := False\<rparr> else S\<lparr>create_shown := True\<rparr>)"

definition setRemovePickerDisplay :: "schedule \<Rightarrow> schedule" where
  "setRemovePickerDisplay S = (if remove_never S then S\<lparr>remove_shown := False\<rparr> else S\<lparr>remove_shown := True\<rparr>)"

text \<open>The time a picker's text stands for, in seconds, depends on the time zone of the browser:
  it is the argument \<open>seconds\<close>.\<close>

definition createTime :: "(string \<Rightarrow> jsval) \<Rightarrow> schedule \<Rightarrow> jsval" where
  "createTime seconds S = (if \<not> create_now S then seconds (create_value S) else JNum (- 1))"

definition removeTime :: "(string \<Rightarrow> jsval) \<Rightarrow> schedule \<Rightarrow> jsval" where
  "removeTime seconds S = (if \<not> remove_never S then seconds (remove_value S) else JNum (- 1))"

section \<open>What both pages do\<close>

record l2_page = page +
  l2_circuit :: props
  l2_session :: props
  l2_cards :: "(nat \<times> l2_card) list"

definition mark_l2 :: "jsval \<Rightarrow> nat \<Rightarrow> props \<Rightarrow> props" where
  "mark_l2 editable i ep = pset (pset ep ''index'' (JNum (int i))) ''editable'' editable"

definition l2_draw :: "env \<Rightarrow> string \<Rightarrow> jsval \<Rightarrow> 'a l2_page_scheme \<Rightarrow> 'a l2_page_scheme" where
  "l2_draw E port editable P =
     (let P' = redraw (mark_l2 editable) P
      in P'\<lparr>l2_cards := map (\<lambda>a. (a, NewEndpoint E port (obj P' a))) (present (eps P'))\<rparr>)"

text \<open>The circuit of the server becomes the circuit of the page.\<close>

definition adopt_circuit :: "props \<Rightarrow> 'a l2_page_scheme \<Rightarrow> 'a l2_page_scheme res" where
  "adopt_circuit c P = (case pget c ''endpoints'' of
     JArr vs \<Rightarrow> Inr (P\<lparr>l2_circuit := c, objs := objs P @ map as_props vs,
        eps := map Some [length (objs P)..<length (objs P) + length vs]\<rparr>)
   | _ \<Rightarrow> Inl TypeError)"

text \<open>After the call of \<^verbatim>\<open>provisionCircuit\<close>: the handlers of \<^verbatim>\<open>then\<close> and \<^verbatim>\<open>catch\<close>.\<close>

definition finish_provision :: "string \<Rightarrow> jsval \<Rightarrow> unit io" where
  "finish_provision dialog result =
     io_bind (io_lift (if strict_eq result JNull then Inr False
         else rbind (jget result ''success'') (\<lambda>s. Inr (loose_eq s (JNum 1))))) (\<lambda>ok.
     if ok then io_bind (io_lift (jget result ''circuit_id'')) (\<lambda>i.
       emit (Navigate (''index.cgi?action=modify_l2vpn&circuit_id='' @ to_str i)))
     else io_bind (emit (ModalHide dialog)) (\<lambda>_.
       emit (Alert ''There was an unexpected error provisioning the connection.'')))"

definition provision_failed :: "string \<Rightarrow> exn \<Rightarrow> unit io" where
  "provision_failed dialog e = io_bind (emit (ModalHide dialog)) (\<lambda>_.
     emit (Alert (''There was an error provisioning the connection: '' @ exn_text e)))"

section \<open>Creating a circuit (\<^verbatim>\<open>provision_l2vpn.js\<close>)\<close>

definition provision_init :: "props \<Rightarrow> l2_page" where
  "provision_init session = \<lparr>objs = [], eps = [], l2_circuit = [(''circuit_id'', JNum (- 1)), (''static_mac'', JNum 0)],
     l2_session = session, l2_cards = []\<rparr>"

definition provision_update :: "env \<Rightarrow> string \<Rightarrow> l2_page \<Rightarrow> l2_page" where
  "provision_update E port P = l2_draw E port (JBool True) P"

definition provision_selectCircuit :: "env \<Rightarrow> string \<Rightarrow> jsval \<Rightarrow> l2_page \<Rightarrow> l2_page io" where
  "provision_selectCircuit E port ident P =
     io_bind (if loose_eq ident (JNum (- 1)) then io_ret P
       else io_bind (getCircuit E ident JUndef) (\<lambda>c.
         case c of JObj ps \<Rightarrow> io_lift (adopt_circuit ps P) | _ \<Rightarrow> io_lift (Inl TypeError))) (\<lambda>P.
     io_ret (provision_update E port P))"

definition provision_updateEndpoint :: "env \<Rightarrow> string \<Rightarrow> nat \<Rightarrow> l2_page \<Rightarrow> l2_page" where
  "provision_updateEndpoint E port a P = provision_update E port (store_endpoint a P)"

definition provision_deleteEndpoint :: "env \<Rightarrow> string \<Rightarrow> jsval \<Rightarrow> l2_page \<Rightarrow> l2_page" where
  "provision_deleteEndpoint E port i P = provision_update E port (P\<lparr>eps := splice1 i (eps P)\<rparr>)"

definition add_l2vpn_loading :: string where "add_l2vpn_loading = ''#add-l2vpn-loading''"

definition provision_saveCircuit :: "env \<Rightarrow> l2_page \<Rightarrow> unit io" where
  "provision_saveCircuit E P =
     io_bind (emit (ModalShow add_l2vpn_loading)) (\<lambda>_.
     io_try (io_bind (provisionCircuit E (pget (l2_session P) ''workgroup_id'') (pget (l2_circuit P) ''description'') (endpoint_objs P)
           (pget (l2_circuit P) ''static_mac'') (pget (l2_circuit P) ''provision_time'') (pget (l2_circuit P) ''remove_time''))
         (finish_provision add_l2vpn_loading))
       (provision_failed add_l2vpn_loading))"

definition provision_deleteCircuit :: "env \<Rightarrow> jsval io" where
  "provision_deleteCircuit E =
     io_bind (confirm E ''Are you sure you wish to cancel? All your changes will be lost.'') (\<lambda>ok.
     if \<not> ok then io_ret JNull else io_bind (emit (Navigate ''index.cgi'')) (\<lambda>_. io_ret (JNum 1)))"

text \<open>The buttons of the page and of a card.\<close>

definition provision_cancel_click :: "env \<Rightarrow> unit io" where
  "provision_cancel_click E =
     io_bind (confirm E ''Are you sure you wish to cancel? All your changes will be lost.'') (\<lambda>ok.
     if ok then emit (Navigate ''index.cgi'') else io_ret ())"

definition provision_save_click :: "env \<Rightarrow> (string \<Rightarrow> jsval) \<Rightarrow> string \<Rightarrow> schedule \<Rightarrow> l2_page \<Rightarrow> l2_page io" where
  "provision_save_click E seconds description S P =
     (let P' = P\<lparr>l2_circuit := psets (l2_circuit P) [(''description'', JStr description),
            (''provision_time'', createTime seconds S), (''remove_time'', removeTime seconds S)]\<rparr>
      in io_bind (provision_saveCircuit E P') (\<lambda>_. io_ret P'))"

definition provision_delete_click :: "env \<Rightarrow> string \<Rightarrow> nat \<Rightarrow> l2_page \<Rightarrow> l2_page" where
  "provision_delete_click E port a P =
     provision_update E port (provision_deleteEndpoint E port (pget (obj P a) ''index'') P)"

section \<open>Editing a circuit (\<^verbatim>\<open>modify_l2vpn.js\<close>)\<close>

record modify_page = l2_page +
  m2_id :: jsval
  m2_selected :: int
  m2_history :: jsval
  m2_events :: jsval
  m2_raw :: jsval
  m2_error :: bool
  m2_new_button :: bool
  m2_views :: "string list"
  m2_header :: "header_view option"

text \<open>Who may edit: an administrator, or a member of the owning workgroup whose account is not
  read-only; and the circuit is not decommissioned.\<close>

definition may_edit :: "props \<Rightarrow> jsval \<Rightarrow> jsval" where
  "may_edit session workgroup =
     js_or (pget session ''isAdmin'')
       (JBool (loose_eq (pget session ''workgroup_id'') workgroup \<and> \<not> truthy (pget session ''isReadOnly'')))"

definition js_and :: "jsval \<Rightarrow> jsval \<Rightarrow> jsval" where
  "js_and a b = (if truthy a then b else a)"

definition l2_editable :: "'a l2_page_scheme \<Rightarrow> jsval" where
  "l2_editable P = js_and (JBool (\<not> strict_eq (pget (l2_circuit P) ''state'') (JStr ''decom'')))
     (may_edit (l2_session P) (pget (l2_circuit P) ''workgroup_id''))"

text \<open>
  \<^verbatim>\<open>update\<close>: the five renderings are awaited together, and an exception in one of them ends
  the update before the list is drawn.
\<close>

definition modify_update :: "env \<Rightarrow> string \<Rightarrow> modify_page \<Rightarrow> unit res \<times> modify_page" where
  "modify_update E port P =
     (let ed = l2_editable P;
          P1 = P\<lparr>m2_new_button := truthy ed\<rparr>;
          header = CircuitHeader_render [(''connectionId'', pget (l2_circuit P) ''circuit_id''),
            (''description'', pget (l2_circuit P) ''description''), (''editable'', ed), (''name'', pget (l2_circuit P) ''name'')]
      in case rbind (CircuitDetails_render (l2_circuit P)) (\<lambda>d.
              rbind (CircuitHistory_render (m2_history P)) (\<lambda>h.
              rbind (CircuitEvents_render (m2_events P)) (\<lambda>ev. Inr [d, h, ev, CircuitRaw_render (m2_raw P)]))) of
           Inl e \<Rightarrow> (Inl e, P1)
         | Inr vs \<Rightarrow> (Inr (), l2_draw E port ed (P1\<lparr>m2_views := vs, m2_header := Some header\<rparr>)))"

definition modify_init :: "props \<Rightarrow> modify_page" where
  "modify_init session = \<lparr>objs = [], eps = [], l2_circuit = [], l2_session = session, l2_cards = [], m2_id = JNum (- 1),
     m2_selected = - 1, m2_history = JUndef, m2_events = JUndef, m2_raw = JUndef, m2_error = False,
     m2_new_button = False, m2_views = [], m2_header = None\<rparr>"

definition modify_selectCircuit :: "env \<Rightarrow> string \<Rightarrow> jsval \<Rightarrow> modify_page \<Rightarrow> modify_page io" where
  "modify_selectCircuit E port ident P =
     io_bind (getCircuit E ident (pget (l2_session P) ''workgroup_id'')) (\<lambda>c.
     io_bind (getCircuitHistory E ident) (\<lambda>h.
     io_bind (getCircuitEvents E ident) (\<lambda>ev.
     io_bind (getRawCircuit E ident) (\<lambda>raw.
     let P1 = P\<lparr>m2_id := ident, m2_history := h, m2_events := ev, m2_raw := raw\<rparr>
     in case c of
          JObj ps \<Rightarrow> (case adopt_circuit ps P1 of
            Inl e \<Rightarrow> io_ret (P1\<lparr>l2_circuit := ps\<rparr>)
          | Inr P2 \<Rightarrow> io_ret (snd (modify_update E port P2)))
        | _ \<Rightarrow> io_ret (if loose_eq c JNull then P1\<lparr>m2_error := True\<rparr> else P1)))))"

definition modify_selectEndpoint :: "env \<Rightarrow> string \<Rightarrow> int \<Rightarrow> modify_page \<Rightarrow> modify_page res" where
  "modify_selectEndpoint E port index P =
     (let P1 = P\<lparr>m2_selected := index\<rparr>
      in if - 1 < index
         then (if nat index < length (eps P1)
               then (case eps P1 ! nat index of
                  Some a \<Rightarrow> Inr (snd (modify_update E port (put_obj a (pset (obj P1 a) ''index'' (JNum index)) P1)))
                | None \<Rightarrow> Inl TypeError)
               else Inl TypeError)
         else Inr (snd (modify_update E port P1)))"

definition modify_updateEndpoint :: "env \<Rightarrow> string \<Rightarrow> nat \<Rightarrow> modify_page \<Rightarrow> modify_page" where
  "modify_updateEndpoint E port a P =
     (let P1 = put_obj a (psets (obj P a) [(''interface'', pget (obj P a) ''name''), (''interface_description'', JStr ''NA'')]) P
      in snd (modify_update E port (store_endpoint a P1)))"

definition modify_deleteEndpoint :: "env \<Rightarrow> string \<Rightarrow> jsval \<Rightarrow> modify_page \<Rightarrow> modify_page" where
  "modify_deleteEndpoint E port i P = snd (modify_update E port (P\<lparr>eps := splice1 i (eps P)\<rparr>))"

definition modify_loading :: string where "modify_loading = ''#modify-loading''"

definition modify_saveCircuit :: "env \<Rightarrow> string \<Rightarrow> modify_page \<Rightarrow> unit io" where
  "modify_saveCircuit E header_text P =
     io_bind (emit (ModalShow modify_loading)) (\<lambda>_.
     io_try (io_bind (provisionCircuit E (pget (l2_session P) ''workgroup_id'') (JStr header_text) (endpoint_objs P)
           (pget (l2_circuit P) ''provision_time'') (pget (l2_circuit P) ''remove_time'') (pget (l2_circuit P) ''circuit_id''))
         (finish_provision modify_loading))
       (provision_failed modify_loading))"

definition modify_deleteCircuit :: "env \<Rightarrow> modify_page \<Rightarrow> jsval io" where
  "modify_deleteCircuit E P =
     io_bind (confirm E (''Are you sure you want to delete '' @ dquote @ to_str (pget (l2_circuit P) ''description'') @ dquote @ ''?'')) (\<lambda>ok.
     if \<not> ok then io_ret JNull
     else io_bind (emit (ModalShow modify_loading)) (\<lambda>_.
          io_bind (deleteCircuit E (pget (l2_session P) ''workgroup_id'') (pget (l2_circuit P) ''circuit_id'')) (\<lambda>result.
          io_bind (if \<not> strict_eq result JNull then emit (Navigate ''index.cgi'')
                   else io_bind (emit (ModalHide modify_loading)) (\<lambda>_. emit (Alert ''There was an error deleting the connection.''))) (\<lambda>_.
          io_ret (JNum 1)))))"

text \<open>The start of the page with a circuit in the address.\<close>

definition modify_start :: "env \<Rightarrow> string \<Rightarrow> props \<Rightarrow> string option \<Rightarrow> modify_page io" where
  "modify_start E port session circuit_id =
     (let ident = (case circuit_id of None \<Rightarrow> JNull | Some s \<Rightarrow> JStr s)
      in io_bind (modify_selectCircuit E port ident (modify_init session)) (\<lambda>P.
         io_ret (if loose_eq ident (JStr []) then P\<lparr>m2_error := True\<rparr> else P)))"

end
