(* ===== verification/L2Theorems.thy ===== *)
theory L2Theorems
  imports L2Pages
begin

text \<open>
  The layer 2 pages implement a list of endpoints: the interpretation of the store's
  contract, the runs of the provisioning page with their invariant, and what saving and
  deleting a circuit do for every answer of the server.
\<close>

section \<open>The pages keep the contract of the store\<close>

definition l2_view :: "props \<Rightarrow> string \<Rightarrow> jsval" where
  "l2_view = ep_fields {''index'', ''editable''}"

interpretation l2: endpoint_page "mark_l2 ed" l2_view for ed
  by unfold_locales (auto simp: mark_l2_def l2_view_def ep_fields_def fun_eq_iff pset_pset_other)

lemma l2_draw_simps [simp]:
  "eps (l2_draw E port ed P) = eps P"
  "objs (l2_draw E port ed P) = objs (redraw (mark_l2 ed) P)"
  "l2_circuit (l2_draw E port ed P) = l2_circuit P" "l2_session (l2_draw E port ed P) = l2_session P"
  by (simp_all add: l2_draw_def redraw_def Let_def)

lemma l2_draw_page:
  "obj (l2_draw E port ed P) = obj (redraw (mark_l2 ed) P)"
  "wf_page (l2_draw E port ed P) = wf_page P"
  "wf_page P \<Longrightarrow> indexed (l2_draw E port ed P)"
  "wf_page P \<Longrightarrow> endpoint_views l2_view (l2_draw E port ed P) = endpoint_views l2_view P"
  using page_cong [of "l2_draw E port ed P" "redraw (mark_l2 ed) P"]
    views_cong [of "l2_draw E port ed P" "redraw (mark_l2 ed) P" l2_view] l2.redraw_indexed [of P] l2.views_redraw [of P] by auto

lemma l2_draw_update:
  "l2_draw E port ed (store_endpoint a P) = Q \<Longrightarrow> objs Q = objs (update_endpoint (mark_l2 ed) a P) \<and> eps Q = eps (update_endpoint (mark_l2 ed) a P)"
  "l2_draw E port ed (P\<lparr>eps := splice1 v (eps P)\<rparr>) = Q \<Longrightarrow> objs Q = objs (delete_endpoint (mark_l2 ed) v P) \<and> eps Q = eps (delete_endpoint (mark_l2 ed) v P)"
  by (auto simp: update_endpoint_def delete_endpoint_def)

text \<open>The cards are those of the endpoints, in order.\<close>

definition cards_current :: "env \<Rightarrow> string \<Rightarrow> 'a l2_page_scheme \<Rightarrow> bool" where
  "cards_current E port P \<longleftrightarrow> l2_cards P = map (\<lambda>a. (a, NewEndpoint E port (obj P a))) (present (eps P))"

lemma l2_draw_cards: "cards_current E port (l2_draw E port ed P)"
  by (simp add: cards_current_def l2_draw_page(1)) (simp add: l2_draw_def Let_def)

definition l2_inv :: "env \<Rightarrow> string \<Rightarrow> 'a l2_page_scheme \<Rightarrow> bool" where
  "l2_inv E port P \<longleftrightarrow> wf_page P \<and> indexed P \<and> cards_current E port P"

lemma l2_draw_inv: "wf_page P \<Longrightarrow> l2_inv E port (l2_draw E port ed P)"
  by (simp add: l2_inv_def l2_draw_page l2_draw_cards)

lemma cards_listed:
  assumes "l2_inv E port P" and "a \<in> fst ` set (l2_cards P)"
  obtains i where "i < length (eps P)" "eps P ! i = Some a"
proof -
  have n: "None \<notin> set (eps P)" using assms(1) by (simp add: l2_inv_def wf_page_def)
  have "a \<in> set (present (eps P))" using assms by (auto simp: l2_inv_def cards_current_def)
  then have "Some a \<in> set (map Some (present (eps P)))" by simp
  then have "Some a \<in> set (eps P)" unfolding present_all [OF n] .
  then show ?thesis using that by (auto simp: in_set_conv_nth)
qed

section \<open>Runs of the provisioning page\<close>

text \<open>
  What a user can do to the list: have the dialog add a new endpoint, have it replace a
  listed one by a new object with the same index (another entity was chosen), have it
  change one that is listed (any fields but the index, which the dialog never writes into a
  listed endpoint), and press the delete button of a card.
\<close>

inductive l2_run :: "env \<Rightarrow> string \<Rightarrow> l2_page \<Rightarrow> bool" for E :: env and port :: string where
  start: "l2_run E port (provision_init s)"
| add: "l2_run E port P \<Longrightarrow> alloc ep P = (a, P1) \<Longrightarrow> pget ep ''index'' = JNum (- 1) \<Longrightarrow>
    l2_run E port (provision_updateEndpoint E port a P1)"
| replace: "l2_run E port P \<Longrightarrow> alloc ep P = (a, P1) \<Longrightarrow> i < length (eps P) \<Longrightarrow> pget ep ''index'' = JNum (int i) \<Longrightarrow>
    l2_run E port (provision_updateEndpoint E port a P1)"
| edit: "l2_run E port P \<Longrightarrow> Some a \<in> set (eps P) \<Longrightarrow> \<not> phas ws ''index'' \<Longrightarrow>
    l2_run E port (provision_updateEndpoint E port a (put_obj a (psets (obj P a) ws) P))"
| delete: "l2_run E port P \<Longrightarrow> a \<in> fst ` set (l2_cards P) \<Longrightarrow> l2_run E port (provision_delete_click E port a P)"

lemma l2_run_inv: "l2_run E port P \<Longrightarrow> l2_inv E port P"
proof (induction rule: l2_run.induct)
  case (start s)
  show ?case by (simp add: provision_init_def l2_inv_def wf_page_def indexed_def cards_current_def)
next
  case (add P ep a P1)
  then have "wf_page P" by (simp add: l2_inv_def)
  note new = alloc_new [OF this add.hyps(2)]
  have "wf_page (store_endpoint a P1)" using new add.hyps(3) by (auto simp: l2.store_new wf_page_def)
  then show ?case by (simp add: provision_updateEndpoint_def provision_update_def l2_draw_inv)
next
  case (replace P ep a P1 i)
  then have "wf_page P" by (simp add: l2_inv_def)
  note new = alloc_new [OF this replace.hyps(2)]
  have "store_endpoint a P1 = P1\<lparr>eps := (eps P1)[i := Some a]\<rparr>" using new replace.hyps(3,4) by (simp add: store_replace)
  then have "wf_page (store_endpoint a P1)" using wf_replace [OF new(1,2,3)] by simp
  then show ?case by (simp add: provision_updateEndpoint_def provision_update_def l2_draw_inv)
next
  case (edit P a ws)
  then obtain i where i: "i < length (eps P)" "eps P ! i = Some a" by (auto simp: in_set_conv_nth)
  let ?P = "put_obj a (psets (obj P a) ws) P"
  have "pget (psets (obj P a) ws) ''index'' = pget (obj P a) ''index''" using edit.hyps by (simp add: pget_psets_not_in)
  moreover have "a < length (objs P)" using edit.IH i by (auto simp: l2_inv_def intro: eps_valid)
  ultimately have "indexed ?P" using edit.IH
    by (auto simp: l2_inv_def indexed_def put_obj_def obj_def nth_list_update split: if_splits)
  then have "store_endpoint a ?P = ?P" using i by (intro l2.store_listed) (auto simp: put_obj_def)
  moreover have "wf_page ?P" using edit.IH by (simp add: l2_inv_def)
  ultimately show ?case by (simp add: provision_updateEndpoint_def provision_update_def l2_draw_inv)
next
  case (delete P a)
  let ?v = "pget (obj P a) ''index''"
  have "wf_page (delete_endpoint (mark_l2 (JBool True)) ?v P)" using delete.IH by (simp add: l2_inv_def l2.delete_wf)
  then have "wf_page (l2_draw E port (JBool True) (P\<lparr>eps := splice1 ?v (eps P)\<rparr>))"
    by (simp add: delete_endpoint_def l2_draw_page)
  then show ?case
    by (simp add: provision_delete_click_def provision_deleteEndpoint_def provision_update_def l2_draw_inv)
qed

lemma l2_draw_again: "wf_page P \<Longrightarrow> l2_draw E port ed (l2_draw E port ed P) = l2_draw E port ed P"
proof -
  assume wf: "wf_page P"
  have c: "redraw m (Q\<lparr>l2_cards := c\<rparr>) = (redraw m Q)\<lparr>l2_cards := c\<rparr>" for m c and Q :: "'a l2_page_scheme"
    by (simp add: redraw_def)
  have o: "obj (Q\<lparr>l2_cards := c\<rparr>) = obj Q" for c and Q :: "'a l2_page_scheme" by (simp add: obj_def fun_eq_iff)
  show ?thesis using l2.redraw_again [OF wf, of ed] by (simp add: l2_draw_def Let_def c o)
qed

lemma finish_eq:
  "finish_provision dialog v t =
     (case (if strict_eq v JNull then Inr False else rbind (jget v ''success'') (\<lambda>s. Inr (loose_eq s (JNum 1)))) of
        Inl e \<Rightarrow> (Inl e, t)
      | Inr ok \<Rightarrow>
          if ok then (case jget v ''circuit_id'' of
              Inl e \<Rightarrow> (Inl e, t)
            | Inr i \<Rightarrow> (Inr (), t @ [Navigate (''index.cgi?action=modify_l2vpn&circuit_id='' @ to_str i)]))
          else (Inr (), t @ [ModalHide dialog, Alert ''There was an unexpected error provisioning the connection.'']))"
  by (simp add: finish_provision_def io_bind_lift split: sum.split)

lemma finish_outcome:
  assumes "m t = (r, t')"
  shows "\<exists>x. io_try (io_bind m (finish_provision dialog)) (provision_failed dialog) t = (Inr (), t' @ x) \<and>
     ((\<exists>u. x = [Navigate u]) \<or> (\<exists>s. x = [ModalHide dialog, Alert s]))"
proof (cases r)
  case (Inl e)
  with assms show ?thesis by (simp add: io_try_def io_bind_def provision_failed_def)
next
  case (Inr v)
  then have m: "io_bind m (finish_provision dialog) t = finish_provision dialog v t'"
    using assms by (simp add: io_bind_def)
  show ?thesis
    by (auto simp: io_try_def m finish_eq provision_failed_def split: sum.split)
qed

lemma provision_call:
  "provisionCircuit E wg ds es st en cid t =
     (rbind (serve E t (post_request (path E @ ''services/circuit.cgi'') (circuit_form wg ds es st en cid))) (err_in ''error_text''),
      t @ [Sent (post_request (path E @ ''services/circuit.cgi'') (circuit_form wg ds es st en cid))])"
  by (simp add: provisionCircuit_def api_call_eq)

lemma provision_outcome:
  "\<exists>x. io_try (io_bind (provisionCircuit E wg ds es st en cid) (finish_provision dialog)) (provision_failed dialog) t =
      (Inr (), t @ Sent (post_request (path E @ ''services/circuit.cgi'') (circuit_form wg ds es st en cid)) # x) \<and>
      ((\<exists>u. x = [Navigate u]) \<or> (\<exists>s. x = [ModalHide dialog, Alert s]))"
proof -
  let ?rq = "post_request (path E @ ''services/circuit.cgi'') (circuit_form wg ds es st en cid)"
  obtain x where "io_try (io_bind (provisionCircuit E wg ds es st en cid) (finish_provision dialog)) (provision_failed dialog) t =
      (Inr (), (t @ [Sent ?rq]) @ x)" "(\<exists>u. x = [Navigate u]) \<or> (\<exists>s. x = [ModalHide dialog, Alert s])"
    using finish_outcome [where m = "provisionCircuit E wg ds es st en cid" and t = t and dialog = dialog, OF provision_call] by blast
  then show ?thesis by (intro exI [of _ x]) simp
qed

text \<open>The request a save of the provisioning page sends.\<close>

definition save_request :: "env \<Rightarrow> l2_page \<Rightarrow> request" where
  "save_request E P = post_request (path E @ ''services/circuit.cgi'')
     (circuit_form (pget (l2_session P) ''workgroup_id'') (pget (l2_circuit P) ''description'') (endpoint_objs P)
        (pget (l2_circuit P) ''static_mac'') (pget (l2_circuit P) ''provision_time'') (pget (l2_circuit P) ''remove_time''))"

lemma provision_save_trace:
  "\<exists>x. provision_saveCircuit E P t = (Inr (), t @ [ModalShow add_l2vpn_loading, Sent (save_request E P)] @ x)"
  unfolding provision_saveCircuit_def io_bind_emit save_request_def
  using provision_outcome [of E "pget (l2_session P) ''workgroup_id''" "pget (l2_circuit P) ''description''" "endpoint_objs P"
      "pget (l2_circuit P) ''static_mac''" "pget (l2_circuit P) ''provision_time''" "pget (l2_circuit P) ''remove_time''"
      add_l2vpn_loading "t @ [ModalShow add_l2vpn_loading]"] by auto

lemma circuit_form_fields:
  "map_of (circuit_form wg ds es st en cid) ''provision_time'' = Some (if truthy st then to_str st else ''-1'')"
  "map_of (circuit_form wg ds es st en cid) ''remove_time'' = Some (if truthy en then to_str en else ''-1'')"
  "map_of (circuit_form wg ds es st en cid) ''circuit_id'' = Some (if cid = JUndef then ''-1'' else to_str cid)"
proof -
  have "show_int (- 1) = ''-1''" by code_simp
  then show "map_of (circuit_form wg ds es st en cid) ''provision_time'' = Some (if truthy st then to_str st else ''-1'')"
    "map_of (circuit_form wg ds es st en cid) ''remove_time'' = Some (if truthy en then to_str en else ''-1'')"
    "map_of (circuit_form wg ds es st en cid) ''circuit_id'' = Some (if cid = JUndef then ''-1'' else to_str cid)"
    by (simp_all add: circuit_form_def js_or_def dflt_def)
qed

section \<open>Properties\<close>

text \<open>
  (C26) Whatever a user does with the dialog and the delete buttons, the page for a new
  circuit stays consistent: the list has no gap and no endpoint twice, every endpoint knows
  its position, and the cards shown are those of the current endpoints in order.
\<close>

theorem l2_page_invariant:
  assumes "l2_run E port P"
  shows "None \<notin> set (eps P) \<and> distinct (eps P) \<and>
    (\<forall>i a. i < length (eps P) \<longrightarrow> eps P ! i = Some a \<longrightarrow> pget (obj P a) ''index'' = JNum (int i)) \<and>
    l2_cards P = map (\<lambda>a. (a, NewEndpoint E port (obj P a))) (present (eps P))"
  using l2_run_inv [OF assms] by (simp add: l2_inv_def wf_page_def indexed_def cards_current_def)

theorem l2_page_invariant_witness:
  "let P = provision_updateEndpoint sample_env [] 0 (snd (alloc [(''index'', JNum (- 1)), (''tag'', JNum 5)] (provision_init [])))
   in l2_run sample_env [] P \<and> eps P = [Some 0] \<and> pget (obj P 0) ''index'' = JNum 0"
proof -
  let ?ep = "[(''index'', JNum (- 1)), (''tag'', JNum 5)]"
  let ?P = "provision_updateEndpoint sample_env [] 0 (snd (alloc ?ep (provision_init [])))"
  have "alloc ?ep (provision_init []) = (0, snd (alloc ?ep (provision_init [])))" by (simp add: alloc_def provision_init_def)
  then have run: "l2_run sample_env [] ?P" by (intro l2_run.add [OF l2_run.start]) auto
  have "eps ?P = [Some 0]"
    by (simp add: provision_updateEndpoint_def provision_update_def store_endpoint_def alloc_def provision_init_def obj_def js_less_def Let_def)
  with run l2_page_invariant [OF run] show ?thesis by (simp add: Let_def)
qed

text \<open>
  (C25) The page implements a plain list of endpoints.  Leaving aside the two fields the
  page manages, adding an endpoint appends it, submitting a change of a listed endpoint, or
  another object for it, replaces exactly that element, and the delete button of a card removes exactly that
  element; nothing else in the list changes, although the objects are shared and changed
  in place.
\<close>

theorem l2_page_refines_list:
  assumes "l2_run E port P"
  shows "(\<forall>ep a P1. alloc ep P = (a, P1) \<longrightarrow> pget ep ''index'' = JNum (- 1) \<longrightarrow>
      endpoint_views l2_view (provision_updateEndpoint E port a P1) = endpoint_views l2_view P @ [l2_view ep]) \<and>
    (\<forall>ep a P1 i. alloc ep P = (a, P1) \<longrightarrow> i < length (eps P) \<longrightarrow> pget ep ''index'' = JNum (int i) \<longrightarrow>
      endpoint_views l2_view (provision_updateEndpoint E port a P1) = (endpoint_views l2_view P)[i := l2_view ep]) \<and>
    (\<forall>i a ws. i < length (eps P) \<longrightarrow> eps P ! i = Some a \<longrightarrow> \<not> phas ws ''index'' \<longrightarrow>
      endpoint_views l2_view (provision_updateEndpoint E port a (put_obj a (psets (obj P a) ws) P)) =
        (endpoint_views l2_view P)[i := l2_view (psets (obj P a) ws)]) \<and>
    (\<forall>i a. i < length (eps P) \<longrightarrow> eps P ! i = Some a \<longrightarrow>
      endpoint_views l2_view (provision_delete_click E port a P) = remove_at i (endpoint_views l2_view P))"
proof (intro conjI allI impI)
  have inv: "wf_page P" "indexed P" using l2_run_inv [OF assms] by (simp_all add: l2_inv_def)
  show "endpoint_views l2_view (provision_updateEndpoint E port a P1) = endpoint_views l2_view P @ [l2_view ep]"
    if "alloc ep P = (a, P1)" "pget ep ''index'' = JNum (- 1)" for ep a P1
    using l2.update_views_new [of P1 a "JBool True"] alloc_new [OF inv(1) that(1)] that(2)
      views_cong [of "provision_updateEndpoint E port a P1" "update_endpoint (mark_l2 (JBool True)) a P1" l2_view]
    by (simp add: provision_updateEndpoint_def provision_update_def update_endpoint_def)
  show "endpoint_views l2_view (provision_updateEndpoint E port a P1) = (endpoint_views l2_view P)[i := l2_view ep]"
    if "alloc ep P = (a, P1)" "i < length (eps P)" "pget ep ''index'' = JNum (int i)" for ep a P1 i
  proof -
    note new = alloc_new [OF inv(1) that(1)]
    have st: "store_endpoint a P1 = P1\<lparr>eps := (eps P1)[i := Some a]\<rparr>" using new that(2,3) by (simp add: store_replace)
    have "wf_page (store_endpoint a P1)" using wf_replace [OF new(1,2,3)] st by simp
    then have "endpoint_views l2_view (provision_updateEndpoint E port a P1) = endpoint_views l2_view (store_endpoint a P1)"
      by (simp add: provision_updateEndpoint_def provision_update_def l2_draw_page)
    then show ?thesis using views_replace [OF new(1), of i l2_view a] new(4,5) new(6) [of l2_view] that(2) st by simp
  qed
  show "endpoint_views l2_view (provision_updateEndpoint E port a (put_obj a (psets (obj P a) ws) P)) =
        (endpoint_views l2_view P)[i := l2_view (psets (obj P a) ws)]"
    if "i < length (eps P)" "eps P ! i = Some a" "\<not> phas ws ''index''" for i a ws
    using l2.update_views_listed(1) [OF inv that(1,2), of "psets (obj P a) ws" "JBool True"] that(3)
      views_cong [of "provision_updateEndpoint E port a (put_obj a (psets (obj P a) ws) P)"
        "update_endpoint (mark_l2 (JBool True)) a (put_obj a (psets (obj P a) ws) P)" l2_view]
    by (simp add: pget_psets_not_in provision_updateEndpoint_def provision_update_def update_endpoint_def)
  show "endpoint_views l2_view (provision_delete_click E port a P) = remove_at i (endpoint_views l2_view P)"
    if "i < length (eps P)" "eps P ! i = Some a" for i a
  proof -
    let ?v = "pget (obj P a) ''index''"
    have wf: "wf_page (P\<lparr>eps := splice1 ?v (eps P)\<rparr>)"
      using l2.delete_wf(1) [OF inv(1), of "JBool True" ?v] by (simp add: delete_endpoint_def)
    then have "endpoint_views l2_view (provision_delete_click E port a P) = endpoint_views l2_view (P\<lparr>eps := splice1 ?v (eps P)\<rparr>)"
      by (simp add: provision_delete_click_def provision_deleteEndpoint_def provision_update_def l2_draw_page)
    moreover have "endpoint_views l2_view (delete_endpoint (mark_l2 (JBool True)) ?v P) = endpoint_views l2_view (P\<lparr>eps := splice1 ?v (eps P)\<rparr>)"
      using wf by (simp add: delete_endpoint_def l2.views_redraw)
    ultimately show ?thesis using l2.delete_views [OF inv that, of "JBool True"] by simp
  qed
qed

theorem l2_page_refines_list_witness:
  "endpoint_views l2_view (provision_updateEndpoint sample_env [] 0 (snd (alloc [(''index'', JNum (- 1)), (''tag'', JNum 5)] (provision_init [])))) =
     [l2_view [(''index'', JNum (- 1)), (''tag'', JNum 5)]]"
proof -
  have "alloc [(''index'', JNum (- 1)), (''tag'', JNum 5)] (provision_init []) =
      (0, snd (alloc [(''index'', JNum (- 1)), (''tag'', JNum 5)] (provision_init [])))"
    by (simp add: alloc_def provision_init_def)
  moreover have "endpoint_views l2_view (provision_init []) = []"
    by (simp add: provision_init_def endpoint_views_def endpoint_objs_def)
  ultimately show ?thesis using l2_page_refines_list [OF l2_run.start [of sample_env "[]" "[]"]] by simp
qed

text \<open>
  Submitting the dialog twice for a new endpoint does no harm: the second submission
  leaves the whole page as the first one left it.
\<close>

theorem l2_double_submit:
  assumes "l2_run E port P" and "alloc ep P = (a, P1)" and "pget ep ''index'' = JNum (- 1)"
  shows "provision_updateEndpoint E port a (provision_updateEndpoint E port a P1) = provision_updateEndpoint E port a P1"
proof -
  have "wf_page P" using l2_run_inv [OF assms(1)] by (simp add: l2_inv_def)
  note new = alloc_new [OF this assms(2)]
  let ?Q = "provision_updateEndpoint E port a P1"
  have wf: "wf_page (store_endpoint a P1)" using new assms(3) by (auto simp: l2.store_new wf_page_def)
  have Q: "?Q = l2_draw E port (JBool True) (store_endpoint a P1)"
    by (simp add: provision_updateEndpoint_def provision_update_def)
  have e: "eps ?Q = eps P1 @ [Some a]" using new(4) assms(3) by (simp add: Q l2.store_new)
  have "indexed ?Q" using wf by (simp add: Q l2_draw_page)
  then have "store_endpoint a ?Q = ?Q" using e by (intro l2.store_listed [of _ "length (eps P1)"]) auto
  then show ?thesis using l2_draw_again [OF wf] by (simp add: provision_updateEndpoint_def provision_update_def Q)
qed

theorem l2_double_submit_witness:
  "provision_updateEndpoint sample_env [] 0 (provision_updateEndpoint sample_env [] 0 (snd (alloc [(''index'', JNum (- 1))] (provision_init [])))) =
   provision_updateEndpoint sample_env [] 0 (snd (alloc [(''index'', JNum (- 1))] (provision_init [])))"
  by (rule l2_double_submit [OF l2_run.start, of "[(''index'', JNum (- 1))]" "[]"]) (simp_all add: alloc_def provision_init_def)


text \<open>
  Creating a circuit with a schedule sends the wrong fields.  The call passes the
  static MAC flag as the start time, so every argument behind it is one place off: the
  server gets -1 as the time to provision, the time to provision as the time to remove,
  and the time to remove as the identifier of the circuit to change.
\<close>

theorem provision_save_shifts_arguments:
  assumes "pget (l2_circuit P) ''static_mac'' = JNum 0"
  shows "\<exists>rq rest. snd (provision_save_click E seconds description S P t) = t @ [ModalShow add_l2vpn_loading, Sent rq] @ rest \<and>
    map_of (rq_form rq) ''provision_time'' = Some ''-1'' \<and>
    map_of (rq_form rq) ''remove_time'' =
      Some (if truthy (createTime seconds S) then to_str (createTime seconds S) else ''-1'') \<and>
    map_of (rq_form rq) ''circuit_id'' =
      Some (if removeTime seconds S = JUndef then ''-1'' else to_str (removeTime seconds S))"
proof -
  let ?P = "P\<lparr>l2_circuit := psets (l2_circuit P) [(''description'', JStr description),
      (''provision_time'', createTime seconds S), (''remove_time'', removeTime seconds S)]\<rparr>"
  obtain x where x: "provision_saveCircuit E ?P t = (Inr (), t @ [ModalShow add_l2vpn_loading, Sent (save_request E ?P)] @ x)"
    using provision_save_trace by blast
  have f: "pget (l2_circuit ?P) ''static_mac'' = JNum 0" "pget (l2_circuit ?P) ''provision_time'' = createTime seconds S"
    "pget (l2_circuit ?P) ''remove_time'' = removeTime seconds S"
    using assms by simp_all
  have "snd (provision_save_click E seconds description S P t) = t @ [ModalShow add_l2vpn_loading, Sent (save_request E ?P)] @ x"
    unfolding provision_save_click_def Let_def io_bind_def x by simp
  then show ?thesis
    by (intro exI [of _ "save_request E ?P"] exI [of _ x])
      (simp add: save_request_def post_request_def circuit_form_fields assms)
qed

theorem provision_save_shifts_arguments_witness:
  "\<exists>rq rest. snd (provision_save_click sample_env (\<lambda>s. JNum 60) ''d''
      \<lparr>create_now = True, create_value = [], create_shown = False, remove_never = False, remove_value = ''1970-01-01T00:01'', remove_shown = True\<rparr>
      (provision_init []) []) = [ModalShow add_l2vpn_loading, Sent rq] @ rest \<and>
    map_of (rq_form rq) ''circuit_id'' = Some ''60''"
proof -
  let ?S = "\<lparr>create_now = True, create_value = [], create_shown = False, remove_never = False, remove_value = ''1970-01-01T00:01'', remove_shown = True\<rparr>"
  have s: "show_int 60 = ''60''" by code_simp
  have "pget (l2_circuit (provision_init [])) ''static_mac'' = JNum 0" by (simp add: provision_init_def)
  from provision_save_shifts_arguments [OF this, of sample_env "\<lambda>s. JNum 60" "''d''" ?S "[]"]
  obtain rq rest where "snd (provision_save_click sample_env (\<lambda>s. JNum 60) ''d'' ?S (provision_init []) []) =
      [] @ [ModalShow add_l2vpn_loading, Sent rq] @ rest"
    "map_of (rq_form rq) ''circuit_id'' = Some (if removeTime (\<lambda>s. JNum 60) ?S = JUndef then ''-1'' else to_str (removeTime (\<lambda>s. JNum 60) ?S))"
    by blast
  then show ?thesis using s by (simp add: removeTime_def)
qed

definition edit_rights :: "'a l2_page_scheme \<Rightarrow> bool" where
  "edit_rights P \<longleftrightarrow> pget (l2_circuit P) ''state'' \<noteq> JStr ''decom'' \<and>
    (truthy (pget (l2_session P) ''isAdmin'') \<or>
     loose_eq (pget (l2_session P) ''workgroup_id'') (pget (l2_circuit P) ''workgroup_id'') \<and>
     \<not> truthy (pget (l2_session P) ''isReadOnly''))"

text \<open>
  (C37) Editing controls follow the rights of the user.  When a circuit page has drawn
  itself, the buttons of every endpoint, the save and delete buttons of the header and the
  button for a new endpoint are visible exactly when the circuit is not decommissioned and
  the user is an administrator, or belongs to the owning workgroup and is not read-only.
\<close>

theorem modify_controls_follow_rights:
  assumes "modify_update E port P = (Inr (), P')" and "wf_page P"
  shows "m2_new_button P' = edit_rights P \<and>
    (\<exists>h. m2_header P' = Some h \<and> hd_edits h = (if edit_rights P then ''inline-block'' else ''none'')) \<and>
    list_all (\<lambda>(a, c). l2_buttons c = edit_rights P) (l2_cards P') \<and> map fst (l2_cards P') = present (eps P)"
proof -
  let ?ed = "l2_editable P" and ?ok = "edit_rights P"
  have ed: "truthy ?ed = ?ok" by (auto simp: l2_editable_def may_edit_def js_and_def js_or_def edit_rights_def)
  obtain vs header where P': "P' = l2_draw E port ?ed (P\<lparr>m2_new_button := truthy ?ed, m2_views := vs, m2_header := Some header\<rparr>)"
      and h: "hd_edits header = (if truthy ?ed then ''inline-block'' else ''none'')"
    using assms(1) by (auto simp: modify_update_def Let_def CircuitHeader_render_def split: sum.splits)
  let ?Q = "P\<lparr>m2_new_button := truthy ?ed, m2_views := vs, m2_header := Some header\<rparr>"
  have wf: "wf_page ?Q" using assms(2) by (simp add: wf_page_def)
  have b: "truthy (pget (obj (l2_draw E port ?ed ?Q) a) ''editable'') = ?ok" if a: "a \<in> set (present (eps P))" for a
  proof -
    have n: "None \<notin> set (eps P)" using assms(2) by (simp add: wf_page_def)
    obtain i where "i < length (present (eps P))" "present (eps P) ! i = a" using a by (auto simp: in_set_conv_nth)
    then have "i < length (eps ?Q)" "eps ?Q ! i = Some a" using nth_present [OF n] n by (auto simp: length_present)
    then show ?thesis using obj_redraw_in [OF wf] ed by (simp add: l2_draw_page mark_l2_def)
  qed
  have c: "l2_cards P' = map (\<lambda>a. (a, NewEndpoint E port (obj P' a))) (present (eps P))"
    using l2_draw_cards [of E port ?ed ?Q] by (simp add: P' cards_current_def)
  have "m2_new_button P' = ?ok" "m2_header P' = Some header" by (simp_all add: P' l2_draw_def redraw_def ed Let_def)
  with c h ed b show ?thesis by (auto simp: list_all_iff NewEndpoint_def P' comp_def)
qed

definition sample_modify :: "bool \<Rightarrow> modify_page" where
  "sample_modify ro = (modify_init [(''isAdmin'', JNum 0), (''workgroup_id'', JNum 1), (''isReadOnly'', JBool ro)])
     \<lparr>objs := [[]], eps := [Some 0], l2_circuit := [(''state'', JStr ''active''), (''workgroup_id'', JStr ''1''),
        (''description'', JStr ''a''), (''circuit_id'', JNum 7), (''created_by'', JObj []), (''last_modified_by'', JObj [])],
      m2_history := JArr [], m2_events := JArr [], m2_raw := JStr ''x''\<rparr>"

theorem modify_controls_follow_rights_witness:
  "edit_rights (sample_modify False) \<and> m2_new_button (snd (modify_update sample_env [] (sample_modify False))) \<and>
   \<not> edit_rights (sample_modify True) \<and> \<not> m2_new_button (snd (modify_update sample_env [] (sample_modify True)))"
proof -
  have "fst (modify_update sample_env [] (sample_modify ro)) = Inr ()" for ro by (cases ro; code_simp)
  then have u: "modify_update sample_env [] (sample_modify ro) = (Inr (), snd (modify_update sample_env [] (sample_modify ro)))" for ro
    by (metis prod.collapse)
  have wf: "wf_page (sample_modify ro)" for ro by (simp add: sample_modify_def modify_init_def wf_page_def)
  have "edit_rights (sample_modify False)" "\<not> edit_rights (sample_modify True)" by code_simp+
  with modify_controls_follow_rights [OF u [of False] wf] modify_controls_follow_rights [OF u [of True] wf]
  show ?thesis by simp
qed

text \<open>
  Deleting a circuit has no error path: when the server answers with an error text,
  the exception reaches no handler and the loading dialog that was opened stays open; the
  page shows no message.
\<close>

theorem modify_delete_error_hangs:
  assumes "answers E t (''Are you sure you want to delete '' @ dquote @ to_str (pget (l2_circuit P) ''description'') @ dquote @ ''?'')"
    and "\<forall>t' rq. serve E t' rq = Inr (JObj [(''error_text'', JStr msg)])"
  shows "\<exists>s rq. modify_deleteCircuit E P t = (Inl (Throw (JStr msg)), t @ [Asked s, ModalShow modify_loading, Sent rq])"
  using assms by (simp add: modify_deleteCircuit_def deleteCircuit_def api_call_eq err_in_def io_bind_def)

theorem modify_delete_error_hangs_witness:
  "\<exists>s rq. modify_deleteCircuit (sample_env\<lparr>serve := (\<lambda>t rq. Inr (JObj [(''error_text'', JStr ''busy'')]))\<rparr>) (modify_init []) [] =
     (Inl (Throw (JStr ''busy'')), [Asked s, ModalShow modify_loading, Sent rq])"
  using modify_delete_error_hangs [of "sample_env\<lparr>serve := (\<lambda>t rq. Inr (JObj [(''error_text'', JStr ''busy'')]))\<rparr>" "[]" "modify_init []" "''busy''"]
  by (simp add: sample_env_def)

end
