(* ===== verification/PeeringModal.thy ===== *)
theory PeeringModal
  imports ValidateIP Io
begin

text \<open>
  \<^verbatim>\<open>js_templates/l3/peering_modal.js\<close>: the dialog that adds a BGP peering to an endpoint.  The state
  is that of its form controls; the initial one is the template \<^verbatim>\<open>html_templates/l3/peering_modal.html\<close>.
\<close>

section \<open>The dialog\<close>

record peering_modal =
  pm_version :: select_el
  pm_asn :: input_el
  pm_your :: input_el
  pm_key :: input_el
  pm_oess :: input_el
  pm_bfd :: bool
  pm_info :: bool
  pm_onchange :: bool
  pm_visible :: bool

definition version_options :: "option_el list" where
  "version_options = [\<lparr>opt_value = ''ipv4'', opt_text = ''IPv4'', opt_disabled = False\<rparr>,
     \<lparr>opt_value = ''ipv6'', opt_text = ''IPv6'', opt_disabled = False\<rparr>]"

definition template_modal :: peering_modal where
  "template_modal = \<lparr>pm_version = \<lparr>sel_options = version_options, sel_index = 0, sel_disabled = False\<rparr>,
     pm_asn = number_input 1 4294967294, pm_your = text_input True, pm_key = text_input False, pm_oess = text_input True,
     pm_bfd = False, pm_info = False, pm_onchange = False, pm_visible = False\<rparr>"

text \<open>The assignments of the source: a value (null empties the field), a placeholder, and the
  disabled attribute.\<close>

definition fill :: "string \<Rightarrow> string \<Rightarrow> input_el \<Rightarrow> input_el" where
  "fill v ph el = el\<lparr>el_value := v, el_placeholder := ph\<rparr>"

definition disable :: "input_el \<Rightarrow> input_el" where
  "disable el = el\<lparr>el_disabled := True\<rparr>"

definition oracle_asn :: "peering_modal \<Rightarrow> peering_modal" where
  "oracle_asn M = M\<lparr>pm_asn := disable (fill ''31898'' ''31898'' (pm_asn M))\<rparr>"

definition new_PeeringModal :: "props \<Rightarrow> jsval \<Rightarrow> peering_modal" where
  "new_PeeringModal peering cloud_interconnect_type =
     (let M0 = template_modal;
          M1 = (if truthy (pget peering ''isPeeringAutoGenerated'')
                then M0\<lparr>pm_info := True,
                        pm_asn := disable (fill [] ''0'' (pm_asn M0)),
                        pm_key := disable (fill [] [] (pm_key M0)),
                        pm_your := disable (fill [] ''192.168.1.2/31'' (pm_your M0)),
                        pm_oess := disable (fill [] ''192.168.1.3/31'' (pm_oess M0))\<rparr>
                else M0)
      in if strict_eq cloud_interconnect_type (JStr ''oracle-fast-connect'') then oracle_asn M1 else M1)"

definition handleIpVersionChange :: "peering_modal \<Rightarrow> peering_modal res" where
  "handleIpVersionChange M =
     rbind (selected_value (pm_version M)) (\<lambda>ipVersion.
     Inr (if ipVersion = ''ipv6''
          then M\<lparr>pm_oess := asIPv6CIDR (pm_oess M), pm_your := asIPv6CIDR (pm_your M)\<rparr>
          else M\<lparr>pm_oess := asIPv4CIDR (pm_oess M), pm_your := asIPv4CIDR (pm_your M)\<rparr>))"

definition hide :: "peering_modal \<Rightarrow> peering_modal" where
  "hide M = M\<lparr>pm_visible := False\<rparr>"

definition display :: "jsval \<Rightarrow> jsval \<Rightarrow> peering_modal \<Rightarrow> peering_modal res" where
  "display peering cloud_interconnect_type M =
     rbind (handleIpVersionChange
       (if strict_eq peering JNull
        then (let M1 = M\<lparr>pm_version := (pm_version M)\<lparr>sel_index := 0\<rparr>, pm_onchange := True\<rparr>;
                  M2 = (if strict_eq cloud_interconnect_type (JStr ''oracle-fast-connect'') then oracle_asn M1
                        else M1\<lparr>pm_asn := fill [] ''0'' (pm_asn M1)\<rparr>)
              in M2\<lparr>pm_key := fill [] [] (pm_key M2), pm_your := fill [] ''192.168.1.2/31'' (pm_your M2),
                    pm_oess := fill [] ''192.168.1.3/31'' (pm_oess M2), pm_bfd := False\<rparr>)
        else M)) (\<lambda>M. Inr (M\<lparr>pm_visible := True\<rparr>))"

text \<open>The click on the add button: the fields are checked in this order, and the first invalid
  one ends it; otherwise the peering goes to the callback \<open>f\<close> and the dialog closes.\<close>

definition null_if_empty :: "string \<Rightarrow> jsval" where
  "null_if_empty s = (if s = [] then JNull else JStr s)"

definition modal_peering :: "string \<Rightarrow> peering_modal \<Rightarrow> props" where
  "modal_peering ipVersion M =
     [(''ip_version'', JStr ipVersion), (''peer_asn'', JStr (el_value (pm_asn M))), (''md5_key'', null_if_empty (el_value (pm_key M))),
      (''local_ip'', null_if_empty (el_value (pm_oess M))), (''peer_ip'', null_if_empty (el_value (pm_your M))),
      (''operational_state'', JStr ''unknown''), (''bfd'', JBool (pm_bfd M))]"

definition submit_click :: "(props \<Rightarrow> 's \<Rightarrow> 's res) \<Rightarrow> peering_modal \<Rightarrow> 's \<Rightarrow> (peering_modal \<times> 's) res" where
  "submit_click f M s =
     rbind (selected_value (pm_version M)) (\<lambda>ipVersion.
     if \<not> el_valid (pm_asn M) then Inr (M, s)
     else if \<not> el_valid (pm_your M) then Inr (M, s)
     else if \<not> el_valid (pm_key M) then Inr (M, s)
     else if \<not> el_valid (pm_oess M) then Inr (M, s)
     else rbind (f (modal_peering ipVersion M) s) (\<lambda>s'. Inr (hide M, s')))"

text \<open>The user: choosing a version, which runs the change handler, and typing into a field.\<close>

definition choose_version :: "nat \<Rightarrow> peering_modal \<Rightarrow> peering_modal res" where
  "choose_version i M =
     (let M1 = M\<lparr>pm_version := (pm_version M)\<lparr>sel_index := int i\<rparr>\<rparr>
      in if pm_onchange M then handleIpVersionChange M1 else Inr M1)"

definition type_fields :: "string \<Rightarrow> string \<Rightarrow> string \<Rightarrow> string \<Rightarrow> peering_modal \<Rightarrow> peering_modal" where
  "type_fields asn your key oess M = M\<lparr>pm_asn := user_input asn (pm_asn M), pm_your := user_input your (pm_your M),
     pm_key := user_input key (pm_key M), pm_oess := user_input oess (pm_oess M)\<rparr>"

section \<open>Facts\<close>

lemma selected_version:
  "sel_options s = version_options \<Longrightarrow> sel_index s = 0 \<Longrightarrow> selected_value s = Inr ''ipv4''"
  "sel_options s = version_options \<Longrightarrow> sel_index s = 1 \<Longrightarrow> selected_value s = Inr ''ipv6''"
  by (simp_all add: selected_value_def selected_def version_options_def)

text \<open>What the address fields accept for either version.\<close>

definition subnet_text :: "bool \<Rightarrow> string \<Rightarrow> bool" where
  "subnet_text v6 s \<longleftrightarrow> (if v6 then (\<exists>a p. ipv6_zoned a \<and> prefix6_text p \<and> s = a @ ''/'' @ p)
     else (\<exists>q n. n \<le> 32 \<and> dotted_quad q \<and> s = q @ ''/'' @ show_nat n))"

lemma cidr_field:
  "el_required el \<Longrightarrow> \<not> el_disabled el \<Longrightarrow> el_valid (user_input v (asIPv4CIDR el)) \<longleftrightarrow> subnet_text False v"
  "el_required el \<Longrightarrow> \<not> el_disabled el \<Longrightarrow> el_valid (user_input v (asIPv6CIDR el)) \<longleftrightarrow> subnet_text True v"
  unfolding v4c.valid_after_input v6c.valid_after_input rmatch_iff in_IPv4CIDR in_IPv6CIDR subnet_text_def by auto

definition asn_text :: "string \<Rightarrow> bool" where
  "asn_text s \<longleftrightarrow> s \<noteq> [] \<and> (\<exists>n. str_to_num s = JNum n \<and> 1 \<le> n \<and> n \<le> 4294967294)"

lemma asn_field:
  "el_valid (user_input v (fill x ph (number_input 1 4294967294))) \<longleftrightarrow> asn_text v"
  by (cases "str_to_num v") (auto simp: user_input_def fill_def number_input_def text_input_def el_valid_def value_missing_def
      pattern_mismatch_def range_mismatch_def asn_text_def)

lemma plain_field: "el_valid (user_input v (fill x ph (text_input False)))"
  by (simp add: user_input_def fill_def text_input_def el_valid_def value_missing_def pattern_mismatch_def range_mismatch_def)

lemma user_input_value [simp]: "el_value (user_input v el) = v"
  by (simp add: user_input_def)

lemma disabled_empty_valid:
  "el_disabled el \<Longrightarrow> el_value el = [] \<Longrightarrow> el_custom el = [] \<Longrightarrow> el_valid el"
  by (simp add: el_valid_def value_missing_def pattern_mismatch_def range_mismatch_def)

lemma attach_fields [simp]:
  "el_value (asIPv4CIDR el) = el_value el" "el_disabled (asIPv4CIDR el) = el_disabled el" "el_custom (asIPv4CIDR el) = el_custom el"
  "el_value (asIPv6CIDR el) = el_value el" "el_disabled (asIPv6CIDR el) = el_disabled el" "el_custom (asIPv6CIDR el) = el_custom el"
  by (simp_all add: attach_defs)

text \<open>The dialog as \<^verbatim>\<open>display(null)\<close> shows it, for an endpoint without generated peerings and not at Oracle.\<close>

definition shown_modal :: peering_modal where
  "shown_modal = template_modal\<lparr>pm_onchange := True, pm_asn := fill [] ''0'' (number_input 1 4294967294),
     pm_key := fill [] [] (text_input False), pm_your := asIPv4CIDR (fill [] ''192.168.1.2/31'' (text_input True)),
     pm_oess := asIPv4CIDR (fill [] ''192.168.1.3/31'' (text_input True)), pm_visible := True\<rparr>"

lemma display_new:
  assumes "\<not> truthy (pget ep ''isPeeringAutoGenerated'')" and "cit \<noteq> JStr ''oracle-fast-connect''"
  shows "display JNull cit (new_PeeringModal ep cit) = Inr shown_modal"
  using assms by (simp add: display_def new_PeeringModal_def template_modal_def handleIpVersionChange_def selected_version
      shown_modal_def Let_def)

definition shown_modal6 :: peering_modal where
  "shown_modal6 = shown_modal\<lparr>pm_version := (pm_version shown_modal)\<lparr>sel_index := 1\<rparr>,
     pm_your := asIPv6CIDR (pm_your shown_modal), pm_oess := asIPv6CIDR (pm_oess shown_modal)\<rparr>"

lemma choose_ipv6: "choose_version 1 shown_modal = Inr shown_modal6"
  by (simp add: choose_version_def handleIpVersionChange_def shown_modal_def shown_modal6_def template_modal_def selected_version Let_def)

lemma hide_select [simp]: "pm_version (hide M) = pm_version M"
  by (simp add: hide_def)

lemma submit_valid:
  assumes "selected_value (pm_version M) = Inr ver"
  shows "rbind (submit_click f M s) (\<lambda>x. Inr (snd x)) =
    (if el_valid (pm_asn M) \<and> el_valid (pm_your M) \<and> el_valid (pm_key M) \<and> el_valid (pm_oess M)
     then f (modal_peering ver M) s else Inr s)"
  using assms by (cases "f (modal_peering ver M) s") (simp_all add: submit_click_def)

lemma required_after_attach:
  "el_required (asIPv4CIDR el) = el_required el" "el_required (asIPv6CIDR el) = el_required el"
  by (simp_all add: attach_defs)

lemma filled_text:
  "el_required (fill x ph (text_input r)) = r" "\<not> el_disabled (fill x ph (text_input r))"
  by (simp_all add: fill_def text_input_def)

lemma subnet_text_ne: "subnet_text v6 t \<Longrightarrow> t \<noteq> []"
  by (auto simp: subnet_text_def split: if_splits)

lemma typed_peering:
  "modal_peering ver (type_fields asn your key oess M) =
     [(''ip_version'', JStr ver), (''peer_asn'', JStr asn), (''md5_key'', null_if_empty key),
      (''local_ip'', null_if_empty oess), (''peer_ip'', null_if_empty your),
      (''operational_state'', JStr ''unknown''), (''bfd'', JBool (pm_bfd (type_fields asn your key oess M)))]"
  by (simp add: modal_peering_def type_fields_def)

section \<open>Properties\<close>


lemma sample_subnet: "subnet_text False ''10.0.0.1/8''"
proof -
  have "show_nat 10 = ''10''" "show_nat 0 = ''0''" "show_nat 1 = ''1''" "show_nat 8 = ''8''" by code_simp+
  then have "dotted_quad ''10.0.0.1''" unfolding dotted_quad_def
    by (intro exI [of _ 10] exI [of _ 0] exI [of _ 0] exI [of _ 1]) (simp add: dotted_def)
  with \<open>show_nat 8 = ''8''\<close> show ?thesis unfolding subnet_text_def
    by (simp add: exI [of _ "''10.0.0.1''"]) (intro exI [of _ "''10.0.0.1''"] exI [of _ 8]; simp)
qed


text \<open>
  A peering the cloud provider generates needs only the version: for an endpoint with
  generated peerings the dialog has every other field disabled and empty, and pressing the
  button at once adds a peering without addresses, key and AS number.
\<close>

theorem generated_peering_submits:
  assumes "truthy (pget ep ''isPeeringAutoGenerated'')" and "cit \<noteq> JStr ''oracle-fast-connect''"
  shows "rbind (display JNull cit (new_PeeringModal ep cit)) (\<lambda>M.
      rbind (if v6 then choose_version 1 M else Inr M) (\<lambda>M.
      rbind (submit_click f M s) (\<lambda>x. Inr (snd x)))) =
    f [(''ip_version'', JStr (if v6 then ''ipv6'' else ''ipv4'')), (''peer_asn'', JStr []), (''md5_key'', JNull),
       (''local_ip'', JNull), (''peer_ip'', JNull), (''operational_state'', JStr ''unknown''), (''bfd'', JBool False)] s"
proof -
  obtain M where M: "display JNull cit (new_PeeringModal ep cit) = Inr M"
    and f: "el_disabled (pm_asn M)" "el_disabled (pm_your M)" "el_disabled (pm_key M)" "el_disabled (pm_oess M)"
      "el_value (pm_asn M) = []" "el_value (pm_your M) = []" "el_value (pm_key M) = []" "el_value (pm_oess M) = []"
      "el_custom (pm_asn M) = []" "el_custom (pm_your M) = []" "el_custom (pm_key M) = []" "el_custom (pm_oess M) = []"
      "sel_options (pm_version M) = version_options" "sel_index (pm_version M) = 0" "pm_onchange M" "\<not> pm_bfd M"
    using assms by (simp add: display_def new_PeeringModal_def template_modal_def handleIpVersionChange_def selected_version Let_def
        fill_def disable_def number_input_def text_input_def)
  show ?thesis
  proof (cases v6)
    case True
    then show ?thesis using f
      by (simp add: M choose_version_def handleIpVersionChange_def selected_version submit_valid disabled_empty_valid Let_def
          modal_peering_def null_if_empty_def)
  next
    case False
    then show ?thesis using f
      by (simp add: M selected_version submit_valid disabled_empty_valid modal_peering_def null_if_empty_def)
  qed
qed

theorem generated_peering_submits_witness:
  "rbind (display JNull JNull (new_PeeringModal [(''isPeeringAutoGenerated'', JBool True)] JNull)) (\<lambda>M.
      rbind (if True then choose_version 1 M else Inr M) (\<lambda>M.
      rbind (submit_click (\<lambda>p s. Inr (Some (pget p ''ip_version''))) M None) (\<lambda>x. Inr (snd x)))) = Inr (Some (JStr ''ipv6''))"
  by (subst generated_peering_submits) simp_all

text \<open>
  Changing the version keeps a stale error: an address that was typed while the other
  version was chosen, and is a correct subnet of the version chosen now, still counts as
  invalid until it is typed again.
\<close>

theorem version_change_keeps_error:
  assumes "subnet_text True your" and "\<not> subnet_text False your"
  shows "\<exists>M. choose_version 1 (type_fields asn your key oess shown_modal) = Inr M \<and> el_value (pm_your M) = your \<and>
    \<not> el_valid (pm_your M) \<and> el_valid (user_input your (pm_your M))"
proof -
  let ?el = "user_input your (asIPv4CIDR (fill [] ''192.168.1.2/31'' (text_input True)))"
  obtain M where M: "choose_version 1 (type_fields asn your key oess shown_modal) = Inr M" "pm_your M = asIPv6CIDR ?el"
    by (simp add: choose_version_def handleIpVersionChange_def type_fields_def shown_modal_def template_modal_def
        selected_version Let_def)
  have "your \<noteq> []" using subnet_text_ne [OF assms(1)] .
  then have "el_custom ?el \<noteq> []"
    using assms(2) unfolding v4c.custom_after_input rmatch_iff in_IPv4CIDR subnet_text_def by (auto simp: filled_text)
  moreover have "el_required ?el" "\<not> el_disabled ?el" by (simp_all add: user_input_def required_after_attach filled_text)
  ultimately have "\<not> el_valid (pm_your M) \<and> el_valid (user_input your (pm_your M))"
    using assms(1) by (simp add: M(2) cidr_field) (simp add: el_valid_def)
  then show ?thesis using M by (intro exI [of _ M]) simp
qed

theorem version_change_keeps_error_witness:
  "\<exists>M. choose_version 1 (type_fields ''1'' ''::/0'' [] [] shown_modal) = Inr M \<and> el_value (pm_your M) = ''::/0'' \<and>
    \<not> el_valid (pm_your M) \<and> el_valid (user_input ''::/0'' (pm_your M))"
proof (rule version_change_keeps_error)
  have "rmatch IPv6CIDR ''::/0''" by code_simp
  then show "subnet_text True ''::/0''" unfolding rmatch_iff in_IPv6CIDR subnet_text_def by simp
  have "\<not> rmatch IPv4CIDR ''::/0''" by code_simp
  then show "\<not> subnet_text False ''::/0''" unfolding rmatch_iff in_IPv4CIDR subnet_text_def by auto
qed

end
