(* ===== verification/L3Pages.thy ===== *)
theory L3Pages
  imports L2Pages PeeringModal ApiData
begin

text \<open>
  The pages of a layer 3 connection: \<^verbatim>\<open>provision_cloud.js\<close> (a new one) and \<^verbatim>\<open>modify_cloud.js\<close> (an
  existing one), with the buttons of the cards that change their state (\<^verbatim>\<open>l3/endpoint.js\<close> and
  \<^verbatim>\<open>l3/peering.js\<close>).  The endpoints are objects of the store; the peerings of an endpoint
  are values inside it, since no other object refers to them.
\<close>

section \<open>Drawing the endpoints and their peerings\<close>

text \<open>Whether the cloud provider generates the peerings of an endpoint.\<close>

definition auto_generated :: "props \<Rightarrow> bool" where
  "auto_generated ep =
     (let t = pget ep ''cloud_interconnect_type''
      in \<not> strict_eq t JNull \<and> \<not> strict_eq t (JStr ''aws-hosted-connection'') \<and> \<not> strict_eq t (JStr ''oracle-fast-connect''))"

text \<open>
  The inner loop of \<^verbatim>\<open>update\<close>: what it writes into the peerings, the peerings it draws a card
  of, and whether it throws.  It ends at a peering that is null.
\<close>

definition mark_peer :: "jsval \<Rightarrow> bool \<Rightarrow> nat \<Rightarrow> nat \<Rightarrow> props \<Rightarrow> props" where
  "mark_peer ed auto i j p = psets p [(''index'', JNum (int j)), (''endpointIndex'', JNum (int i)), (''editable'', ed),
     (''isPeeringAutoGenerated'', JBool auto)]"

fun mark_peers :: "jsval \<Rightarrow> bool \<Rightarrow> nat \<Rightarrow> nat \<Rightarrow> jsval list \<Rightarrow> jsval list" where
  "mark_peers ed auto i j [] = []"
| "mark_peers ed auto i j (p # ps) =
     (if is_nullish p then p # ps
      else (case p of JObj q \<Rightarrow> JObj (mark_peer ed auto i j q) | _ \<Rightarrow> p) # mark_peers ed auto i (Suc j) ps)"

definition peers_of :: "props \<Rightarrow> jsval list" where
  "peers_of ep = (case pget ep ''peers'' of JArr ps \<Rightarrow> ps | _ \<Rightarrow> [])"

definition peer_cards :: "props \<Rightarrow> peering_card list" where
  "peer_cards ep = map (\<lambda>p. Peering2 (as_props p)) (takeWhile (\<lambda>p. \<not> is_nullish p) (peers_of ep))"

fun is_array :: "jsval \<Rightarrow> bool" where
  "is_array (JArr ps) = True"
| "is_array _ = False"

definition draw_throws :: "props \<Rightarrow> bool" where
  "draw_throws ep \<longleftrightarrow> phas ep ''peers'' \<and> \<not> is_array (pget ep ''peers'') \<or> list_ex is_nullish (peers_of ep)"

text \<open>The outer loop.\<close>

definition mark_l3 :: "jsval \<Rightarrow> nat \<Rightarrow> props \<Rightarrow> props" where
  "mark_l3 ed i ep =
     (let e1 = pset ep ''index'' (JNum (int i));
          e2 = (if phas e1 ''peers'' then e1 else pset e1 ''peers'' (JArr []));
          e3 = pset e2 ''editable'' ed;
          e4 = pset e3 ''isPeeringAutoGenerated'' (JBool (auto_generated ep))
      in case pget e4 ''peers'' of
           JArr ps \<Rightarrow> pset e4 ''peers'' (JArr (mark_peers ed (auto_generated ep) i 0 ps))
         | _ \<Rightarrow> e4)"

record l3_page = page +
  l3_connection :: props
  l3_session :: props
  l3_cards :: "(nat \<times> l3_card \<times> peering_card list) list"

text \<open>The endpoints \<^verbatim>\<open>update\<close> visits: all, or those up to the one where it throws.\<close>

fun visited :: "(nat \<Rightarrow> bool) \<Rightarrow> nat option list \<Rightarrow> nat option list" where
  "visited bad [] = []"
| "visited bad (None # xs) = None # visited bad xs"
| "visited bad (Some a # xs) = Some a # (if bad a then [] else visited bad xs)"

definition l3_draw :: "env \<Rightarrow> jsval \<Rightarrow> 'a l3_page_scheme \<Rightarrow> unit res \<times> 'a l3_page_scheme" where
  "l3_draw E ed P =
     (let bad = (\<lambda>a. draw_throws (obj P a));
          vs = visited bad (eps P);
          P' = P\<lparr>objs := reindex (mark_l3 ed) 0 vs (objs P)\<rparr>
      in (if list_ex bad (present (eps P)) then Inl TypeError else Inr (),
          P'\<lparr>l3_cards := map (\<lambda>a. (a, Endpoint2 E (obj P' a), peer_cards (obj P' a))) (present vs)\<rparr>))"

section \<open>What both pages do\<close>

text \<open>\<open>endpoints[i].peers.splice(j, 1)\<close>\<close>

definition deletePeering :: "nat \<Rightarrow> nat \<Rightarrow> 'a l3_page_scheme \<Rightarrow> 'a l3_page_scheme res" where
  "deletePeering endpointIndex peeringIndex P =
     (if endpointIndex < length (eps P)
      then (case eps P ! endpointIndex of
          None \<Rightarrow> Inl TypeError
        | Some a \<Rightarrow> (case pget (obj P a) ''peers'' of
            JArr ps \<Rightarrow> Inr (put_obj a (pset (obj P a) ''peers'' (JArr (splice1 (JNum (int peeringIndex)) ps))) P)
          | _ \<Rightarrow> Inl TypeError))
      else Inl TypeError)"

text \<open>
  The callback of the peering dialog of an endpoint.  The guard \<^verbatim>\<open>!'peerings' in endpoint\<close> is
  \<^verbatim>\<open>(!'peerings') in endpoint\<close>, which looks for a property called \<^verbatim>\<open>false\<close>.
\<close>

definition push_peer :: "props \<Rightarrow> nat \<Rightarrow> 'a l3_page_scheme \<Rightarrow> 'a l3_page_scheme res" where
  "push_peer peering a P =
     (let ep = (if phas (obj P a) ''false'' then pset (obj P a) ''peers'' (JArr []) else obj P a)
      in case pget ep ''peers'' of
           JArr ps \<Rightarrow> Inr (put_obj a (pset ep ''peers'' (JArr (ps @ [JObj peering]))) P)
         | _ \<Rightarrow> Inl TypeError)"

text \<open>What saving does with the answer: \<^verbatim>\<open>try\<close>, \<^verbatim>\<open>catch\<close> around the call.\<close>

definition finish_vrf :: "string \<Rightarrow> jsval io \<Rightarrow> unit io" where
  "finish_vrf dialog call =
     io_try (io_bind call (\<lambda>vrfID.
         if strict_eq vrfID JNull then emit (ModalHide dialog)
         else emit (Navigate (''index.cgi?action=modify_cloud&vrf_id='' @ to_str vrfID))))
       (\<lambda>e. io_bind (emit (ModalHide dialog)) (\<lambda>_. emit (Alert (''Failed to provision L3VPN: '' @ exn_text e))))"

definition l3_cancel :: "env \<Rightarrow> unit io" where
  "l3_cancel E = io_bind (confirm E ''Are you sure you wish to cancel? All your changes will be lost.'') (\<lambda>ok.
     if \<not> ok then io_ret () else emit (Navigate ''index.cgi''))"

section \<open>A new connection\<close>

definition cloud_init :: "props \<Rightarrow> l3_page" where
  "cloud_init session = \<lparr>objs = [], eps = [], l3_connection = [(''id'', JNum (- 1))], l3_session = session, l3_cards = []\<rparr>"

text \<open>\<^verbatim>\<open>update\<close> is asynchronous: an exception it ends with reaches no caller.\<close>

definition cloud_update :: "env \<Rightarrow> l3_page \<Rightarrow> l3_page" where
  "cloud_update E P = snd (l3_draw E (JBool True) P)"

definition cloud_selectConnection :: "env \<Rightarrow> l3_page \<Rightarrow> l3_page" where
  "cloud_selectConnection E P = cloud_update E P"

definition cloud_updateEndpoint :: "env \<Rightarrow> nat \<Rightarrow> l3_page \<Rightarrow> l3_page" where
  "cloud_updateEndpoint E a P = cloud_update E (store_endpoint a P)"

definition cloud_deleteEndpoint :: "env \<Rightarrow> jsval \<Rightarrow> l3_page \<Rightarrow> l3_page" where
  "cloud_deleteEndpoint E i P = cloud_update E (P\<lparr>eps := splice1 i (eps P)\<rparr>)"

definition add_network_loading :: string where "add_network_loading = ''#add-network-loading''"

definition cloud_save :: "env \<Rightarrow> (string \<Rightarrow> jsval) \<Rightarrow> input_el \<Rightarrow> schedule \<Rightarrow> l3_page \<Rightarrow> unit io" where
  "cloud_save E date description S P =
     (if \<not> el_valid description then io_ret ()
      else io_bind (emit (ModalShow add_network_loading)) (\<lambda>_.
        finish_vrf add_network_loading
          (provisionVRF E (pget (l3_session P) ''workgroup_id'') (JStr (el_value description)) (JStr (el_value description))
             (endpoint_objs P) (createTime date S) (removeTime date S) (JNum (- 1)))))"

definition cloud_cancel_click :: "unit io" where
  "cloud_cancel_click = emit (Navigate ''index.cgi?action=welcome'')"

text \<open>The buttons of the cards.\<close>

definition cloud_delete_click :: "env \<Rightarrow> nat \<Rightarrow> l3_page \<Rightarrow> l3_page" where
  "cloud_delete_click E a P = cloud_update E (cloud_deleteEndpoint E (pget (obj P a) ''index'') P)"

definition cloud_peer_delete_click :: "env \<Rightarrow> nat \<Rightarrow> nat \<Rightarrow> l3_page \<Rightarrow> l3_page res" where
  "cloud_peer_delete_click E i j P = rbind (deletePeering i j P) (\<lambda>P'. Inr (cloud_update E P'))"

definition cloud_add_peer :: "env \<Rightarrow> nat \<Rightarrow> props \<Rightarrow> l3_page \<Rightarrow> l3_page res" where
  "cloud_add_peer E a peering P = rbind (push_peer peering a P) (\<lambda>P'. Inr (cloud_update E (cloud_updateEndpoint E a P')))"

text \<open>The two validators of an earlier form of the peering row.\<close>

definition setIPv4ValidationMessage :: "input_el \<Rightarrow> input_el" where
  "setIPv4ValidationMessage el =
     el\<lparr>el_listeners := el_listeners el @ [''Please input a valid IPv4 subnet in CIDR notation.'']\<rparr>"

definition loadPeerFormValidator :: "bool \<Rightarrow> input_el \<Rightarrow> input_el \<Rightarrow> input_el \<times> input_el" where
  "loadPeerFormValidator ipv6 yourPeerIP oessPeerIP =
     (if ipv6 then (asIPv6CIDR yourPeerIP, asIPv6CIDR oessPeerIP) else (asIPv4CIDR yourPeerIP, asIPv4CIDR oessPeerIP))"

section \<open>An existing connection: the graphs\<close>

text \<open>
  For each endpoint the page has a panel with two graphs and a select box of its peerings,
  all found by the number of the endpoint, and a dropdown that chooses among them.  The
  addresses of peerings contain no blanks and no markup, so the options the page writes as
  text read back as they were.
\<close>

record stat_panel =
  sp_node :: string
  sp_interface :: string
  sp_unit :: string
  sp_title :: string
  sp_controller :: string
  sp_vrf :: string
  sp_peers :: select_el
  sp_shown :: bool
  sp_select_shown :: bool
  sp_src :: string
  sp_peer_src :: string

record graph_urls =
  g_port :: string
  g_peer :: string
  g_route :: string

definition updateStatisticsIFrame :: "graph_urls \<Rightarrow> nat \<Rightarrow> string \<Rightarrow> stat_panel list \<Rightarrow> stat_panel list res" where
  "updateStatisticsIFrame G c period ps =
     (if c < length ps
      then (let p = ps ! c; peer = select_get_value (sp_peers p)
        in Inr (ps[c := p\<lparr>
          sp_src := g_port G @ ''&var-node='' @ sp_node p @ ''&var-interface='' @ sp_interface p @ ''.'' @ sp_unit p @ period,
          sp_peer_src := (if sp_controller p = ''nso''
            then g_peer G @ ''&var-node='' @ sp_node p @ ''&var-vrf=OESS-VRF-'' @ sp_vrf p @ ''&var-peer='' @ takeWhile (\<lambda>x. x \<noteq> CHR ''/'') peer @ period
            else g_peer G @ ''&var-node='' @ sp_node p @ ''&var-vrf=OESS-L3VPN-'' @ sp_vrf p @ ''&var-peer='' @ peer @ period)\<rparr>]))
      else Inl TypeError)"

definition displayStatisticsIFrame :: "graph_urls \<Rightarrow> nat \<Rightarrow> string \<Rightarrow> stat_panel list \<Rightarrow> stat_panel list res" where
  "displayStatisticsIFrame G c period ps =
     (let hidden = map (\<lambda>p. p\<lparr>sp_shown := False, sp_select_shown := False\<rparr>) ps
      in if c < length ps
         then updateStatisticsIFrame G c period (hidden[c := (hidden ! c)\<lparr>sp_shown := True, sp_select_shown := True\<rparr>])
         else Inl TypeError)"

definition peer_options :: "jsval list \<Rightarrow> select_el res" where
  "peer_options ps = rbind (rmap (\<lambda>p. jget p ''peer_ip'') ps) (\<lambda>ips.
     Inr \<lparr>sel_options = map (\<lambda>ip. \<lparr>opt_value = to_str ip, opt_text = to_str ip, opt_disabled = False\<rparr>) ips,
       sel_index = (if ips = [] then - 1 else 0), sel_disabled = False\<rparr>)"

definition new_panel :: "jsval \<Rightarrow> props \<Rightarrow> select_el \<Rightarrow> stat_panel" where
  "new_panel vrf ep sel = \<lparr>sp_node = to_str (pget ep ''node''), sp_interface = to_str (pget ep ''interface''),
     sp_unit = to_str (pget ep ''unit''),
     sp_title = to_str (pget ep ''node'') @ '' - '' @ to_str (pget ep ''interface'') @ '' - '' @ to_str (pget ep ''tag''),
     sp_controller = to_str (pget ep ''controller''), sp_vrf = to_str vrf, sp_peers = sel,
     sp_shown = False, sp_select_shown = True, sp_src = [], sp_peer_src = []\<rparr>"

text \<open>What the loop of \<^verbatim>\<open>selectConnection\<close> writes into an endpoint before it reads its peerings.\<close>

definition load_endpoint :: "props \<Rightarrow> props" where
  "load_endpoint ep =
     (let e1 = (if loose_eq (pget ep ''cloud_interconnect_type'') (JStr ''gcp-partner-interconnect'')
                then pset ep ''cloud_gateway_type'' (JStr (if loose_eq (pget ep ''mtu'') (JNum 1500) then ''1500'' else ''1440''))
                else ep)
      in if phas e1 ''false'' then pset e1 ''peers'' (JArr []) else e1)"

section \<open>An existing connection: the page\<close>

record l3_modify = l3_page +
  m3_null :: bool
  m3_history :: jsval
  m3_texts :: "(string \<times> string) list"
  m3_route :: string
  m3_panels :: "stat_panel list"
  m3_new_button :: bool
  m3_header :: "header_view option"
  m3_history_html :: string
  m3_error :: bool

definition modify_cloud_init :: "props \<Rightarrow> l3_modify" where
  "modify_cloud_init session = \<lparr>objs = [], eps = [], l3_connection = [(''id'', JNum (- 1))], l3_session = session, l3_cards = [],
     m3_null = False, m3_history = JArr [], m3_texts = [], m3_route = [], m3_panels = [], m3_new_button = True,
     m3_header = None, m3_history_html = [], m3_error = False\<rparr>"

text \<open>Adding an option by text selects the first option of the dropdown again.\<close>

fun load_panels :: "graph_urls \<Rightarrow> string \<Rightarrow> nat list \<Rightarrow> l3_modify \<Rightarrow> unit res \<times> l3_modify" where
  "load_panels G period [] P = (Inr (), P)"
| "load_panels G period (a # as) P =
     (let ep = load_endpoint (obj P a); P1 = put_obj a ep P
      in case (case pget ep ''peers'' of JArr ps \<Rightarrow> peer_options ps | _ \<Rightarrow> Inl TypeError) of
           Inl e \<Rightarrow> (Inl e, P1)
         | Inr sel \<Rightarrow>
             (case displayStatisticsIFrame G 0 period (m3_panels P1 @ [new_panel (pget (l3_connection P1) ''vrf_id'') ep sel]) of
                Inl e \<Rightarrow> (Inl e, P1)
              | Inr panels \<Rightarrow> load_panels G period as (P1\<lparr>m3_panels := panels\<rparr>)))"

text \<open>Writing the details, in order, up to the first that throws.\<close>

fun write_texts :: "(string \<times> string res) list \<Rightarrow> l3_modify \<Rightarrow> unit res \<times> l3_modify" where
  "write_texts [] P = (Inr (), P)"
| "write_texts ((k, r) # xs) P = (case r of
     Inl e \<Rightarrow> (Inl e, P) | Inr s \<Rightarrow> write_texts xs (P\<lparr>m3_texts := m3_texts P @ [(k, s)]\<rparr>))"

definition details :: "(jsval \<Rightarrow> string) \<Rightarrow> props \<Rightarrow> (string \<times> string res) list" where
  "details formatDate c =
     (let sub = (\<lambda>k f. rbind (jget (pget c k) f) (\<lambda>v. Inr (html_of v)))
      in [(''provision-time'', Inr []), (''remove-time'', Inr []), (''last-modified'', Inr (formatDate (pget c ''last_modified''))),
       (''last-modified-by'', sub ''last_modified_by'' ''email''), (''created-on'', Inr (formatDate (pget c ''created''))),
       (''created-by'', sub ''created_by'' ''email''), (''owned-by'', sub ''workgroup'' ''name''),
       (''state'', Inr (html_of (pget c ''state''))), (''local_asn'', Inr (html_of (pget c ''local_asn'')))])"

definition route_src :: "graph_urls \<Rightarrow> props \<Rightarrow> string res" where
  "route_src G c = (case pget c ''endpoints'' of
     JArr es \<Rightarrow> rbind (case es of [] \<Rightarrow> Inr True | e # _ \<Rightarrow> rbind (jget e ''controller'') (\<lambda>v. Inr (strict_eq v (JStr ''nso'')))) (\<lambda>nso.
       Inr (if nso then g_route G @ ''&var-table=OESS-VRF-'' @ to_str (pget c ''vrf_id'') @ ''&from=now-1h&to=now''
            else g_route G @ ''&var-table=OESS-L3VPN-'' @ to_str (pget c ''vrf_id'') @ ''.inet.0&from=now-1h&to=now''))
   | _ \<Rightarrow> Inl TypeError)"

definition adopt_connection :: "props \<Rightarrow> l3_modify \<Rightarrow> l3_modify" where
  "adopt_connection c P =
     (let es = (case pget c ''endpoints'' of JArr vs \<Rightarrow> map as_props vs | _ \<Rightarrow> [])
      in P\<lparr>l3_connection := c, objs := objs P @ es, eps := map Some [length (objs P)..<length (objs P) + length es]\<rparr>)"

definition l3_editable :: "'a l3_page_scheme \<Rightarrow> jsval res" where
  "l3_editable P =
     rbind (if truthy (pget (l3_session P) ''isAdmin'') then Inr (pget (l3_session P) ''isAdmin'')
            else rbind (jget (pget (l3_connection P) ''workgroup'') ''workgroup_id'') (\<lambda>w. Inr (may_edit (l3_session P) w)))
       (\<lambda>may. Inr (js_and (JBool (\<not> strict_eq (pget (l3_connection P) ''state'') (JStr ''decom''))) may))"

definition modify_cloud_update :: "env \<Rightarrow> l3_modify \<Rightarrow> l3_modify" where
  "modify_cloud_update E P = (case l3_editable P of Inl e \<Rightarrow> P | Inr ed \<Rightarrow> snd (l3_draw E ed P))"

text \<open>After the two answers: the details, the routes, the panels, and the first panel.\<close>

definition show_connection :: "env \<Rightarrow> (jsval \<Rightarrow> string) \<Rightarrow> graph_urls \<Rightarrow> string \<Rightarrow> l3_modify \<Rightarrow> unit res \<times> l3_modify" where
  "show_connection E formatDate G period P =
     (case write_texts (details formatDate (l3_connection P)) P of
        (Inl e, P1) \<Rightarrow> (Inl e, P1)
      | (Inr _, P1) \<Rightarrow> (case route_src G (l3_connection P1) of
          Inl e \<Rightarrow> (Inl e, P1)
        | Inr src \<Rightarrow> (case load_panels G period (present (eps P1)) (P1\<lparr>m3_route := src\<rparr>) of
            (Inl e, P2) \<Rightarrow> (Inl e, P2)
          | (Inr _, P2) \<Rightarrow> (case m3_panels P2 of
              [] \<Rightarrow> (Inl TypeError, P2)
            | p # ps \<Rightarrow> (Inr (), modify_cloud_update E (P2\<lparr>m3_panels := p\<lparr>sp_shown := True\<rparr> # ps\<rparr>))))))"

definition modify_cloud_select ::
    "env \<Rightarrow> (jsval \<Rightarrow> string) \<Rightarrow> graph_urls \<Rightarrow> string \<Rightarrow> jsval \<Rightarrow> l3_modify \<Rightarrow> (unit res \<times> l3_modify) io" where
  "modify_cloud_select E formatDate G period ident P =
     (let wg = pget (l3_session P) ''workgroup_id''
      in if loose_eq ident (JNum (- 1)) then io_ret (Inr (), modify_cloud_update E P)
         else io_bind (getVRF E wg ident) (\<lambda>c. case c of
             JObj ps \<Rightarrow>
               (let P1 = adopt_connection (pset ps ''circuit_id'' (pget ps ''vrf_id'')) P
                in io_bind (getCommands E) (\<lambda>_. io_bind (getVRFHistory E wg ident) (\<lambda>h.
                   io_ret (show_connection E formatDate G period (P1\<lparr>m3_history := h\<rparr>)))))
           | _ \<Rightarrow> io_ret (Inl TypeError, P\<lparr>m3_null := is_nullish c\<rparr>)))"

text \<open>Page start: the handlers of \<^verbatim>\<open>then\<close> and \<^verbatim>\<open>catch\<close> after the selection.\<close>

definition show_header :: "(jsval \<Rightarrow> string) \<Rightarrow> l3_modify \<Rightarrow> unit res \<times> l3_modify" where
  "show_header dateTime P = (case l3_editable P of
     Inl e \<Rightarrow> (Inl e, P)
   | Inr ed \<Rightarrow>
       (let P1 = P\<lparr>m3_new_button := truthy ed,
          m3_header := Some (CircuitHeader_render [(''connectionId'', pget (l3_connection P) ''vrf_id''),
            (''description'', pget (l3_connection P) ''description''), (''editable'', ed)])\<rparr>
        in case ResourceHistoryTable_render dateTime (m3_history P1) of
             Inl e \<Rightarrow> (Inl e, P1)
           | Inr html \<Rightarrow> (Inr (), P1\<lparr>m3_history_html := html\<rparr>)))"

definition modify_cloud_start ::
    "env \<Rightarrow> (jsval \<Rightarrow> string) \<Rightarrow> (jsval \<Rightarrow> string) \<Rightarrow> graph_urls \<Rightarrow> string \<Rightarrow> props \<Rightarrow> string option \<Rightarrow> l3_modify io" where
  "modify_cloud_start E formatDate dateTime G period session vrf_id =
     (let ident = (case vrf_id of None \<Rightarrow> JNull | Some s \<Rightarrow> JStr s)
      in io_bind (modify_cloud_select E formatDate G period ident (modify_cloud_init session)) (\<lambda>(r, P).
         case (case r of Inl e \<Rightarrow> (Inl e, P) | Inr _ \<Rightarrow> show_header dateTime P) of
           (Inl e, P1) \<Rightarrow> io_ret (if m3_null P1 then P1\<lparr>m3_error := True\<rparr> else P1)
         | (Inr _, P1) \<Rightarrow> io_ret P1))"

text \<open>The handlers.\<close>

definition modify_cloud_updateEndpoint :: "env \<Rightarrow> nat \<Rightarrow> l3_modify \<Rightarrow> l3_modify" where
  "modify_cloud_updateEndpoint E a P = modify_cloud_update E (store_endpoint a P)"

definition modify_cloud_deleteEndpoint :: "env \<Rightarrow> jsval \<Rightarrow> l3_modify \<Rightarrow> l3_modify" where
  "modify_cloud_deleteEndpoint E i P = modify_cloud_update E (P\<lparr>eps := splice1 i (eps P)\<rparr>)"

definition delete_connection_loading :: string where "delete_connection_loading = ''#delete-connection-loading''"

text \<open>The handlers around the call of \<^verbatim>\<open>deleteVRF\<close>.\<close>

definition finish_delete :: "jsval io \<Rightarrow> unit io" where
  "finish_delete call =
     io_try (io_bind call (\<lambda>result. if is_nullish result then io_lift (Inl (Throw (JStr ''Unknown''))) else emit (Navigate ''?action=welcome'')))
       (\<lambda>e. io_bind (emit (ModalHide delete_connection_loading)) (\<lambda>_. emit (Alert (''Failed to delete connection: '' @ exn_text e))))"

definition modify_cloud_deleteCircuit :: "env \<Rightarrow> l3_modify \<Rightarrow> unit io" where
  "modify_cloud_deleteCircuit E P =
     io_bind (confirm E (''Are you sure you want to delete '' @ dquote @ to_str (pget (l3_connection P) ''description'') @ dquote @ ''?'')) (\<lambda>ok.
     if ok then io_bind (emit (ModalShow delete_connection_loading)) (\<lambda>_.
       finish_delete (deleteVRF E (pget (l3_session P) ''workgroup_id'') (parse_int (pget (l3_connection P) ''vrf_id''))))
     else io_ret ())"

definition add_connection_loading :: string where "add_connection_loading = ''#add-connection-loading''"

definition modify_cloud_saveCircuit :: "env \<Rightarrow> string \<Rightarrow> l3_modify \<Rightarrow> unit io" where
  "modify_cloud_saveCircuit E header_text P =
     io_bind (emit (ModalShow add_connection_loading)) (\<lambda>_.
     finish_vrf add_connection_loading
       (provisionVRF E (pget (l3_session P) ''workgroup_id'') (pget (l3_connection P) ''name'') (JStr header_text)
          (endpoint_objs P) (JNum (- 1)) (JNum (- 1)) (pget (l3_connection P) ''vrf_id'')))"

end
