(* ===== verification/L3Theorems.thy ===== *)
theory L3Theorems
  imports L3Pages L2Theorems
begin

text \<open>
  The layer 3 pages implement a list of endpoints with a list of peerings each: the
  interpretation of the store's contract, the runs of the page for a new connection with
  their invariant, and what loading, saving and deleting a connection do.
\<close>

section \<open>The pages keep the contract of the store\<close>

lemmas peer_key_order =
  pset_commute [of "''index''" "''endpointIndex''"] pset_commute [of "''index''" "''editable''"]
  pset_commute [of "''index''" "''isPeeringAutoGenerated''"] pset_commute [of "''endpointIndex''" "''editable''"]
  pset_commute [of "''endpointIndex''" "''isPeeringAutoGenerated''"] pset_commute [of "''editable''" "''isPeeringAutoGenerated''"]

lemmas ep_key_order =
  pset_commute [of "''index''" "''peers''"] pset_commute [of "''peers''" "''editable''"]
  pset_commute [of "''peers''" "''isPeeringAutoGenerated''"]

lemma mark_peer_again: "mark_peer ed b j k (mark_peer ed b i h q) = mark_peer ed b j k q"
  by (simp add: mark_peer_def peer_key_order)

lemma mark_peers_again: "mark_peers ed b j k (mark_peers ed b i h ps) = mark_peers ed b j k ps"
proof (induction ps arbitrary: h k)
  case (Cons p ps)
  then show ?case by (cases p) (simp_all add: mark_peer_again)
qed simp

lemma length_mark_peers [simp]: "length (mark_peers ed b i j ps) = length ps"
  by (induction ps arbitrary: j) auto

lemma auto_generated_cong:
  "pget e ''cloud_interconnect_type'' = pget e' ''cloud_interconnect_type'' \<Longrightarrow> auto_generated e = auto_generated e'"
  by (simp add: auto_generated_def)

lemma auto_generated_pset [simp]: "k \<noteq> ''cloud_interconnect_type'' \<Longrightarrow> auto_generated (pset e k v) = auto_generated e"
  by (rule auto_generated_cong) simp

text \<open>The endpoint after a redraw, for either kind of \<^verbatim>\<open>peers\<close>.\<close>

definition l3_written :: "jsval \<Rightarrow> nat \<Rightarrow> jsval \<Rightarrow> props \<Rightarrow> props" where
  "l3_written ed i peers ep = pset (pset (pset (pset ep ''index'' (JNum (int i))) ''peers'' peers) ''editable'' ed)
     ''isPeeringAutoGenerated'' (JBool (auto_generated ep))"

lemma mark_l3_array:
  assumes "\<not> phas ep ''peers'' \<or> is_array (pget ep ''peers'')"
  shows "mark_l3 ed i ep = l3_written ed i (JArr (mark_peers ed (auto_generated ep) i 0 (peers_of ep))) ep"
proof (cases "phas ep ''peers''")
  case True
  then obtain ps where "pget ep ''peers'' = JArr ps" using assms by (cases "pget ep ''peers''") auto
  with True show ?thesis by (simp add: mark_l3_def l3_written_def Let_def peers_of_def ep_key_order)
next
  case False
  then show ?thesis by (simp add: mark_l3_def l3_written_def Let_def peers_of_def not_phas_pget ep_key_order)
qed

lemma mark_l3_other:
  assumes "phas ep ''peers''" and "\<not> is_array (pget ep ''peers'')"
  shows "mark_l3 ed i ep = pset (pset (pset ep ''index'' (JNum (int i))) ''editable'' ed) ''isPeeringAutoGenerated'' (JBool (auto_generated ep))"
  using assms by (cases "pget ep ''peers''") (simp_all add: mark_l3_def Let_def)

lemma mark_l3_again: "mark_l3 ed j (mark_l3 ed i ep) = mark_l3 ed j ep"
proof (cases "\<not> phas ep ''peers'' \<or> is_array (pget ep ''peers'')")
  case True
  let ?e = "l3_written ed i (JArr (mark_peers ed (auto_generated ep) i 0 (peers_of ep))) ep"
  have "peers_of ?e = mark_peers ed (auto_generated ep) i 0 (peers_of ep)" "auto_generated ?e = auto_generated ep"
    "is_array (pget ?e ''peers'')" by (simp_all add: l3_written_def peers_of_def)
  then have "mark_l3 ed j ?e = l3_written ed j (JArr (mark_peers ed (auto_generated ep) j 0 (peers_of ep))) ?e"
    by (simp add: mark_l3_array mark_peers_again)
  also have "\<dots> = mark_l3 ed j ep"
    unfolding mark_l3_array [OF True] by (simp add: l3_written_def peer_key_order ep_key_order)
  finally show ?thesis by (simp add: mark_l3_array [OF True])
next
  case False
  then show ?thesis by (simp add: mark_l3_other peer_key_order)
qed

text \<open>What is seen of an endpoint: its fields but those the page manages, and the same of each peering.\<close>

definition peer_view :: "jsval \<Rightarrow> jsval + (string \<Rightarrow> jsval)" where
  "peer_view p = (case p of
     JObj q \<Rightarrow> Inr (ep_fields {''index'', ''endpointIndex'', ''editable'', ''isPeeringAutoGenerated''} q) | v \<Rightarrow> Inl v)"

definition l3_view :: "props \<Rightarrow> (string \<Rightarrow> jsval) \<times> (jsval + (string \<Rightarrow> jsval)) list" where
  "l3_view ep = (ep_fields {''index'', ''peers'', ''editable'', ''isPeeringAutoGenerated''} ep, map peer_view (peers_of ep))"

lemma peer_view_mark: "map peer_view (mark_peers ed b i j ps) = map peer_view ps"
proof (induction ps arbitrary: j)
  case (Cons p ps)
  then show ?case by (cases p) (simp_all add: peer_view_def mark_peer_def ep_fields_def fun_eq_iff)
qed simp

lemma l3_view_mark: "l3_view (mark_l3 ed i ep) = l3_view ep"
proof (cases "\<not> phas ep ''peers'' \<or> is_array (pget ep ''peers'')")
  case True
  have "peers_of (mark_l3 ed i ep) = mark_peers ed (auto_generated ep) i 0 (peers_of ep)"
    by (simp add: mark_l3_array [OF True] l3_written_def peers_of_def)
  then show ?thesis
    by (simp add: l3_view_def peer_view_mark) (simp add: mark_l3_array [OF True] l3_written_def ep_fields_def fun_eq_iff)
next
  case False
  then show ?thesis
    by (simp add: mark_l3_other l3_view_def ep_fields_def fun_eq_iff peers_of_def)
qed

lemma mark_l3_index: "pget (mark_l3 ed i ep) ''index'' = JNum (int i)"
  by (simp add: mark_l3_def Let_def split: jsval.split)

interpretation l3: endpoint_page "mark_l3 ed" l3_view for ed
  by unfold_locales (simp_all add: mark_l3_index l3_view_mark mark_l3_again)

section \<open>Pages whose endpoints can be drawn\<close>

text \<open>An endpoint as the dialog and the server make them: its peerings, if it has the field, are
  a list without null entries, and it has no property called \<^verbatim>\<open>false\<close>.\<close>

definition good_ep :: "props \<Rightarrow> bool" where
  "good_ep ep \<longleftrightarrow> \<not> draw_throws ep \<and> \<not> phas ep ''false''"

definition good_page :: "'a l3_page_scheme \<Rightarrow> bool" where
  "good_page P \<longleftrightarrow> (\<forall>a \<in> set (present (eps P)). good_ep (obj P a))"

lemma good_array: "good_ep ep \<Longrightarrow> \<not> phas ep ''peers'' \<or> is_array (pget ep ''peers'')"
  by (auto simp: good_ep_def draw_throws_def)

lemma nullish_mark: "list_ex is_nullish (mark_peers ed b i j ps) = list_ex is_nullish ps"
  by (induction ps arbitrary: j) (auto split: jsval.split)

lemma mark_l3_peers:
  "good_ep ep \<Longrightarrow> pget (mark_l3 ed i ep) ''peers'' = JArr (mark_peers ed (auto_generated ep) i 0 (peers_of ep))"
  by (simp add: mark_l3_array [OF good_array] l3_written_def)

lemma good_mark: "good_ep ep \<Longrightarrow> good_ep (mark_l3 ed i ep)"
  using good_array [of ep]
  by (simp add: good_ep_def draw_throws_def peers_of_def mark_l3_array nullish_mark l3_written_def)

lemma visited_all: "\<forall>a \<in> set (present xs). \<not> bad a \<Longrightarrow> visited bad xs = xs"
  by (induction bad xs rule: visited.induct) auto

lemma l3_draw_good:
  assumes "good_page P"
  shows "l3_draw E ed P = (Inr (), (redraw (mark_l3 ed) P)\<lparr>l3_cards :=
    map (\<lambda>a. (a, Endpoint2 E (obj (redraw (mark_l3 ed) P) a), peer_cards (obj (redraw (mark_l3 ed) P) a))) (present (eps P))\<rparr>)"
proof -
  have "\<forall>a \<in> set (present (eps P)). \<not> draw_throws (obj P a)" using assms by (simp add: good_page_def good_ep_def)
  then have "visited (\<lambda>a. draw_throws (obj P a)) (eps P) = eps P" "\<not> list_ex (\<lambda>a. draw_throws (obj P a)) (present (eps P))"
    by (auto simp: visited_all list_ex_iff)
  then show ?thesis by (simp add: l3_draw_def redraw_def Let_def)
qed

text \<open>The invariant of the page.\<close>

definition peers_indexed :: "'a l3_page_scheme \<Rightarrow> bool" where
  "peers_indexed P \<longleftrightarrow> (\<forall>i a. i < length (eps P) \<longrightarrow> eps P ! i = Some a \<longrightarrow>
     (\<exists>ps. pget (obj P a) ''peers'' = JArr ps \<and>
       (\<forall>j q. j < length ps \<longrightarrow> ps ! j = JObj q \<longrightarrow> pget q ''index'' = JNum (int j) \<and> pget q ''endpointIndex'' = JNum (int i))))"

definition l3_inv :: "env \<Rightarrow> 'a l3_page_scheme \<Rightarrow> bool" where
  "l3_inv E P \<longleftrightarrow> wf_page P \<and> indexed P \<and> good_page P \<and> peers_indexed P \<and>
     l3_cards P = map (\<lambda>a. (a, Endpoint2 E (obj P a), peer_cards (obj P a))) (present (eps P))"

lemma nth_mark_peers:
  "\<not> list_ex is_nullish ps \<Longrightarrow> j < length ps \<Longrightarrow>
   mark_peers ed b i k ps ! j = (case ps ! j of JObj q \<Rightarrow> JObj (mark_peer ed b i (k + j) q) | _ \<Rightarrow> ps ! j)"
proof (induction ps arbitrary: j k)
  case (Cons p ps)
  then show ?case by (cases j) (auto split: jsval.split)
qed simp

lemma present_nth:
  assumes "wf_page P" and "a \<in> set (present (eps P))"
  obtains i where "i < length (eps P)" "eps P ! i = Some a"
proof -
  have n: "None \<notin> set (eps P)" using assms(1) by (simp add: wf_page_def)
  obtain i where "i < length (present (eps P))" "present (eps P) ! i = a" using assms(2) by (auto simp: in_set_conv_nth)
  then show ?thesis using that nth_present [OF n] length_present [OF n] by auto
qed

lemma nth_is_present: "wf_page P \<Longrightarrow> i < length (eps P) \<Longrightarrow> eps P ! i = Some a \<Longrightarrow> a \<in> set (present (eps P))"
  by (metis length_present nth_mem nth_present option.inject wf_page_def)

lemma redraw_good:
  assumes "wf_page P" and "good_page P"
  shows "good_page (redraw (mark_l3 ed) P)" "peers_indexed (redraw (mark_l3 ed) P)"
proof -
  have drawn: "obj (redraw (mark_l3 ed) P) a = mark_l3 ed i (obj P a)" "good_ep (obj P a)"
    if "i < length (eps P)" "eps P ! i = Some a" for i a
    using that assms nth_is_present [OF assms(1) that] by (auto simp: obj_redraw_in good_page_def)
  show "good_page (redraw (mark_l3 ed) P)"
    unfolding good_page_def by (metis assms(1) drawn good_mark present_nth redraw_simps(1))
  show "peers_indexed (redraw (mark_l3 ed) P)" unfolding peers_indexed_def
  proof (intro allI impI, simp only: redraw_simps)
    fix i a assume i: "i < length (eps P)" "eps P ! i = Some a"
    let ?ps = "peers_of (obj P a)"
    have n: "\<not> list_ex is_nullish ?ps" using drawn(2) [OF i] by (simp add: good_ep_def draw_throws_def)
    have "pget q ''index'' = JNum (int j) \<and> pget q ''endpointIndex'' = JNum (int i)"
      if "j < length ?ps" "mark_peers ed (auto_generated (obj P a)) i 0 ?ps ! j = JObj q" for j q
      using that nth_mark_peers [OF n] by (auto simp: mark_peer_def split: jsval.splits)
    then show "\<exists>ps. pget (obj (redraw (mark_l3 ed) P) a) ''peers'' = JArr ps \<and>
        (\<forall>j q. j < length ps \<longrightarrow> ps ! j = JObj q \<longrightarrow> pget q ''index'' = JNum (int j) \<and> pget q ''endpointIndex'' = JNum (int i))"
      using drawn [OF i] by (simp add: mark_l3_peers)
  qed
qed

lemma cloud_update_eq:
  "good_page P \<Longrightarrow> cloud_update E P = (redraw (mark_l3 (JBool True)) P)\<lparr>l3_cards :=
    map (\<lambda>a. (a, Endpoint2 E (obj (redraw (mark_l3 (JBool True)) P) a), peer_cards (obj (redraw (mark_l3 (JBool True)) P) a))) (present (eps P))\<rparr>"
  by (simp add: cloud_update_def l3_draw_good)

lemma cloud_update_page:
  assumes "wf_page P" and "good_page P"
  shows "l3_inv E (cloud_update E P)" "eps (cloud_update E P) = eps P"
    "endpoint_views l3_view (cloud_update E P) = endpoint_views l3_view P"
proof -
  let ?R = "redraw (mark_l3 (JBool True)) P"
  have o: "objs (cloud_update E P) = objs ?R" and e: "eps (cloud_update E P) = eps ?R"
    by (simp_all add: cloud_update_eq [OF assms(2)])
  note c = page_cong [OF o] page_cong(2,3) [OF o e]
  have "good_page (cloud_update E P)" "peers_indexed (cloud_update E P)"
    using redraw_good [OF assms, of "JBool True"] c(1) e by (auto simp: good_page_def peers_indexed_def)
  moreover have "l3_cards (cloud_update E P) = map (\<lambda>a. (a, Endpoint2 E (obj ?R a), peer_cards (obj ?R a))) (present (eps P))"
    by (simp add: cloud_update_eq [OF assms(2)])
  ultimately show "l3_inv E (cloud_update E P)"
    using c assms(1) l3.redraw_indexed [OF assms(1)] e by (auto simp: l3_inv_def)
  show "eps (cloud_update E P) = eps P" using e by simp
  show "endpoint_views l3_view (cloud_update E P) = endpoint_views l3_view P"
    using views_cong [OF o e, of l3_view] l3.views_redraw [OF assms(1)] by simp
qed

section \<open>Steps of the page for a new connection\<close>

lemma l3_put:
  assumes "l3_inv E P" and "i < length (eps P)" and "eps P ! i = Some a" and "good_ep ep" and "pget ep ''index'' = pget (obj P a) ''index''"
  shows "wf_page (put_obj a ep P)" "good_page (put_obj a ep P)" "store_endpoint a (put_obj a ep P) = put_obj a ep P"
    "endpoint_views l3_view (put_obj a ep P) = (endpoint_views l3_view P)[i := l3_view ep]"
proof -
  have inv: "wf_page P" "indexed P" "good_page P" using assms(1) by (simp_all add: l3_inv_def)
  have a: "a < length (objs P)" using eps_valid [OF inv(1) assms(2,3)] .
  show "wf_page (put_obj a ep P)" using inv(1) by simp
  show "good_page (put_obj a ep P)" using inv(3) assms(4) by (auto simp: good_page_def obj_put [OF a])
  show "store_endpoint a (put_obj a ep P) = put_obj a ep P"
    using indexed_put [OF inv(2) a assms(5)] assms(2,3) by (intro l3.store_listed [of _ i]) simp_all
  show "endpoint_views l3_view (put_obj a ep P) = (endpoint_views l3_view P)[i := l3_view ep]"
    by (rule views_put [OF inv(1) assms(2,3)])
qed

lemma alloc_same:
  assumes "wf_page P" and "alloc ep P = (a, P1)" and "b \<in> set (present (eps P))"
  shows "obj P1 b = obj P b"
proof -
  obtain i where "i < length (eps P)" "eps P ! i = Some b" using present_nth [OF assms(1,3)] .
  then have "b < length (objs P)" by (rule eps_valid [OF assms(1)])
  then show ?thesis using assms(2) by (auto simp: alloc_def obj_def nth_append)
qed

lemma step_add:
  assumes "l3_inv E P" and "alloc ep P = (a, P1)" and "pget ep ''index'' = JNum (- 1)" and "good_ep ep"
  shows "l3_inv E (cloud_updateEndpoint E a P1)"
    "endpoint_views l3_view (cloud_updateEndpoint E a P1) = endpoint_views l3_view P @ [l3_view ep]"
proof -
  have inv: "wf_page P" "good_page P" using assms(1) by (simp_all add: l3_inv_def)
  note new = alloc_new [OF inv(1) assms(2)]
  have st: "store_endpoint a P1 = P1\<lparr>eps := eps P1 @ [Some a]\<rparr>" using new(4) assms(3) by (simp add: l3.store_new)
  have wf: "wf_page (store_endpoint a P1)" using new by (auto simp: st wf_page_def)
  note same = alloc_same [OF inv(1) assms(2)]
  have "obj (P1\<lparr>eps := x\<rparr>) = obj P1" for x by (simp add: obj_def fun_eq_iff)
  then have good: "good_page (store_endpoint a P1)" using inv(2) same new(4,5) assms(4)
    by (auto simp: st good_page_def present_append)
  show "l3_inv E (cloud_updateEndpoint E a P1)"
    "endpoint_views l3_view (cloud_updateEndpoint E a P1) = endpoint_views l3_view P @ [l3_view ep]"
    using cloud_update_page [OF wf good, of E] new(4) new(6) [of l3_view]
    by (simp_all add: cloud_updateEndpoint_def st views_append)
qed

lemma step_replace:
  assumes "l3_inv E P" and "alloc ep P = (a, P1)" and "i < length (eps P)" and "pget ep ''index'' = JNum (int i)" and "good_ep ep"
  shows "l3_inv E (cloud_updateEndpoint E a P1)"
    "endpoint_views l3_view (cloud_updateEndpoint E a P1) = (endpoint_views l3_view P)[i := l3_view ep]"
proof -
  have inv: "wf_page P" "good_page P" using assms(1) by (simp_all add: l3_inv_def)
  note new = alloc_new [OF inv(1) assms(2)]
  have st: "store_endpoint a P1 = P1\<lparr>eps := (eps P1)[i := Some a]\<rparr>" using new assms(3,4) by (simp add: store_replace)
  have wf: "wf_page (store_endpoint a P1)" using wf_replace [OF new(1,2,3)] st by simp
  have "present ((eps P)[i := Some a]) = (present (eps P))[i := a]"
    using inv(1) by (metis map_update present_Some present_all wf_page_def)
  then have "set (present ((eps P)[i := Some a])) \<subseteq> insert a (set (present (eps P)))" by (simp add: set_update_subset_insert)
  moreover have "obj (P1\<lparr>eps := x\<rparr>) = obj P1" for x by (simp add: obj_def fun_eq_iff)
  ultimately have good: "good_page (store_endpoint a P1)"
    using inv(2) alloc_same [OF inv(1) assms(2)] new(4,5) assms(5) by (auto simp: st good_page_def)
  show "l3_inv E (cloud_updateEndpoint E a P1)"
    "endpoint_views l3_view (cloud_updateEndpoint E a P1) = (endpoint_views l3_view P)[i := l3_view ep]"
    using cloud_update_page [OF wf good, of E] views_replace [OF new(1), of i l3_view a] new(4,5) new(6) [of l3_view] assms(3) st
    by (simp_all add: cloud_updateEndpoint_def)
qed

lemma step_edit:
  assumes "l3_inv E P" and "i < length (eps P)" and "eps P ! i = Some a" and "\<not> phas ws ''index''" and "good_ep (psets (obj P a) ws)"
  shows "l3_inv E (cloud_updateEndpoint E a (put_obj a (psets (obj P a) ws) P))"
    "endpoint_views l3_view (cloud_updateEndpoint E a (put_obj a (psets (obj P a) ws) P)) =
       (endpoint_views l3_view P)[i := l3_view (psets (obj P a) ws)]"
proof -
  have "pget (psets (obj P a) ws) ''index'' = pget (obj P a) ''index''" using assms(4) by (simp add: pget_psets_not_in)
  note p = l3_put [OF assms(1-3,5) this]
  show "l3_inv E (cloud_updateEndpoint E a (put_obj a (psets (obj P a) ws) P))"
    "endpoint_views l3_view (cloud_updateEndpoint E a (put_obj a (psets (obj P a) ws) P)) =
       (endpoint_views l3_view P)[i := l3_view (psets (obj P a) ws)]"
    using cloud_update_page [OF p(1,2), of E] p(3,4) by (simp_all add: cloud_updateEndpoint_def)
qed

lemma good_remove: "good_page P \<Longrightarrow> wf_page P \<Longrightarrow> good_page (P\<lparr>eps := splice1 v (eps P)\<rparr>)"
proof -
  assume g: "good_page P" and wf: "wf_page P"
  have "a \<in> set (present (eps P))" if a: "a \<in> set (present (splice1 v (eps P)))" for a
  proof -
    obtain i where "i < length (splice1 v (eps P))" "splice1 v (eps P) ! i = Some a"
      using present_nth [of "P\<lparr>eps := splice1 v (eps P)\<rparr>" a] wf_remove [OF wf, of v] a by auto
    then have "Some a \<in> set (splice1 v (eps P))" by (metis nth_mem)
    then have "Some a \<in> set (eps P)" using set_remove_at_subset by (fastforce simp: splice1_def)
    then show ?thesis using nth_is_present [OF wf] by (auto simp: in_set_conv_nth)
  qed
  moreover have "obj (P\<lparr>eps := x\<rparr>) = obj P" for x by (simp add: obj_def fun_eq_iff)
  ultimately show ?thesis using g by (simp add: good_page_def)
qed

lemma step_delete:
  assumes "l3_inv E P" and "i < length (eps P)" and "eps P ! i = Some a"
  shows "l3_inv E (cloud_delete_click E a P)"
    "endpoint_views l3_view (cloud_delete_click E a P) = remove_at i (endpoint_views l3_view P)"
proof -
  have inv: "wf_page P" "indexed P" "good_page P" using assms(1) by (simp_all add: l3_inv_def)
  have v: "pget (obj P a) ''index'' = JNum (int i)" using inv(2) assms(2,3) by (simp add: indexed_def)
  note s = splice1_int [OF assms(2)]
  note u = cloud_update_page [OF wf_remove [OF inv(1), of "JNum (int i)"] good_remove [OF inv(3,1)], of E]
  then have "wf_page (cloud_deleteEndpoint E (JNum (int i)) P)" "good_page (cloud_deleteEndpoint E (JNum (int i)) P)"
    by (simp_all add: cloud_deleteEndpoint_def l3_inv_def)
  from cloud_update_page [OF this, of E] u
  show "l3_inv E (cloud_delete_click E a P)"
    "endpoint_views l3_view (cloud_delete_click E a P) = remove_at i (endpoint_views l3_view P)"
    using views_remove [OF inv(1), of l3_view i] by (simp_all add: cloud_delete_click_def cloud_deleteEndpoint_def v s)
qed

text \<open>Changing the peerings of a listed endpoint.\<close>

lemma listed_peers:
  assumes "l3_inv E P" and "i < length (eps P)" and "eps P ! i = Some a"
  obtains ps where "pget (obj P a) ''peers'' = JArr ps" "\<not> list_ex is_nullish ps" "\<not> phas (obj P a) ''false''"
    "peers_of (obj P a) = ps"
proof -
  have "good_ep (obj P a)" using assms nth_is_present [of P i a] by (auto simp: l3_inv_def good_page_def)
  moreover obtain ps where "pget (obj P a) ''peers'' = JArr ps"
    using assms unfolding l3_inv_def peers_indexed_def by blast
  ultimately show ?thesis using that by (simp add: good_ep_def draw_throws_def peers_of_def)
qed

lemma good_set_peers:
  "\<not> phas ep ''false'' \<Longrightarrow> \<not> list_ex is_nullish ps \<Longrightarrow> good_ep (pset ep ''peers'' (JArr ps))"
  by (simp add: good_ep_def draw_throws_def peers_of_def)

lemma l3_view_set_peers: "l3_view (pset ep ''peers'' (JArr ps)) = (fst (l3_view ep), map peer_view ps)"
  by (simp add: l3_view_def ep_fields_def fun_eq_iff peers_of_def)

lemma step_add_peer:
  assumes "l3_inv E P" and "i < length (eps P)" and "eps P ! i = Some a"
  shows "\<exists>P'. cloud_add_peer E a peering P = Inr P' \<and> l3_inv E P' \<and>
    endpoint_views l3_view P' = (endpoint_views l3_view P)[i := (fst (l3_view (obj P a)), snd (l3_view (obj P a)) @ [peer_view (JObj peering)])]"
proof -
  obtain ps where ps: "pget (obj P a) ''peers'' = JArr ps" "\<not> list_ex is_nullish ps" "\<not> phas (obj P a) ''false''" "peers_of (obj P a) = ps"
    using listed_peers [OF assms] .
  let ?ep = "pset (obj P a) ''peers'' (JArr (ps @ [JObj peering]))"
  have "good_ep ?ep" using ps by (intro good_set_peers) auto
  moreover have "pget ?ep ''index'' = pget (obj P a) ''index''" by simp
  ultimately have p: "wf_page (put_obj a ?ep P)" "good_page (put_obj a ?ep P)" "store_endpoint a (put_obj a ?ep P) = put_obj a ?ep P"
    "endpoint_views l3_view (put_obj a ?ep P) = (endpoint_views l3_view P)[i := l3_view ?ep]"
    using l3_put [OF assms] by blast+
  note u = cloud_update_page [OF p(1,2), of E]
  then have "l3_inv E (cloud_update E (cloud_update E (put_obj a ?ep P)))"
    "endpoint_views l3_view (cloud_update E (cloud_update E (put_obj a ?ep P))) = endpoint_views l3_view (put_obj a ?ep P)"
    using cloud_update_page [of "cloud_update E (put_obj a ?ep P)" E] by (simp_all add: l3_inv_def)
  then show ?thesis using p(3,4) ps
    by (simp add: cloud_add_peer_def push_peer_def cloud_updateEndpoint_def l3_view_set_peers) (simp add: l3_view_def)
qed

lemma step_delete_peer:
  assumes "l3_inv E P" and "i < length (eps P)" and "eps P ! i = Some a" and "j < length (peers_of (obj P a))"
  shows "\<exists>P'. cloud_peer_delete_click E i j P = Inr P' \<and> l3_inv E P' \<and>
    endpoint_views l3_view P' = (endpoint_views l3_view P)[i := (fst (l3_view (obj P a)), remove_at j (snd (l3_view (obj P a))))]"
proof -
  obtain ps where ps: "pget (obj P a) ''peers'' = JArr ps" "\<not> list_ex is_nullish ps" "\<not> phas (obj P a) ''false''" "peers_of (obj P a) = ps"
    using listed_peers [OF assms(1-3)] .
  let ?ep = "pset (obj P a) ''peers'' (JArr (remove_at j ps))"
  have "\<not> list_ex is_nullish (remove_at j ps)" using ps(2) set_remove_at_subset [of j ps] by (auto simp: list_ex_iff)
  then have "good_ep ?ep" using ps by (intro good_set_peers)
  moreover have "pget ?ep ''index'' = pget (obj P a) ''index''" by simp
  ultimately have p: "wf_page (put_obj a ?ep P)" "good_page (put_obj a ?ep P)"
    "endpoint_views l3_view (put_obj a ?ep P) = (endpoint_views l3_view P)[i := l3_view ?ep]"
    using l3_put [OF assms(1-3)] by blast+
  show ?thesis using cloud_update_page [OF p(1,2), of E] p(3) ps assms(2-4)
    by (simp add: cloud_peer_delete_click_def deletePeering_def splice1_int l3_view_set_peers) (simp add: l3_view_def remove_at_map)
qed

section \<open>Runs\<close>

text \<open>
  What a user can do to a new connection: add an endpoint with the dialog, replace a listed
  one by a new object with its index, change a listed one, delete one by the button of its card, add a peering with the peering dialog of a
  card, and delete a peering by the button of its row.
\<close>

inductive l3_run :: "env \<Rightarrow> l3_page \<Rightarrow> bool" for E :: env where
  start: "l3_run E (cloud_init s)"
| add: "l3_run E P \<Longrightarrow> alloc ep P = (a, P1) \<Longrightarrow> pget ep ''index'' = JNum (- 1) \<Longrightarrow> good_ep ep \<Longrightarrow>
    l3_run E (cloud_updateEndpoint E a P1)"
| replace: "l3_run E P \<Longrightarrow> alloc ep P = (a, P1) \<Longrightarrow> i < length (eps P) \<Longrightarrow> pget ep ''index'' = JNum (int i) \<Longrightarrow> good_ep ep \<Longrightarrow>
    l3_run E (cloud_updateEndpoint E a P1)"
| edit: "l3_run E P \<Longrightarrow> Some a \<in> set (eps P) \<Longrightarrow> \<not> phas ws ''index'' \<Longrightarrow> good_ep (psets (obj P a) ws) \<Longrightarrow>
    l3_run E (cloud_updateEndpoint E a (put_obj a (psets (obj P a) ws) P))"
| delete: "l3_run E P \<Longrightarrow> a \<in> fst ` set (l3_cards P) \<Longrightarrow> l3_run E (cloud_delete_click E a P)"
| add_peer: "l3_run E P \<Longrightarrow> a \<in> fst ` set (l3_cards P) \<Longrightarrow> cloud_add_peer E a peering P = Inr P' \<Longrightarrow> l3_run E P'"
| delete_peer: "l3_run E P \<Longrightarrow> i < length (l3_cards P) \<Longrightarrow> j < length (snd (snd (l3_cards P ! i))) \<Longrightarrow>
    cloud_peer_delete_click E i j P = Inr P' \<Longrightarrow> l3_run E P'"

lemma card_listed:
  assumes "l3_inv E P" and "a \<in> fst ` set (l3_cards P)"
  obtains i where "i < length (eps P)" "eps P ! i = Some a"
  using assms present_nth [of P a] by (force simp: l3_inv_def)

lemma card_at:
  assumes "l3_inv E P" and "i < length (l3_cards P)"
  obtains a where "i < length (eps P)" "eps P ! i = Some a" "snd (snd (l3_cards P ! i)) = peer_cards (obj P a)"
proof -
  have n: "None \<notin> set (eps P)" using assms(1) by (simp add: l3_inv_def wf_page_def)
  have "i < length (present (eps P))" using assms by (simp add: l3_inv_def)
  then show ?thesis using that [of "present (eps P) ! i"] assms nth_present [OF n, of i] length_present [OF n] by (simp add: l3_inv_def)
qed

lemma peer_cards_all:
  assumes "l3_inv E P" and "i < length (eps P)" and "eps P ! i = Some a"
  shows "length (peer_cards (obj P a)) = length (peers_of (obj P a))"
proof -
  obtain ps where ps: "peers_of (obj P a) = ps" "\<not> list_ex is_nullish ps" using listed_peers [OF assms] .
  then have e: "takeWhile (\<lambda>p. \<not> is_nullish p) ps = ps" by (simp add: takeWhile_eq_all_conv list_ex_iff)
  show ?thesis by (simp only: peer_cards_def ps(1) length_map e)
qed

lemma l3_run_inv: "l3_run E P \<Longrightarrow> l3_inv E P"
proof (induction rule: l3_run.induct)
  case (start s)
  show ?case by (simp add: cloud_init_def l3_inv_def wf_page_def indexed_def good_page_def peers_indexed_def)
next
  case (add P ep a P1)
  then show ?case by (intro step_add)
next
  case (replace P ep a P1 i)
  then show ?case by (intro step_replace)
next
  case (edit P a ws)
  then obtain i where "i < length (eps P)" "eps P ! i = Some a" by (auto simp: in_set_conv_nth)
  then show ?case using edit by (intro step_edit)
next
  case (delete P a)
  then obtain i where "i < length (eps P)" "eps P ! i = Some a" using card_listed by blast
  then show ?case using delete by (intro step_delete)
next
  case (add_peer P a peering P')
  then obtain i where "i < length (eps P)" "eps P ! i = Some a" using card_listed by blast
  from step_add_peer [OF add_peer.IH this, of peering] add_peer.hyps show ?case by auto
next
  case (delete_peer P i j P')
  obtain a where a: "i < length (eps P)" "eps P ! i = Some a" "snd (snd (l3_cards P ! i)) = peer_cards (obj P a)"
    using card_at [OF delete_peer.IH delete_peer.hyps(2)] .
  then have "j < length (peers_of (obj P a))" using delete_peer.hyps(3) peer_cards_all [OF delete_peer.IH a(1,2)] by simp
  from step_delete_peer [OF delete_peer.IH a(1,2) this] delete_peer.hyps(4) show ?case by auto
qed

section \<open>Saving\<close>

lemma finish_vrf_throw:
  "call t = (Inl e, t') \<Longrightarrow> finish_vrf dialog call t = (Inr (), t' @ [ModalHide dialog, Alert (''Failed to provision L3VPN: '' @ exn_text e)])"
  by (simp add: finish_vrf_def io_try_def io_bind_def)

lemma finish_vrf_outcome:
  assumes "call t = (r, t')"
  shows "\<exists>x. finish_vrf dialog call t = (Inr (), t' @ x) \<and>
    ((\<exists>u. x = [Navigate u]) \<or> x = [ModalHide dialog] \<or> (\<exists>s. x = [ModalHide dialog, Alert s]))"
proof (cases r)
  case (Inl e)
  then show ?thesis using finish_vrf_throw assms by blast
next
  case (Inr v)
  then show ?thesis using assms by (cases "strict_eq v JNull") (simp_all add: finish_vrf_def io_try_def io_bind_def)
qed

lemma finish_delete_outcome:
  assumes "call t = (r, t')"
  shows "\<exists>x. finish_delete call t = (Inr (), t' @ x) \<and>
    (x = [Navigate ''?action=welcome''] \<or> (\<exists>m. x = [ModalHide delete_connection_loading, Alert m]))"
proof (cases r)
  case (Inl e)
  then show ?thesis using assms by (simp add: finish_delete_def io_try_def io_bind_def)
next
  case (Inr v)
  then show ?thesis using assms by (cases "is_nullish v") (simp_all add: finish_delete_def io_try_def io_bind_def)
qed

section \<open>Loading an existing connection\<close>

text \<open>What a panel is about, and what it shows of an endpoint.\<close>

definition panel_of :: "stat_panel \<Rightarrow> string \<times> string \<times> string \<times> string" where
  "panel_of p = (sp_node p, sp_interface p, sp_unit p, sp_vrf p)"

definition ep_panel :: "jsval \<Rightarrow> props \<Rightarrow> string \<times> string \<times> string \<times> string" where
  "ep_panel vrf ep = (to_str (pget ep ''node''), to_str (pget ep ''interface''), to_str (pget ep ''unit''), to_str vrf)"

lemma display_panels:
  assumes "displayStatisticsIFrame G c period ps = Inr qs"
  shows "map panel_of qs = map panel_of ps" "\<forall>i < length ps. sp_shown (qs ! i) = (i = c)"
proof -
  have "c < length ps" using assms by (simp add: displayStatisticsIFrame_def Let_def split: if_splits)
  then have qs: "qs = (map (\<lambda>p. p\<lparr>sp_shown := False, sp_select_shown := False\<rparr>) ps)[c := qs ! c]" "sp_shown (qs ! c)" "panel_of (qs ! c) = panel_of (ps ! c)"
    using assms by (auto simp: displayStatisticsIFrame_def updateStatisticsIFrame_def Let_def panel_of_def)
  have "map panel_of qs = (map panel_of (map (\<lambda>p. p\<lparr>sp_shown := False, sp_select_shown := False\<rparr>) ps))[c := panel_of (qs ! c)]"
    by (subst qs(1)) (simp add: map_update)
  moreover have "panel_of (p\<lparr>sp_shown := x, sp_select_shown := y\<rparr>) = panel_of p" for p x y by (simp add: panel_of_def)
  ultimately show "map panel_of qs = map panel_of ps" using qs(3) \<open>c < length ps\<close>
    by (simp add: comp_def list_update_same_conv)
  show "\<forall>i < length ps. sp_shown (qs ! i) = (i = c)"
  proof (intro allI impI)
    fix i assume i: "i < length ps"
    have "qs ! i = (map (\<lambda>p. p\<lparr>sp_shown := False, sp_select_shown := False\<rparr>) ps)[c := qs ! c] ! i" using qs(1) by simp
    then show "sp_shown (qs ! i) = (i = c)" using i qs(2) by (cases "i = c") simp_all
  qed
qed

lemma load_endpoint_frame [simp]:
  "k \<noteq> ''peers'' \<Longrightarrow> k \<noteq> ''cloud_gateway_type'' \<Longrightarrow> pget (load_endpoint ep) k = pget ep k"
  by (simp add: load_endpoint_def Let_def)

lemma ep_panel_put: "ep_panel v (obj (put_obj a (load_endpoint (obj P a)) P) b) = ep_panel v (obj P b)"
proof -
  have "pget (obj (put_obj a (load_endpoint (obj P a)) P) b) k = pget (obj P b) k"
    if "k \<noteq> ''peers''" "k \<noteq> ''cloud_gateway_type''" for k
  proof (cases "a < length (objs P)")
    case True
    then show ?thesis using that by (simp add: obj_put)
  next
    case False
    then show ?thesis by (simp add: put_obj_def obj_def)
  qed
  then show ?thesis by (simp add: ep_panel_def)
qed

lemma load_panels_shows:
  "load_panels G period as P = (Inr (), P') \<Longrightarrow>
     map panel_of (m3_panels P') = map panel_of (m3_panels P) @ map (\<lambda>a. ep_panel (pget (l3_connection P) ''vrf_id'') (obj P a)) as \<and>
     eps P' = eps P \<and> (as \<noteq> [] \<longrightarrow> (\<forall>i < length (m3_panels P'). sp_shown (m3_panels P' ! i) = (i = 0)))"
proof (induction as arbitrary: P)
  case (Cons a as)
  let ?ep = "load_endpoint (obj P a)"
  let ?P1 = "put_obj a ?ep P"
  obtain sel qs where qs: "displayStatisticsIFrame G 0 period (m3_panels ?P1 @ [new_panel (pget (l3_connection ?P1) ''vrf_id'') ?ep sel]) = Inr qs"
    and rest: "load_panels G period as (?P1\<lparr>m3_panels := qs\<rparr>) = (Inr (), P')"
    using Cons.prems by (auto simp: Let_def split: jsval.splits sum.splits)
  have c [simp]: "m3_panels ?P1 = m3_panels P" "l3_connection ?P1 = l3_connection P" by (simp_all add: put_obj_def)
  have o: "obj (?P1\<lparr>m3_panels := qs\<rparr>) = obj ?P1" by (simp add: obj_def fun_eq_iff)
  have n: "panel_of (new_panel v ?ep sel) = ep_panel v (obj P a)" for v
    by (simp add: new_panel_def panel_of_def ep_panel_def)
  note d = display_panels [OF qs]
  have ln: "length qs = length (m3_panels P) + 1" using arg_cong [OF d(1), of length] by simp
  show ?case
  proof (cases "as = []")
    case True
    then show ?thesis using rest d n ln by auto
  next
    case False
    then show ?thesis using Cons.IH [OF rest] d(1) n by (simp add: o ep_panel_put)
  qed
qed simp

lemma write_texts_frame:
  "write_texts xs P = (r, P') \<Longrightarrow> objs P' = objs P \<and> eps P' = eps P \<and> l3_connection P' = l3_connection P \<and> m3_panels P' = m3_panels P \<and>
     m3_header P' = m3_header P \<and> l3_cards P' = l3_cards P \<and> m3_null P' = m3_null P \<and> m3_error P' = m3_error P \<and>
     m3_history_html P' = m3_history_html P"
  by (induction xs P rule: write_texts.induct) (auto split: sum.splits)

lemma update_panels [simp]: "m3_panels (modify_cloud_update E P) = m3_panels P" "eps (modify_cloud_update E P) = eps P"
  by (simp_all add: modify_cloud_update_def l3_draw_def Let_def split: sum.split)

section \<open>Properties\<close>

text \<open>
  (C21) The page for a new layer 3 connection implements a list of endpoints with a list of
  peerings each.  Leaving aside the fields the page manages, adding an endpoint appends it,
  a change of an endpoint, or another object for it, replaces exactly that endpoint, the delete button of a card removes
  exactly that endpoint, the peering dialog of a card appends the peering to that endpoint
  and to no other, and the delete button of a peering removes exactly that peering; adding
  and deleting peerings never throws.
\<close>

theorem l3_page_refines:
  assumes "l3_run E P"
  shows "(\<forall>ep a P1. alloc ep P = (a, P1) \<longrightarrow> pget ep ''index'' = JNum (- 1) \<longrightarrow> good_ep ep \<longrightarrow>
      endpoint_views l3_view (cloud_updateEndpoint E a P1) = endpoint_views l3_view P @ [l3_view ep]) \<and>
    (\<forall>ep a P1 i. alloc ep P = (a, P1) \<longrightarrow> i < length (eps P) \<longrightarrow> pget ep ''index'' = JNum (int i) \<longrightarrow> good_ep ep \<longrightarrow>
      endpoint_views l3_view (cloud_updateEndpoint E a P1) = (endpoint_views l3_view P)[i := l3_view ep]) \<and>
    (\<forall>i a. i < length (eps P) \<longrightarrow> eps P ! i = Some a \<longrightarrow>
      (\<forall>ws. \<not> phas ws ''index'' \<longrightarrow> good_ep (psets (obj P a) ws) \<longrightarrow>
        endpoint_views l3_view (cloud_updateEndpoint E a (put_obj a (psets (obj P a) ws) P)) =
          (endpoint_views l3_view P)[i := l3_view (psets (obj P a) ws)]) \<and>
      endpoint_views l3_view (cloud_delete_click E a P) = remove_at i (endpoint_views l3_view P) \<and>
      (\<forall>p. \<exists>P'. cloud_add_peer E a p P = Inr P' \<and> endpoint_views l3_view P' =
        (endpoint_views l3_view P)[i := (fst (l3_view (obj P a)), snd (l3_view (obj P a)) @ [peer_view (JObj p)])]) \<and>
      (\<forall>j < length (peers_of (obj P a)). \<exists>P'. cloud_peer_delete_click E i j P = Inr P' \<and> endpoint_views l3_view P' =
        (endpoint_views l3_view P)[i := (fst (l3_view (obj P a)), remove_at j (snd (l3_view (obj P a))))]))"
  using l3_run_inv [OF assms] step_add(2) step_replace(2) step_edit(2) step_delete(2) step_add_peer step_delete_peer by meson

definition sample_l3 :: l3_page where
  "sample_l3 = cloud_updateEndpoint sample_env 0 (snd (alloc [(''index'', JNum (- 1)), (''node'', JStr ''n'')] (cloud_init [])))"

lemma sample_l3_run: "l3_run sample_env sample_l3" "eps sample_l3 = [Some 0]"
proof -
  have "alloc [(''index'', JNum (- 1)), (''node'', JStr ''n'')] (cloud_init []) =
      (0, snd (alloc [(''index'', JNum (- 1)), (''node'', JStr ''n'')] (cloud_init [])))" by (simp add: alloc_def cloud_init_def)
  from l3_run.add [OF l3_run.start this] show "l3_run sample_env sample_l3"
    by (simp add: sample_l3_def good_ep_def draw_throws_def peers_of_def)
  show "eps sample_l3 = [Some 0]" by code_simp
qed

theorem l3_page_refines_witness:
  "\<exists>P'. cloud_add_peer sample_env 0 [(''peer_ip'', JStr ''a'')] sample_l3 = Inr P' \<and>
     endpoint_views l3_view P' = [(fst (l3_view (obj sample_l3 0)), snd (l3_view (obj sample_l3 0)) @ [peer_view (JObj [(''peer_ip'', JStr ''a'')])])]"
proof -
  have e: "0 < length (eps sample_l3)" "eps sample_l3 ! 0 = Some 0" by (simp_all add: sample_l3_run(2))
  have "length (endpoint_views l3_view sample_l3) = 1" by (simp add: endpoint_views_def endpoint_objs_def sample_l3_run(2))
  then obtain v where v: "endpoint_views l3_view sample_l3 = [v]" by (cases "endpoint_views l3_view sample_l3") auto
  from l3_page_refines [OF sample_l3_run(1)] e
  have "\<exists>P'. cloud_add_peer sample_env 0 [(''peer_ip'', JStr ''a'')] sample_l3 = Inr P' \<and> endpoint_views l3_view P' =
      (endpoint_views l3_view sample_l3)[0 := (fst (l3_view (obj sample_l3 0)), snd (l3_view (obj sample_l3 0)) @ [peer_view (JObj [(''peer_ip'', JStr ''a'')])])]"
    by blast
  then show ?thesis by (simp add: v)
qed

text \<open>
  (C23) Whatever a user does with the dialogs and the buttons, the page for a new layer 3
  connection stays consistent: no gap, no endpoint twice, every endpoint knows its position
  and every peering its endpoint and its position, and the cards are those of the current
  endpoints with one row per peering.
\<close>

theorem l3_page_invariant:
  assumes "l3_run E P"
  shows "None \<notin> set (eps P) \<and> distinct (eps P) \<and>
    (\<forall>i a. i < length (eps P) \<longrightarrow> eps P ! i = Some a \<longrightarrow> pget (obj P a) ''index'' = JNum (int i) \<and>
      (\<forall>j q. j < length (peers_of (obj P a)) \<longrightarrow> peers_of (obj P a) ! j = JObj q \<longrightarrow>
        pget q ''index'' = JNum (int j) \<and> pget q ''endpointIndex'' = JNum (int i)) \<and>
      length (peer_cards (obj P a)) = length (peers_of (obj P a))) \<and>
    l3_cards P = map (\<lambda>a. (a, Endpoint2 E (obj P a), peer_cards (obj P a))) (present (eps P))"
proof -
  note inv = l3_run_inv [OF assms]
  have "pget q ''index'' = JNum (int j) \<and> pget q ''endpointIndex'' = JNum (int i)"
    if "i < length (eps P)" "eps P ! i = Some a" "j < length (peers_of (obj P a))" "peers_of (obj P a) ! j = JObj q" for i a j q
    using inv that unfolding l3_inv_def peers_indexed_def peers_of_def by fastforce
  then show ?thesis using inv peer_cards_all [OF inv] by (auto simp: l3_inv_def wf_page_def indexed_def)
qed

theorem l3_page_invariant_witness:
  "l3_run sample_env sample_l3 \<and> pget (obj sample_l3 0) ''index'' = JNum 0 \<and> length (l3_cards sample_l3) = 1"
proof -
  note inv = l3_page_invariant [OF sample_l3_run(1)]
  have "pget (obj sample_l3 a) ''index'' = JNum (int i)" if "i < length (eps sample_l3)" "eps sample_l3 ! i = Some a" for i a
    using inv that by blast
  from this [of 0 0] have "pget (obj sample_l3 0) ''index'' = JNum 0" by (simp add: sample_l3_run(2))
  moreover have "l3_cards sample_l3 = map (\<lambda>a. (a, Endpoint2 sample_env (obj sample_l3 a), peer_cards (obj sample_l3 a))) (present (eps sample_l3))"
    using inv by blast
  then have "length (l3_cards sample_l3) = 1" by (simp add: sample_l3_run(2))
  ultimately show ?thesis using sample_l3_run(1) by simp
qed



text \<open>
  Loading a connection makes one panel of graphs for each endpoint, in order, about the
  node, interface and unit of that endpoint, and shows the first one only.
\<close>

theorem connection_panels:
  assumes "show_connection E formatDate G period P = (Inr (), P')" and "m3_panels P = []"
  shows "map panel_of (m3_panels P') = map (ep_panel (pget (l3_connection P) ''vrf_id'')) (endpoint_objs P) \<and>
    (\<forall>i < length (m3_panels P'). sp_shown (m3_panels P' ! i) = (i = 0))"
proof -
  obtain P1 src P2 p ps where 1: "write_texts (details formatDate (l3_connection P)) P = (Inr (), P1)"
    and 2: "load_panels G period (present (eps P1)) (P1\<lparr>m3_route := src\<rparr>) = (Inr (), P2)"
    and 3: "m3_panels P2 = p # ps" and P': "P' = modify_cloud_update E (P2\<lparr>m3_panels := p\<lparr>sp_shown := True\<rparr> # ps\<rparr>)"
    using assms(1) by (auto simp: show_connection_def split: prod.splits sum.splits list.splits)
  note f = write_texts_frame [OF 1] and l = load_panels_shows [OF 2]
  have o: "obj (P1\<lparr>m3_route := src\<rparr>) = obj P" using f by (simp add: obj_def fun_eq_iff)
  have m: "map panel_of (p # ps) = map (\<lambda>a. ep_panel (pget (l3_connection P) ''vrf_id'') (obj P a)) (present (eps P))"
    using l f assms(2) 3 by (simp add: o)
  have "present (eps P1) \<noteq> []" using m f by auto
  then have s: "\<forall>i < length (p # ps). sp_shown ((p # ps) ! i) = (i = 0)" using l 3 by simp
  have "panel_of (p\<lparr>sp_shown := True\<rparr>) = panel_of p" by (simp add: panel_of_def)
  then have "map panel_of (m3_panels P') = map (ep_panel (pget (l3_connection P) ''vrf_id'')) (endpoint_objs P)"
    using m by (simp add: P' endpoint_objs_def comp_def)
  moreover have "\<forall>i < length (m3_panels P'). sp_shown (m3_panels P' ! i) = (i = 0)"
    using s by (auto simp: P' nth_Cons split: nat.splits)
  ultimately show ?thesis ..
qed

definition sample_connection :: l3_modify where
  "sample_connection = (modify_cloud_init [(''isAdmin'', JNum 1)])\<lparr>objs := [[(''node'', JStr ''n''), (''peers'', JArr [])]], eps := [Some 0],
     l3_connection := [(''vrf_id'', JNum 7), (''endpoints'', JArr [JObj [(''node'', JStr ''n''), (''peers'', JArr [])]]),
       (''last_modified_by'', JObj []), (''created_by'', JObj []), (''workgroup'', JObj [])]\<rparr>"

theorem connection_panels_witness:
  "map panel_of (m3_panels (snd (show_connection sample_env (\<lambda>_. []) \<lparr>g_port = [], g_peer = [], g_route = []\<rparr> [] sample_connection))) =
     [(''n'', ''undefined'', ''undefined'', ''7'')]"
proof -
  let ?r = "show_connection sample_env (\<lambda>_. []) \<lparr>g_port = [], g_peer = [], g_route = []\<rparr> [] sample_connection"
  have "fst ?r = Inr ()" by code_simp
  then have "?r = (Inr (), snd ?r)" by (metis prod.collapse)
  moreover have "m3_panels sample_connection = []" by code_simp
  moreover have "map (ep_panel (pget (l3_connection sample_connection) ''vrf_id'')) (endpoint_objs sample_connection) =
      [(''n'', ''undefined'', ''undefined'', ''7'')]" by code_simp
  ultimately show ?thesis using connection_panels by metis
qed

text \<open>
  Deleting a connection always ends: without the consent of the user nothing happens;
  with it one request is sent, and for every answer or failure the page is left or the
  loading dialog closes and a message is shown; nothing is thrown.
\<close>

theorem connection_delete_completes:
  "\<exists>s x. modify_cloud_deleteCircuit E P t = (Inr (), t @ Asked s # x) \<and>
     (if answers E t s
      then \<exists>rq. x = [ModalShow delete_connection_loading, Sent rq, Navigate ''?action=welcome''] \<or>
        (\<exists>m. x = [ModalShow delete_connection_loading, Sent rq, ModalHide delete_connection_loading, Alert m])
      else x = [])"
proof -
  let ?s = "''Are you sure you want to delete '' @ dquote @ to_str (pget (l3_connection P) ''description'') @ dquote @ ''?''"
  let ?t = "t @ [Asked ?s, ModalShow delete_connection_loading]"
  let ?call = "deleteVRF E (pget (l3_session P) ''workgroup_id'') (parse_int (pget (l3_connection P) ''vrf_id''))"
  obtain rq r where d: "?call ?t = (r, ?t @ [Sent rq])" by (simp add: deleteVRF_def api_call_eq)
  have ask: "modify_cloud_deleteCircuit E P t = (if answers E t ?s then finish_delete ?call ?t else (Inr (), t @ [Asked ?s]))"
    by (simp add: modify_cloud_deleteCircuit_def)
  show ?thesis
  proof (cases "answers E t ?s")
    case False
    then show ?thesis using ask by (intro exI [of _ ?s] exI [of _ "[]"]) simp
  next
    case True
    obtain x where "finish_delete ?call ?t = (Inr (), (?t @ [Sent rq]) @ x)"
      "x = [Navigate ''?action=welcome''] \<or> (\<exists>m. x = [ModalHide delete_connection_loading, Alert m])"
      using finish_delete_outcome [where call = ?call and t = ?t, OF d] by blast
    with True ask show ?thesis
      by (intro exI [of _ ?s] exI [of _ "[ModalShow delete_connection_loading, Sent rq] @ x"]) auto
  qed
qed

text \<open>
  A connection without endpoints cannot be opened: its page ends in an exception
  before the endpoints, the header with its buttons and the history are drawn, and shows no
  error either.
\<close>

theorem empty_connection_not_shown:
  assumes "getVRF E (pget session ''workgroup_id'') (JStr ident) t = (Inr (JObj c), t1)" and "pget c ''endpoints'' = JArr []"
    and "\<not> loose_eq (JStr ident) (JNum (- 1))"
  shows "\<exists>P t'. modify_cloud_start E formatDate dateTime G period session (Some ident) t = (Inr P, t') \<and>
    m3_header P = None \<and> \<not> m3_error P \<and> l3_cards P = [] \<and> m3_history_html P = []"
proof -
  let ?P = "adopt_connection (pset c ''circuit_id'' (pget c ''vrf_id'')) (modify_cloud_init session)"
  obtain v t2 where v: "getCommands E t1 = (Inr v, t2)" using getCommands.never_throws [of E t1] by (cases "getCommands E t1") auto
  obtain h t3 where h: "getVRFHistory E (pget session ''workgroup_id'') (JStr ident) t2 = (Inr h, t3)"
    using getVRFHistory.never_throws [of E "pget session ''workgroup_id''" "JStr ident" t2]
    by (cases "getVRFHistory E (pget session ''workgroup_id'') (JStr ident) t2") auto
  obtain r P1 where w: "write_texts (details formatDate (l3_connection ?P)) (?P\<lparr>m3_history := h\<rparr>) = (r, P1)" by fastforce
  have e: "eps P1 = []" "m3_panels P1 = []" "m3_header P1 = None" "l3_cards P1 = []" "\<not> m3_null P1" "\<not> m3_error P1" "m3_history_html P1 = []"
    using write_texts_frame [OF w] assms(2) by (simp_all add: adopt_connection_def modify_cloud_init_def)
  obtain e P2 where s: "show_connection E formatDate G period (?P\<lparr>m3_history := h\<rparr>) = (Inl e, P2)"
    and "m3_header P2 = None" "l3_cards P2 = []" "\<not> m3_null P2" "\<not> m3_error P2" "m3_history_html P2 = []"
    using w e by (cases r; cases "route_src G (l3_connection P1)") (auto simp: show_connection_def)
  moreover have "modify_cloud_select E formatDate G period (JStr ident) (modify_cloud_init session) t =
      (Inr (show_connection E formatDate G period (?P\<lparr>m3_history := h\<rparr>)), t3)"
    using assms(1,3) v h by (simp add: modify_cloud_select_def Let_def io_bind_def modify_cloud_init_def)
  ultimately show ?thesis
    by (simp add: modify_cloud_start_def io_bind_def)
qed

definition empty_vrf_env :: env where
  "empty_vrf_env = sample_env\<lparr>serve := (\<lambda>t rq. Inr (JObj [(''results'', JArr [JObj [(''endpoints'', JArr [])]])]))\<rparr>"

theorem empty_connection_not_shown_witness:
  "\<exists>P t'. modify_cloud_start empty_vrf_env (\<lambda>_. []) (\<lambda>_. []) \<lparr>g_port = [], g_peer = [], g_route = []\<rparr> [] [] (Some ''7'') [] = (Inr P, t') \<and>
    m3_header P = None \<and> \<not> m3_error P \<and> l3_cards P = [] \<and> m3_history_html P = []"
proof -
  let ?g = "getVRF empty_vrf_env (pget [] ''workgroup_id'') (JStr ''7'') []"
  have "fst ?g = Inr (JObj [(''endpoints'', JArr [])])" by code_simp
  then have g: "?g = (Inr (JObj [(''endpoints'', JArr [])]), snd ?g)" by (metis prod.collapse)
  have "\<not> loose_eq (JStr ''7'') (JNum (- 1))" by code_simp
  then show ?thesis by (intro empty_connection_not_shown [OF g]) (simp_all add: pget_Cons)
qed

end
