(* ===== verification/Commands.thy ===== *)
theory Commands
  imports ApiData Provisioning Dom
begin

text \<open>
  The command panel of a layer 3 connection (\<^verbatim>\<open>command/selector.js\<close>): a select box of the
  operator commands, four dependent select boxes for node, interface, unit and peer, and
  the result of the last command.  What the boxes offer is kept as JSON text in the session
  storage.  Names of nodes and interfaces contain no quotes and no markup, so the options
  written as HTML text read back as they were.
\<close>

section \<open>The panel\<close>

record command_panel =
  cp_commands :: "(string \<times> string) list"
  cp_command :: int
  cp_node :: select_el
  cp_intf :: select_el
  cp_unit :: select_el
  cp_peer :: select_el
  cp_intf_shown :: bool
  cp_unit_shown :: bool
  cp_peer_shown :: bool
  cp_params :: "string option"
  cp_result :: string
  cp_toggle :: string
  cp_result_shown :: bool

text \<open>A handler ends with or without an exception, and what it did to the panel stays.\<close>

type_synonym panel_step = "unit res \<times> command_panel"

fun and_then :: "panel_step \<Rightarrow> (command_panel \<Rightarrow> panel_step) \<Rightarrow> panel_step" where
  "and_then (Inl e, P) f = (Inl e, P)"
| "and_then (Inr _, P) f = f P"

text \<open>\<^verbatim>\<open>Object.keys\<close>: array indices first and in order, then the other names as they were added.\<close>

definition is_index :: "string \<Rightarrow> bool" where
  "is_index k \<longleftrightarrow> k \<noteq> [] \<and> list_all is_digit k \<and> (k = ''0'' \<or> hd k \<noteq> CHR ''0'') \<and> int (read_digits 10 k) < 4294967295"

definition object_keys :: "props \<Rightarrow> string list" where
  "object_keys ps = sort_key (read_digits 10) (filter is_index (map fst ps)) @ filter (\<lambda>k. \<not> is_index k) (map fst ps)"

fun obj_keys :: "jsval \<Rightarrow> string list res" where
  "obj_keys JUndef = Inl TypeError"
| "obj_keys JNull = Inl TypeError"
| "obj_keys (JObj ps) = Inr (object_keys ps)"
| "obj_keys (JArr vs) = Inr (map show_nat [0..<length vs])"
| "obj_keys (JStr s) = Inr (map show_nat [0..<length s])"
| "obj_keys _ = Inr []"

text \<open>A select box filled with names: the first is selected.\<close>

definition names_select :: "string list \<Rightarrow> select_el" where
  "names_select ks = \<lparr>sel_options = map (\<lambda>k. \<lparr>opt_value = k, opt_text = k, opt_disabled = False\<rparr>) ks,
     sel_index = (if ks = [] then - 1 else 0), sel_disabled = False\<rparr>"

section \<open>What the boxes offer\<close>

text \<open>The loop over the endpoints builds \<^verbatim>\<open>info[node][interface][unit][peer] = 1\<close>.\<close>

fun add_peer_ips :: "jsval list \<Rightarrow> jsval \<Rightarrow> jsval res" where
  "add_peer_ips [] unit = Inr unit"
| "add_peer_ips (p # ps) unit =
     rbind (jget p ''peer_ip'') (\<lambda>ip. rbind (jin (to_str ip) unit) (\<lambda>known.
       add_peer_ips ps (if known then unit else JObj (pset (as_props unit) (to_str ip) (JNum 1)))))"

definition sub_object :: "props \<Rightarrow> string \<Rightarrow> props" where
  "sub_object info k = (if phas info k then as_props (pget info k) else [])"

definition add_endpoint :: "props \<Rightarrow> jsval \<Rightarrow> props res" where
  "add_endpoint info e =
     rbind (jget e ''node'') (\<lambda>node. rbind (jget e ''interface'') (\<lambda>intf.
     rbind (jget e ''tag'') (\<lambda>tag. rbind (jget e ''unit'') (\<lambda>unit.
     let ifs = sub_object info (to_str node);
         us = sub_object ifs (to_str intf);
         us1 = (if phas us (to_str tag) then us else pset us (to_str unit) (JObj []))
     in rbind (jget e ''peers'') (\<lambda>peers. case peers of
          JArr ps \<Rightarrow> rbind (add_peer_ips ps (pget us1 (to_str unit))) (\<lambda>u.
            Inr (pset info (to_str node) (JObj (pset ifs (to_str intf) (JObj
              (if ps = [] then us1 else pset us1 (to_str unit) u))))))
        | _ \<Rightarrow> Inl TypeError)))))"

fun add_endpoints :: "props \<Rightarrow> jsval list \<Rightarrow> props res" where
  "add_endpoints info [] = Inr info"
| "add_endpoints info (e # es) = rbind (add_endpoint info e) (\<lambda>info'. add_endpoints info' es)"

text \<open>The function is asynchronous: when it throws, its caller goes on with what the session
  storage held before.\<close>

definition loadCommandParams :: "props \<Rightarrow> command_panel \<Rightarrow> command_panel" where
  "loadCommandParams vrf P = (case pget vrf ''endpoints'' of
     JArr es \<Rightarrow> (case add_endpoints [] es of
         Inl e \<Rightarrow> P | Inr info \<Rightarrow> P\<lparr>cp_params := Some (json_text (JObj info))\<rparr>)
   | _ \<Rightarrow> P)"

definition read_params :: "command_panel \<Rightarrow> jsval res" where
  "read_params P = (case cp_params P of None \<Rightarrow> Inr JNull | Some s \<Rightarrow> json_parse s)"

section \<open>Filling the boxes\<close>

definition loadPeerSelect :: "command_panel \<Rightarrow> panel_step" where
  "loadPeerSelect P =
     (case rbind (read_params P) (\<lambda>info. rbind (selected_value (cp_node P)) (\<lambda>node. rbind (selected_value (cp_intf P)) (\<lambda>intf.
           rbind (selected_value (cp_unit P)) (\<lambda>unit.
           rbind (jget info node) (\<lambda>v. rbind (jget v intf) (\<lambda>v. rbind (jget v unit) obj_keys)))))) of
        Inl e \<Rightarrow> (Inl e, P)
      | Inr ks \<Rightarrow> (Inr (), P\<lparr>cp_peer := names_select ks\<rparr>))"

definition loadUnitSelect :: "command_panel \<Rightarrow> panel_step" where
  "loadUnitSelect P =
     (case rbind (read_params P) (\<lambda>info. rbind (selected_value (cp_node P)) (\<lambda>node. rbind (selected_value (cp_intf P)) (\<lambda>intf.
           rbind (jget info node) (\<lambda>v. rbind (jget v intf) obj_keys)))) of
        Inl e \<Rightarrow> (Inl e, P)
      | Inr ks \<Rightarrow> loadPeerSelect (P\<lparr>cp_unit := names_select ks\<rparr>))"

definition loadIntfSelect :: "command_panel \<Rightarrow> panel_step" where
  "loadIntfSelect P =
     (case rbind (read_params P) (\<lambda>info. rbind (selected_value (cp_node P)) (\<lambda>node. rbind (jget info node) obj_keys)) of
        Inl e \<Rightarrow> (Inl e, P)
      | Inr ks \<Rightarrow> loadUnitSelect (P\<lparr>cp_intf := names_select ks\<rparr>))"

definition loadNodeSelect :: "command_panel \<Rightarrow> panel_step" where
  "loadNodeSelect P =
     (case rbind (read_params P) obj_keys of
        Inl e \<Rightarrow> (Inl e, P)
      | Inr ks \<Rightarrow> loadIntfSelect (P\<lparr>cp_node := names_select ks\<rparr>))"

section \<open>The handlers\<close>

text \<open>The type of the selected command; without a selected option the handlers throw.\<close>

definition command_at :: "command_panel \<Rightarrow> (string \<times> string) res" where
  "command_at P = (if 0 \<le> cp_command P \<and> nat (cp_command P) < length (cp_commands P)
     then Inr (cp_commands P ! nat (cp_command P)) else Inl TypeError)"

definition commandSelectChangeHandler :: "command_panel \<Rightarrow> panel_step" where
  "commandSelectChangeHandler P = (case command_at P of
     Inl e \<Rightarrow> (Inl e, P)
   | Inr (ty, _) \<Rightarrow>
       if ty = ''node'' then
         and_then (loadNodeSelect P) (\<lambda>P. (Inr (), P\<lparr>cp_intf_shown := False, cp_unit_shown := False, cp_peer_shown := False\<rparr>))
       else if ty = ''intf'' then
         and_then (loadNodeSelect P) (\<lambda>P. and_then (loadIntfSelect P) (\<lambda>P.
           (Inr (), P\<lparr>cp_intf_shown := True, cp_unit_shown := False, cp_peer_shown := False\<rparr>)))
       else if ty = ''unit'' then
         and_then (loadNodeSelect P) (\<lambda>P. and_then (loadIntfSelect P) (\<lambda>P. and_then (loadUnitSelect P) (\<lambda>P.
           (Inr (), P\<lparr>cp_intf_shown := True, cp_unit_shown := True, cp_peer_shown := False\<rparr>))))
       else if ty = ''peer'' then
         and_then (loadNodeSelect P) (\<lambda>P. and_then (loadIntfSelect P) (\<lambda>P. and_then (loadUnitSelect P) (\<lambda>P. and_then (loadPeerSelect P) (\<lambda>P.
           (Inr (), P\<lparr>cp_intf_shown := True, cp_unit_shown := True, cp_peer_shown := True\<rparr>)))))
       else (Inr (), P))"

definition nodeSelectChangeHandler :: "command_panel \<Rightarrow> panel_step" where
  "nodeSelectChangeHandler P = (case command_at P of
     Inl e \<Rightarrow> (Inl e, P)
   | Inr (ty, _) \<Rightarrow> if ty = ''node'' then (Inr (), P) else loadIntfSelect P)"

definition intfSelectChangeHandler :: "command_panel \<Rightarrow> panel_step" where
  "intfSelectChangeHandler P = (case command_at P of
     Inl e \<Rightarrow> (Inl e, P)
   | Inr (ty, _) \<Rightarrow> if ty = ''node'' then (Inr (), P) else if ty = ''intf'' then (Inr (), P) else loadUnitSelect P)"

definition unitSelectChangeHandler :: "command_panel \<Rightarrow> panel_step" where
  "unitSelectChangeHandler P = (case command_at P of
     Inl e \<Rightarrow> (Inl e, P)
   | Inr (ty, _) \<Rightarrow> if ty = ''node'' then (Inr (), P) else if ty = ''intf'' then (Inr (), P)
       else if ty = ''unit'' then (Inr (), P) else loadPeerSelect P)"

definition command_option :: "jsval \<Rightarrow> (string \<times> string) res" where
  "command_option cmd = rbind (jget cmd ''type'') (\<lambda>ty. rbind (jget cmd ''command_id'') (\<lambda>i. Inr (to_str ty, to_str i)))"

definition loadCommands :: "env \<Rightarrow> props \<Rightarrow> command_panel \<Rightarrow> panel_step io" where
  "loadCommands E vrf P = io_bind (getCommands E) (\<lambda>commands. io_ret (case commands of
     JArr cs \<Rightarrow> (case rmap command_option cs of
         Inl e \<Rightarrow> (Inl e, P)
       | Inr opts \<Rightarrow> commandSelectChangeHandler
           (loadCommandParams vrf (P\<lparr>cp_commands := opts, cp_command := (if opts = [] then - 1 else 0)\<rparr>)))
   | _ \<Rightarrow> (Inl TypeError, P)))"

text \<open>Running a command: which boxes it reads depends on its type.\<close>

definition command_options :: "string \<Rightarrow> command_panel \<Rightarrow> props res option" where
  "command_options ty P =
     (let node = rbind (selected_value (cp_node P)) (\<lambda>v. Inr [(''node'', JStr v)]);
          intf = rbind (selected_value (cp_intf P)) (\<lambda>v. Inr [(''interface'', JStr v)]);
          unit = rbind (selected_value (cp_unit P)) (\<lambda>v. Inr [(''unit'', JStr v)]);
          peer = rbind (selected_value (cp_peer P)) (\<lambda>v. Inr [(''peer'', JStr v)]);
          both = (\<lambda>a b. rbind a (\<lambda>x. rbind b (\<lambda>y. Inr (x @ y))))
      in if ty = ''node'' then Some node
         else if ty = ''intf'' then Some (both node intf)
         else if ty = ''unit'' then Some (both node (both intf unit))
         else if ty = ''peer'' then Some (both node (both intf (both unit peer)))
         else None)"

definition show_result :: "jsval \<Rightarrow> command_panel \<Rightarrow> panel_step" where
  "show_result reply P =
     (case (if \<not> truthy reply then Inr ''Something went wrong. Please try again later.''
            else rbind (jidx reply 0) (\<lambda>v. Inr (html_of v))) of
        Inl e \<Rightarrow> (Inl e, P)
      | Inr s \<Rightarrow> (Inr (), P\<lparr>cp_result := s, cp_toggle := ''Collapse'', cp_result_shown := True\<rparr>))"

definition loadCommandResult :: "env \<Rightarrow> props \<Rightarrow> command_panel \<Rightarrow> panel_step io" where
  "loadCommandResult E session P = (case command_at P of
     Inl e \<Rightarrow> io_ret (Inl e, P)
   | Inr (ty, cmdID) \<Rightarrow> (case command_options ty P of
       None \<Rightarrow> io_ret (Inr (), P)
     | Some (Inl e) \<Rightarrow> io_ret (Inl e, P)
     | Some (Inr options) \<Rightarrow> io_bind (runCommand E (pget session ''workgroup_id'') (JStr cmdID) options) (\<lambda>reply.
         io_ret (show_result reply P))))"

definition toggleCommandResult :: "command_panel \<Rightarrow> command_panel" where
  "toggleCommandResult P =
     (if cp_toggle P = ''Expand'' then P\<lparr>cp_toggle := ''Collapse'', cp_result_shown := True\<rparr>
      else P\<lparr>cp_toggle := ''Expand'', cp_result_shown := False\<rparr>)"

end
