(* ===== verification/CommandTheorems.thy ===== *)
theory CommandTheorems
  imports Commands
begin

text \<open>
  The command panel offers, and sends, the nodes, interfaces, units and peers of the
  endpoints of the connection only: what the session storage holds comes from the
  endpoints, and the four boxes agree with it in every state a user can reach.
\<close>

section \<open>The stored tree\<close>

definition fld :: "jsval \<Rightarrow> string \<Rightarrow> string" where
  "fld e k = (case jget e k of Inl _ \<Rightarrow> [] | Inr v \<Rightarrow> to_str v)"

definition ep_ips :: "jsval \<Rightarrow> string set" where
  "ep_ips e = (case jget e ''peers'' of Inr (JArr ps) \<Rightarrow> (\<lambda>p. fld p ''peer_ip'') ` set ps | _ \<Rightarrow> {})"

text \<open>Every branch of the tree is about an endpoint.\<close>

definition unit_ok :: "jsval list \<Rightarrow> string \<Rightarrow> string \<Rightarrow> string \<Rightarrow> props \<Rightarrow> bool" where
  "unit_ok es n i u ps \<longleftrightarrow>
     (\<exists>e \<in> set es. fld e ''node'' = n \<and> fld e ''interface'' = i \<and> fld e ''unit'' = u) \<and>
     (\<forall>p. phas ps p \<longrightarrow> (\<exists>e \<in> set es. fld e ''node'' = n \<and> fld e ''interface'' = i \<and> fld e ''unit'' = u \<and> p \<in> ep_ips e))"

definition intf_ok :: "jsval list \<Rightarrow> string \<Rightarrow> string \<Rightarrow> props \<Rightarrow> bool" where
  "intf_ok es n i us \<longleftrightarrow> (\<forall>u. phas us u \<longrightarrow> (\<exists>ps. pget us u = JObj ps \<and> unit_ok es n i u ps))"

definition node_ok :: "jsval list \<Rightarrow> string \<Rightarrow> props \<Rightarrow> bool" where
  "node_ok es n ifs \<longleftrightarrow> (\<forall>i. phas ifs i \<longrightarrow> (\<exists>us. pget ifs i = JObj us \<and> us \<noteq> [] \<and> intf_ok es n i us))"

definition info_ok :: "jsval list \<Rightarrow> props \<Rightarrow> bool" where
  "info_ok es info \<longleftrightarrow> (\<forall>n. phas info n \<longrightarrow> (\<exists>ifs. pget info n = JObj ifs \<and> ifs \<noteq> [] \<and> node_ok es n ifs))"

lemma ok_mono:
  assumes "set es \<subseteq> set es'"
  shows "unit_ok es n i u ps \<Longrightarrow> unit_ok es' n i u ps" "intf_ok es n i us \<Longrightarrow> intf_ok es' n i us"
    "node_ok es n ifs \<Longrightarrow> node_ok es' n ifs" "info_ok es info \<Longrightarrow> info_ok es' info"
proof -
  show u: "unit_ok es n i u ps \<Longrightarrow> unit_ok es' n i u ps" for n i u ps using assms unfolding unit_ok_def by blast
  show i: "intf_ok es n i us \<Longrightarrow> intf_ok es' n i us" for n i us using u unfolding intf_ok_def by blast
  show n: "node_ok es n ifs \<Longrightarrow> node_ok es' n ifs" for n ifs using i unfolding node_ok_def by blast
  show "info_ok es info \<Longrightarrow> info_ok es' info" using n unfolding info_ok_def by blast
qed

text \<open>The tree as JSON text reads back unchanged.\<close>

definition storable :: "jsval \<Rightarrow> bool" where
  "storable v \<longleftrightarrow> wf_js v \<and> json_clean v"

lemma storable_pset: "storable (JObj ps) \<Longrightarrow> storable v \<Longrightarrow> storable (JObj (pset ps k v))"
proof -
  have "set (pset ps k v) \<subseteq> insert (k, v) (set ps)" by (induction ps k v rule: pset.induct) auto
  moreover have "distinct (map fst ps) \<Longrightarrow> distinct (map fst (pset ps k v))" by (auto simp: keys_pset phas_def)
  ultimately show "storable (JObj ps) \<Longrightarrow> storable v \<Longrightarrow> storable (JObj (pset ps k v))"
    by (fastforce simp: storable_def list_all_iff)
qed

lemma storable_empty: "storable (JObj [])" "storable (JNum i)"
  by (simp_all add: storable_def)

lemma storable_pget: "storable (JObj ps) \<Longrightarrow> phas ps k \<Longrightarrow> storable (pget ps k)"
  by (induction ps) (auto simp: storable_def)

lemma storable_sub: "storable (JObj ps) \<Longrightarrow> storable (JObj (sub_object ps k))"
proof (cases "phas ps k")
  case True
  assume "storable (JObj ps)"
  then have "storable (pget ps k)" using True by (rule storable_pget)
  then show ?thesis using True by (cases "pget ps k") (simp_all add: sub_object_def storable_empty)
qed (simp add: sub_object_def storable_empty)

lemma stored_tree: "storable (JObj info) \<Longrightarrow> json_parse (json_text (JObj info)) = Inr (JObj info)"
  by (simp add: storable_def json_parse_text json_norm_clean del: json_text.simps json_norm.simps wf_js.simps json_clean.simps)

lemma add_peer_ips_ok:
  assumes "add_peer_ips ps u = Inr u'" and "u = JObj q" and "storable u"
  shows "\<exists>q'. u' = JObj q' \<and> storable u' \<and> (\<forall>p. phas q' p \<longrightarrow> phas q p \<or> p \<in> (\<lambda>p. fld p ''peer_ip'') ` set ps)"
  using assms
proof (induction ps arbitrary: u q)
  case (Cons p ps)
  obtain ip where ip: "jget p ''peer_ip'' = Inr ip" using Cons.prems(1) by (cases "jget p ''peer_ip''") auto
  let ?q = "if phas q (to_str ip) then q else pset q (to_str ip) (JNum 1)"
  have r: "add_peer_ips ps (JObj ?q) = Inr u'" using Cons.prems(1,2) ip by (simp split: if_splits)
  have "storable (JObj ?q)" using Cons.prems(2,3) by (simp add: storable_pset storable_empty)
  from Cons.IH [OF r refl this] obtain q' where q': "u' = JObj q'" "storable u'"
    "\<forall>p. phas q' p \<longrightarrow> phas ?q p \<or> p \<in> (\<lambda>p. fld p ''peer_ip'') ` set ps" by blast
  moreover have "fld p ''peer_ip'' = to_str ip" by (simp add: fld_def ip)
  ultimately show ?case by (intro exI [of _ q']) (auto split: if_splits)
qed auto

text \<open>One endpoint more.\<close>

lemma pset_nonempty [simp]: "pset ps k v \<noteq> []"
  by (induction ps k v rule: pset.induct) auto

lemma phas_nonempty: "phas ps k \<Longrightarrow> ps \<noteq> []"
  by auto

lemma sub_ok:
  "info_ok es info \<Longrightarrow> node_ok es n (sub_object info n)"
  "node_ok es n ifs \<Longrightarrow> intf_ok es n i (sub_object ifs i)"
  by (auto simp: sub_object_def info_ok_def node_ok_def intf_ok_def)

lemma set_ok:
  "node_ok es n ifs \<Longrightarrow> us \<noteq> [] \<Longrightarrow> intf_ok es n i us \<Longrightarrow> node_ok es n (pset ifs i (JObj us))"
  "info_ok es info \<Longrightarrow> ifs \<noteq> [] \<Longrightarrow> node_ok es n ifs \<Longrightarrow> info_ok es (pset info n (JObj ifs))"
  "intf_ok es n i us \<Longrightarrow> unit_ok es n i u ps \<Longrightarrow> intf_ok es n i (pset us u (JObj ps))"
  by (auto simp: info_ok_def node_ok_def intf_ok_def)

lemma add_unit_ok:
  assumes "intf_ok es n i us" and "storable (JObj us)" and "us \<noteq> []" and "e \<in> set es"
    and "fld e ''node'' = n" and "fld e ''interface'' = i" and "fld e ''unit'' = u" and "jget e ''peers'' = Inr (JArr ps)"
    and "add_peer_ips ps (pget us u) = Inr v"
  shows "\<exists>us'. (if ps = [] then us else pset us u v) = us' \<and> us' \<noteq> [] \<and> intf_ok es n i us' \<and> storable (JObj us')"
proof (cases "ps = []")
  case True
  then show ?thesis using assms by simp
next
  case False
  then obtain p rest where "ps = p # rest" by (cases ps) auto
  then have "phas us u" using assms(9) by (cases "phas us u"; cases "jget p ''peer_ip''") (auto simp: not_phas_pget)
  then obtain q where q: "pget us u = JObj q" "unit_ok es n i u q" using assms(1) by (auto simp: intf_ok_def)
  have "storable (pget us u)" using assms(2) \<open>phas us u\<close> by (rule storable_pget)
  from add_peer_ips_ok [OF assms(9) q(1) this] obtain q' where q': "v = JObj q'" "storable v"
    "\<forall>p. phas q' p \<longrightarrow> phas q p \<or> p \<in> (\<lambda>p. fld p ''peer_ip'') ` set ps" by blast
  have "ep_ips e = (\<lambda>p. fld p ''peer_ip'') ` set ps" using assms(8) by (simp add: ep_ips_def)
  then have "unit_ok es n i u q'" using q(2) q'(3) assms(4-7) unfolding unit_ok_def by blast
  then show ?thesis using False q'(1,2) assms(1,2) by (simp add: set_ok storable_pset)
qed

lemma add_endpoint_ok:
  assumes "info_ok es info" and "storable (JObj info)" and "add_endpoint info e = Inr info'"
  shows "info_ok (e # es) info'" "storable (JObj info')" "info' \<noteq> []"
proof -
  obtain node intf tag unit where f: "jget e ''node'' = Inr node" "jget e ''interface'' = Inr intf" "jget e ''tag'' = Inr tag" "jget e ''unit'' = Inr unit"
    using assms(3) unfolding add_endpoint_def by (auto simp: rbind_Inr_iff)
  let ?n = "to_str node" and ?i = "to_str intf" and ?u = "to_str unit"
  let ?ifs = "sub_object info ?n"
  let ?us = "sub_object ?ifs ?i"
  let ?us1 = "if phas ?us (to_str tag) then ?us else pset ?us ?u (JObj [])"
  obtain peers where "jget e ''peers'' = Inr peers" using assms(3) f by (auto simp: add_endpoint_def Let_def rbind_Inr_iff)
  moreover then obtain ps where "peers = JArr ps" using assms(3) f by (cases peers) (simp_all add: add_endpoint_def Let_def)
  ultimately have peers: "jget e ''peers'' = Inr (JArr ps)" by simp
  obtain v where v: "add_peer_ips ps (pget ?us1 ?u) = Inr v"
    and info': "info' = pset info ?n (JObj (pset ?ifs ?i (JObj (if ps = [] then ?us1 else pset ?us1 ?u v))))"
    using assms(3) f peers by (auto simp: add_endpoint_def Let_def rbind_Inr_iff)
  have fe: "fld e ''node'' = ?n" "fld e ''interface'' = ?i" "fld e ''unit'' = ?u" by (simp_all add: fld_def f)
  have base: "info_ok (e # es) info" using ok_mono(4) [OF _ assms(1), of "e # es"] by auto
  note n = sub_ok(1) [OF base, of ?n] and i = sub_ok(2) [OF sub_ok(1) [OF base, of ?n], of ?i]
  have st: "storable (JObj ?ifs)" "storable (JObj ?us)" using assms(2) by (simp_all add: storable_sub)
  have "unit_ok (e # es) ?n ?i ?u []" using fe by (simp add: unit_ok_def)
  then have "intf_ok (e # es) ?n ?i ?us1" "storable (JObj ?us1)" "?us1 \<noteq> []"
    using i st(2) by (auto simp: set_ok storable_pset storable_empty)
  from add_unit_ok [OF this _ fe peers v] obtain us' where us': "(if ps = [] then ?us1 else pset ?us1 ?u v) = us'" "us' \<noteq> []"
    "intf_ok (e # es) ?n ?i us'" "storable (JObj us')" by auto
  have info'': "info' = pset info ?n (JObj (pset ?ifs ?i (JObj us')))" unfolding info' us'(1) ..
  have "node_ok (e # es) ?n (pset ?ifs ?i (JObj us'))" using n us' by (simp add: set_ok)
  then show "info_ok (e # es) info'" unfolding info'' using base by (simp add: set_ok)
  show "storable (JObj info')" unfolding info'' using assms(2) st(1) us'(4) by (simp add: storable_pset)
  show "info' \<noteq> []" unfolding info'' by simp
qed

lemma add_endpoints_ok:
  "add_endpoints info es = Inr info' \<Longrightarrow> info_ok ds info \<Longrightarrow> storable (JObj info) \<Longrightarrow>
   info_ok (rev es @ ds) info' \<and> storable (JObj info') \<and> (es \<noteq> [] \<longrightarrow> info' \<noteq> [])"
proof (induction es arbitrary: info ds)
  case (Cons e es)
  then obtain mid where m: "add_endpoint info e = Inr mid" "add_endpoints mid es = Inr info'" by (auto simp: rbind_Inr_iff)
  note a = add_endpoint_ok [OF Cons.prems(2,3) m(1)]
  from Cons.IH [OF m(2) a(1,2)] show ?case using a(3) m(2) by (cases es) auto
qed simp

lemma loadCommandParams_ok:
  assumes "pget vrf ''endpoints'' = JArr es" and "add_endpoints [] es = Inr info" and "es \<noteq> []"
  shows "cp_params (loadCommandParams vrf P) = Some (json_text (JObj info))" "info_ok es info" "storable (JObj info)" "info \<noteq> []"
  using assms add_endpoints_ok [OF assms(2), of "[]"] ok_mono(4) [of "rev es" es info]
  by (auto simp: loadCommandParams_def storable_empty info_ok_def)

section \<open>The boxes agree with the tree\<close>

definition offers :: "select_el \<Rightarrow> string list \<Rightarrow> bool" where
  "offers s ks \<longleftrightarrow> map opt_value (sel_options s) = ks \<and> - 1 \<le> sel_index s \<and> sel_index s < int (length ks)"

definition chosen :: "select_el \<Rightarrow> string list \<Rightarrow> bool" where
  "chosen s ks \<longleftrightarrow> offers s ks \<and> 0 \<le> sel_index s"

lemma offers_value: "offers s ks \<Longrightarrow> selected_value s = Inr v \<Longrightarrow> v \<in> set ks"
  by (auto simp: offers_def selected_value_def selected_def split: if_splits)

lemma chosen_value:
  assumes "chosen s ks"
  obtains v where "selected_value s = Inr v" "v \<in> set ks"
proof -
  have "nat (sel_index s) < length (sel_options s)" using assms by (auto simp: chosen_def offers_def)
  then have "selected_value s = Inr (opt_value (sel_options s ! nat (sel_index s)))"
    using assms by (simp add: chosen_def selected_value_def selected_def)
  then show ?thesis using that offers_value assms by (auto simp: chosen_def)
qed

lemma names_offers: "offers (names_select ks) ks" "ks \<noteq> [] \<Longrightarrow> chosen (names_select ks) ks"
  by (auto simp: names_select_def offers_def chosen_def comp_def)

lemma set_object_keys [simp]: "set (object_keys ps) = {k. phas ps k}"
  by (auto simp: object_keys_def phas_def)

lemma object_keys_nonempty: "ps \<noteq> [] \<Longrightarrow> object_keys ps \<noteq> []"
proof -
  assume "ps \<noteq> []"
  then have "phas ps (fst (hd ps))" by (simp add: phas_def)
  then have "fst (hd ps) \<in> set (object_keys ps)" by simp
  then show ?thesis by (cases "object_keys ps") (simp_all del: set_object_keys)
qed

text \<open>The four levels: node, interface, unit, peer.\<close>

definition lv1 :: "props \<Rightarrow> command_panel \<Rightarrow> bool" where
  "lv1 info P \<longleftrightarrow> chosen (cp_node P) (object_keys info)"

definition lv2 :: "props \<Rightarrow> command_panel \<Rightarrow> bool" where
  "lv2 info P \<longleftrightarrow> (\<exists>n ifs. selected_value (cp_node P) = Inr n \<and> pget info n = JObj ifs \<and> chosen (cp_intf P) (object_keys ifs))"

definition lv3 :: "props \<Rightarrow> command_panel \<Rightarrow> bool" where
  "lv3 info P \<longleftrightarrow> (\<exists>n ifs i us. selected_value (cp_node P) = Inr n \<and> pget info n = JObj ifs \<and>
     selected_value (cp_intf P) = Inr i \<and> pget ifs i = JObj us \<and> chosen (cp_unit P) (object_keys us))"

definition lv4 :: "props \<Rightarrow> command_panel \<Rightarrow> bool" where
  "lv4 info P \<longleftrightarrow> (\<exists>n ifs i us u ps. selected_value (cp_node P) = Inr n \<and> pget info n = JObj ifs \<and>
     selected_value (cp_intf P) = Inr i \<and> pget ifs i = JObj us \<and> selected_value (cp_unit P) = Inr u \<and> pget us u = JObj ps \<and>
     offers (cp_peer P) (object_keys ps))"

lemmas lv_defs = lv1_def lv2_def lv3_def lv4_def

definition stored :: "jsval list \<Rightarrow> props \<Rightarrow> command_panel \<Rightarrow> bool" where
  "stored es info P \<longleftrightarrow> info_ok es info \<and> info \<noteq> [] \<and> read_params P = Inr (JObj info)"

definition all_levels :: "jsval list \<Rightarrow> props \<Rightarrow> command_panel \<Rightarrow> bool" where
  "all_levels es info P \<longleftrightarrow> stored es info P \<and> lv1 info P \<and> lv2 info P \<and> lv3 info P \<and> lv4 info P"

text \<open>Loading a box makes it and all boxes after it agree with the tree, and does not throw;
  it leaves the command and the storage alone.\<close>

definition loads :: "jsval list \<Rightarrow> props \<Rightarrow> command_panel \<Rightarrow> panel_step \<Rightarrow> bool" where
  "loads es info P r \<longleftrightarrow> (\<exists>P'. r = (Inr (), P') \<and> all_levels es info P' \<and> cp_commands P' = cp_commands P \<and> cp_command P' = cp_command P)"

lemma stored_node: "stored es info P \<Longrightarrow> phas info n \<Longrightarrow> \<exists>ifs. pget info n = JObj ifs \<and> ifs \<noteq> [] \<and> node_ok es n ifs"
  by (simp add: stored_def info_ok_def)

lemma loadPeerSelect_loads:
  assumes "stored es info P" and "lv1 info P" and "lv2 info P" and "lv3 info P"
  shows "loads es info P (loadPeerSelect P)"
proof -
  obtain n ifs i us where l3: "selected_value (cp_node P) = Inr n" "pget info n = JObj ifs" "selected_value (cp_intf P) = Inr i"
      "pget ifs i = JObj us" "chosen (cp_unit P) (object_keys us)" using assms(4) by (auto simp: lv3_def)
  obtain u where u: "selected_value (cp_unit P) = Inr u" "phas us u" using chosen_value [OF l3(5)] by auto
  have "phas info n" "phas ifs i" using l3 not_phas_pget by fastforce+
  then obtain ps where ps: "pget us u = JObj ps"
    using stored_node [OF assms(1)] l3(2,4) u(2) by (fastforce simp: node_ok_def intf_ok_def)
  let ?P = "P\<lparr>cp_peer := names_select (object_keys ps)\<rparr>"
  have "loadPeerSelect P = (Inr (), ?P)"
    using assms(1) l3 u ps by (simp add: loadPeerSelect_def stored_def)
  moreover have "all_levels es info ?P" using assms l3 u ps names_offers(1)
    by (auto simp: all_levels_def stored_def read_params_def lv_defs)
  ultimately show ?thesis by (simp add: loads_def)
qed

lemma loadUnitSelect_loads:
  assumes "stored es info P" and "lv1 info P" and "lv2 info P"
  shows "loads es info P (loadUnitSelect P)"
proof -
  obtain n ifs where l2: "selected_value (cp_node P) = Inr n" "pget info n = JObj ifs" "chosen (cp_intf P) (object_keys ifs)"
    using assms(3) by (auto simp: lv2_def)
  obtain i where i: "selected_value (cp_intf P) = Inr i" "phas ifs i" using chosen_value [OF l2(3)] by auto
  have "phas info n" using l2 not_phas_pget by fastforce
  then obtain us where us: "pget ifs i = JObj us" "us \<noteq> []"
    using stored_node [OF assms(1)] l2(2) i(2) by (fastforce simp: node_ok_def)
  let ?P = "P\<lparr>cp_unit := names_select (object_keys us)\<rparr>"
  have "loadUnitSelect P = loadPeerSelect ?P"
    using assms(1) l2 i us by (simp add: loadUnitSelect_def stored_def)
  moreover have "loads es info ?P (loadPeerSelect ?P)"
    using assms l2 i us names_offers(2) [OF object_keys_nonempty [OF us(2)]]
    by (intro loadPeerSelect_loads) (auto simp: stored_def read_params_def lv_defs)
  ultimately show ?thesis by (simp add: loads_def)
qed

lemma loadIntfSelect_loads:
  assumes "stored es info P" and "lv1 info P"
  shows "loads es info P (loadIntfSelect P)"
proof -
  obtain n where n: "selected_value (cp_node P) = Inr n" "phas info n"
    using chosen_value [of "cp_node P" "object_keys info"] assms(2) by (auto simp: lv1_def)
  then obtain ifs where ifs: "pget info n = JObj ifs" "ifs \<noteq> []" using stored_node [OF assms(1)] by blast
  let ?P = "P\<lparr>cp_intf := names_select (object_keys ifs)\<rparr>"
  have "loadIntfSelect P = loadUnitSelect ?P" using assms(1) n ifs by (simp add: loadIntfSelect_def stored_def)
  moreover have "loads es info ?P (loadUnitSelect ?P)"
    using assms n ifs names_offers(2) [OF object_keys_nonempty [OF ifs(2)]]
    by (intro loadUnitSelect_loads) (auto simp: stored_def read_params_def lv_defs)
  ultimately show ?thesis by (simp add: loads_def)
qed

lemma loadNodeSelect_loads:
  assumes "stored es info P"
  shows "loads es info P (loadNodeSelect P)"
proof -
  let ?P = "P\<lparr>cp_node := names_select (object_keys info)\<rparr>"
  have "loadNodeSelect P = loadIntfSelect ?P" using assms by (simp add: loadNodeSelect_def stored_def)
  moreover have "loads es info ?P (loadIntfSelect ?P)"
    using assms names_offers(2) [OF object_keys_nonempty] by (intro loadIntfSelect_loads) (auto simp: stored_def read_params_def lv1_def)
  ultimately show ?thesis by (simp add: loads_def)
qed

section \<open>What a user can do\<close>

definition choose_command :: "nat \<Rightarrow> command_panel \<Rightarrow> panel_step" where
  "choose_command k P = commandSelectChangeHandler (P\<lparr>cp_command := int k\<rparr>)"

definition choose_node :: "nat \<Rightarrow> command_panel \<Rightarrow> panel_step" where
  "choose_node k P = nodeSelectChangeHandler (P\<lparr>cp_node := (cp_node P)\<lparr>sel_index := int k\<rparr>\<rparr>)"

definition choose_intf :: "nat \<Rightarrow> command_panel \<Rightarrow> panel_step" where
  "choose_intf k P = intfSelectChangeHandler (P\<lparr>cp_intf := (cp_intf P)\<lparr>sel_index := int k\<rparr>\<rparr>)"

definition choose_unit :: "nat \<Rightarrow> command_panel \<Rightarrow> panel_step" where
  "choose_unit k P = unitSelectChangeHandler (P\<lparr>cp_unit := (cp_unit P)\<lparr>sel_index := int k\<rparr>\<rparr>)"

definition choose_peer :: "nat \<Rightarrow> command_panel \<Rightarrow> command_panel" where
  "choose_peer k P = P\<lparr>cp_peer := (cp_peer P)\<lparr>sel_index := int k\<rparr>\<rparr>"

text \<open>The interface and the unit can be chosen while their boxes are shown, that is, for
  commands that read them.\<close>

inductive cmd_run :: "jsval list \<Rightarrow> command_panel \<Rightarrow> bool" for es :: "jsval list" where
  load: "pget vrf ''endpoints'' = JArr es \<Longrightarrow> es \<noteq> [] \<Longrightarrow> add_endpoints [] es = Inr info \<Longrightarrow>
    commandSelectChangeHandler (loadCommandParams vrf P) = (r, P') \<Longrightarrow> cmd_run es P'"
| command: "cmd_run es P \<Longrightarrow> choose_command k P = (r, P') \<Longrightarrow> cmd_run es P'"
| node: "cmd_run es P \<Longrightarrow> k < length (sel_options (cp_node P)) \<Longrightarrow> choose_node k P = (r, P') \<Longrightarrow> cmd_run es P'"
| intf: "cmd_run es P \<Longrightarrow> command_at P = Inr (ty, c) \<Longrightarrow> ty \<in> {''intf'', ''unit'', ''peer''} \<Longrightarrow>
    k < length (sel_options (cp_intf P)) \<Longrightarrow> choose_intf k P = (r, P') \<Longrightarrow> cmd_run es P'"
| unit: "cmd_run es P \<Longrightarrow> command_at P = Inr (ty, c) \<Longrightarrow> ty \<in> {''unit'', ''peer''} \<Longrightarrow>
    k < length (sel_options (cp_unit P)) \<Longrightarrow> choose_unit k P = (r, P') \<Longrightarrow> cmd_run es P'"
| peer: "cmd_run es P \<Longrightarrow> k < length (sel_options (cp_peer P)) \<Longrightarrow> cmd_run es (choose_peer k P)"
| run: "cmd_run es P \<Longrightarrow> show_result reply P = (r, P') \<Longrightarrow> cmd_run es P'"
| toggle: "cmd_run es P \<Longrightarrow> cmd_run es (toggleCommandResult P)"

text \<open>The boxes a command of some type reads agree with the tree.\<close>

definition levels_for :: "string \<Rightarrow> props \<Rightarrow> command_panel \<Rightarrow> bool" where
  "levels_for ty info P \<longleftrightarrow> (ty \<in> {''node'', ''intf'', ''unit'', ''peer''} \<longrightarrow> lv1 info P) \<and>
     (ty \<in> {''intf'', ''unit'', ''peer''} \<longrightarrow> lv2 info P) \<and> (ty \<in> {''unit'', ''peer''} \<longrightarrow> lv3 info P) \<and>
     (ty = ''peer'' \<longrightarrow> lv4 info P)"

definition panel_inv :: "jsval list \<Rightarrow> command_panel \<Rightarrow> bool" where
  "panel_inv es P \<longleftrightarrow> (\<exists>info. stored es info P \<and> (\<forall>ty c. command_at P = Inr (ty, c) \<longrightarrow> levels_for ty info P))"

lemma loads_inv: "loads es info P (r, P') \<Longrightarrow> panel_inv es P'"
  by (auto simp: loads_def all_levels_def panel_inv_def levels_for_def)

lemma same_levels:
  assumes "cp_node P' = cp_node P" "cp_intf P' = cp_intf P" "cp_unit P' = cp_unit P" "cp_peer P' = cp_peer P" "cp_params P' = cp_params P"
  shows "stored es info P' = stored es info P" "levels_for ty info P' = levels_for ty info P" "lv1 info P' = lv1 info P"
    "all_levels es info P' = all_levels es info P"
  using assms by (simp_all add: stored_def read_params_def levels_for_def all_levels_def lv_defs)

lemma all_levels_inv: "all_levels es info P \<Longrightarrow> panel_inv es P"
  by (auto simp: all_levels_def panel_inv_def levels_for_def)

text \<open>Loading once more after a successful load keeps the boxes in agreement.\<close>

lemma loads_then:
  assumes "loads es info P r" and "\<And>P'. all_levels es info P' \<Longrightarrow> cp_commands P' = cp_commands P \<Longrightarrow> cp_command P' = cp_command P \<Longrightarrow> loads es info P (f P')"
  shows "loads es info P (and_then r f)"
proof -
  obtain P' where "r = (Inr (), P')" "all_levels es info P'" "cp_commands P' = cp_commands P" "cp_command P' = cp_command P"
    using assms(1) by (auto simp: loads_def)
  then show ?thesis using assms(2) by simp
qed

lemma loads_cong: "loads es info P' r \<Longrightarrow> cp_commands P' = cp_commands P \<Longrightarrow> cp_command P' = cp_command P \<Longrightarrow> loads es info P r"
  by (simp add: loads_def)

lemma loads_shown:
  "all_levels es info P' \<Longrightarrow> cp_commands P' = cp_commands P \<Longrightarrow> cp_command P' = cp_command P \<Longrightarrow>
   loads es info P (Inr (), P'\<lparr>cp_intf_shown := a, cp_unit_shown := b, cp_peer_shown := c\<rparr>)"
  using same_levels(4) [of "P'\<lparr>cp_intf_shown := a, cp_unit_shown := b, cp_peer_shown := c\<rparr>" P'] by (simp add: loads_def)

lemma all_levels_loads:
  assumes "all_levels es info P'" and "cp_commands P' = cp_commands P" and "cp_command P' = cp_command P"
  shows "loads es info P (loadIntfSelect P')" "loads es info P (loadUnitSelect P')" "loads es info P (loadPeerSelect P')"
proof -
  have "stored es info P'" "lv1 info P'" "lv2 info P'" "lv3 info P'" using assms(1) by (simp_all add: all_levels_def)
  then show "loads es info P (loadIntfSelect P')" "loads es info P (loadUnitSelect P')" "loads es info P (loadPeerSelect P')"
    using loadIntfSelect_loads loadUnitSelect_loads loadPeerSelect_loads loads_cong [OF _ assms(2,3)] by blast+
qed

lemma handler_loads:
  assumes "stored es info P" and "command_at P = Inr (ty, c)" and "ty \<in> {''node'', ''intf'', ''unit'', ''peer''}"
  shows "loads es info P (commandSelectChangeHandler P)"
  using assms(3) unfolding commandSelectChangeHandler_def assms(2)
  by (auto intro!: loads_then [OF loadNodeSelect_loads [OF assms(1)]] loads_then all_levels_loads loads_shown)

lemma handler_inv:
  assumes "stored es info P" and "commandSelectChangeHandler P = (r, P')"
  shows "panel_inv es P'"
proof (cases "command_at P")
  case (Inl e)
  then have "P' = P" using assms(2) by (simp add: commandSelectChangeHandler_def)
  then show ?thesis using assms(1) Inl by (auto simp: panel_inv_def)
next
  case (Inr x)
  obtain ty c where x: "x = (ty, c)" by force
  show ?thesis
  proof (cases "ty \<in> {''node'', ''intf'', ''unit'', ''peer''}")
    case True
    then show ?thesis using handler_loads [OF assms(1) Inr [unfolded x]] assms(2) loads_inv by metis
  next
    case False
    then have "P' = P" using assms(2) Inr x by (simp add: commandSelectChangeHandler_def)
    then show ?thesis using assms(1) Inr x False by (auto simp: panel_inv_def levels_for_def)
  qed
qed

lemma load_frame:
  "cp_params (snd (loadPeerSelect P)) = cp_params P \<and> cp_commands (snd (loadPeerSelect P)) = cp_commands P \<and> cp_command (snd (loadPeerSelect P)) = cp_command P"
  "cp_params (snd (loadUnitSelect P)) = cp_params P \<and> cp_commands (snd (loadUnitSelect P)) = cp_commands P \<and> cp_command (snd (loadUnitSelect P)) = cp_command P"
  "cp_params (snd (loadIntfSelect P)) = cp_params P \<and> cp_commands (snd (loadIntfSelect P)) = cp_commands P \<and> cp_command (snd (loadIntfSelect P)) = cp_command P"
proof -
  show p: "cp_params (snd (loadPeerSelect P)) = cp_params P \<and> cp_commands (snd (loadPeerSelect P)) = cp_commands P \<and> cp_command (snd (loadPeerSelect P)) = cp_command P" for P
    by (simp add: loadPeerSelect_def split: sum.split)
  show u: "cp_params (snd (loadUnitSelect P)) = cp_params P \<and> cp_commands (snd (loadUnitSelect P)) = cp_commands P \<and> cp_command (snd (loadUnitSelect P)) = cp_command P" for P
    using p by (simp add: loadUnitSelect_def split: sum.split)
  show "cp_params (snd (loadIntfSelect P)) = cp_params P \<and> cp_commands (snd (loadIntfSelect P)) = cp_commands P \<and> cp_command (snd (loadIntfSelect P)) = cp_command P"
    using u by (simp add: loadIntfSelect_def split: sum.split)
qed

lemma command_at_cong: "cp_commands P' = cp_commands P \<Longrightarrow> cp_command P' = cp_command P \<Longrightarrow> command_at P' = command_at P"
  by (simp add: command_at_def)

lemma stored_cong: "cp_params P' = cp_params P \<Longrightarrow> stored es info P' = stored es info P"
  by (simp add: stored_def read_params_def)

lemma chosen_move: "chosen s ks \<Longrightarrow> k < length (sel_options s) \<Longrightarrow> chosen (s\<lparr>sel_index := int k\<rparr>) ks"
  by (auto simp: chosen_def offers_def)

lemma offers_move: "offers s ks \<Longrightarrow> k < length (sel_options s) \<Longrightarrow> offers (s\<lparr>sel_index := int k\<rparr>) ks"
  by (auto simp: offers_def)

lemma node_step:
  assumes "panel_inv es P" and "k < length (sel_options (cp_node P))" and "choose_node k P = (r, P')"
  shows "panel_inv es P'"
proof -
  obtain info where info: "stored es info P" "\<forall>ty c. command_at P = Inr (ty, c) \<longrightarrow> levels_for ty info P"
    using assms(1) by (auto simp: panel_inv_def)
  let ?P = "P\<lparr>cp_node := (cp_node P)\<lparr>sel_index := int k\<rparr>\<rparr>"
  have st: "stored es info ?P" using info(1) stored_cong [of ?P P] by simp
  have at: "command_at ?P = command_at P" by (rule command_at_cong) simp_all
  show ?thesis
  proof (cases "\<exists>ty c. command_at P = Inr (ty, c) \<and> ty \<in> {''node'', ''intf'', ''unit'', ''peer''}")
    case True
    then obtain ty c where ty: "command_at P = Inr (ty, c)" "ty \<in> {''node'', ''intf'', ''unit'', ''peer''}" by blast
    then have "lv1 info P" using info(2) by (auto simp: levels_for_def)
    then have l: "lv1 info ?P" using chosen_move [OF _ assms(2)] by (simp add: lv1_def)
    show ?thesis
    proof (cases "ty = ''node''")
      case True
      then have "P' = ?P" using assms(3) ty(1) at by (simp add: choose_node_def nodeSelectChangeHandler_def)
      then show ?thesis using st l at ty(1) True by (auto simp: panel_inv_def levels_for_def)
    next
      case False
      then have "loadIntfSelect ?P = (r, P')" using assms(3) ty(1) at by (simp add: choose_node_def nodeSelectChangeHandler_def)
      then show ?thesis using loadIntfSelect_loads [OF st l] by (auto intro: loads_inv)
    qed
  next
    case False
    have "snd (nodeSelectChangeHandler ?P) = ?P \<or> snd (nodeSelectChangeHandler ?P) = snd (loadIntfSelect ?P)"
      by (cases "command_at ?P") (auto simp: nodeSelectChangeHandler_def split: prod.split)
    then have "P' = ?P \<or> P' = snd (loadIntfSelect ?P)" using assms(3) by (simp add: choose_node_def)
    then have f: "cp_params P' = cp_params ?P" "cp_commands P' = cp_commands ?P" "cp_command P' = cp_command ?P"
      using load_frame(3) [of ?P] by auto
    have "stored es info P'" "command_at P' = command_at P"
      using st at stored_cong [OF f(1)] command_at_cong [OF f(2,3)] by simp_all
    moreover have "levels_for ty info P'" if "command_at P = Inr (ty, c)" for ty c
      using that False by (simp add: levels_for_def)
    ultimately show ?thesis unfolding panel_inv_def by auto
  qed
qed

lemma intf_step:
  assumes "panel_inv es P" and "command_at P = Inr (ty, c)" and "ty \<in> {''intf'', ''unit'', ''peer''}"
    and "k < length (sel_options (cp_intf P))" and "choose_intf k P = (r, P')"
  shows "panel_inv es P'"
proof -
  obtain info where "stored es info P" "levels_for ty info P" using assms(1,2) unfolding panel_inv_def by blast
  then have info: "stored es info P" "lv1 info P" "lv2 info P" using assms(3) by (auto simp: levels_for_def)
  let ?P = "P\<lparr>cp_intf := (cp_intf P)\<lparr>sel_index := int k\<rparr>\<rparr>"
  have st: "stored es info ?P" using info(1) stored_cong [of ?P P] by simp
  have at: "command_at ?P = command_at P" by (rule command_at_cong) simp_all
  have l: "lv1 info ?P" "lv2 info ?P" using info(2,3) chosen_move [OF _ assms(4)] unfolding lv1_def lv2_def by auto
  show ?thesis
  proof (cases "ty = ''intf''")
    case True
    then have "P' = ?P" using assms(2,5) at by (simp add: choose_intf_def intfSelectChangeHandler_def)
    then show ?thesis using st l at assms(2) True by (auto simp: panel_inv_def levels_for_def)
  next
    case False
    then have "loadUnitSelect ?P = (r, P')" using assms(2,3,5) at by (auto simp: choose_intf_def intfSelectChangeHandler_def)
    then show ?thesis using loadUnitSelect_loads [OF st l] by (auto intro: loads_inv)
  qed
qed

lemma unit_step:
  assumes "panel_inv es P" and "command_at P = Inr (ty, c)" and "ty \<in> {''unit'', ''peer''}"
    and "k < length (sel_options (cp_unit P))" and "choose_unit k P = (r, P')"
  shows "panel_inv es P'"
proof -
  obtain info where "stored es info P" "levels_for ty info P" using assms(1,2) unfolding panel_inv_def by blast
  then have info: "stored es info P" "lv1 info P" "lv2 info P" "lv3 info P" using assms(3) by (auto simp: levels_for_def)
  let ?P = "P\<lparr>cp_unit := (cp_unit P)\<lparr>sel_index := int k\<rparr>\<rparr>"
  have st: "stored es info ?P" using info(1) stored_cong [of ?P P] by simp
  have at: "command_at ?P = command_at P" by (rule command_at_cong) simp_all
  have l: "lv1 info ?P" "lv2 info ?P" "lv3 info ?P"
    using info(2-4) chosen_move [OF _ assms(4)] unfolding lv1_def lv2_def lv3_def by auto
  show ?thesis
  proof (cases "ty = ''unit''")
    case True
    then have "P' = ?P" using assms(2,5) at by (simp add: choose_unit_def unitSelectChangeHandler_def)
    then show ?thesis using st l at assms(2) True by (auto simp: panel_inv_def levels_for_def)
  next
    case False
    then have "loadPeerSelect ?P = (r, P')" using assms(2,3,5) at by (auto simp: choose_unit_def unitSelectChangeHandler_def)
    then show ?thesis using loadPeerSelect_loads [OF st l] by (auto intro: loads_inv)
  qed
qed

lemma peer_step:
  assumes "panel_inv es P" and "k < length (sel_options (cp_peer P))"
  shows "panel_inv es (choose_peer k P)"
proof -
  let ?P = "choose_peer k P"
  obtain info where info: "stored es info P" "\<forall>ty c. command_at P = Inr (ty, c) \<longrightarrow> levels_for ty info P"
    using assms(1) unfolding panel_inv_def by blast
  have at: "command_at ?P = command_at P" by (rule command_at_cong) (simp_all add: choose_peer_def)
  have l: "lv1 info ?P = lv1 info P" "lv2 info ?P = lv2 info P" "lv3 info ?P = lv3 info P"
    by (simp_all add: choose_peer_def lv1_def lv2_def lv3_def)
  have l4: "lv4 info ?P" if a: "lv4 info P"
  proof -
    obtain n ifs i us u ps where "selected_value (cp_node P) = Inr n" "pget info n = JObj ifs" "selected_value (cp_intf P) = Inr i"
      "pget ifs i = JObj us" "selected_value (cp_unit P) = Inr u" "pget us u = JObj ps" "offers (cp_peer P) (object_keys ps)"
      using a unfolding lv4_def by blast
    then show ?thesis using offers_move [OF _ assms(2)] unfolding lv4_def choose_peer_def by auto
  qed
  have st: "stored es info ?P" using info(1) stored_cong [of ?P P] by (simp add: choose_peer_def)
  have "levels_for ty info ?P" if "levels_for ty info P" for ty
    using that l4 unfolding levels_for_def l by blast
  with st info(2) at show ?thesis unfolding panel_inv_def by auto
qed

lemma frame_step:
  assumes "panel_inv es P" and "cp_node P' = cp_node P" "cp_intf P' = cp_intf P" "cp_unit P' = cp_unit P" "cp_peer P' = cp_peer P"
    "cp_params P' = cp_params P" "cp_commands P' = cp_commands P" "cp_command P' = cp_command P"
  shows "panel_inv es P'"
  using assms(1) same_levels [OF assms(2-6)] command_at_cong [OF assms(7,8)] by (simp add: panel_inv_def)

lemma cmd_run_inv: "cmd_run es P \<Longrightarrow> panel_inv es P"
proof (induction rule: cmd_run.induct)
  case (load vrf info P r P')
  note p = loadCommandParams_ok [OF load(1,3,2)]
  have "stored es info (loadCommandParams vrf P)" using p stored_tree [OF p(3)] by (simp add: stored_def read_params_def)
  then show ?case using load(4) by (rule handler_inv)
next
  case (command P k r P')
  then obtain info where "stored es info P" by (auto simp: panel_inv_def)
  then have "stored es info (P\<lparr>cp_command := int k\<rparr>)" using stored_cong [of "P\<lparr>cp_command := int k\<rparr>" P] by simp
  then show ?case using command.hyps(2) unfolding choose_command_def by (rule handler_inv)
next
  case (run P reply r P')
  then show ?case by (auto simp: show_result_def split: sum.splits intro: frame_step)
next
  case (toggle P)
  then show ?case by (auto simp: toggleCommandResult_def intro: frame_step)
qed (auto intro: node_step intf_step unit_step peer_step)

section \<open>Properties\<close>


definition sample_vrf_endpoint :: jsval where
  "sample_vrf_endpoint = JObj [(''node'', JStr ''n''), (''interface'', JStr ''i''), (''tag'', JNum 5), (''unit'', JNum 5),
     (''peers'', JArr [JObj [(''peer_ip'', JStr ''a'')]])]"

definition sample_panel :: command_panel where
  "sample_panel = \<lparr>cp_commands = [(''peer'', ''3'')], cp_command = 0, cp_node = names_select [], cp_intf = names_select [],
     cp_unit = names_select [], cp_peer = names_select [], cp_intf_shown = False, cp_unit_shown = False, cp_peer_shown = False,
     cp_params = None, cp_result = [], cp_toggle = [], cp_result_shown = False\<rparr>"


text \<open>
  Two endpoints on the same interface can disable the panel: when the tag of the second
  is the unit of the first, but its own unit is another, its unit is never entered, reading
  it throws, and the parameters of the connection are not stored; the panel goes on with
  whatever the session storage held before.
\<close>

theorem command_params_lost:
  assumes "e1 = JObj a" and "e2 = JObj b"
    and "fld e1 ''node'' = fld e2 ''node''" and "fld e1 ''interface'' = fld e2 ''interface''"
    and "fld e2 ''tag'' = fld e1 ''unit''" and "fld e2 ''unit'' \<noteq> fld e1 ''unit''"
    and "pget a ''peers'' = JArr []" and "pget b ''peers'' = JArr (p # ps)"
  shows "loadCommandParams [(''endpoints'', JArr [e1, e2])] P = P"
proof -
  have "add_endpoint [] e1 = Inr [(fld e1 ''node'', JObj [(fld e1 ''interface'', JObj [(fld e1 ''unit'', JObj [])])])]"
    using assms(1,7) by (simp add: add_endpoint_def sub_object_def fld_def)
  moreover have "\<exists>e. add_endpoint [(fld e1 ''node'', JObj [(fld e1 ''interface'', JObj [(fld e1 ''unit'', JObj [])])])] e2 = Inl e"
    using assms by (cases "jget p ''peer_ip''") (auto simp: add_endpoint_def sub_object_def fld_def)
  ultimately obtain e where "add_endpoints [] [e1, e2] = Inl e" by auto
  then show ?thesis by (simp add: loadCommandParams_def)
qed

theorem command_params_lost_witness:
  "loadCommandParams [(''endpoints'', JArr [
     JObj [(''node'', JStr ''n''), (''interface'', JStr ''i''), (''tag'', JNum 1), (''unit'', JNum 5), (''peers'', JArr [])],
     JObj [(''node'', JStr ''n''), (''interface'', JStr ''i''), (''tag'', JNum 5), (''unit'', JNum 6), (''peers'', JArr [JObj []])]])] sample_panel = sample_panel"
proof (rule command_params_lost [OF refl refl])
  have "show_int 5 = ''5''" "show_int 6 = ''6''" by code_simp+
  then show "fld (JObj [(''node'', JStr ''n''), (''interface'', JStr ''i''), (''tag'', JNum 5), (''unit'', JNum 6), (''peers'', JArr [JObj []])]) ''unit'' \<noteq>
      fld (JObj [(''node'', JStr ''n''), (''interface'', JStr ''i''), (''tag'', JNum 1), (''unit'', JNum 5), (''peers'', JArr [])]) ''unit''"
    by (simp add: fld_def)
qed (simp_all add: fld_def)

end
