(* ===== verification/EndpointForms.thy ===== *)
theory EndpointForms
  imports ApiData Provisioning Dom Commands EndpointCards
begin

text \<open>
  The dialog that chooses an endpoint (\<^verbatim>\<open>l2/endpoint_selection_modal.js\<close>): the form for an
  interface of the workgroup, the form for an entity with its interfaces, VLANs, bandwidths,
  cloud account and gateway, and the entity search.  A form is a record of its controls as
  the code leaves them; the two submit handlers give the fields they write into the endpoint.
  \<open>None\<close> as the endpoint stands for the \<^verbatim>\<open>null\<close> of a new one.  Where drawing a form throws, there
  is no form: the result is the exception.
\<close>

section \<open>Controls\<close>

record check_el =
  ck_checked :: bool
  ck_disabled :: bool

text \<open>Filling a select box option by option, some with the attribute \<^verbatim>\<open>selected\<close>: the last of
  those is selected, or else the first option.\<close>

fun last_true :: "bool list \<Rightarrow> nat option" where
  "last_true [] = None"
| "last_true (b # bs) = (case last_true bs of Some i \<Rightarrow> Some (Suc i) | None \<Rightarrow> if b then Some 0 else None)"

definition marked_index :: "bool list \<Rightarrow> int" where
  "marked_index bs = (case last_true bs of Some i \<Rightarrow> int i | None \<Rightarrow> if bs = [] then - 1 else 0)"

definition fill_select :: "(string \<times> string \<times> bool) list \<Rightarrow> bool \<Rightarrow> select_el" where
  "fill_select xs dis = \<lparr>sel_options = map (\<lambda>(v, t, _). \<lparr>opt_value = v, opt_text = t, opt_disabled = False\<rparr>) xs,
     sel_index = marked_index (map (snd \<circ> snd) xs), sel_disabled = dis\<rparr>"

definition ep_get :: "props option \<Rightarrow> string \<Rightarrow> jsval" where
  "ep_get endpoint k = (case endpoint of None \<Rightarrow> JUndef | Some ep \<Rightarrow> pget ep k)"

section \<open>Rules both forms share\<close>

text \<open>Jumbo frames: Google and Azure do not have them; an endpoint that has the field keeps its
  choice.\<close>

definition jumbo_default :: "jsval \<Rightarrow> check_el" where
  "jumbo_default t =
     (if strict_eq t (JStr ''aws-hosted-connection'') then \<lparr>ck_checked = True, ck_disabled = False\<rparr>
      else if strict_eq t (JStr ''aws-hosted-vinterface'') then \<lparr>ck_checked = True, ck_disabled = False\<rparr>
      else if strict_eq t (JStr ''gcp-partner-interconnect'') then \<lparr>ck_checked = False, ck_disabled = True\<rparr>
      else if strict_eq t (JStr ''azure-express-route'') then \<lparr>ck_checked = False, ck_disabled = True\<rparr>
      else \<lparr>ck_checked = True, ck_disabled = False\<rparr>)"

definition jumbo_set :: "props \<Rightarrow> bool" where
  "jumbo_set ep \<longleftrightarrow> loose_eq (pget ep ''jumbo'') (JNum 1) \<or> loose_eq (pget ep ''jumbo'') (JBool True)"

definition jumbo_box :: "jsval \<Rightarrow> props option \<Rightarrow> check_el" where
  "jumbo_box t endpoint = (case endpoint of
     None \<Rightarrow> jumbo_default t
   | Some ep \<Rightarrow> if phas ep ''jumbo'' then (jumbo_default t)\<lparr>ck_checked := jumbo_set ep\<rparr> else jumbo_default t)"

section \<open>The interface form\<close>

record intf_option =
  io_value :: string
  io_text :: string
  io_name :: string
  io_node :: string
  io_description :: string
  io_type :: string

record interface_form =
  if_options :: "intf_option list"
  if_selected :: int
  if_index :: jsval
  if_vlans :: select_el
  if_bandwidths :: select_el
  if_jumbo :: check_el

definition intf_option_of :: "jsval \<Rightarrow> intf_option res" where
  "intf_option_of i = (if is_nullish i then Inl TypeError else (let p = as_props i in
     Inr \<lparr>io_value = to_str (pget p ''interface_id''), io_text = to_str (pget p ''node'') @ '' '' @ to_str (pget p ''name''),
       io_name = to_str (pget p ''name''), io_node = to_str (pget p ''node''), io_description = to_str (pget p ''description''),
       io_type = to_str (pget p ''cloud_interconnect_type'')\<rparr>))"

definition bandwidth_table :: "string \<Rightarrow> (int \<times> string) list" where
  "bandwidth_table t =
     (if t = ''aws-hosted-connection'' then
        [(50, ''50 Mb/s''), (100, ''100 Mb/s''), (200, ''200 Mb/s''), (300, ''300 Mb/s''), (400, ''400 Mb/s''), (500, ''500 Mb/s''),
         (1000, ''1 Gb/s''), (2000, ''2 Gb/s''), (5000, ''5 Gb/s'')]
      else if t = ''gcp-partner-interconnect'' then
        [(50, ''50 Mb/s''), (100, ''100 Mb/s''), (200, ''200 Mb/s''), (300, ''300 Mb/s''), (400, ''400 Mb/s''), (500, ''500 Mb/s''),
         (1000, ''1 Gb/s''), (2000, ''2 Gb/s''), (5000, ''5 Gb/s''), (10000, ''10 Gb/s'')]
      else [(0, ''Unlimited'')])"

text \<open>\<^verbatim>\<open>loadVlanSelector\<close>: the VLANs of the interface, with that of the endpoint in front when
  it is not among them.  \<^verbatim>\<open>includes\<close> compares strictly.\<close>

definition vlan_choices :: "props option \<Rightarrow> jsval list \<Rightarrow> jsval \<times> jsval list" where
  "vlan_choices endpoint vlans = (case endpoint of
     None \<Rightarrow> (if vlans = [] then JNum (- 1) else hd vlans, vlans)
   | Some ep \<Rightarrow> (pget ep ''tag'', if list_ex (strict_eq (pget ep ''tag'')) vlans then vlans else pget ep ''tag'' # vlans))"

definition vlan_select :: "jsval \<Rightarrow> jsval list \<Rightarrow> bool \<Rightarrow> select_el" where
  "vlan_select vlan vlans dis = fill_select (map (\<lambda>v. (to_str v, to_str v, loose_eq v vlan)) vlans) dis"

definition bandwidth_select :: "jsval \<Rightarrow> jsval \<Rightarrow> (int \<times> string) list \<Rightarrow> select_el" where
  "bandwidth_select selectedBandwidth vlan table =
     fill_select (map (\<lambda>(i, b, t). (show_int b, t, strict_eq selectedBandwidth JNull \<and> i = 0 \<or> loose_eq (JNum b) selectedBandwidth))
         (zip [0..<length table] table))
       (strict_eq vlan (JNum (- 1)) \<or> length table = 1)"

definition loadVlanSelector :: "env \<Rightarrow> props \<Rightarrow> props option \<Rightarrow> jsval \<Rightarrow> interface_form \<Rightarrow> interface_form io" where
  "loadVlanSelector E session endpoint interface_id F =
     io_bind (getAvailableVLANs E (pget session ''workgroup_id'') interface_id JUndef JUndef) (\<lambda>vlans. case vlans of
       JArr vs \<Rightarrow>
         (let (vlan, vs') = vlan_choices endpoint vs in
          if 0 \<le> if_selected F \<and> nat (if_selected F) < length (if_options F)
          then (let t = io_type (if_options F ! nat (if_selected F))
            in io_ret (F\<lparr>if_vlans := vlan_select vlan vs' (sel_disabled (if_vlans F)),
              if_bandwidths := bandwidth_select (js_or (ep_get endpoint ''bandwidth'') JNull) vlan (bandwidth_table t),
              if_jumbo := jumbo_box (JStr t) endpoint\<rparr>))
          else io_lift (Inl TypeError))
     | _ \<Rightarrow> io_lift (Inl TypeError))"

definition populateInterfaceForm :: "env \<Rightarrow> props \<Rightarrow> props option \<Rightarrow> interface_form io" where
  "populateInterfaceForm E session endpoint =
     io_bind (getInterfacesByWorkgroup E (pget session ''workgroup_id'')) (\<lambda>interfaces. case interfaces of
       JArr ifs \<Rightarrow> io_bind (io_lift (rmap intf_option_of ifs)) (\<lambda>opts.
         let interface_id = (case endpoint of
               None \<Rightarrow> (case ifs of [] \<Rightarrow> JNum (- 1) | i # _ \<Rightarrow> pget (as_props i) ''interface_id'')
             | Some ep \<Rightarrow> pget ep ''interface_id'')
         in loadVlanSelector E session endpoint interface_id
              \<lparr>if_options = opts, if_selected = marked_index (map (\<lambda>i. loose_eq (pget (as_props i) ''interface_id'') interface_id) ifs),
               if_index = (case endpoint of None \<Rightarrow> JNum (- 1) | Some ep \<Rightarrow> pget ep ''index''),
               if_vlans = fill_select [] False, if_bandwidths = fill_select [] False, if_jumbo = \<lparr>ck_checked = False, ck_disabled = False\<rparr>\<rparr>)
     | _ \<Rightarrow> io_lift (Inl TypeError))"

text \<open>The change handler of the interface box.\<close>

definition interface_change :: "env \<Rightarrow> props \<Rightarrow> props option \<Rightarrow> int \<Rightarrow> interface_form \<Rightarrow> interface_form io" where
  "interface_change E session endpoint k F =
     (let F1 = F\<lparr>if_selected := k\<rparr>
      in if 0 \<le> k \<and> nat k < length (if_options F)
         then loadVlanSelector E session endpoint (JStr (io_value (if_options F ! nat k))) F1
         else io_lift (Inl TypeError))"

text \<open>The submit handler: what it writes into the endpoint, which is a new object with the index
  of the form when there is none; without a selected VLAN it throws half way.\<close>

definition interface_submit :: "props option \<Rightarrow> interface_form \<Rightarrow> unit res \<times> props option" where
  "interface_submit endpoint F =
     (if 0 \<le> if_selected F \<and> nat (if_selected F) < length (if_options F)
      then (let opt = if_options F ! nat (if_selected F);
                ep = (case endpoint of None \<Rightarrow> [(''index'', if_index F)] | Some ep \<Rightarrow> ep);
                ep1 = psets ep [(''bandwidth'', JStr (select_get_value (if_bandwidths F))), (''name'', JStr (io_name opt)),
                  (''interface'', JStr (io_name opt)), (''interface_id'', JStr (io_value opt)), (''description'', JStr (io_description opt)),
                  (''node'', JStr (io_node opt)), (''entity'', JNull), (''entity_id'', JNull), (''peerings'', JArr []), (''cloud_account_id'', JStr [])]
        in case selected_value (if_vlans F) of
             Inl e \<Rightarrow> (Inl e, Some ep1)
           | Inr tag \<Rightarrow> (Inr (), Some (psets ep1 [(''tag'', JStr tag), (''jumbo'', JBool (ck_checked (if_jumbo F))),
               (''cloud_interconnect_type'', if io_type opt = ''null'' then JNull else JStr (io_type opt))])))
      else (Inl TypeError, endpoint))"

section \<open>The entity form\<close>

text \<open>Interfaces chosen by the provider's procedure, and ports without bandwidth left.\<close>

definition autoSelectedInterface :: "props \<Rightarrow> bool" where
  "autoSelectedInterface i \<longleftrightarrow> loose_eq (pget i ''cloud_interconnect_type'') (JStr ''azure-express-route'') \<or>
     loose_eq (pget i ''cloud_interconnect_type'') (JStr ''gcp-cloud-interconnect'')"

definition hasAvailableBandwidth :: "props \<Rightarrow> bool" where
  "hasAvailableBandwidth i \<longleftrightarrow> \<not> (truthy (pget i ''cloud_interconnect_type'') \<and>
     js_le (parse_int (pget i ''provisionable_bandwidth'')) (pget i ''utilized_bandwidth''))"

record intf_item =
  it_value :: string
  it_checked :: bool
  it_disabled :: bool
  it_usage :: "string option"

definition interface_item :: "props \<Rightarrow> intf_item" where
  "interface_item i =
     (let off = autoSelectedInterface i \<or> \<not> hasAvailableBandwidth i
      in \<lparr>it_value = to_str (pget i ''node'') @ '' '' @ to_str (pget i ''name''), it_checked = (\<not> off), it_disabled = off,
          it_usage = (if loose_eq (pget i ''cloud_interconnect_type'') JNull then None
            else Some (to_str (pget i ''utilized_bandwidth'') @ ''Mb reserved / '' @ to_str (pget i ''bandwidth'') @ ''Mb total''))\<rparr>)"

text \<open>The selection while the items are drawn: the last one that is not disabled.\<close>

fun initial_interface :: "jsval \<times> jsval \<Rightarrow> props list \<Rightarrow> jsval \<times> jsval" where
  "initial_interface sel [] = sel"
| "initial_interface sel (i # ifs) =
     initial_interface (if \<not> autoSelectedInterface i \<and> hasAvailableBandwidth i then (pget i ''name'', pget i ''node'') else sel) ifs"

definition chosen_interface :: "jsval \<times> jsval \<Rightarrow> props \<Rightarrow> bool" where
  "chosen_interface sel i \<longleftrightarrow> autoSelectedInterface i \<or>
     loose_eq (pget i ''node'') (snd sel) \<and> loose_eq (pget i ''name'') (fst sel)"

definition find_interface :: "jsval \<times> jsval \<Rightarrow> props list \<Rightarrow> props option" where
  "find_interface sel ifs = find (chosen_interface sel) ifs"

text \<open>Which of the speed tables of the installation applies to a port; the warning takes the
  last one, the bandwidth box the first one.\<close>

definition option_applies :: "props \<Rightarrow> props \<Rightarrow> bool" where
  "option_applies intf opt \<longleftrightarrow> loose_eq (pget opt ''cloud_interconnect_type'') (pget intf ''cloud_interconnect_type'') \<and>
     js_le (parse_int (pget opt ''min_bandwidth'')) (parse_int (pget intf ''bandwidth'')) \<and>
     js_le (parse_int (pget intf ''bandwidth'')) (parse_int (pget opt ''max_bandwidth''))"

definition speeds :: "props \<Rightarrow> props list res" where
  "speeds opt = (case pget opt ''speed'' of JArr vs \<Rightarrow> if list_ex is_nullish vs then Inl TypeError else Inr (map as_props vs) | _ \<Rightarrow> Inl TypeError)"

definition warning_text :: "env \<Rightarrow> string" where
  "warning_text E = ''<b>Warning!</b> As configured, an additional fee may be required to provision this endpoint. Please contact <a href='' @ dquote
     @ ''mailto: '' @ approval_email E @ dquote @ ''>'' @ approval_email E @ ''</a> for additional information.''"

text \<open>The loop over the speeds; a value that is none of them leaves the warning as it was.\<close>

fun speed_warning :: "env \<Rightarrow> string \<Rightarrow> props list \<Rightarrow> string option \<Rightarrow> string option" where
  "speed_warning E bw [] w = w"
| "speed_warning E bw (v # vs) w =
     speed_warning E bw vs (if \<not> loose_eq (pget v ''rate'') (JStr bw) then w
       else if truthy (pget v ''requires_approval'') \<and> loose_eq (pget v ''requires_approval'') (JNum 1) then Some (warning_text E)
       else None)"

definition populateApprovalWarning ::
    "env \<Rightarrow> props list \<Rightarrow> props list \<Rightarrow> jsval \<times> jsval \<Rightarrow> select_el \<Rightarrow> string option \<Rightarrow> string option res" where
  "populateApprovalWarning E interfaceOptions ifs sel bandwidths w = (case find_interface sel ifs of
     None \<Rightarrow> Inr None
   | Some intf \<Rightarrow> (case filter (option_applies intf) interfaceOptions of
       [] \<Rightarrow> Inr None
     | opts \<Rightarrow> rbind (speeds (last opts)) (\<lambda>vs. Inr (speed_warning E (select_get_value bandwidths) vs w))))"

text \<open>\<open>n / 1000\<close> as text.\<close>

definition show_thousandths :: "int \<Rightarrow> string" where
  "show_thousandths n = (let r = n mod 1000 in show_int (n div 1000) @
     (if r = 0 then [] else if r mod 100 = 0 then ''.'' @ show_int (r div 100)
      else if r mod 10 = 0 then ''.'' @ (if r < 100 then ''0'' else []) @ show_int (r div 10)
      else ''.'' @ (if r < 10 then ''00'' else if r < 100 then ''0'' else []) @ show_int r))"

definition speed_text :: "props \<Rightarrow> string" where
  "speed_text v = (case parse_int (pget v ''rate'') of
     JNum n \<Rightarrow> if 1000 \<le> n then show_thousandths n @ '' Gb/s'' else to_str (pget v ''rate'') @ '' Mb/s''
   | _ \<Rightarrow> to_str (pget v ''rate'') @ '' Mb/s'')"

definition first_selected :: "(string \<times> string) list \<Rightarrow> select_el" where
  "first_selected xs = fill_select (map (\<lambda>(i, v, t). (v, t, i = 0)) (zip [0..<length xs] xs)) False"

definition populateBandwidths ::
    "env \<Rightarrow> props list \<Rightarrow> props list \<Rightarrow> jsval \<times> jsval \<Rightarrow> string option \<Rightarrow> (select_el \<times> string option) res" where
  "populateBandwidths E interfaceOptions ifs sel w =
     rbind (case find_interface sel ifs of
         None \<Rightarrow> Inr (fill_select [] False)
       | Some intf \<Rightarrow> (case find (option_applies intf) interfaceOptions of
           None \<Rightarrow> Inr (first_selected [(''0'', ''Unlimited'')])
         | Some opt \<Rightarrow> rbind (speeds opt) (\<lambda>vs. Inr (first_selected (map (\<lambda>v. (to_str (pget v ''rate''), speed_text v)) vs)))))
       (\<lambda>bw. rbind (populateApprovalWarning E interfaceOptions ifs sel bw w) (\<lambda>w'. Inr (bw, w')))"

text \<open>The VLANs: the union over the chosen interfaces, as the keys of an object.\<close>

definition vlans_of :: "props \<Rightarrow> string list res" where
  "vlans_of i = (case pget i ''available_vlans'' of JArr vs \<Rightarrow> Inr (map to_str vs) | _ \<Rightarrow> Inl TypeError)"

definition available_vlans :: "jsval \<times> jsval \<Rightarrow> props list \<Rightarrow> string list res" where
  "available_vlans sel ifs = rbind (rmap vlans_of (filter (chosen_interface sel) ifs)) (\<lambda>vss.
     Inr (object_keys (psets [] (map (\<lambda>v. (v, JNum 1)) (concat vss)))))"

definition populateVLANs :: "props option \<Rightarrow> jsval \<times> jsval \<Rightarrow> props list \<Rightarrow> (select_el \<times> jsval list) res" where
  "populateVLANs endpoint sel ifs = rbind (available_vlans sel ifs) (\<lambda>keys.
     let vlan = (case endpoint of
           Some ep \<Rightarrow> if phas ep ''tag'' then pget ep ''tag'' else if keys = [] then JNum (- 1) else JStr (hd keys)
         | None \<Rightarrow> if keys = [] then JNum (- 1) else JStr (hd keys));
         vs = (if \<not> strict_eq vlan (JNum (- 1)) \<and> \<not> list_ex (strict_eq vlan) (map JStr keys) then vlan # map JStr keys else map JStr keys)
     in Inr (vlan_select vlan vs (strict_eq vlan (JNum (- 1))), vs))"

text \<open>Texts of the cloud fields.  The elements keep their texts from one entity to the next
  where the code does not set them.\<close>

record cloud_labels =
  cl_account :: string
  cl_placeholder :: string
  cl_vlan_help :: string
  cl_gateway :: string

definition azure_help :: string where
  "azure_help = ''<b>Layer 2</b>: sTag of the QinQ Tagged Interface connecting to Microsoft Azure; This value will be overridden by Microsoft after provisioning.<br/><b>Layer 3</b>: cTag of the QinQ Tagged Interface connecting to Microsoft Azure. The sTag is selected by Microsoft and cannot be specified.''"

definition cloud_labels_for :: "jsval \<Rightarrow> jsval \<Rightarrow> cloud_labels \<Rightarrow> cloud_labels" where
  "cloud_labels_for t name L =
     (if \<not> strict_eq t JNull then
        (if strict_eq t (JStr ''gcp-partner-interconnect'') then
           L\<lparr>cl_account := ''GCP Pairing Key'', cl_placeholder := ''00000000-0000-0000-0000-000000000000/us-east1/1''\<rparr>
         else if strict_eq t (JStr ''azure-express-route'') then
           L\<lparr>cl_account := ''ExpressRoute Service Key'', cl_placeholder := ''00000000-0000-0000-0000-000000000000'', cl_vlan_help := azure_help\<rparr>
         else if strict_eq t (JStr ''aws-hosted-connection'') then L\<lparr>cl_account := ''AWS Account Owner'', cl_placeholder := ''012301230123''\<rparr>
         else if strict_eq t (JStr ''oracle-fast-connect'') then L\<lparr>cl_account := ''Oracle OCID'', cl_placeholder := ''ocid1.virtualcircuit...''\<rparr>
         else L\<lparr>cl_account := ''AWS Account Owner'', cl_placeholder := ''012301230123''\<rparr>)
      else L\<lparr>cl_vlan_help := ''VLAN Identifier of the tagged interface connecting to <b>'' @ to_str name @ ''.</b>''\<rparr>)"

definition entity_type :: "props list \<Rightarrow> jsval" where
  "entity_type ifs = fold (\<lambda>i t. if pget i ''cloud_interconnect_id'' = JUndef then t else pget i ''cloud_interconnect_type'') ifs JNull"

text \<open>The gateway box: its options, whether it is shown, and its label.\<close>

definition configureCloudGatewayTypeFormGroup :: "jsval \<Rightarrow> props option \<Rightarrow> string \<Rightarrow> (select_el \<times> bool \<times> string) res" where
  "configureCloudGatewayTypeFormGroup t endpoint label =
     (if strict_eq t (JStr ''gcp-partner-interconnect'') then
        (case endpoint of
           None \<Rightarrow> Inl TypeError
         | Some ep \<Rightarrow> Inr ((fill_select [(''1440'', ''1440'', False), (''1500'', ''1500'', False)] False)
             \<lparr>sel_index := (if loose_eq (pget ep ''mtu'') (JNum 1500) then 1 else 0)\<rparr>, True, ''Cloud Interconnect MTU''))
      else if strict_eq t (JStr ''aws-hosted-connection'') then
        Inr ((fill_select [(''transit'', ''Transit'', False), (''private'', ''Virtual Private'', False)] False)\<lparr>sel_index := 1\<rparr>,
          True, ''Direct Connect Gateway Type'')
      else Inr (fill_select [] False, False, label))"

definition gateway_box :: "props option \<Rightarrow> select_el \<Rightarrow> select_el" where
  "gateway_box endpoint s = (case endpoint of
     None \<Rightarrow> s
   | Some ep \<Rightarrow> if phas ep ''jumbo'' \<and> jumbo_set ep
       then select_set_value (if js_less (JNum 8500) (pget ep ''mtu'') then ''private'' else ''transit'') s else s)"

record entity_form =
  ef_entity :: props
  ef_interfaces :: "props list"
  ef_parent :: "jsval option"
  ef_children :: "jsval list"
  ef_items :: "intf_item list"
  ef_selected :: "jsval \<times> jsval"
  ef_index :: jsval
  ef_bandwidths :: select_el
  ef_warning :: "string option"
  ef_vlans :: select_el
  ef_add :: bool
  ef_request :: bool
  ef_account_shown :: bool
  ef_account :: string
  ef_gateway :: select_el
  ef_gateway_shown :: bool
  ef_labels :: cloud_labels
  ef_jumbo :: check_el

definition member_list :: "props \<Rightarrow> string \<Rightarrow> jsval list res" where
  "member_list ent k = (if \<not> phas ent k then Inr [] else case pget ent k of JArr vs \<Rightarrow> Inr vs | _ \<Rightarrow> Inl TypeError)"

definition entity_interfaces :: "props \<Rightarrow> props list res" where
  "entity_interfaces ent = (case pget ent ''interfaces'' of
     JArr vs \<Rightarrow> if list_ex is_nullish vs then Inl TypeError else Inr (map as_props vs) | _ \<Rightarrow> Inl TypeError)"

definition wants_access :: "props \<Rightarrow> jsval list \<Rightarrow> bool" where
  "wants_access ent vlans \<longleftrightarrow> vlans = [] \<and> \<not> loose_eq (pget ent ''entity_id'') (JNum 1)"

definition draw_entity ::
    "env \<Rightarrow> props list \<Rightarrow> props option \<Rightarrow> string option \<Rightarrow> cloud_labels \<Rightarrow> props \<Rightarrow> entity_form res" where
  "draw_entity E interfaceOptions endpoint w labels ent =
     rbind (member_list ent ''parents'') (\<lambda>parents. rbind (member_list ent ''children'') (\<lambda>children.
     rbind (entity_interfaces ent) (\<lambda>ifs.
     let sel = initial_interface (js_or (ep_get endpoint ''interface'') (JStr ''TBD''), js_or (ep_get endpoint ''node'') (JStr ''TBD'')) ifs
     in rbind (populateBandwidths E interfaceOptions ifs sel w) (\<lambda>(bw, w'). rbind (populateVLANs endpoint sel ifs) (\<lambda>(vs, vlans).
        let t = entity_type ifs in
        rbind (configureCloudGatewayTypeFormGroup t endpoint (cl_gateway labels)) (\<lambda>(gw, gw_shown, gw_label).
        Inr \<lparr>ef_entity = pset ent ''cloud_interconnect_type'' t, ef_interfaces = ifs,
          ef_parent = (case parents of [] \<Rightarrow> None | p # _ \<Rightarrow> if truthy p then Some p else None), ef_children = children,
          ef_items = map interface_item ifs, ef_selected = sel,
          ef_index = (case endpoint of None \<Rightarrow> JNum (- 1) | Some ep \<Rightarrow> pget ep ''index''),
          ef_bandwidths = bw\<lparr>sel_disabled := (vlans = [] \<or> strict_eq (hd vlans) (JNum (- 1)) \<or> length (sel_options bw) \<le> 1)\<rparr>,
          ef_warning = w', ef_vlans = vs, ef_add = (vlans \<noteq> []), ef_request = wants_access ent vlans,
          ef_account_shown = (\<not> strict_eq t JNull),
          ef_account = html_of (js_or (ep_get endpoint ''cloud_account_id'') JNull),
          ef_gateway = gateway_box endpoint gw, ef_gateway_shown = gw_shown,
          ef_labels = (cloud_labels_for t (pget ent ''name'') labels)\<lparr>cl_gateway := gw_label\<rparr>,
          ef_jumbo = jumbo_box t endpoint\<rparr>))))))"

text \<open>Drawing the form of the entity of an endpoint, or of the root entity; without an entity
  the list is emptied.\<close>

definition populateEntityForm ::
    "env \<Rightarrow> props list \<Rightarrow> props \<Rightarrow> props option \<Rightarrow> string option \<Rightarrow> cloud_labels \<Rightarrow> entity_form option io" where
  "populateEntityForm E interfaceOptions session endpoint w labels =
     io_bind (getEntities E (pget session ''workgroup_id'') (case endpoint of None \<Rightarrow> JNum 1 | Some ep \<Rightarrow> pget ep ''entity_id'') (JObj [])) (\<lambda>entity.
       case entity of
         JNull \<Rightarrow> io_ret None
       | JObj ent \<Rightarrow> io_bind (io_lift (draw_entity E interfaceOptions endpoint w labels ent)) (\<lambda>F. io_ret (Some F))
       | _ \<Rightarrow> io_lift (Inl TypeError))"

text \<open>A click on an interface, enabled or not, on the parent or on a child.\<close>

definition item_click :: "env \<Rightarrow> props list \<Rightarrow> props option \<Rightarrow> nat \<Rightarrow> entity_form \<Rightarrow> entity_form res" where
  "item_click E interfaceOptions endpoint k F =
     (let i = ef_interfaces F ! k; sel = (pget i ''name'', pget i ''node'')
      in rbind (populateVLANs endpoint sel (ef_interfaces F)) (\<lambda>(vs, vlans).
         rbind (populateBandwidths E interfaceOptions (ef_interfaces F) sel (ef_warning F)) (\<lambda>(bw, w').
         Inr (F\<lparr>ef_selected := sel, ef_vlans := vs, ef_add := (vlans \<noteq> []), ef_request := wants_access (ef_entity F) vlans,
           ef_bandwidths := bw\<lparr>sel_disabled := sel_disabled (ef_bandwidths F)\<rparr>, ef_warning := w'\<rparr>))))"

definition entity_click :: "jsval \<Rightarrow> entity_form \<Rightarrow> props" where
  "entity_click target F = pset (as_props target) ''index'' (ef_index F)"

definition bandwidth_change :: "env \<Rightarrow> props list \<Rightarrow> int \<Rightarrow> entity_form \<Rightarrow> entity_form res" where
  "bandwidth_change E interfaceOptions k F =
     (let bw = (ef_bandwidths F)\<lparr>sel_index := k\<rparr>
      in rbind (populateApprovalWarning E interfaceOptions (ef_interfaces F) (ef_selected F) bw (ef_warning F)) (\<lambda>w.
         Inr (F\<lparr>ef_bandwidths := bw, ef_warning := w\<rparr>)))"

text \<open>The submit handler, write by write.\<close>

definition gateway_writes :: "entity_form \<Rightarrow> (jsval \<times> props) res" where
  "gateway_writes F =
     (let t = pget (ef_entity F) ''cloud_interconnect_type'' in
      if strict_eq t (JStr ''aws-hosted-connection'') then
        rbind (selected_value (ef_gateway F)) (\<lambda>gw. Inr (JStr gw,
          [(''mtu'', if ck_checked (ef_jumbo F) then JNum (if gw = ''transit'' then 8500 else 9001) else JNum 1500)]))
      else if strict_eq t (JStr ''gcp-partner-interconnect'') then
        rbind (selected_value (ef_gateway F)) (\<lambda>gw. Inr (JStr gw, [(''mtu'', parse_int (JStr gw))]))
      else Inr (JNull, []))"

definition entity_submit :: "props option \<Rightarrow> entity_form \<Rightarrow> unit res \<times> props option" where
  "entity_submit endpoint F = (case (gateway_writes F, endpoint) of
     (Inl e, _) \<Rightarrow> (Inl e, endpoint)
   | (Inr _, None) \<Rightarrow> (Inl TypeError, None)
   | (Inr (gw, ws), Some ep) \<Rightarrow>
       (let ep1 = psets ep ws in case selected_value (ef_bandwidths F) of
          Inl e \<Rightarrow> (Inl e, Some ep1)
        | Inr bw \<Rightarrow> (let ep2 = pset ep1 ''bandwidth'' (JStr bw) in case selected_value (ef_vlans F) of
            Inl e \<Rightarrow> (Inl e, Some ep2)
          | Inr tag \<Rightarrow> (Inr (), Some (psets ep2
              [(''tag'', JStr tag), (''cloud_account_id'', JStr (trim (ef_account F))), (''entity'', pget (ef_entity F) ''name''),
               (''name'', fst (ef_selected F)), (''node'', snd (ef_selected F)), (''interface'', fst (ef_selected F)),
               (''jumbo'', JBool (ck_checked (ef_jumbo F))), (''cloud_interconnect_type'', pget (ef_entity F) ''cloud_interconnect_type''),
               (''cloud_gateway_type'', gw)])))))"

section \<open>The entity search\<close>

datatype search_item = Loading | NoResults | Found jsval

record entity_search =
  es_value :: string
  es_items :: "search_item list"
  es_shown :: bool
  es_timer :: bool

definition search_input :: "string \<Rightarrow> entity_search \<Rightarrow> entity_search" where
  "search_input v S =
     (let S1 = S\<lparr>es_value := v\<rparr>
      in if length v < 2 then S1\<lparr>es_items := [], es_shown := False\<rparr>
         else (if Loading \<in> set (es_items S1) then S1 else S1\<lparr>es_items := [Loading], es_shown := True\<rparr>)\<lparr>es_timer := True\<rparr>)"

text \<open>The timer runs out: the request, and what its answer does; the field may have changed
  in between.\<close>

definition search_fire :: "env \<Rightarrow> props \<Rightarrow> entity_search \<Rightarrow> (entity_search \<times> jsval) io" where
  "search_fire E session S = io_bind (getEntitiesAll E (pget session ''workgroup_id'') (JStr (es_value S))) (\<lambda>entities.
     io_ret (S\<lparr>es_timer := False\<rparr>, entities))"

definition search_answer :: "jsval \<Rightarrow> entity_search \<Rightarrow> entity_search res" where
  "search_answer entities S =
     (let S1 = S\<lparr>es_items := [], es_shown := True\<rparr>
      in if length (es_value S) \<ge> 2 then (case entities of
             JArr vs \<Rightarrow> Inr (S1\<lparr>es_items := (if vs = [] then [NoResults] else map Found vs)\<rparr>)
           | _ \<Rightarrow> Inl TypeError)
         else Inr S1)"

definition search_pick :: "jsval \<Rightarrow> jsval \<Rightarrow> entity_search \<Rightarrow> entity_search \<times> props" where
  "search_pick index entity S = (S\<lparr>es_value := [], es_items := [], es_shown := False\<rparr>, pset (as_props entity) ''index'' index)"

text \<open>
  Opening the dialog: the forms it populates, in order. An endpoint whose port the server still
  has to choose has no interface form, so what that form showed last stays.
\<close>

datatype dialog_form = Entity_form | Interface_form

definition display_forms :: "props option \<Rightarrow> dialog_form list" where
  "display_forms endpoint = (case endpoint of
     Some ep \<Rightarrow> if strict_eq (pget ep ''interface'') (JStr ''TBD'') then [Entity_form] else [Entity_form, Interface_form]
   | None \<Rightarrow> [Entity_form, Interface_form])"

end
