(* ===== verification/FormTheorems.thy ===== *)
theory FormTheorems
  imports EndpointForms
begin

text \<open>
  What the endpoint dialog offers and what it hands over: the VLANs of the chosen
  interfaces, a form that can be submitted whenever its button is enabled, and the choice of
  a gateway that survives closing and opening the dialog.
\<close>

section \<open>Facts about the controls\<close>

lemma fill_select_simps [simp]:
  "map opt_value (sel_options (fill_select xs d)) = map fst xs" "sel_disabled (fill_select xs d) = d"
  "length (sel_options (fill_select xs d)) = length xs"
  by (auto simp: fill_select_def)

lemma last_true_bound: "last_true bs = Some i \<Longrightarrow> i < length bs \<and> bs ! i"
  by (induction bs arbitrary: i) (auto split: option.splits if_splits)

lemma marked_index_bound: "bs \<noteq> [] \<Longrightarrow> 0 \<le> marked_index bs \<and> nat (marked_index bs) < length bs"
  by (auto simp: marked_index_def dest: last_true_bound split: option.splits)

lemma fill_select_value:
  assumes "xs \<noteq> []"
  obtains v where "selected_value (fill_select xs d) = Inr v" "v \<in> fst ` set xs"
proof -
  let ?k = "nat (marked_index (map (snd \<circ> snd) xs))"
  have k: "0 \<le> marked_index (map (snd \<circ> snd) xs)" "?k < length xs"
    using marked_index_bound [of "map (snd \<circ> snd) xs"] assms by auto
  then have "selected_value (fill_select xs d) = Inr (fst (xs ! ?k))"
    by (auto simp: selected_value_def selected_def fill_select_def split_beta)
  then show ?thesis using that k(2) by auto
qed

lemma select_disabled_value [simp]: "selected_value (s\<lparr>sel_disabled := d\<rparr>) = selected_value s"
  by (simp add: selected_value_def selected_def)

text \<open>The keys of the object the VLANs are collected in.\<close>

lemma keys_psets: "distinct (map fst ps) \<Longrightarrow> distinct (map fst (psets ps qs))"
  by (induction qs arbitrary: ps) (auto simp: keys_pset phas_def)

lemma distinct_object_keys: "distinct (map fst ps) \<Longrightarrow> distinct (object_keys ps)"
  by (auto simp: object_keys_def)

lemma sorted_object_keys: "sorted (map (read_digits 10) (filter is_index (object_keys ps)))"
proof -
  have "filter is_index (sort_key f (filter is_index xs)) = sort_key f (filter is_index xs)" for f :: "string \<Rightarrow> nat" and xs
    by (simp add: filter_id_conv)
  then show ?thesis by (simp add: object_keys_def)
qed

lemma object_keys_set: "set (object_keys ps) = {k. phas ps k}"
  by (auto simp: object_keys_def phas_def)

definition vlan_texts :: "props \<Rightarrow> string set" where
  "vlan_texts i = (case pget i ''available_vlans'' of JArr vs \<Rightarrow> to_str ` set vs | _ \<Rightarrow> {})"

lemma vlans_union: "rmap vlans_of xs = Inr vss \<Longrightarrow> (\<Union>vs \<in> set vss. set vs) = (\<Union>i \<in> set xs. vlan_texts i)"
proof (induction xs arbitrary: vss)
  case (Cons i xs)
  then obtain vs rest where r: "vlans_of i = Inr vs" "rmap vlans_of xs = Inr rest" "vss = vs # rest"
    by (auto simp: rbind_Inr_iff)
  have "set vs = vlan_texts i" using r(1) by (auto simp: vlans_of_def vlan_texts_def split: jsval.splits)
  then show ?case using Cons.IH [OF r(2)] r(3) by simp
qed simp

lemma available_vlans_keys:
  assumes "available_vlans sel ifs = Inr keys"
  shows "distinct keys" "sorted (map (read_digits 10) (filter is_index keys))"
    "set keys = (\<Union>i \<in> {i \<in> set ifs. chosen_interface sel i}. vlan_texts i)"
proof -
  obtain vss where vss: "rmap vlans_of (filter (chosen_interface sel) ifs) = Inr vss"
    and keys: "keys = object_keys (psets [] (map (\<lambda>v. (v, JNum 1)) (concat vss)))"
    using assms by (auto simp: available_vlans_def rbind_Inr_iff)
  show "distinct keys" unfolding keys by (intro distinct_object_keys keys_psets) simp
  show "sorted (map (read_digits 10) (filter is_index keys))" unfolding keys by (rule sorted_object_keys)
  from vlans_union [OF vss] have "set (concat vss) = (\<Union>i \<in> {i \<in> set ifs. chosen_interface sel i}. vlan_texts i)" by auto
  moreover have "phas (map (\<lambda>v. (v, JNum 1)) xs) k = (k \<in> set xs)" for xs k by (simp add: phas_def image_image)
  then have "set keys = set (concat vss)" unfolding keys object_keys_set by (intro set_eqI) simp
  ultimately show "set keys = (\<Union>i \<in> {i \<in> set ifs. chosen_interface sel i}. vlan_texts i)" by simp
qed

lemma last_true_none: "\<forall>x \<in> set xs. \<not> f x \<Longrightarrow> last_true (map f xs) = None"
  by (induction xs) auto

text \<open>The parts of a drawn form.\<close>

lemma draw_entity_parts:
  assumes "draw_entity E io endpoint w L ent = Inr F"
  obtains ifs bw w' vs vlans gw gs gl where "entity_interfaces ent = Inr ifs"
    "ef_interfaces F = ifs" "ef_entity F = pset ent ''cloud_interconnect_type'' (entity_type ifs)"
    "populateBandwidths E io ifs (ef_selected F) w = Inr (bw, w')" "selected_value (ef_bandwidths F) = selected_value bw"
    "sel_options (ef_bandwidths F) = sel_options bw"
    "populateVLANs endpoint (ef_selected F) ifs = Inr (ef_vlans F, vlans)" "ef_add F = (vlans \<noteq> [])"
    "configureCloudGatewayTypeFormGroup (entity_type ifs) endpoint (cl_gateway L) = Inr (gw, gs, gl)"
    "ef_gateway F = gateway_box endpoint gw" "ef_jumbo F = jumbo_box (entity_type ifs) endpoint" "ef_items F = map interface_item ifs"
  using assms by (auto simp: draw_entity_def rbind_Inr_iff Let_def split: prod.splits)

section \<open>Properties\<close>



text \<open>
  (C31) The choice of a gateway survives: when the form of an AWS connection is submitted with
  jumbo frames, or that of a Google interconnect without, and the dialog is opened again
  for the endpoint it made, the form shows the same gateway and the same jumbo setting.
\<close>

theorem gateway_choice_survives:
  assumes "draw_entity E io endpoint w L ent = Inr F0" and "selected_value (ef_gateway F) = Inr gw"
    and "sel_options (ef_gateway F) = sel_options (ef_gateway F0)" and "ef_entity F = ef_entity F0"
    and "entity_submit (Some ep) F = (Inr (), Some ep')"
    and "pget (ef_entity F) ''cloud_interconnect_type'' = JStr ''aws-hosted-connection'' \<and> ck_checked (ef_jumbo F) \<or>
      pget (ef_entity F) ''cloud_interconnect_type'' = JStr ''gcp-partner-interconnect'' \<and> \<not> ck_checked (ef_jumbo F)"
    and "draw_entity E io (Some ep') w' L' ent = Inr F'"
  shows "selected_value (ef_gateway F') = Inr gw \<and> ck_checked (ef_jumbo F') = ck_checked (ef_jumbo F)"
proof -
  obtain ifs gw0 gs0 gl0 where d0: "entity_interfaces ent = Inr ifs" "ef_entity F0 = pset ent ''cloud_interconnect_type'' (entity_type ifs)"
      "configureCloudGatewayTypeFormGroup (entity_type ifs) endpoint (cl_gateway L) = Inr (gw0, gs0, gl0)" "ef_gateway F0 = gateway_box endpoint gw0"
    using draw_entity_parts [OF assms(1)] by metis
  obtain gw1 gs1 gl1 where d1: "configureCloudGatewayTypeFormGroup (entity_type ifs) (Some ep') (cl_gateway L') = Inr (gw1, gs1, gl1)"
      "ef_gateway F' = gateway_box (Some ep') gw1" "ef_jumbo F' = jumbo_box (entity_type ifs) (Some ep')"
    using draw_entity_parts [OF assms(7)] d0(1) by (metis sum.inject(2))
  have t: "pget (ef_entity F) ''cloud_interconnect_type'' = entity_type ifs" using assms(4) d0(2) by simp
  have "sel_options (gateway_box endpoint gw0) = sel_options gw0" by (simp add: gateway_box_def select_set_value_def split: option.split)
  then have o: "sel_options (ef_gateway F) = sel_options gw0" using assms(3) d0(4) by simp
  have in_opts: "gw \<in> opt_value ` set (sel_options gw0)"
    using assms(2) o by (auto simp: selected_value_def selected_def split: if_splits)
  from assms(6) show ?thesis
  proof
    assume a: "pget (ef_entity F) ''cloud_interconnect_type'' = JStr ''aws-hosted-connection'' \<and> ck_checked (ef_jumbo F)"
    then have ty: "entity_type ifs = JStr ''aws-hosted-connection''" using t by simp
    have gw: "gw = ''transit'' \<or> gw = ''private''"
      using in_opts d0(3) ty by (auto simp: configureCloudGatewayTypeFormGroup_def fill_select_def)
    have ep': "pget ep' ''mtu'' = JNum (if gw = ''transit'' then 8500 else 9001)" "phas ep' ''jumbo''" "jumbo_set ep'"
      using assms(2,5) a by (auto simp: entity_submit_def gateway_writes_def jumbo_set_def loose_eq_def Let_def split: sum.splits)
    have "gw1 = (fill_select [(''transit'', ''Transit'', False), (''private'', ''Virtual Private'', False)] False)\<lparr>sel_index := 1\<rparr>"
      using d1(1) ty by (simp add: configureCloudGatewayTypeFormGroup_def)
    then have "selected_value (ef_gateway F') = Inr gw"
      using gw ep' d1(2) by (auto simp: gateway_box_def js_less_def select_set_value_def fill_select_def selected_value_def selected_def)
    moreover have "ck_checked (ef_jumbo F')" using d1(3) ep'(2,3) by (simp add: jumbo_box_def)
    ultimately show ?thesis using a by simp
  next
    assume a: "pget (ef_entity F) ''cloud_interconnect_type'' = JStr ''gcp-partner-interconnect'' \<and> \<not> ck_checked (ef_jumbo F)"
    then have ty: "entity_type ifs = JStr ''gcp-partner-interconnect''" using t by simp
    have gw: "gw = ''1440'' \<or> gw = ''1500''"
      using in_opts d0(3) ty by (auto simp: configureCloudGatewayTypeFormGroup_def fill_select_def split: option.splits)
    have pi: "parse_int (JStr ''1440'') = JNum 1440" "parse_int (JStr ''1500'') = JNum 1500" by code_simp+
    have ep': "pget ep' ''mtu'' = parse_int (JStr gw)" "phas ep' ''jumbo''" "\<not> jumbo_set ep'"
      using assms(2,5) a by (auto simp: entity_submit_def gateway_writes_def jumbo_set_def loose_eq_def Let_def split: sum.splits)
    have "gw1 = (fill_select [(''1440'', ''1440'', False), (''1500'', ''1500'', False)] False)\<lparr>sel_index := (if gw = ''1500'' then 1 else 0)\<rparr>"
      using d1(1) ty gw ep'(1) pi by (auto simp: configureCloudGatewayTypeFormGroup_def loose_eq_def)
    then have "selected_value (ef_gateway F') = Inr gw"
      using gw ep' d1(2) by (auto simp: gateway_box_def fill_select_def selected_value_def selected_def)
    moreover have "\<not> ck_checked (ef_jumbo F')" using d1(3) ep'(2,3) by (simp add: jumbo_box_def)
    ultimately show ?thesis using a by simp
  qed
qed

definition sample_entity :: "jsval \<Rightarrow> props" where
  "sample_entity used = [(''name'', JStr ''aws''), (''interfaces'', JArr [JObj [(''node'', JStr ''n''), (''name'', JStr ''e''),
     (''cloud_interconnect_id'', JStr ''c''), (''cloud_interconnect_type'', JStr ''aws-hosted-connection''), (''available_vlans'', JArr [JNum 3]),
     (''utilized_bandwidth'', used), (''provisionable_bandwidth'', JStr ''9'')]])]"

definition sample_labels :: cloud_labels where
  "sample_labels = \<lparr>cl_account = [], cl_placeholder = [], cl_vlan_help = [], cl_gateway = []\<rparr>"

definition sample_form :: "jsval \<Rightarrow> entity_form res" where
  "sample_form used = draw_entity sample_env [] (Some [(''index'', JNum 0)]) None sample_labels (sample_entity used)"

lemma right_projr: "\<not> isl r \<Longrightarrow> r = Inr (projr r)"
  by (cases r) auto

theorem gateway_choice_survives_witness:
  "\<exists>F ep'. entity_submit (Some [(''index'', JNum 0)]) F = (Inr (), Some ep') \<and> selected_value (ef_gateway F) = Inr ''transit'' \<and>
     selected_value (ef_gateway (projr (draw_entity sample_env [] (Some ep') None sample_labels (sample_entity (JNum 0))))) = Inr ''transit''"
proof -
  let ?drawn = "projr (sample_form (JNum 0))"
  let ?F = "?drawn\<lparr>ef_gateway := (ef_gateway ?drawn)\<lparr>sel_index := 0\<rparr>\<rparr>"
  let ?ep = "the (snd (entity_submit (Some [(''index'', JNum 0)]) ?F))"
  let ?r = "draw_entity sample_env [] (Some ?ep) None sample_labels (sample_entity (JNum 0))"
  have "\<not> isl (sample_form (JNum 0))" by code_simp
  then have d: "draw_entity sample_env [] (Some [(''index'', JNum 0)]) None sample_labels (sample_entity (JNum 0)) = Inr ?drawn"
    unfolding sample_form_def by (rule right_projr)
  have "fst (entity_submit (Some [(''index'', JNum 0)]) ?F) = Inr ()" "snd (entity_submit (Some [(''index'', JNum 0)]) ?F) \<noteq> None" by code_simp+
  then have s: "entity_submit (Some [(''index'', JNum 0)]) ?F = (Inr (), Some ?ep)" by (metis option.collapse prod.collapse)
  have "\<not> isl ?r" by code_simp
  then have d': "?r = Inr (projr ?r)" by (rule right_projr)
  have g: "selected_value (ef_gateway ?F) = Inr ''transit''" by code_simp
  have "pget (ef_entity ?F) ''cloud_interconnect_type'' = JStr ''aws-hosted-connection''" "ck_checked (ef_jumbo ?F)" by code_simp+
  then have "selected_value (ef_gateway (projr ?r)) = Inr ''transit''"
    using gateway_choice_survives [OF d g _ _ s _ d'] by simp
  with s g show ?thesis by blast
qed

lemma bandwidths_filled:
  assumes "populateBandwidths E io ifs sel w = Inr (bw, w')"
  obtains xs where "bw = fill_select xs False"
  using assms by (auto simp: populateBandwidths_def first_selected_def rbind_Inr_iff split: option.splits)

lemma vlans_filled:
  assumes "populateVLANs endpoint sel ifs = Inr (s, vlans)"
  obtains vlan d where "s = fill_select (map (\<lambda>v. (to_str v, to_str v, loose_eq v vlan)) vlans) d"
  using assms by (auto simp: populateVLANs_def vlan_select_def rbind_Inr_iff Let_def)

lemma gateway_ok:
  assumes "configureCloudGatewayTypeFormGroup t (Some ep) label = Inr (gw, gs, gl)"
    and "t = JStr ''aws-hosted-connection'' \<or> t = JStr ''gcp-partner-interconnect'' \<and> \<not> (phas ep ''jumbo'' \<and> jumbo_set ep)"
  shows "\<exists>v. selected_value (gateway_box (Some ep) gw) = Inr v"
  using assms by (auto simp: configureCloudGatewayTypeFormGroup_def gateway_box_def fill_select_def select_set_value_def selected_value_def selected_def
      split: if_splits)

lemma gateway_writes_ok:
  assumes "pget (ef_entity F) ''cloud_interconnect_type'' = JStr ''aws-hosted-connection'' \<or>
      pget (ef_entity F) ''cloud_interconnect_type'' = JStr ''gcp-partner-interconnect'' \<Longrightarrow> \<exists>v. selected_value (ef_gateway F) = Inr v"
  obtains g ws where "gateway_writes F = Inr (g, ws)" "\<not> phas ws ''index''"
proof (cases "gateway_writes F")
  case (Inl e)
  then show ?thesis using assms by (auto simp: gateway_writes_def Let_def split: if_splits)
next
  case (Inr r)
  then have "fst ` set (snd r) \<subseteq> {''mtu''}"
    by (cases "selected_value (ef_gateway F)") (auto simp: gateway_writes_def Let_def split: if_splits)
  then have "\<not> phas (snd r) ''index''" unfolding phas_def by auto
  with Inr that show ?thesis by (cases r) simp
qed

text \<open>
  (C30) A form whose add button is enabled can be submitted: for an endpoint that is not a
  Google endpoint with jumbo frames, and a port with some bandwidth to choose, the submit
  handler does not throw, keeps the index of the endpoint, and the VLAN and bandwidth it
  writes are among those offered.
\<close>

theorem enabled_form_submits:
  assumes "draw_entity E io (Some ep) w L ent = Inr F" and "ef_add F" and "sel_options (ef_bandwidths F) \<noteq> []"
    and "pget (ef_entity F) ''cloud_interconnect_type'' = JStr ''gcp-partner-interconnect'' \<longrightarrow> \<not> (phas ep ''jumbo'' \<and> jumbo_set ep)"
  shows "\<exists>ep' tag bw. entity_submit (Some ep) F = (Inr (), Some ep') \<and> pget ep' ''index'' = pget ep ''index'' \<and>
    pget ep' ''entity'' = pget ent ''name'' \<and>
    pget ep' ''tag'' = JStr tag \<and> tag \<in> opt_value ` set (sel_options (ef_vlans F)) \<and>
    pget ep' ''bandwidth'' = JStr bw \<and> bw \<in> opt_value ` set (sel_options (ef_bandwidths F))"
proof -
  obtain ifs bw w' vlans gw gs gl where d: "ef_entity F = pset ent ''cloud_interconnect_type'' (entity_type ifs)"
    "populateBandwidths E io ifs (ef_selected F) w = Inr (bw, w')" "selected_value (ef_bandwidths F) = selected_value bw"
    "sel_options (ef_bandwidths F) = sel_options bw"
    "populateVLANs (Some ep) (ef_selected F) ifs = Inr (ef_vlans F, vlans)" "ef_add F = (vlans \<noteq> [])"
    "configureCloudGatewayTypeFormGroup (entity_type ifs) (Some ep) (cl_gateway L) = Inr (gw, gs, gl)"
    "ef_gateway F = gateway_box (Some ep) gw"
    by (rule draw_entity_parts [OF assms(1)])
  have offered: "v \<in> opt_value ` set (sel_options s)" if "selected_value s = Inr v" for v s
    using that by (auto simp: selected_value_def selected_def split: if_splits)
  obtain xs where xs: "bw = fill_select xs False" using bandwidths_filled [OF d(2)] .
  then have "xs \<noteq> []" using assms(3) d(4) by (auto simp: fill_select_def)
  then obtain b where b: "selected_value (ef_bandwidths F) = Inr b" using fill_select_value [of xs False] d(3) xs by auto
  obtain vlan dis where vs: "ef_vlans F = fill_select (map (\<lambda>v. (to_str v, to_str v, loose_eq v vlan)) vlans) dis"
    using vlans_filled [OF d(5)] .
  have "map (\<lambda>v. (to_str v, to_str v, loose_eq v vlan)) vlans \<noteq> []" using assms(2) d(6) by simp
  then obtain tag where tag: "selected_value (ef_vlans F) = Inr tag" unfolding vs by (rule fill_select_value)
  have t: "pget (ef_entity F) ''cloud_interconnect_type'' = entity_type ifs" "pget (ef_entity F) ''name'' = pget ent ''name''"
    using d(1) by simp_all
  have gv: "\<exists>v. selected_value (ef_gateway F) = Inr v"
    if c: "entity_type ifs = JStr ''aws-hosted-connection'' \<or> entity_type ifs = JStr ''gcp-partner-interconnect''"
    using gateway_ok [OF d(7)] c assms(4) unfolding d(8) t by blast
  obtain g ws where g: "gateway_writes F = Inr (g, ws)" "\<not> phas ws ''index''"
    by (rule gateway_writes_ok [of F]) (use gv t in auto)
  from this(1) have "entity_submit (Some ep) F = (Inr (), Some (psets (pset (psets ep ws) ''bandwidth'' (JStr b))
      [(''tag'', JStr tag), (''cloud_account_id'', JStr (trim (ef_account F))), (''entity'', pget ent ''name''),
       (''name'', fst (ef_selected F)), (''node'', snd (ef_selected F)), (''interface'', fst (ef_selected F)),
       (''jumbo'', JBool (ck_checked (ef_jumbo F))), (''cloud_interconnect_type'', entity_type ifs), (''cloud_gateway_type'', g)]))"
    using b tag by (simp add: entity_submit_def Let_def t)
  moreover have "pget (psets ep ws) ''index'' = pget ep ''index''" using g(2) by (rule pget_psets_not_in)
  ultimately show ?thesis using offered [OF b] offered [OF tag] by auto
qed

theorem enabled_form_submits_witness:
  "\<exists>ep' tag bw. entity_submit (Some [(''index'', JNum 0)]) (projr (sample_form (JNum 0))) = (Inr (), Some ep') \<and>
     pget ep' ''index'' = JNum 0 \<and> pget ep' ''tag'' = JStr tag \<and> pget ep' ''bandwidth'' = JStr bw"
proof -
  let ?drawn = "projr (sample_form (JNum 0))"
  have "\<not> isl (sample_form (JNum 0))" by code_simp
  then have d: "draw_entity sample_env [] (Some [(''index'', JNum 0)]) None sample_labels (sample_entity (JNum 0)) = Inr ?drawn"
    unfolding sample_form_def by (rule right_projr)
  have "ef_add ?drawn" "sel_options (ef_bandwidths ?drawn) \<noteq> []" "\<not> phas [(''index'', JNum 0)] ''jumbo''" by code_simp+
  with enabled_form_submits [OF d] show ?thesis by fastforce
qed

text \<open>
  A port without bandwidth left can still be chosen: the form shows its item disabled,
  but a click on the item selects the port all the same.
\<close>

theorem full_port_selectable:
  assumes "draw_entity E io endpoint w L ent = Inr F" and "k < length (ef_interfaces F)"
    and "\<not> hasAvailableBandwidth (ef_interfaces F ! k)" and "item_click E io endpoint k F = Inr F'"
  shows "it_disabled (ef_items F ! k) \<and>
    ef_selected F' = (pget (ef_interfaces F ! k) ''name'', pget (ef_interfaces F ! k) ''node'')"
proof -
  have "ef_items F = map interface_item (ef_interfaces F)" by (rule draw_entity_parts [OF assms(1)]) simp
  then have "it_disabled (ef_items F ! k)" using assms(2,3) by (simp add: interface_item_def Let_def)
  moreover have "ef_selected F' = (pget (ef_interfaces F ! k) ''name'', pget (ef_interfaces F ! k) ''node'')"
    using assms(4) by (auto simp: item_click_def Let_def rbind_Inr_iff split: prod.splits)
  ultimately show ?thesis ..
qed

theorem full_port_selectable_witness:
  "it_disabled (ef_items (projr (sample_form (JNum 9))) ! 0) \<and>
   ef_selected (projr (item_click sample_env [] (Some [(''index'', JNum 0)]) 0 (projr (sample_form (JNum 9))))) = (JStr ''e'', JStr ''n'')"
proof -
  let ?drawn = "projr (sample_form (JNum 9))"
  let ?click = "item_click sample_env [] (Some [(''index'', JNum 0)]) 0 ?drawn"
  have "\<not> isl (sample_form (JNum 9))" by code_simp
  then have d: "draw_entity sample_env [] (Some [(''index'', JNum 0)]) None sample_labels (sample_entity (JNum 9)) = Inr ?drawn"
    unfolding sample_form_def by (rule right_projr)
  have "\<not> isl ?click" by code_simp
  then have c: "?click = Inr (projr ?click)" by (rule right_projr)
  have "0 < length (ef_interfaces ?drawn)" "\<not> hasAvailableBandwidth (ef_interfaces ?drawn ! 0)"
    "pget (ef_interfaces ?drawn ! 0) ''name'' = JStr ''e''" "pget (ef_interfaces ?drawn ! 0) ''node'' = JStr ''n''" by code_simp+
  with full_port_selectable [OF d _ _ c] show ?thesis by simp
qed

end
