(* ===== verification/AclPage.thy ===== *)
theory AclPage
  imports ApiData Provisioning
begin

text \<open>
  The page for the access control lists of a workgroup's interfaces (\<^verbatim>\<open>js_templates/acl.js\<close> and
  \<^verbatim>\<open>js_templates/acl/*.js\<close>): the list of interfaces, the list of rules of the chosen one, and the
  dialog that edits a rule.

  Every change of the selection calls \<open>update\<close>, which draws the three parts anew and does not
  wait for an earlier call to end.  The page therefore has a list of the calls made so far,
  each with the selection it was made for and the parts that are drawn, and the answers of
  the server arrive in any order (\<open>acl_step\<close>).
\<close>

section \<open>Converting operands\<close>

text \<open>\<open>v - k\<close> and \<open>v + k\<close> for a number \<open>k\<close>.\<close>

definition js_minus :: "jsval \<Rightarrow> int \<Rightarrow> jsval" where
  "js_minus v k = (case to_num v of JNum n \<Rightarrow> JNum (n - k) | _ \<Rightarrow> JNaN)"

definition js_plus :: "jsval \<Rightarrow> int \<Rightarrow> jsval" where
  "js_plus v k = (case v of
     JStr s \<Rightarrow> JStr (s @ show_int k)
   | JArr _ \<Rightarrow> JStr (to_str v @ show_int k)
   | JObj _ \<Rightarrow> JStr (to_str v @ show_int k)
   | _ \<Rightarrow> (case to_num v of JNum n \<Rightarrow> JNum (n + k) | _ \<Rightarrow> JNaN))"

text \<open>
  The value of an argument written into an \<^verbatim>\<open>onclick\<close> attribute: a number, null or undefined is
  itself again and a text that is a number becomes one.  Any other text is no literal, and
  the handler ends with an exception.
\<close>

definition literal_arg :: "jsval \<Rightarrow> jsval res" where
  "literal_arg v = (case v of
     JStr s \<Rightarrow> (case str_to_num s of JNum n \<Rightarrow> if show_int n = s then Inr (JNum n) else Inl SyntaxError | _ \<Rightarrow> Inl ReferenceError)
   | JArr _ \<Rightarrow> Inl SyntaxError
   | JObj _ \<Rightarrow> Inl SyntaxError
   | _ \<Rightarrow> Inr v)"

section \<open>The list of interfaces (\<^verbatim>\<open>acl/interface_list.js\<close>)\<close>

record intf_row =
  ir_selected :: bool
  ir_id :: jsval
  ir_node :: string
  ir_name :: string

definition intf_row_of :: "jsval \<Rightarrow> jsval \<Rightarrow> intf_row res" where
  "intf_row_of interfaceID intf =
     (if is_nullish intf then Inl TypeError
      else let i = as_props intf in
        Inr \<lparr>ir_selected = loose_eq (pget i ''interface_id'') interfaceID, ir_id = pget i ''interface_id'',
             ir_node = to_str (pget i ''node''), ir_name = to_str (pget i ''name'')\<rparr>)"

text \<open>The rows, and the interface to select: with none selected the loop selects the first one
  and stops.\<close>

definition InterfaceList_rows :: "jsval \<Rightarrow> jsval \<Rightarrow> (intf_row list \<times> jsval option) res" where
  "InterfaceList_rows interfaceID intfs = (case intfs of
     JArr [] \<Rightarrow> Inr ([], None)
   | JArr (i # is') \<Rightarrow>
       if loose_eq interfaceID (JNum (- 1))
       then if is_nullish i then Inl TypeError else Inr ([], Some (pget (as_props i) ''interface_id''))
       else rbind (rmap (intf_row_of interfaceID) (i # is')) (\<lambda>rs. Inr (rs, None))
   | _ \<Rightarrow> Inl TypeError)"

definition InterfaceList_render :: "env \<Rightarrow> jsval \<Rightarrow> jsval \<Rightarrow> (intf_row list \<times> jsval option) io" where
  "InterfaceList_render E workgroupID interfaceID =
     io_bind (getInterfacesByWorkgroup E workgroupID) (\<lambda>intfs. io_lift (InterfaceList_rows interfaceID intfs))"

section \<open>The list of rules (\<^verbatim>\<open>acl/list.js\<close>)\<close>

record acl_row =
  ar_id :: jsval
  ar_position :: jsval
  ar_allow :: string
  ar_start :: jsval
  ar_end :: jsval
  ar_workgroup :: jsval
  ar_entity :: jsval
  ar_cells :: "string list"

record acl_list =
  al_interface :: jsval
  al_rows :: "acl_row list"

definition acl_row_of :: "jsval \<Rightarrow> acl_row res" where
  "acl_row_of acl =
     (if is_nullish acl then Inl TypeError
      else let a = as_props acl in
        Inr \<lparr>ar_id = pget a ''interface_acl_id'', ar_position = pget a ''eval_position'', ar_allow = to_str (pget a ''allow_deny''),
             ar_start = pget a ''start'', ar_end = pget a ''end'', ar_workgroup = pget a ''workgroup_id'', ar_entity = pget a ''entity_id'',
             ar_cells = [to_str (pget a ''allow_deny''),
               to_str (if truthy (pget a ''workgroup_name'') then pget a ''workgroup_name'' else JStr ''all''),
               to_str (pget a ''entity_name''), to_str (pget a ''start''), to_str (pget a ''end'')]\<rparr>)"

definition ACLList_rows :: "jsval \<Rightarrow> jsval \<Rightarrow> acl_list res" where
  "ACLList_rows interfaceID acls = (case acls of
     JArr vs \<Rightarrow> rbind (rmap acl_row_of vs) (\<lambda>rs. Inr \<lparr>al_interface = interfaceID, al_rows = rs\<rparr>)
   | _ \<Rightarrow> Inl TypeError)"

definition ACLEditor_render :: "env \<Rightarrow> jsval \<Rightarrow> acl_list io" where
  "ACLEditor_render E interfaceID = io_bind (getACLs E interfaceID) (\<lambda>acls. io_lift (ACLList_rows interfaceID acls))"

section \<open>The dialog (\<^verbatim>\<open>acl/modal.js\<close>)\<close>

text \<open>The state of the dialog is the object the constructor is given; both the constructor
  and every drawing for a new rule set it to the defaults.\<close>

definition acl_defaults :: props where
  "acl_defaults = [(''aclID'', JNum (- 1)), (''selectedWorkgroupID'', JNum (- 1)), (''entityID'', JNum (- 1)),
     (''allow'', JStr ''allow''), (''high'', JNum 4095), (''low'', JNum 2), (''notes'', JStr []), (''position'', JNum 10)]"

definition new_ACLModal :: "jsval \<Rightarrow> props" where
  "new_ACLModal workgroupID = psets [(''workgroupID'', workgroupID)] acl_defaults"

definition acl_fields :: "props \<Rightarrow> props" where
  "acl_fields acl = [(''aclID'', pget acl ''interface_acl_id''), (''selectedWorkgroupID'', js_or (pget acl ''workgroup_id'') (JNum (- 1))),
     (''entityID'', pget acl ''entity_id''), (''allow'', pget acl ''allow_deny''), (''high'', pget acl ''end''),
     (''low'', pget acl ''start''), (''notes'', js_or (pget acl ''notes'') (JStr [])), (''position'', pget acl ''eval_position''),
     (''interfaceID'', pget acl ''interface_id'')]"

type_synonym choice = "string \<times> string \<times> bool"

record modal_view =
  mv_title :: string
  mv_allow :: "choice list"
  mv_workgroups :: "choice list"
  mv_entities :: "choice list"
  mv_low :: string
  mv_high :: string
  mv_button :: string

definition choice_of :: "jsval \<Rightarrow> string \<Rightarrow> jsval \<Rightarrow> choice res" where
  "choice_of chosen key v =
     (if is_nullish v then Inl TypeError
      else let p = as_props v in Inr (to_str (pget p key), to_str (pget p ''name''), loose_eq (pget p key) chosen))"

text \<open>The options of the entity box; the first entity becomes the chosen one when there is none.\<close>

fun entity_choices :: "props \<Rightarrow> jsval list \<Rightarrow> choice list res \<times> props" where
  "entity_choices st [] = (Inr [], st)"
| "entity_choices st (e # es) =
     (if is_nullish e then (Inl TypeError, st)
      else let st' = (if strict_eq (pget st ''entityID'') (JNum (- 1)) then pset st ''entityID'' (pget (as_props e) ''entity_id'') else st)
        in case entity_choices st' es of (r, st'') \<Rightarrow>
             (rbind (choice_of (pget st' ''entityID'') ''entity_id'' e) (\<lambda>c. rbind r (\<lambda>cs. Inr (c # cs))), st''))"

definition draw_modal :: "jsval \<Rightarrow> bool \<Rightarrow> jsval \<Rightarrow> jsval \<Rightarrow> props \<Rightarrow> modal_view res \<times> props" where
  "draw_modal aclID new workgroups entities st = (case workgroups of
     JArr ws \<Rightarrow> (case rmap (choice_of (pget st ''selectedWorkgroupID'') ''workgroup_id'')
           (JObj [(''workgroup_id'', JNum (- 1)), (''name'', JStr ''all'')] # ws) of
         Inl e \<Rightarrow> (Inl e, st)
       | Inr wcs \<Rightarrow> (case entities of
           JArr es \<Rightarrow> (case entity_choices st es of (r, st') \<Rightarrow>
             (rbind r (\<lambda>ecs. Inr \<lparr>mv_title = to_str aclID,
                mv_allow = map (\<lambda>ad. (ad, ad, loose_eq (JStr ad) (pget st ''allow''))) [''allow'', ''deny''],
                mv_workgroups = wcs, mv_entities = ecs, mv_low = to_str (pget st ''low''), mv_high = to_str (pget st ''high''),
                mv_button = (if new then ''Create ACL'' else ''Save changes'')\<rparr>), st'))
         | _ \<Rightarrow> (Inl TypeError, st)))
   | _ \<Rightarrow> (Inl TypeError, st))"

text \<open>What the drawing does once all its answers are there; the first one is used for an
  existing rule only.\<close>

definition ACLModal_answer :: "jsval \<Rightarrow> jsval \<Rightarrow> jsval \<Rightarrow> jsval \<Rightarrow> jsval \<Rightarrow> props \<Rightarrow> modal_view res \<times> props" where
  "ACLModal_answer aclID interfaceID acl workgroups entities st =
     (if strict_eq aclID (JNum (- 1))
      then draw_modal aclID True workgroups entities (psets st (acl_defaults @ [(''interfaceID'', interfaceID)]))
      else if is_nullish acl then (Inl TypeError, st)
      else draw_modal aclID False workgroups entities (psets st (acl_fields (as_props acl))))"

definition ACLModal_render :: "env \<Rightarrow> jsval \<Rightarrow> jsval \<Rightarrow> props \<Rightarrow> (modal_view res \<times> props) io" where
  "ACLModal_render E aclID interfaceID st =
     io_bind (if strict_eq aclID (JNum (- 1)) then io_ret JNull else getACL E aclID) (\<lambda>acl.
     io_bind (getAllWorkgroups E) (\<lambda>workgroups.
     io_bind (getEntitiesAll E (pget st ''workgroupID'') JUndef) (\<lambda>entities.
     io_ret (ACLModal_answer aclID interfaceID acl workgroups entities st))))"

text \<open>The input handlers of the dialog store the text of the element.\<close>

definition setSelectedWorkgroupID :: "string \<Rightarrow> props \<Rightarrow> props" where
  "setSelectedWorkgroupID v st = pset st ''selectedWorkgroupID'' (JStr v)"

definition setEntityID :: "string \<Rightarrow> props \<Rightarrow> props" where
  "setEntityID v st = pset st ''entityID'' (JStr v)"

definition setAllow :: "string \<Rightarrow> props \<Rightarrow> props" where
  "setAllow v st = pset st ''allow'' (JStr v)"

definition setLow :: "string \<Rightarrow> props \<Rightarrow> props" where
  "setLow v st = pset st ''low'' (JStr v)"

definition setHigh :: "string \<Rightarrow> props \<Rightarrow> props" where
  "setHigh v st = pset st ''high'' (JStr v)"

definition setNotes :: "string \<Rightarrow> props \<Rightarrow> props" where
  "setNotes v st = pset st ''notes'' (JStr v)"

section \<open>The page (\<^verbatim>\<open>acl.js\<close>)\<close>

record acl_update =
  up_interface :: jsval
  up_acl :: jsval
  up_editor :: "acl_list res option"
  up_modal :: "modal_view res option"
  up_list :: "intf_row list res option"
  up_done :: bool

record acl_page =
  ac_interface :: jsval
  ac_acl :: jsval
  ac_modal :: props
  ac_updates :: "acl_update list"
  ac_shown :: "(acl_list \<times> modal_view \<times> intf_row list) option"

text \<open>A call of \<open>update\<close>: the three drawings start for the selection of this moment.\<close>

definition update :: "acl_page \<Rightarrow> acl_page" where
  "update P = P\<lparr>ac_updates := ac_updates P @ [\<lparr>up_interface = ac_interface P, up_acl = ac_acl P,
     up_editor = None, up_modal = None, up_list = None, up_done = False\<rparr>]\<rparr>"

definition selectInterface :: "jsval \<Rightarrow> acl_page \<Rightarrow> acl_page" where
  "selectInterface i P = update (P\<lparr>ac_interface := i\<rparr>)"

definition selectACL :: "jsval \<Rightarrow> acl_page \<Rightarrow> acl_page" where
  "selectACL i P = update (P\<lparr>ac_acl := i\<rparr>)"

definition acl_start :: "jsval \<Rightarrow> acl_page" where
  "acl_start workgroupID = update \<lparr>ac_interface = JNum (- 1), ac_acl = JNum (- 1), ac_modal = new_ACLModal workgroupID,
     ac_updates = [], ac_shown = None\<rparr>"

definition set_update :: "nat \<Rightarrow> acl_update \<Rightarrow> acl_page \<Rightarrow> acl_page" where
  "set_update k u P = P\<lparr>ac_updates := (ac_updates P)[k := u]\<rparr>"

text \<open>The drawings of call \<open>k\<close> get their answers.\<close>

definition editor_answer :: "nat \<Rightarrow> jsval \<Rightarrow> acl_page \<Rightarrow> acl_page" where
  "editor_answer k acls P = (let u = ac_updates P ! k
     in set_update k (u\<lparr>up_editor := Some (ACLList_rows (up_interface u) acls)\<rparr>) P)"

definition modal_answer :: "nat \<Rightarrow> jsval \<Rightarrow> jsval \<Rightarrow> jsval \<Rightarrow> acl_page \<Rightarrow> acl_page" where
  "modal_answer k acl workgroups entities P = (let u = ac_updates P ! k
     in case ACLModal_answer (up_acl u) (up_interface u) acl workgroups entities (ac_modal P) of
       (r, st) \<Rightarrow> set_update k (u\<lparr>up_modal := Some r\<rparr>) (P\<lparr>ac_modal := st\<rparr>))"

definition list_answer :: "nat \<Rightarrow> jsval \<Rightarrow> acl_page \<Rightarrow> acl_page" where
  "list_answer k intfs P = (let u = ac_updates P ! k; r = InterfaceList_rows (up_interface u) intfs;
       P' = set_update k (u\<lparr>up_list := Some (rbind r (\<lambda>x. Inr (fst x)))\<rparr>) P
     in case r of Inr (_, Some i) \<Rightarrow> selectInterface i P' | _ \<Rightarrow> P')"

text \<open>With all three parts drawn, a call replaces what the page shows; when a drawing failed it
  never gets there.\<close>

fun drawn :: "acl_update \<Rightarrow> (acl_list \<times> modal_view \<times> intf_row list) option" where
  "drawn u = (case (up_editor u, up_modal u, up_list u) of
     (Some (Inr e), Some (Inr m), Some (Inr l)) \<Rightarrow> Some (e, m, l)
   | _ \<Rightarrow> None)"

definition finish_update :: "nat \<Rightarrow> acl_page \<Rightarrow> acl_page" where
  "finish_update k P = (let u = ac_updates P ! k
     in set_update k (u\<lparr>up_done := True\<rparr>) (P\<lparr>ac_shown := drawn u\<rparr>))"

section \<open>The handlers\<close>

text \<open>The buttons of the dialog and of the rows: the request a handler sends, and what its
  continuation does to the page when the answer has come.\<close>

definition acl_modal_id :: string where "acl_modal_id = ''#myModal''"

definition saveACL :: "env \<Rightarrow> props \<Rightarrow> (acl_page \<Rightarrow> acl_page) io" where
  "saveACL E st = io_bind (if strict_eq (pget st ''aclID'') (JNum (- 1)) then addACL E st else modifyACL E st) (\<lambda>_.
     io_bind (emit (ModalHide acl_modal_id)) (\<lambda>_. io_ret update))"

definition showAddACLModal :: "(acl_page \<Rightarrow> acl_page) io" where
  "showAddACLModal = io_bind (emit (ModalShow acl_modal_id)) (\<lambda>_. io_ret (selectACL (JNum (- 1))))"

definition showEditACLModal :: "jsval \<Rightarrow> (acl_page \<Rightarrow> acl_page) io" where
  "showEditACLModal aclID = io_bind (emit (ModalShow acl_modal_id)) (\<lambda>_. io_ret (selectACL aclID))"

definition hideEditACLModal :: "(acl_page \<Rightarrow> acl_page) io" where
  "hideEditACLModal = io_bind (emit (ModalHide acl_modal_id)) (\<lambda>_. io_ret (selectACL (JNum (- 1))))"

definition confirmAndDeleteACL :: "env \<Rightarrow> jsval \<Rightarrow> (acl_page \<Rightarrow> acl_page) io" where
  "confirmAndDeleteACL E aclID =
     io_bind (confirm E ''You are about to remove an acl. This CANNOT be undone! Are you sure you want to proceed?'') (\<lambda>ok.
     if \<not> ok then io_ret id
     else io_bind (deleteACL E aclID) (\<lambda>_. io_ret (selectACL (JNum (- 1)))))"

definition priority_acl :: "jsval \<Rightarrow> jsval \<Rightarrow> jsval \<Rightarrow> jsval \<Rightarrow> jsval \<Rightarrow> jsval \<Rightarrow> jsval \<Rightarrow> props" where
  "priority_acl aclID position allow_deny low high workgroupID entityID =
     [(''aclID'', aclID), (''position'', position), (''low'', low), (''high'', high), (''allow'', allow_deny),
      (''selectedWorkgroupID'', workgroupID), (''entityID'', entityID)]"

definition increaseACLPriority :: "env \<Rightarrow> jsval \<Rightarrow> jsval \<Rightarrow> jsval \<Rightarrow> jsval \<Rightarrow> jsval \<Rightarrow> jsval \<Rightarrow> jsval \<Rightarrow> (acl_page \<Rightarrow> acl_page) io" where
  "increaseACLPriority E aclID position allow_deny low high workgroupID entityID =
     io_bind (modifyACL E (priority_acl aclID (js_minus position 10) allow_deny low high workgroupID entityID)) (\<lambda>_.
     io_ret (selectACL (JNum (- 1))))"

definition decreaseACLPriority :: "env \<Rightarrow> jsval \<Rightarrow> jsval \<Rightarrow> jsval \<Rightarrow> jsval \<Rightarrow> jsval \<Rightarrow> jsval \<Rightarrow> jsval \<Rightarrow> (acl_page \<Rightarrow> acl_page) io" where
  "decreaseACLPriority E aclID position allow_deny low high workgroupID entityID =
     io_bind (modifyACL E (priority_acl aclID (js_plus position 10) allow_deny low high workgroupID entityID)) (\<lambda>_.
     io_ret (selectACL (JNum (- 1))))"

text \<open>The arrows of a row call these with the row's values, written into the page as text.\<close>

definition row_args :: "acl_row \<Rightarrow> jsval list res" where
  "row_args r = rmap literal_arg [ar_id r, ar_position r, ar_start r, ar_end r, ar_workgroup r, ar_entity r]"

definition row_up :: "env \<Rightarrow> acl_row \<Rightarrow> (acl_page \<Rightarrow> acl_page) io" where
  "row_up E r = io_bind (io_lift (row_args r)) (\<lambda>as'. case as' of
     [i, p, s, e, w, n] \<Rightarrow> increaseACLPriority E i p (JStr (ar_allow r)) s e w n
   | _ \<Rightarrow> io_lift (Inl TypeError))"

definition row_down :: "env \<Rightarrow> acl_row \<Rightarrow> (acl_page \<Rightarrow> acl_page) io" where
  "row_down E r = io_bind (io_lift (row_args r)) (\<lambda>as'. case as' of
     [i, p, s, e, w, n] \<Rightarrow> decreaseACLPriority E i p (JStr (ar_allow r)) s e w n
   | _ \<Rightarrow> io_lift (Inl TypeError))"

section \<open>Interleavings\<close>

text \<open>The steps of the page without the user: an answer arrives, or a call ends.  The server
  lists the interfaces \<open>intfs\<close>; its other answers are arbitrary.\<close>

inductive acl_step :: "jsval \<Rightarrow> acl_page \<Rightarrow> acl_page \<Rightarrow> bool" for intfs where
  step_editor: "k < length (ac_updates P) \<Longrightarrow> up_editor (ac_updates P ! k) = None \<Longrightarrow> acl_step intfs P (editor_answer k acls P)"
| step_modal: "k < length (ac_updates P) \<Longrightarrow> up_modal (ac_updates P ! k) = None \<Longrightarrow>
    acl_step intfs P (modal_answer k acl workgroups entities P)"
| step_list: "k < length (ac_updates P) \<Longrightarrow> up_list (ac_updates P ! k) = None \<Longrightarrow> acl_step intfs P (list_answer k intfs P)"
| step_finish: "k < length (ac_updates P) \<Longrightarrow> drawn (ac_updates P ! k) \<noteq> None \<Longrightarrow> \<not> up_done (ac_updates P ! k) \<Longrightarrow>
    acl_step intfs P (finish_update k P)"

end
