(* ===== verification/AclTheorems.thy ===== *)
theory AclTheorems
  imports AclPage
begin

text \<open>
  The page for access control lists: it settles in whatever order the server answers, and
  what it shows then; and the requests the dialog sends.
\<close>

section \<open>Settling\<close>

text \<open>What a call of \<open>update\<close> can still cause: its own four steps, and the four of the call it
  makes when no interface is selected.\<close>

definition call_weight :: "acl_update \<Rightarrow> nat" where
  "call_weight u = (if up_editor u = None then 1 else 0) + (if up_modal u = None then 1 else 0) + (if up_done u then 0 else 1) +
     (if up_list u = None then if loose_eq (up_interface u) (JNum (- 1)) then 5 else 1 else 0)"

definition page_weight :: "acl_page \<Rightarrow> nat" where
  "page_weight P = sum_list (map call_weight (ac_updates P))"

text \<open>The interface a call without a selection selects.\<close>

definition first_interface :: "jsval list \<Rightarrow> jsval option" where
  "first_interface vs = (case vs of [] \<Rightarrow> None | v # _ \<Rightarrow> if is_nullish v then None else Some (pget (as_props v) ''interface_id''))"

definition selects :: "jsval list \<Rightarrow> acl_update \<Rightarrow> jsval option" where
  "selects vs u = (if loose_eq (up_interface u) (JNum (- 1)) then first_interface vs else None)"

lemma length_set_update [simp]: "length (ac_updates (set_update k u P)) = length (ac_updates P)"
  by (simp add: set_update_def)

lemma set_update_fields [simp]:
  "ac_updates (set_update k u P) = (ac_updates P)[k := u]" "ac_interface (set_update k u P) = ac_interface P"
  "ac_acl (set_update k u P) = ac_acl P" "ac_shown (set_update k u P) = ac_shown P" "ac_modal (set_update k u P) = ac_modal P"
  by (simp_all add: set_update_def)

lemma update_fields [simp]:
  "ac_updates (update P) = ac_updates P @ [\<lparr>up_interface = ac_interface P, up_acl = ac_acl P,
     up_editor = None, up_modal = None, up_list = None, up_done = False\<rparr>]"
  "ac_interface (update P) = ac_interface P" "ac_acl (update P) = ac_acl P" "ac_shown (update P) = ac_shown P"
  by (simp_all add: update_def)

lemma interface_rows_cases:
  "case InterfaceList_rows (up_interface u) (JArr vs) of
     Inr (_, Some i) \<Rightarrow> selects vs u = Some i | _ \<Rightarrow> selects vs u = None"
  by (cases vs) (auto simp: InterfaceList_rows_def selects_def first_interface_def split: sum.splits option.splits dest!: rbind_Inr_iff [THEN iffD1])

text \<open>The effect of the answers on the calls and on the selection.\<close>

lemma editor_answer_calls:
  "\<exists>r. ac_updates (editor_answer k v P) = (ac_updates P)[k := (ac_updates P ! k)\<lparr>up_editor := Some r\<rparr>]"
  "ac_interface (editor_answer k v P) = ac_interface P"
  by (auto simp: editor_answer_def Let_def)

lemma modal_answer_calls:
  "\<exists>r. ac_updates (modal_answer k a w e P) = (ac_updates P)[k := (ac_updates P ! k)\<lparr>up_modal := Some r\<rparr>]"
  "ac_interface (modal_answer k a w e P) = ac_interface P"
  by (auto simp: modal_answer_def Let_def split: prod.split)

lemma finish_update_calls:
  "ac_updates (finish_update k P) = (ac_updates P)[k := (ac_updates P ! k)\<lparr>up_done := True\<rparr>]"
  "ac_interface (finish_update k P) = ac_interface P"
  by (auto simp: finish_update_def Let_def)

lemma list_answer_calls:
  "\<exists>r. ac_updates (list_answer k (JArr vs) P) = (ac_updates P)[k := (ac_updates P ! k)\<lparr>up_list := Some r\<rparr>] @
     (case selects vs (ac_updates P ! k) of None \<Rightarrow> [] | Some i \<Rightarrow> [\<lparr>up_interface = i, up_acl = ac_acl P,
        up_editor = None, up_modal = None, up_list = None, up_done = False\<rparr>])"
  "ac_interface (list_answer k (JArr vs) P) = (case selects vs (ac_updates P ! k) of None \<Rightarrow> ac_interface P | Some i \<Rightarrow> i)"
  using interface_rows_cases [of vs "ac_updates P ! k"]
  by (auto simp: list_answer_def Let_def selectInterface_def split: sum.splits option.splits prod.splits)

lemma sum_list_replace:
  "k < length us \<Longrightarrow> f u < f (us ! k) \<Longrightarrow> sum_list (map f (us[k := u])) < sum_list (map f (us :: 'b list) :: nat list)"
proof (induction us arbitrary: k)
  case (Cons a us)
  then show ?case by (cases k) auto
qed simp

lemma acl_step_weight:
  assumes "acl_step (JArr vs) P Q" and "\<And>i. first_interface vs = Some i \<Longrightarrow> \<not> loose_eq i (JNum (- 1))"
  shows "page_weight Q < page_weight P"
  using assms(1)
proof cases
  case (step_editor k acls)
  with editor_answer_calls(1) [of k acls P] show ?thesis
    by (auto simp: page_weight_def call_weight_def intro!: sum_list_replace)
next
  case (step_modal k acl workgroups entities)
  with modal_answer_calls(1) [of k acl workgroups entities P] show ?thesis
    by (auto simp: page_weight_def call_weight_def intro!: sum_list_replace)
next
  case (step_finish k)
  then show ?thesis
    by (auto simp: finish_update_calls page_weight_def call_weight_def intro!: sum_list_replace)
next
  case (step_list k)
  let ?u = "ac_updates P ! k"
  obtain r where r: "ac_updates Q = (ac_updates P)[k := ?u\<lparr>up_list := Some r\<rparr>] @
     (case selects vs ?u of None \<Rightarrow> [] | Some i \<Rightarrow> [\<lparr>up_interface = i, up_acl = ac_acl P,
        up_editor = None, up_modal = None, up_list = None, up_done = False\<rparr>])"
    using list_answer_calls(1) step_list(1) by blast
  have k: "map call_weight (ac_updates P) ! k = call_weight ?u" using step_list(2) by simp
  have "sum_list (map call_weight ((ac_updates P)[k := ?u\<lparr>up_list := Some r\<rparr>])) + call_weight ?u =
      page_weight P + call_weight (?u\<lparr>up_list := Some r\<rparr>)"
    using step_list(2) member_le_sum_list [of "call_weight ?u" "map call_weight (ac_updates P)"]
    by (simp add: page_weight_def map_update sum_list_update k nth_mem)
  with r step_list(3) assms(2) show ?thesis
    by (auto simp: page_weight_def call_weight_def selects_def split: option.splits if_splits)
qed

text \<open>How the calls and the selection are related.\<close>

definition acl_calls :: "jsval list \<Rightarrow> acl_page \<Rightarrow> bool" where
  "acl_calls vs P \<longleftrightarrow> (\<exists>u us. ac_updates P = u # us \<and> up_interface u = JNum (- 1) \<and>
     (if up_list u = None \<or> first_interface vs = None then us = [] \<and> ac_interface P = JNum (- 1)
      else (\<exists>w. us = [w] \<and> first_interface vs = Some (up_interface w) \<and> ac_interface P = up_interface w)))"

lemma acl_calls_keep:
  assumes "acl_calls vs P" and "k < length (ac_updates P)" and "ac_updates Q = (ac_updates P)[k := x]" and "ac_interface Q = ac_interface P"
    and "up_interface x = up_interface (ac_updates P ! k)" and "(up_list x = None) = (up_list (ac_updates P ! k) = None)"
  shows "acl_calls vs Q"
proof -
  obtain u us where u: "ac_updates P = u # us" and c: "up_interface u = JNum (- 1)"
      "if up_list u = None \<or> first_interface vs = None then us = [] \<and> ac_interface P = JNum (- 1)
       else (\<exists>w. us = [w] \<and> first_interface vs = Some (up_interface w) \<and> ac_interface P = up_interface w)"
    using assms(1) unfolding acl_calls_def by blast
  show ?thesis
  proof (cases k)
    case 0
    then show ?thesis using u c assms(3-6) unfolding acl_calls_def by auto
  next
    case (Suc j)
    then have "us \<noteq> []" using assms(2) u by auto
    with c(2) have l: "up_list u \<noteq> None" "first_interface vs \<noteq> None" by (auto split: if_splits)
    then obtain w where w: "us = [w]" "first_interface vs = Some (up_interface w)" "ac_interface P = up_interface w"
      using c(2) by auto
    with assms(2) u Suc have "j = 0" by simp
    with Suc u w assms(3-5) have "ac_updates Q = [u, x]" "up_interface x = up_interface w" "ac_interface Q = up_interface x" by auto
    with c(1) l w(2) show ?thesis unfolding acl_calls_def by auto
  qed
qed

lemma acl_calls_step:
  assumes "acl_step (JArr vs) P Q" and "acl_calls vs P" and "\<And>i. first_interface vs = Some i \<Longrightarrow> \<not> loose_eq i (JNum (- 1))"
  shows "acl_calls vs Q"
  using assms(1)
proof cases
  case (step_editor k acls)
  obtain r where "ac_updates Q = (ac_updates P)[k := (ac_updates P ! k)\<lparr>up_editor := Some r\<rparr>]"
    using editor_answer_calls(1) step_editor(1) by blast
  with acl_calls_keep [OF assms(2) step_editor(2) this] step_editor(1) show ?thesis by (simp add: editor_answer_calls)
next
  case (step_modal k acl workgroups entities)
  obtain r where "ac_updates Q = (ac_updates P)[k := (ac_updates P ! k)\<lparr>up_modal := Some r\<rparr>]"
    using modal_answer_calls(1) step_modal(1) by blast
  with acl_calls_keep [OF assms(2) step_modal(2) this] step_modal(1) show ?thesis by (simp add: modal_answer_calls)
next
  case (step_finish k)
  have "ac_updates Q = (ac_updates P)[k := (ac_updates P ! k)\<lparr>up_done := True\<rparr>]" using step_finish(1) by (simp add: finish_update_calls)
  with acl_calls_keep [OF assms(2) step_finish(2) this] step_finish(1) show ?thesis by (simp add: finish_update_calls)
next
  case (step_list k)
  obtain u us where u: "ac_updates P = u # us" and c: "up_interface u = JNum (- 1)"
      "if up_list u = None \<or> first_interface vs = None then us = [] \<and> ac_interface P = JNum (- 1)
       else (\<exists>w. us = [w] \<and> first_interface vs = Some (up_interface w) \<and> ac_interface P = up_interface w)"
    using assms(2) unfolding acl_calls_def by blast
  have minus: "loose_eq (JNum (- 1)) (JNum (- 1))" by (simp add: loose_eq_def)
  obtain r where r: "ac_updates Q = (ac_updates P)[k := (ac_updates P ! k)\<lparr>up_list := Some r\<rparr>] @
     (case selects vs (ac_updates P ! k) of None \<Rightarrow> [] | Some i \<Rightarrow> [\<lparr>up_interface = i, up_acl = ac_acl P,
        up_editor = None, up_modal = None, up_list = None, up_done = False\<rparr>])"
    using list_answer_calls(1) step_list(1) by blast
  have i: "ac_interface Q = (case selects vs (ac_updates P ! k) of None \<Rightarrow> ac_interface P | Some i \<Rightarrow> i)"
    using step_list(1) by (simp add: list_answer_calls)
  show ?thesis
  proof (cases k)
    case 0
    then have "up_list u = None" using step_list(3) u by simp
    then have us: "us = []" "ac_interface P = JNum (- 1)" using c(2) by auto
    then show ?thesis using r i 0 u c(1) minus unfolding acl_calls_def
      by (cases "first_interface vs") (auto simp: selects_def)
  next
    case (Suc j)
    then have "us \<noteq> []" using step_list(2) u by auto
    with c(2) obtain w where w: "us = [w]" "first_interface vs = Some (up_interface w)" by (auto split: if_splits)
    then have "j = 0" using step_list(2) u Suc by simp
    then have "selects vs (ac_updates P ! k) = None" using w u Suc assms(3) by (auto simp: selects_def)
    with r i have q: "ac_updates Q = (ac_updates P)[k := (ac_updates P ! k)\<lparr>up_list := Some r\<rparr>]" "ac_interface Q = ac_interface P" by auto
    have "ac_updates P ! k = w" using Suc \<open>j = 0\<close> u w by simp
    moreover have "up_list u \<noteq> None" using c(2) \<open>us \<noteq> []\<close> by (auto split: if_splits)
    ultimately show ?thesis using q u c w Suc \<open>j = 0\<close> unfolding acl_calls_def by (auto split: if_splits)
  qed
qed

lemma acl_start_calls: "acl_calls vs (acl_start wg)" "page_weight (acl_start wg) = 8"
  by (simp_all add: acl_calls_def acl_start_def page_weight_def call_weight_def loose_eq_def)

lemma acl_run:
  assumes "(acl_step (JArr vs) ^^ n) P Q" and "acl_calls vs P" and "\<And>i. first_interface vs = Some i \<Longrightarrow> \<not> loose_eq i (JNum (- 1))"
  shows "acl_calls vs Q \<and> n + page_weight Q \<le> page_weight P"
  using assms(1)
proof (induction n arbitrary: Q)
  case (Suc n)
  then obtain R where R: "(acl_step (JArr vs) ^^ n) P R" "acl_step (JArr vs) R Q" by (auto elim: relpowp_Suc_E)
  have "acl_calls vs Q" using acl_calls_step [OF R(2)] Suc.IH [OF R(1)] assms(3) by blast
  moreover have "page_weight Q < page_weight R" using acl_step_weight [OF R(2)] assms(3) by blast
  ultimately show ?case using Suc.IH [OF R(1)] by simp
qed (use assms(2) in simp)

lemma acl_quiet:
  assumes "\<nexists>Q. acl_step intfs P Q" and "u \<in> set (ac_updates P)"
  shows "up_done u \<or> (\<exists>e. up_editor u = Some (Inl e) \<or> up_modal u = Some (Inl e) \<or> up_list u = Some (Inl e))"
    and "up_list u \<noteq> None"
proof -
  obtain k where k: "k < length (ac_updates P)" "u = ac_updates P ! k" using assms(2) by (metis in_set_conv_nth)
  have "up_editor u \<noteq> None" using assms(1) k acl_step.step_editor by blast
  moreover have "up_modal u \<noteq> None" using assms(1) k acl_step.step_modal by blast
  moreover show l: "up_list u \<noteq> None" using assms(1) k acl_step.step_list by blast
  moreover have "up_done u \<or> drawn u = None" using assms(1) k acl_step.step_finish by blast
  ultimately show "up_done u \<or> (\<exists>e. up_editor u = Some (Inl e) \<or> up_modal u = Some (Inl e) \<or> up_list u = Some (Inl e))"
    by (auto split: option.splits sum.splits)
qed

text \<open>A run in which the second call of \<open>update\<close> ends before the first one; the server knows
  neither rules nor workgroups nor entities.\<close>

definition overtaken :: "jsval \<Rightarrow> jsval list \<Rightarrow> acl_page" where
  "overtaken wg vs = finish_update 0 (finish_update 1 (list_answer 1 (JArr vs) (modal_answer 1 JNull (JArr []) (JArr []) (editor_answer 1 (JArr [])
     (list_answer 0 (JArr vs) (modal_answer 0 JNull (JArr []) (JArr []) (editor_answer 0 (JArr []) (acl_start wg))))))))"

lemma acl_step_then: "(acl_step intfs ^^ n) P Q \<Longrightarrow> acl_step intfs Q R \<Longrightarrow> (acl_step intfs ^^ Suc n) P R"
  by (rule relpowp_Suc_I)

lemma rows_of_interfaces: "\<not> list_ex is_nullish vs \<Longrightarrow> \<exists>rs. rmap (intf_row_of i) vs = Inr rs"
  by (induction vs) (auto simp: intf_row_of_def Let_def)

lemma overtaken_run:
  assumes "\<not> list_ex is_nullish vs" and "first_interface vs = Some i" and "\<not> loose_eq i (JNum (- 1))"
  shows "(acl_step (JArr vs) ^^ 8) (acl_start wg) (overtaken wg vs)"
    and "ac_interface (overtaken wg vs) = i"
    and "\<exists>m. ac_shown (overtaken wg vs) = Some (\<lparr>al_interface = JNum (- 1), al_rows = []\<rparr>, m, [])"
proof -
  obtain v vs' where vs: "vs = v # vs'" "\<not> is_nullish v" "pget (as_props v) ''interface_id'' = i"
    using assms(2) by (auto simp: first_interface_def split: list.splits if_splits)
  obtain rs where rs: "rmap (intf_row_of i) vs = Inr rs" using rows_of_interfaces [OF assms(1)] by blast
  have minus: "loose_eq (JNum (- 1)) (JNum (- 1))" by (simp add: loose_eq_def)
  have l: "InterfaceList_rows (JNum (- 1)) (JArr vs) = Inr ([], Some i)" "InterfaceList_rows i (JArr vs) = Inr (rs, None)"
    using vs assms(3) rs minus by (simp_all add: InterfaceList_rows_def)
  obtain m st where m: "ACLModal_answer (JNum (- 1)) (JNum (- 1)) JNull (JArr []) (JArr []) (new_ACLModal wg) = (Inr m, st)"
    by (simp add: ACLModal_answer_def draw_modal_def choice_of_def Let_def)
  obtain m' st' where m': "ACLModal_answer (JNum (- 1)) i JNull (JArr []) (JArr []) st = (Inr m', st')"
    by (simp add: ACLModal_answer_def draw_modal_def choice_of_def Let_def)
  let ?e = "\<lambda>i. \<lparr>al_interface = i, al_rows = []\<rparr>"
  let ?fresh = "\<lambda>i. \<lparr>up_interface = i, up_acl = JNum (- 1), up_editor = None, up_modal = None, up_list = None, up_done = False\<rparr>"
  let ?first = "\<lparr>up_interface = JNum (- 1), up_acl = JNum (- 1), up_editor = Some (Inr (?e (JNum (- 1)))), up_modal = Some (Inr m), up_list = Some (Inr []), up_done = False\<rparr>"
  let ?second = "\<lparr>up_interface = i, up_acl = JNum (- 1), up_editor = Some (Inr (?e i)), up_modal = Some (Inr m'), up_list = Some (Inr rs), up_done = False\<rparr>"
  let ?A = "editor_answer 0 (JArr []) (acl_start wg)"
  let ?B = "modal_answer 0 JNull (JArr []) (JArr []) ?A"
  let ?C = "list_answer 0 (JArr vs) ?B"
  let ?D = "editor_answer 1 (JArr []) ?C"
  let ?F = "modal_answer 1 JNull (JArr []) (JArr []) ?D"
  let ?G = "list_answer 1 (JArr vs) ?F"
  have A: "?A = \<lparr>ac_interface = JNum (- 1), ac_acl = JNum (- 1), ac_modal = new_ACLModal wg,
      ac_updates = [(?fresh (JNum (- 1)))\<lparr>up_editor := Some (Inr (?e (JNum (- 1))))\<rparr>], ac_shown = None\<rparr>"
    by (simp add: editor_answer_def acl_start_def update_def Let_def set_update_def ACLList_rows_def)
  have B: "?B = \<lparr>ac_interface = JNum (- 1), ac_acl = JNum (- 1), ac_modal = st,
      ac_updates = [?first\<lparr>up_list := None\<rparr>], ac_shown = None\<rparr>"
    unfolding A by (simp add: modal_answer_def Let_def set_update_def m)
  have C: "?C = \<lparr>ac_interface = i, ac_acl = JNum (- 1), ac_modal = st, ac_updates = [?first, ?fresh i], ac_shown = None\<rparr>"
    unfolding B by (simp add: list_answer_def Let_def set_update_def l selectInterface_def update_def)
  have D: "?D = \<lparr>ac_interface = i, ac_acl = JNum (- 1), ac_modal = st, ac_updates = [?first, (?fresh i)\<lparr>up_editor := Some (Inr (?e i))\<rparr>], ac_shown = None\<rparr>"
    unfolding C by (simp add: editor_answer_def Let_def set_update_def ACLList_rows_def)
  have F: "?F = \<lparr>ac_interface = i, ac_acl = JNum (- 1), ac_modal = st', ac_updates = [?first, ?second\<lparr>up_list := None\<rparr>], ac_shown = None\<rparr>"
    unfolding D by (simp add: modal_answer_def Let_def set_update_def m')
  have G: "?G = \<lparr>ac_interface = i, ac_acl = JNum (- 1), ac_modal = st', ac_updates = [?first, ?second], ac_shown = None\<rparr>"
    unfolding F by (simp add: list_answer_def Let_def set_update_def l)
  have H: "finish_update 1 ?G = \<lparr>ac_interface = i, ac_acl = JNum (- 1), ac_modal = st', ac_updates = [?first, ?second\<lparr>up_done := True\<rparr>],
      ac_shown = Some (?e i, m', rs)\<rparr>"
    unfolding G by (simp add: finish_update_def Let_def set_update_def)
  have "(acl_step (JArr vs) ^^ Suc 0) (acl_start wg) ?A"
    by (rule acl_step_then [of 0], simp, rule acl_step.step_editor) (simp_all add: acl_start_def)
  then have "(acl_step (JArr vs) ^^ Suc (Suc 0)) (acl_start wg) ?B" by (rule acl_step_then, intro acl_step.step_modal) (unfold A, simp_all)
  then have "(acl_step (JArr vs) ^^ Suc (Suc (Suc 0))) (acl_start wg) ?C" by (rule acl_step_then, intro acl_step.step_list) (unfold B, simp_all)
  then have "(acl_step (JArr vs) ^^ Suc (Suc (Suc (Suc 0)))) (acl_start wg) ?D" by (rule acl_step_then, intro acl_step.step_editor) (unfold C, simp_all)
  then have "(acl_step (JArr vs) ^^ Suc (Suc (Suc (Suc (Suc 0))))) (acl_start wg) ?F" by (rule acl_step_then, intro acl_step.step_modal) (unfold D, simp_all)
  then have "(acl_step (JArr vs) ^^ Suc (Suc (Suc (Suc (Suc (Suc 0)))))) (acl_start wg) ?G" by (rule acl_step_then, intro acl_step.step_list) (unfold F, simp_all)
  then have "(acl_step (JArr vs) ^^ Suc (Suc (Suc (Suc (Suc (Suc (Suc 0))))))) (acl_start wg) (finish_update 1 ?G)"
    by (rule acl_step_then, intro acl_step.step_finish) (unfold G, simp_all)
  then have "(acl_step (JArr vs) ^^ Suc (Suc (Suc (Suc (Suc (Suc (Suc (Suc 0)))))))) (acl_start wg) (finish_update 0 (finish_update 1 ?G))"
    by (rule acl_step_then, intro acl_step.step_finish) (unfold H, simp_all)
  then show "(acl_step (JArr vs) ^^ 8) (acl_start wg) (overtaken wg vs)" unfolding overtaken_def by (simp add: eval_nat_numeral)
  show "ac_interface (overtaken wg vs) = i" "\<exists>m. ac_shown (overtaken wg vs) = Some (?e (JNum (- 1)), m, [])"
    unfolding overtaken_def H by (simp_all add: finish_update_def Let_def set_update_def)
qed

section \<open>The requests of the dialog\<close>

lemma shown_numbers:
  "show_int (- 1) = ''-1''" "show_int 2 = ''2''" "show_int 3 = ''3''" "show_int 5 = ''5''" "show_int 7 = ''7''" "show_int 4095 = ''4095''"
  by (simp_all add: show_int_def digit_chr_def show_nat.simps digits10_def)

lemma entity_choices_keeps: "\<not> strict_eq (pget st ''entityID'') (JNum (- 1)) \<Longrightarrow> snd (entity_choices st es) = st"
  by (induction es) (auto split: prod.splits)

lemma draw_modal_parts:
  assumes "draw_modal aclID new workgroups entities st = (Inr view, st')"
  obtains ws es where "workgroups = JArr ws" "entities = JArr es" "st' = snd (entity_choices st es)"
    "rmap (choice_of (pget st ''selectedWorkgroupID'') ''workgroup_id'')
       (JObj [(''workgroup_id'', JNum (- 1)), (''name'', JStr ''all'')] # ws) = Inr (mv_workgroups view)"
  using assms by (auto simp: draw_modal_def rbind_Inr_iff split: jsval.splits sum.splits prod.splits)

lemma saveACL_sends:
  "saveACL E st t = (Inr update, t @ [Sent (get_request
     (if strict_eq (pget st ''aclID'') (JNum (- 1)) then addACL_url E st else modifyACL_url E st)), ModalHide acl_modal_id])"
  by (simp add: saveACL_def addACL_def modifyACL_def io_bind_def api_get_eq split: sum.split)

section \<open>Properties\<close>

text \<open>
  (C32) Without the user, the page settles: whatever the server answers and in whatever order, there
  are at most eight steps after the page is loaded, provided that the first interface it
  lists has an identifier other than -1.  When no step is left, every call of \<open>update\<close> has
  drawn the page or failed in one of its parts, there was one call, or two when there is an
  interface, and then the first interface is selected.
\<close>

theorem acl_page_settles:
  assumes "(acl_step (JArr vs) ^^ n) (acl_start wg) P"
    and "\<And>i. first_interface vs = Some i \<Longrightarrow> \<not> loose_eq i (JNum (- 1))"
  shows "n \<le> 8 \<and> ((\<nexists>Q. acl_step (JArr vs) P Q) \<longrightarrow>
    (\<forall>u \<in> set (ac_updates P). up_done u \<or> (\<exists>e. up_editor u = Some (Inl e) \<or> up_modal u = Some (Inl e) \<or> up_list u = Some (Inl e))) \<and>
    (case first_interface vs of None \<Rightarrow> length (ac_updates P) = 1 | Some i \<Rightarrow> length (ac_updates P) = 2 \<and> ac_interface P = i))"
proof -
  have r: "acl_calls vs P" "n \<le> 8" using acl_run [OF assms(1) acl_start_calls(1) assms(2)] acl_start_calls(2) [of wg] by auto
  moreover have "case first_interface vs of None \<Rightarrow> length (ac_updates P) = 1 | Some i \<Rightarrow> length (ac_updates P) = 2 \<and> ac_interface P = i"
    if q: "\<nexists>Q. acl_step (JArr vs) P Q"
    using r(1) acl_quiet(2) [OF q] unfolding acl_calls_def by (auto split: option.splits if_splits)
  ultimately show ?thesis using acl_quiet(1) by blast
qed

theorem acl_page_settles_witness:
  "\<nexists>Q. acl_step (JArr [JObj [(''interface_id'', JNum 7)]]) (overtaken JNull [JObj [(''interface_id'', JNum 7)]]) Q"
proof
  let ?vs = "[JObj [(''interface_id'', JNum 7)]]"
  assume "\<exists>Q. acl_step (JArr ?vs) (overtaken JNull ?vs) Q"
  then obtain Q where Q: "acl_step (JArr ?vs) (overtaken JNull ?vs) Q" ..
  have "\<not> list_ex is_nullish ?vs" "first_interface ?vs = Some (JNum 7)" "\<not> loose_eq (JNum 7) (JNum (- 1))" by code_simp+
  then have "(acl_step (JArr ?vs) ^^ 8) (acl_start JNull) (overtaken JNull ?vs)" and i: "first_interface ?vs = Some (JNum 7)" "\<not> loose_eq (JNum 7) (JNum (- 1))"
    by (simp_all add: overtaken_run(1))
  from acl_step_then [OF this(1) Q] have "(acl_step (JArr ?vs) ^^ 9) (acl_start JNull) Q" by (simp add: eval_nat_numeral)
  from acl_page_settles [OF this] i show False by simp
qed

text \<open>
  Calls of \<open>update\<close> can overtake each other: whenever there is an interface, there is a run after
  which no step is left, the first interface is selected, and yet the page shows an empty
  list of interfaces and the rules of an interface -1.
\<close>

theorem acl_stale_page:
  assumes "\<not> list_ex is_nullish vs" and "first_interface vs = Some i" and "\<not> loose_eq i (JNum (- 1))"
  shows "\<exists>P. (acl_step (JArr vs))\<^sup>*\<^sup>* (acl_start wg) P \<and> (\<nexists>Q. acl_step (JArr vs) P Q) \<and> ac_interface P = i \<and>
    (\<exists>m. ac_shown P = Some (\<lparr>al_interface = JNum (- 1), al_rows = []\<rparr>, m, []))"
proof -
  note run = overtaken_run [OF assms, of wg]
  have "8 + page_weight (overtaken wg vs) \<le> page_weight (acl_start wg)"
    using acl_run [OF run(1) acl_start_calls(1)] assms(2,3) by simp
  then have "page_weight (overtaken wg vs) = 0" by (simp add: acl_start_calls(2))
  then have "\<nexists>Q. acl_step (JArr vs) (overtaken wg vs) Q" using acl_step_weight [of vs "overtaken wg vs"] assms(2,3) by fastforce
  with run show ?thesis by (blast intro: relpowp_imp_rtranclp)
qed

theorem acl_stale_page_witness:
  "\<exists>P. (acl_step (JArr [JObj [(''interface_id'', JNum 7)]]))\<^sup>*\<^sup>* (acl_start (JNum 1)) P \<and> ac_interface P = JNum 7 \<and>
    (\<exists>m. ac_shown P = Some (\<lparr>al_interface = JNum (- 1), al_rows = []\<rparr>, m, []))"
proof -
  let ?vs = "[JObj [(''interface_id'', JNum 7)]]"
  have "\<not> list_ex is_nullish ?vs" "first_interface ?vs = Some (JNum 7)" "\<not> loose_eq (JNum 7) (JNum (- 1))" by code_simp+
  from acl_stale_page [OF this, of "JNum 1"] show ?thesis by blast
qed

text \<open>
  Saving a rule the user did not change sends back what the server said of it: its identifier,
  position, kind, VLANs, interface and entity, with the workgroup -1 when it has none and
  empty notes when it has none; then the dialog is closed and the page drawn anew.
\<close>

theorem acl_edit_request:
  assumes "ACLModal_answer aclID interfaceID (JObj acl) workgroups entities st = (Inr view, st')" and "\<not> strict_eq aclID (JNum (- 1))"
    and "\<not> strict_eq (pget acl ''interface_acl_id'') (JNum (- 1))" and "\<not> strict_eq (pget acl ''entity_id'') (JNum (- 1))"
  shows "saveACL E st' t = (Inr update, t @ [Sent (get_request (manage_url E
      @ ''update_acl&interface_acl_id='' @ to_str (pget acl ''interface_acl_id'')
      @ ''&eval_position='' @ to_str (pget acl ''eval_position'') @ ''&allow_deny='' @ to_str (pget acl ''allow_deny'')
      @ ''&start='' @ to_str (pget acl ''start'') @ ''&interface_id='' @ to_str (pget acl ''interface_id'')
      @ (if truthy (pget acl ''entity_id'') then ''&entity_id='' @ to_str (pget acl ''entity_id'') else [])
      @ ''&workgroup_id='' @ (if truthy (pget acl ''workgroup_id'') then to_str (pget acl ''workgroup_id'') else ''-1'')
      @ ''&end='' @ to_str (pget acl ''end'')
      @ ''&notes='' @ (if truthy (pget acl ''notes'') then to_str (pget acl ''notes'') else []))), ModalHide acl_modal_id])"
proof -
  let ?st = "psets st (acl_fields acl)"
  have d: "draw_modal aclID False workgroups entities ?st = (Inr view, st')"
    using assms(1,2) by (simp add: ACLModal_answer_def)
  have e: "\<not> strict_eq (pget ?st ''entityID'') (JNum (- 1))" using assms(4) by (simp add: acl_fields_def)
  have "st' = ?st" using draw_modal_parts [OF d] entity_choices_keeps [OF e] by metis
  then show ?thesis using assms(3,4)
    by (simp add: saveACL_sends modifyACL_url_def acl_fields_def js_or_def shown_numbers)
qed

theorem acl_edit_request_witness:
  "\<forall>E. \<exists>st. ACLModal_answer (JNum 5) (JNum 7) (JObj [(''interface_acl_id'', JNum 5), (''entity_id'', JNum 3)]) (JArr []) (JArr []) [] = st \<and>
     saveACL E (snd st) [] =
     (Inr update, [Sent (get_request (manage_url E @ ''update_acl&interface_acl_id=5&eval_position=undefined&allow_deny=undefined&start=undefined''
        @ ''&interface_id=undefined&entity_id=3&workgroup_id=-1&end=undefined&notes='')), ModalHide acl_modal_id])"
proof -
  let ?acl = "[(''interface_acl_id'', JNum 5), (''entity_id'', JNum 3)]"
  let ?r = "ACLModal_answer (JNum 5) (JNum 7) (JObj ?acl) (JArr []) (JArr []) []"
  have "\<not> isl (fst ?r)" by code_simp
  then obtain view where "?r = (Inr view, snd ?r)" by (cases ?r; cases "fst ?r") auto
  moreover have "\<not> strict_eq (JNum 5) (JNum (- 1))" "\<not> strict_eq (pget ?acl ''interface_acl_id'') (JNum (- 1))"
    "\<not> strict_eq (pget ?acl ''entity_id'') (JNum (- 1))" by code_simp+
  ultimately have "saveACL E (snd ?r) [] = (Inr update, [] @ [Sent (get_request (manage_url E
      @ ''update_acl&interface_acl_id='' @ to_str (pget ?acl ''interface_acl_id'')
      @ ''&eval_position='' @ to_str (pget ?acl ''eval_position'') @ ''&allow_deny='' @ to_str (pget ?acl ''allow_deny'')
      @ ''&start='' @ to_str (pget ?acl ''start'') @ ''&interface_id='' @ to_str (pget ?acl ''interface_id'')
      @ (if truthy (pget ?acl ''entity_id'') then ''&entity_id='' @ to_str (pget ?acl ''entity_id'') else [])
      @ ''&workgroup_id='' @ (if truthy (pget ?acl ''workgroup_id'') then to_str (pget ?acl ''workgroup_id'') else ''-1'')
      @ ''&end='' @ to_str (pget ?acl ''end'')
      @ ''&notes='' @ (if truthy (pget ?acl ''notes'') then to_str (pget ?acl ''notes'') else []))), ModalHide acl_modal_id])" for E
    by (rule acl_edit_request)
  then show ?thesis by (simp add: shown_numbers)
qed

text \<open>
  A new rule that is saved as the dialog shows it is for all workgroups, and the request
  names none.  But once the user has touched the workgroup box its text is sent, also the
  -1 of the entry for all workgroups, which is the first one of the box.
\<close>

theorem acl_new_request:
  assumes "ACLModal_answer (JNum (- 1)) interfaceID acl workgroups (JArr (e # es)) st = (Inr view, st')"
    and "\<not> strict_eq (pget (as_props e) ''entity_id'') (JNum (- 1))"
  shows "hd (mv_workgroups view) = (''-1'', ''all'', True) \<and>
    saveACL E (case touched of None \<Rightarrow> st' | Some v \<Rightarrow> setSelectedWorkgroupID v st') t =
      (Inr update, t @ [Sent (get_request (manage_url E @ ''add_acl&allow_deny=allow&vlan_start=2''
        @ ''&interface_id='' @ to_str interfaceID @ ''&entity_id='' @ to_str (pget (as_props e) ''entity_id'')
        @ (case touched of None \<Rightarrow> [] | Some v \<Rightarrow> ''&workgroup_id='' @ v) @ ''&vlan_end=4095&notes='')), ModalHide acl_modal_id])"
proof -
  let ?st = "psets st (acl_defaults @ [(''interfaceID'', interfaceID)])"
  have d: "draw_modal (JNum (- 1)) True workgroups (JArr (e # es)) ?st = (Inr view, st')"
    using assms(1) by (simp add: ACLModal_answer_def)
  obtain ws es' where es': "JArr (e # es) = JArr es'" "st' = snd (entity_choices ?st es')"
    and ws: "rmap (choice_of (pget ?st ''selectedWorkgroupID'') ''workgroup_id'')
       (JObj [(''workgroup_id'', JNum (- 1)), (''name'', JStr ''all'')] # ws) = Inr (mv_workgroups view)"
    by (rule draw_modal_parts [OF d])
  have st': "st' = snd (entity_choices ?st (e # es))" using es' by simp
  have "\<not> is_nullish e" using d by (auto simp: draw_modal_def split: jsval.splits sum.splits)
  moreover have "strict_eq (pget ?st ''entityID'') (JNum (- 1))" by (simp add: acl_defaults_def)
  ultimately have "st' = snd (entity_choices (pset ?st ''entityID'' (pget (as_props e) ''entity_id'')) es)"
    unfolding st' by (simp add: Let_def split: prod.split)
  then have st': "st' = pset ?st ''entityID'' (pget (as_props e) ''entity_id'')"
    using entity_choices_keeps [of "pset ?st ''entityID'' (pget (as_props e) ''entity_id'')" es] assms(2) by simp
  have "hd (mv_workgroups view) = (''-1'', ''all'', True)"
    using ws by (auto simp: choice_of_def Let_def acl_defaults_def rbind_Inr_iff loose_eq_def shown_numbers dest!: sym [of _ "mv_workgroups view"])
  then show ?thesis unfolding st'
    by (simp add: saveACL_sends addACL_url_def acl_defaults_def setSelectedWorkgroupID_def shown_numbers split: option.split)
qed

theorem acl_new_request_witness:
  "\<forall>E. saveACL E (setSelectedWorkgroupID ''-1'' (snd (ACLModal_answer (JNum (- 1)) (JNum 7) JNull (JArr []) (JArr [JObj [(''entity_id'', JNum 3)]]) []))) [] =
     (Inr update, [Sent (get_request (manage_url E @ ''add_acl&allow_deny=allow&vlan_start=2&interface_id=7&entity_id=3&workgroup_id=-1&vlan_end=4095&notes='')),
        ModalHide acl_modal_id])"
proof -
  let ?r = "ACLModal_answer (JNum (- 1)) (JNum 7) JNull (JArr []) (JArr [JObj [(''entity_id'', JNum 3)]]) []"
  have "\<not> isl (fst ?r)"
    by (simp add: ACLModal_answer_def draw_modal_def choice_of_def Let_def acl_defaults_def)
  then obtain view where "?r = (Inr view, snd ?r)" by (cases ?r; cases "fst ?r") auto
  moreover have "\<not> strict_eq (pget (as_props (JObj [(''entity_id'', JNum 3)])) ''entity_id'') (JNum (- 1))" by code_simp
  ultimately have "saveACL E (case Some ''-1'' of None \<Rightarrow> snd ?r | Some v \<Rightarrow> setSelectedWorkgroupID v (snd ?r)) [] =
      (Inr update, [] @ [Sent (get_request (manage_url E @ ''add_acl&allow_deny=allow&vlan_start=2''
        @ ''&interface_id='' @ to_str (JNum 7) @ ''&entity_id='' @ to_str (pget (as_props (JObj [(''entity_id'', JNum 3)])) ''entity_id'')
        @ (case Some ''-1'' of None \<Rightarrow> [] | Some v \<Rightarrow> ''&workgroup_id='' @ v) @ ''&vlan_end=4095&notes='')), ModalHide acl_modal_id])" for E
    by (rule acl_new_request [THEN conjunct2])
  then show ?thesis by (simp add: shown_numbers)
qed

end
