(* ===== verification/Phonebook.thy ===== *)
theory Phonebook
  imports ApiData Provisioning
begin

text \<open>
  The pages for network entities: the directory (\<^verbatim>\<open>js_templates/phonebook.js\<close>) with its trail of
  visited entities, its contacts and the controls of those who may manage an entity, and
  the form that adds or edits one (\<^verbatim>\<open>js_templates/entity.js\<close>).

  A handler that throws leaves the page as far as it got, so drawing returns the exception, if
  any, together with the page.
\<close>

section \<open>The directory page\<close>

record contact_item =
  ct_name :: string
  ct_email :: string
  ct_remove :: "jsval list option"

record entity_page =
  pb_logo :: string
  pb_id :: jsval
  pb_name :: string
  pb_connect :: "string option"
  pb_connect_targets :: "string list"
  pb_description :: string
  pb_root :: bool
  pb_crumb_store :: "string option"
  pb_crumbs :: "(jsval \<times> string) list"
  pb_active :: string
  pb_actions :: bool
  pb_children :: "(jsval \<times> string) list"
  pb_contacts_title :: bool
  pb_contacts :: "contact_item list"
  pb_manage :: bool
  pb_users :: "(jsval \<times> string) list"
  pb_hidden :: "string list"
  pb_open :: bool

type_synonym drawing = "unit res \<times> entity_page"

text \<open>A call whose exception ends the handler.\<close>

definition draw_after :: "jsval io \<Rightarrow> entity_page \<Rightarrow> (jsval \<Rightarrow> drawing io) \<Rightarrow> drawing io" where
  "draw_after m P f t = (case m t of (Inl e, t') \<Rightarrow> (Inr (Inl e, P), t') | (Inr v, t') \<Rightarrow> f v t')"

subsection \<open>The trail\<close>

text \<open>
  The stored trail is a list of crumbs with a name and an identifier.  When the parent of the entity
  is on it, \<^verbatim>\<open>crumbs.splice(i, 1)\<close> removes that crumb and returns it, and the trail becomes
  what it returns; otherwise the parent is added.
\<close>

fun find_crumb :: "jsval \<Rightarrow> jsval list \<Rightarrow> jsval option res" where
  "find_crumb n [] = Inr None"
| "find_crumb n (c # cs) =
     (if is_nullish c then Inl TypeError
      else if strict_eq (pget (as_props c) ''name'') n then Inr (Some c) else find_crumb n cs)"

definition next_crumbs :: "props \<Rightarrow> jsval list \<Rightarrow> jsval list res" where
  "next_crumbs parent crumbs = rbind (find_crumb (pget parent ''name'') crumbs) (\<lambda>found. Inr (case found of
     Some c \<Rightarrow> [c]
   | None \<Rightarrow> crumbs @ [JObj [(''name'', pget parent ''name''), (''id'', pget parent ''entity_id'')]]))"

definition crumb_items :: "jsval list \<Rightarrow> (jsval \<times> string) list res" where
  "crumb_items crumbs = rmap (\<lambda>c. if is_nullish c then Inl TypeError
     else Inr (pget (as_props c) ''id'', to_str (pget (as_props c) ''name''))) crumbs"

definition draw_trail :: "props option \<Rightarrow> jsval \<Rightarrow> entity_page \<Rightarrow> drawing" where
  "draw_trail parent name P = (case (parent, pb_crumb_store P) of
     (Some p, Some (ch # cs)) \<Rightarrow>
       (case rbind (json_parse (ch # cs)) (\<lambda>v. case v of JArr crumbs \<Rightarrow> next_crumbs p crumbs | _ \<Rightarrow> Inl TypeError) of
          Inl e \<Rightarrow> (Inl e, P)
        | Inr crumbs \<Rightarrow> (case crumb_items crumbs of
            Inl e \<Rightarrow> (Inl e, P)
          | Inr items \<Rightarrow> (Inr (), P\<lparr>pb_crumb_store := stringify (JArr crumbs), pb_crumbs := items, pb_active := to_str name\<rparr>)))
   | _ \<Rightarrow> (Inr (), P\<lparr>pb_crumb_store := Some ''[]'', pb_crumbs := [], pb_active := to_str name\<rparr>))"

subsection \<open>The entity\<close>

text \<open>The parent: the first of the list, if there is one; an element that is null is no parent.\<close>

definition entity_parent :: "props \<Rightarrow> props option res" where
  "entity_parent ent = (if \<not> phas ent ''parents'' then Inr None else case pget ent ''parents'' of
     JArr [] \<Rightarrow> Inr None
   | JArr (p # _) \<Rightarrow> if strict_eq p JNull then Inr None else Inr (Some (as_props p))
   | _ \<Rightarrow> Inl TypeError)"

definition entity_objects :: "props \<Rightarrow> string \<Rightarrow> props list res" where
  "entity_objects ent k = (case pget ent k of
     JArr vs \<Rightarrow> if list_ex is_nullish vs then Inl TypeError else Inr (map as_props vs) | _ \<Rightarrow> Inl TypeError)"

definition draw_head :: "props \<Rightarrow> props option \<Rightarrow> entity_page \<Rightarrow> entity_page" where
  "draw_head ent parent P = (let name = pget ent ''name''; ident = pget ent ''entity_id'' in
     P\<lparr>pb_logo := to_str (js_or (pget ent ''logo_url'') (JStr ''../media/default_entity.png'')), pb_id := ident,
       pb_name := (case parent of
          Some p \<Rightarrow> to_str name @ '' <small>of <a href='' @ [CHR 0x22] @ ''?action=phonebook&entity_id='' @ to_str (pget p ''entity_id'')
            @ [CHR 0x22] @ ''>'' @ to_str (pget p ''name'') @ ''</a></small>''
        | None \<Rightarrow> html_of name),
       pb_connect := (case parent of Some _ \<Rightarrow> Some (''Create new connection to '' @ to_str name) | None \<Rightarrow> None),
       pb_connect_targets := pb_connect_targets P @
         (case parent of Some _ \<Rightarrow> [''?action=provision_cloud&prepop_vrf_id='' @ to_str ident] | None \<Rightarrow> []),
       pb_description := html_of (pget ent ''description''), pb_root := loose_eq ident (JStr ''1'')\<rparr>)"

text \<open>What is drawn before the contacts: the head, the trail, the actions and the children.\<close>

definition draw_entity_page :: "props \<Rightarrow> entity_page \<Rightarrow> drawing" where
  "draw_entity_page ent P = (case entity_parent ent of
     Inl e \<Rightarrow> (Inl e, P)
   | Inr parent \<Rightarrow> (case draw_trail parent (pget ent ''name'') (draw_head ent parent P) of
       (Inl e, P1) \<Rightarrow> (Inl e, P1)
     | (Inr _, P1) \<Rightarrow> (case pget ent ''interfaces'' of
         JArr ifs \<Rightarrow> (let P2 = P1\<lparr>pb_actions := (ifs \<noteq> [])\<rparr> in case entity_objects ent ''children'' of
           Inl e \<Rightarrow> (Inl e, P2)
         | Inr cs \<Rightarrow> (let P3 = P2\<lparr>pb_children := map (\<lambda>c. (pget c ''entity_id'', to_str (pget c ''name''))) cs\<rparr>
             in case pget ent ''contacts'' of
               JArr ps \<Rightarrow> (Inr (), P3\<lparr>pb_contacts_title := (ps \<noteq> [])\<rparr>)
             | _ \<Rightarrow> (Inl TypeError, P3)))
       | _ \<Rightarrow> (Inl TypeError, P1))))"

subsection \<open>Contacts and rights\<close>

text \<open>Who may manage the entity; the list of valid users is read only when it matters.\<close>

definition may_manage :: "props \<Rightarrow> jsval \<Rightarrow> bool res" where
  "may_manage user valid_users =
     (if loose_eq (pget user ''is_admin'') (JNum 1) \<and> \<not> loose_eq (pget user ''type'') (JStr ''read-only'') then Inr True
      else case valid_users of JArr vs \<Rightarrow> Inr (list_ex (strict_eq (pget user ''user_id'')) vs) | _ \<Rightarrow> Inl TypeError)"

definition contact_of :: "props \<Rightarrow> bool \<Rightarrow> props \<Rightarrow> contact_item" where
  "contact_of ent manage c =
     \<lparr>ct_name = to_str (pget c ''first_name'') @ '' '' @ to_str (pget c ''last_name''), ct_email = to_str (pget c ''email''),
      ct_remove = (if manage then Some [pget c ''user_id'', pget ent ''entity_id'', JStr (to_str (pget ent ''name'')),
        JStr (to_str (pget c ''first_name'')), JStr (to_str (pget c ''last_name''))] else None)\<rparr>"

text \<open>The loops over the contacts and over the users end at an element that is null.\<close>

definition until_null :: "jsval list \<Rightarrow> unit res \<times> props list" where
  "until_null vs = (if list_ex is_nullish vs then Inl TypeError else Inr (), map as_props (takeWhile (\<lambda>v. \<not> is_nullish v) vs))"

definition draw_contacts :: "props \<Rightarrow> jsval \<Rightarrow> jsval \<Rightarrow> entity_page \<Rightarrow> drawing" where
  "draw_contacts ent user valid_users P = (case pget ent ''contacts'' of
     JArr vs \<Rightarrow> (case until_null vs of (r, cs) \<Rightarrow>
       if cs = [] then (r, P\<lparr>pb_contacts := []\<rparr>)
       else (case (if is_nullish user then Inl TypeError else may_manage (as_props user) valid_users) of
           Inl e \<Rightarrow> (Inl e, P\<lparr>pb_contacts := []\<rparr>)
         | Inr manage \<Rightarrow> (r, P\<lparr>pb_contacts := map (contact_of ent manage) cs\<rparr>)))
   | _ \<Rightarrow> (Inl TypeError, P\<lparr>pb_contacts := []\<rparr>))"

text \<open>The users one can add: those who are no contacts yet.\<close>

definition addable_users :: "props \<Rightarrow> props list \<Rightarrow> (jsval \<times> string) list" where
  "addable_users ent us = (let contact_ids = (case pget ent ''contacts'' of JArr vs \<Rightarrow> map (\<lambda>c. pget (as_props c) ''user_id'') vs | _ \<Rightarrow> []) in
     map (\<lambda>u. (pget u ''user_id'', to_str (pget u ''first_name'') @ '' '' @ to_str (pget u ''family_name'')))
       (filter (\<lambda>u. \<not> list_ex (strict_eq (pget u ''user_id'')) contact_ids) us))"

definition draw_controls :: "env \<Rightarrow> props \<Rightarrow> jsval \<Rightarrow> jsval \<Rightarrow> entity_page \<Rightarrow> drawing io" where
  "draw_controls E ent user valid_users P =
     (case (if is_nullish user then Inl TypeError else may_manage (as_props user) valid_users) of
        Inl e \<Rightarrow> io_ret (Inl e, P)
      | Inr False \<Rightarrow> io_ret (Inr (), P\<lparr>pb_manage := False\<rparr>)
      | Inr True \<Rightarrow> (let P1 = P\<lparr>pb_manage := True, pb_users := [], pb_hidden := []\<rparr> in
          draw_after (fetch_json E (get_request (path E @ ''services/data.cgi?action=get_users''))) P1 (\<lambda>data.
          io_ret (case jget data ''results'' of
            Inr (JArr vs) \<Rightarrow> (case until_null vs of (r, us) \<Rightarrow> (r, P1\<lparr>pb_users := addable_users ent us\<rparr>))
          | _ \<Rightarrow> (Inl TypeError, P1)))))"

definition loadEntityList :: "env \<Rightarrow> props \<Rightarrow> jsval \<Rightarrow> entity_page \<Rightarrow> drawing io" where
  "loadEntityList E session parentEntity P =
     draw_after (getEntities E (pget session ''workgroup_id'') (dflt parentEntity JNull) JUndef) P (\<lambda>entity.
       case entity of
         JObj ent \<Rightarrow> (case draw_entity_page ent P of
           (Inl e, P1) \<Rightarrow> io_ret (Inl e, P1)
         | (Inr _, P1) \<Rightarrow> draw_after (getCurrentUser E) P1 (\<lambda>user.
             draw_after (fetch_json E (get_request (path E @ ''services/entity.cgi?action=get_valid_users&entity_id=''
               @ to_str (pget ent ''entity_id'')))) P1 (\<lambda>data.
             case jget data ''results'' of
               Inl e \<Rightarrow> io_ret (Inl e, P1)
             | Inr valid_users \<Rightarrow> (case draw_contacts ent user valid_users P1 of
                 (Inl e, P2) \<Rightarrow> io_ret (Inl e, P2)
               | (Inr _, P2) \<Rightarrow> draw_controls E ent user valid_users P2))))
       | _ \<Rightarrow> io_ret (Inl TypeError, P))"

subsection \<open>Handlers\<close>

definition add_contact :: "env \<Rightarrow> props \<Rightarrow> jsval \<Rightarrow> jsval \<Rightarrow> entity_page \<Rightarrow> drawing io" where
  "add_contact E session user_id entityID P =
     draw_after (add_user E user_id entityID) P (\<lambda>_. loadEntityList E session entityID P)"

definition removeUser :: "env \<Rightarrow> props \<Rightarrow> jsval \<Rightarrow> jsval \<Rightarrow> entity_page \<Rightarrow> drawing io" where
  "removeUser E session user_id entity_id P =
     draw_after (remove_user E user_id entity_id) P (\<lambda>_. loadEntityList E session entity_id P)"

definition showRemoveUserPrompt :: "env \<Rightarrow> props \<Rightarrow> jsval \<Rightarrow> jsval \<Rightarrow> jsval \<Rightarrow> jsval \<Rightarrow> jsval \<Rightarrow> entity_page \<Rightarrow> drawing io" where
  "showRemoveUserPrompt E session user_id entity_id entity_name first_name last_name P =
     io_bind (confirm E (''Are you sure you want to remove '' @ to_str first_name @ '' '' @ to_str last_name @ '' from '' @ to_str entity_name @ ''?'')) (\<lambda>ok.
     if ok then removeUser E session user_id entity_id P else io_ret (Inr (), P))"

definition showDropdown :: "entity_page \<Rightarrow> entity_page" where
  "showDropdown P = P\<lparr>pb_open := \<not> pb_open P\<rparr>"

text \<open>A click anywhere in the page, on one of the two elements of the drop-down list or not.\<close>

definition document_click :: "bool \<Rightarrow> entity_page \<Rightarrow> entity_page" where
  "document_click on_list P = (if \<not> on_list \<and> pb_open P then P\<lparr>pb_open := \<not> pb_open P\<rparr> else P)"

text \<open>The search field of the drop-down list; letters are those of ASCII.\<close>

definition upper_char :: "char \<Rightarrow> char" where
  "upper_char c = (let n = of_char c :: nat in if 97 \<le> n \<and> n \<le> 122 then char_of (n - 32) else c)"

fun occurs_in :: "string \<Rightarrow> string \<Rightarrow> bool" where
  "occurs_in s [] = (s = [])"
| "occurs_in s (c # cs) = (take (length s) (c # cs) = s \<or> occurs_in s cs)"

definition filterFunction :: "string \<Rightarrow> entity_page \<Rightarrow> entity_page" where
  "filterFunction v P = P\<lparr>pb_hidden := filter (\<lambda>s. \<not> occurs_in (map upper_char v) (map upper_char s)) (map snd (pb_users P))\<rparr>"

text \<open>The connections an entity can be added to.\<close>

record connection_row =
  cn_link :: string
  cn_name :: string
  cn_id :: string
  cn_creator :: string

definition connection_row_of :: "jsval \<Rightarrow> jsval \<Rightarrow> connection_row res" where
  "connection_row_of ident v =
     (if is_nullish v then Inl TypeError
      else let c = as_props v in rbind (jget (pget c ''created_by'') ''email'') (\<lambda>email.
        Inr \<lparr>cn_link = ''?action=modify_cloud&vrf_id='' @ to_str (pget c ''vrf_id'') @ ''&prepop_vrf_id='' @ to_str ident,
             cn_name = to_str (pget c ''name''), cn_id = to_str (pget c ''vrf_id''), cn_creator = to_str email\<rparr>))"

definition addToConnectionCallback :: "env \<Rightarrow> props \<Rightarrow> entity_page \<Rightarrow> connection_row list io" where
  "addToConnectionCallback E session P =
     io_bind (emit (ModalShow ''#add-to-connection-modal'')) (\<lambda>_.
     io_bind (getVRFs E (pget session ''workgroup_id'')) (\<lambda>connections. io_lift (case connections of
       JArr vs \<Rightarrow> rmap (connection_row_of (pb_id P)) vs
     | _ \<Rightarrow> Inl TypeError)))"

definition addToConnectionCancelCallback :: "unit io" where
  "addToConnectionCancelCallback = emit (ModalHide ''#add-to-connection-modal'')"

section \<open>The entity form (\<^verbatim>\<open>entity.js\<close>)\<close>

record entity_fields =
  ee_id :: jsval
  ee_name :: string
  ee_description :: string
  ee_logo :: string
  ee_url :: string

text \<open>A text field that is assigned null is empty.\<close>

definition loadEntityContent :: "env \<Rightarrow> props \<Rightarrow> jsval \<Rightarrow> string \<Rightarrow> entity_fields io" where
  "loadEntityContent E session parentEntity action =
     io_bind (getEntities E (pget session ''workgroup_id'') (dflt parentEntity JNull) JUndef) (\<lambda>entity.
     if is_nullish entity then io_lift (Inl TypeError)
     else let ent = as_props entity in io_ret
       (if action = ''edit_entity''
        then \<lparr>ee_id = pget ent ''entity_id'', ee_name = html_of (pget ent ''name''), ee_description = html_of (pget ent ''description''),
              ee_logo = html_of (pget ent ''logo_url''), ee_url = html_of (pget ent ''url'')\<rparr>
        else \<lparr>ee_id = pget ent ''entity_id'', ee_name = [], ee_description = [], ee_logo = [], ee_url = []\<rparr>))"

definition entity_page_url :: "env \<Rightarrow> jsval \<Rightarrow> string" where
  "entity_page_url E ident = path E @ ''index.cgi?action=phonebook&entity_id='' @ to_str ident"

text \<open>The parameter of \<open>add_entity\<close> is misspelt; the name \<open>description\<close> it reads instead is that of the
  element with this identifier, as the browser defines it, which on this page is the same field.\<close>

definition add_entity_click :: "env \<Rightarrow> entity_fields \<Rightarrow> unit io" where
  "add_entity_click E F =
     io_try (io_bind (add_entity E (Some (ee_description F)) (ee_id F) (ee_name F) (ee_description F) (ee_logo F) (ee_url F)) (\<lambda>_.
         emit (Navigate (entity_page_url E (ee_id F)))))
       (\<lambda>error. io_ret ())"

definition edit_entity_click :: "env \<Rightarrow> entity_fields \<Rightarrow> unit io" where
  "edit_entity_click E F =
     io_bind (edit_entity E (ee_id F) (ee_name F) (ee_description F) (ee_logo F) (ee_url F)) (\<lambda>_.
     emit (Navigate (entity_page_url E (ee_id F))))"

definition cancel_entity_click :: "env \<Rightarrow> entity_fields \<Rightarrow> unit io" where
  "cancel_entity_click E F = emit (Navigate (entity_page_url E (ee_id F)))"

section \<open>The trail of a walk\<close>

text \<open>A walk from the root down: each entity, with its name and identifier, is drawn with the one
  before it as its parent.\<close>

definition crumb :: "string \<times> int \<Rightarrow> jsval" where
  "crumb e = JObj [(''name'', JStr (fst e)), (''id'', JNum (snd e))]"

definition parent_of :: "string \<times> int \<Rightarrow> props" where
  "parent_of e = [(''name'', JStr (fst e)), (''entity_id'', JNum (snd e))]"

definition crumb_link :: "string \<times> int \<Rightarrow> jsval \<times> string" where
  "crumb_link e = (JNum (snd e), fst e)"

fun walk :: "props option \<Rightarrow> (string \<times> int) list \<Rightarrow> entity_page \<Rightarrow> drawing" where
  "walk parent [] P = (Inr (), P)"
| "walk parent (e # es) P = (case draw_trail parent (JStr (fst e)) P of
     (Inl x, P') \<Rightarrow> (Inl x, P')
   | (Inr _, P') \<Rightarrow> walk (Some (parent_of e)) es P')"

lemma stored_crumbs:
  "stringify (JArr (map crumb es)) = Some s \<Longrightarrow> s \<noteq> [] \<and> json_parse s = Inr (JArr (map crumb es))"
proof -
  assume "stringify (JArr (map crumb es)) = Some s"
  then have s: "s = json_text (JArr (map crumb es))" by (simp add: stringify_def)
  have "wf_js (JArr (map crumb es))" "json_clean (JArr (map crumb es))" by (auto simp: crumb_def list_all_iff)
  then have "json_parse s = Inr (JArr (map crumb es))" unfolding s using json_parse_text json_norm_clean by metis
  then show ?thesis unfolding s by simp
qed

lemma stored_trail: "\<exists>s. stringify (JArr (map crumb es)) = Some s"
  by (simp add: stringify_def)

lemma find_crumb_map:
  "find_crumb (JStr n) (map crumb es) = Inr (map_option crumb (find (\<lambda>e. fst e = n) es))"
  by (induction es) (auto simp: crumb_def)

lemma crumb_items_map: "crumb_items (map crumb es) = Inr (map crumb_link es)"
  unfolding crumb_items_def by (induction es) (auto simp: crumb_def crumb_link_def)

definition has_trail :: "(string \<times> int) list \<Rightarrow> entity_page \<Rightarrow> bool" where
  "has_trail es P \<longleftrightarrow> pb_crumb_store P = stringify (JArr (map crumb es)) \<and> pb_crumbs P = map crumb_link es"

lemma draw_trail_step:
  fixes e :: "string \<times> int"
  assumes "has_trail es P"
  defines "es' \<equiv> (case find (\<lambda>x. fst x = fst e) es of Some x \<Rightarrow> [x] | None \<Rightarrow> es @ [e])"
  shows "\<exists>P'. draw_trail (Some (parent_of e)) (JStr n) P = (Inr (), P') \<and> has_trail es' P' \<and> pb_active P' = n"
proof -
  obtain ch cs where s: "pb_crumb_store P = Some (ch # cs)" "json_parse (ch # cs) = Inr (JArr (map crumb es))"
  proof -
    obtain u where u: "stringify (JArr (map crumb es)) = Some u" using stored_trail by blast
    with stored_crumbs [OF u] assms(1) that show thesis unfolding has_trail_def by (cases u) simp_all
  qed
  have "next_crumbs (parent_of e) (map crumb es) = Inr (map crumb es')"
    unfolding es'_def by (auto simp: next_crumbs_def parent_of_def find_crumb_map crumb_def split: option.split)
  then show ?thesis using s by (simp add: draw_trail_def crumb_items_map has_trail_def)
qed

lemma walk_trail:
  assumes "has_trail es P" and "distinct (map fst (es @ e # way))"
  shows "\<exists>P'. walk (Some (parent_of e)) way P = (Inr (), P') \<and> has_trail (es @ butlast (e # way)) P' \<and>
    (way \<noteq> [] \<longrightarrow> pb_active P' = fst (last way))"
  using assms
proof (induction way arbitrary: es e P)
  case (Cons x way)
  have "fst e \<notin> fst ` set es" using Cons.prems(2) by simp
  then have f: "find (\<lambda>y. fst y = fst e) es = None" unfolding find_None_iff by (metis image_eqI)
  from draw_trail_step [OF Cons.prems(1), of e "fst x", unfolded f option.case] obtain Q where
    Q: "draw_trail (Some (parent_of e)) (JStr (fst x)) P = (Inr (), Q)" "has_trail (es @ [e]) Q" "pb_active Q = fst x" by blast
  have "distinct (map fst ((es @ [e]) @ x # way))" using Cons.prems(2) by simp
  from Cons.IH [OF Q(2) this] obtain P' where "walk (Some (parent_of x)) way Q = (Inr (), P')"
      "has_trail ((es @ [e]) @ butlast (x # way)) P'" "way \<noteq> [] \<longrightarrow> pb_active P' = fst (last way)" by blast
  moreover have "pb_active P' = fst (last (x # way))" using calculation Q(3) by (cases way) auto
  moreover have "walk (Some (parent_of e)) (x # way) P = walk (Some (parent_of x)) way Q" using Q(1) by simp
  ultimately show ?case by (intro exI [of _ P']) simp
qed simp

section \<open>Searching\<close>

lemma occurs_in_iff: "occurs_in s xs \<longleftrightarrow> (\<exists>a b. xs = a @ s @ b)"
proof (induction s xs rule: occurs_in.induct)
  case (2 s c cs)
  have "(take (length s) (c # cs) = s) = (\<exists>b. c # cs = s @ b)"
    by (metis append_eq_conv_conj append_take_drop_id)
  then show ?case using 2 by (auto simp: Cons_eq_append_conv)
qed simp

text \<open>The search field hides the users whose name does not contain its text.\<close>

lemma filtered_users:
  "s \<in> set (pb_hidden (filterFunction v P)) \<longleftrightarrow> s \<in> snd ` set (pb_users P) \<and> (\<nexists>a b. map upper_char s = a @ map upper_char v @ b)"
  by (auto simp: filterFunction_def occurs_in_iff)

definition blank_page :: entity_page where
  "blank_page = \<lparr>pb_logo = [], pb_id = JUndef, pb_name = [], pb_connect = None, pb_connect_targets = [], pb_description = [], pb_root = False,
     pb_crumb_store = None, pb_crumbs = [], pb_active = [], pb_actions = False, pb_children = [], pb_contacts_title = False,
     pb_contacts = [], pb_manage = False, pb_users = [], pb_hidden = [], pb_open = False\<rparr>"

section \<open>Properties\<close>

text \<open>
  Walking down from the root, the trail of the directory page lists the ancestors of the entity
  shown, in order, through every reload of the stored trail.  Going back to an entity above
  the last one keeps nothing but its parent: the crumbs before it are lost.
\<close>

theorem crumb_trail:
  assumes "way \<noteq> []" and "distinct (map fst way)"
  shows "\<exists>P'. walk None way P = (Inr (), P') \<and> pb_crumbs P' = map crumb_link (butlast way) \<and> pb_active P' = fst (last way) \<and>
    (\<forall>k n. Suc k < length way \<longrightarrow>
      (\<exists>P''. draw_trail (Some (parent_of (way ! k))) (JStr n) P' = (Inr (), P'') \<and> pb_crumbs P'' = [crumb_link (way ! k)]))"
proof -
  obtain e rest where p: "way = e # rest" using assms(1) by (cases way) auto
  let ?P = "P\<lparr>pb_crumb_store := Some ''[]'', pb_crumbs := [], pb_active := fst e\<rparr>"
  have d: "draw_trail None (JStr (fst e)) P = (Inr (), ?P)" by (simp add: draw_trail_def)
  have t: "has_trail [] ?P" by (simp add: has_trail_def stringify_def)
  from walk_trail [OF t, of e rest] assms(2) p obtain P' where P': "walk (Some (parent_of e)) rest ?P = (Inr (), P')"
    "has_trail (butlast way) P'" "rest \<noteq> [] \<longrightarrow> pb_active P' = fst (last rest)" by auto
  have "walk None way P = (Inr (), P')" using p d P'(1) by simp
  moreover have "pb_active P' = fst (last way)" using P' p by (cases rest) auto
  moreover have "\<exists>P''. draw_trail (Some (parent_of (way ! k))) (JStr n) P' = (Inr (), P'') \<and> pb_crumbs P'' = [crumb_link (way ! k)]"
    if k: "Suc k < length way" for k n
  proof -
    have "butlast way ! k = way ! k" using k by (simp add: nth_butlast)
    moreover have "distinct (map fst (butlast way))" using assms(2) by (simp add: map_butlast distinct_butlast)
    ultimately have "find (\<lambda>x. fst x = fst (way ! k)) (butlast way) = Some (way ! k)"
      using k unfolding find_Some_iff by (intro exI [of _ k]) (auto simp: distinct_conv_nth nth_butlast)
    with draw_trail_step [OF P'(2), of "way ! k" n] show ?thesis by (auto simp: has_trail_def)
  qed
  ultimately show ?thesis using P'(2) unfolding has_trail_def by blast
qed

theorem crumb_trail_witness:
  "\<exists>P'. walk None [(''root'', 1), (''university'', 2), (''department'', 3)] blank_page = (Inr (), P') \<and>
     pb_crumbs P' = [(JNum 1, ''root''), (JNum 2, ''university'')] \<and>
     (\<exists>P''. draw_trail (Some (parent_of (''university'', 2))) (JStr ''library'') P' = (Inr (), P'') \<and> pb_crumbs P'' = [(JNum 2, ''university'')])"
proof -
  let ?way = "[(''root'', 1), (''university'', 2), (''department'', 3)] :: (string \<times> int) list"
  have "?way \<noteq> []" "distinct (map fst ?way)" by code_simp+
  from crumb_trail [OF this, of blank_page] obtain P' where P': "walk None ?way blank_page = (Inr (), P')"
      "pb_crumbs P' = map crumb_link (butlast ?way)"
      "\<And>k n. Suc k < length ?way \<Longrightarrow> \<exists>P''. draw_trail (Some (parent_of (?way ! k))) (JStr n) P' = (Inr (), P'') \<and> pb_crumbs P'' = [crumb_link (?way ! k)]"
    by blast
  have "\<exists>P''. draw_trail (Some (parent_of (''university'', 2))) (JStr ''library'') P' = (Inr (), P'') \<and> pb_crumbs P'' = [(JNum 2, ''university'')]"
    using P'(3) [of 1 "''library''"] by (simp add: crumb_link_def)
  with P'(1,2) show ?thesis by (simp add: crumb_link_def)
qed



end
