(* ===== verification/AdminApi.thy ===== *)
theory AdminApi
  imports ApiData
begin

text \<open>
  The service calls of the new administration pages (\<^verbatim>\<open>new/admin_new/src/api\<close>).  The argument \<open>base\<close> is
  the address of the installation, \<^verbatim>\<open>config.base_url\<close>, which is set when the pages are built.  Most
  calls pass an error of the server on as an exception (\<open>admin_call\<close>); a few log it and return
  a fixed value.  An answer with an error status, which some calls test for, is a failed
  request of the environment.
\<close>

section \<open>The shape of the calls\<close>

definition admin_call :: "env \<Rightarrow> string \<Rightarrow> (jsval \<Rightarrow> jsval res) \<Rightarrow> jsval io" where
  "admin_call E url post = api_call E (get_request url) (\<lambda>data. rbind (err_set data) post)"

definition admin_try :: "env \<Rightarrow> string \<Rightarrow> (jsval \<Rightarrow> jsval res) \<Rightarrow> jsval \<Rightarrow> jsval io" where
  "admin_try E url post d = api_get E url (\<lambda>data. rbind (err_set data) post) d"

definition service :: "string \<Rightarrow> string \<Rightarrow> string \<Rightarrow> string" where
  "service base cgi call = base @ ''/services/'' @ cgi @ ''.cgi?method='' @ call"

definition param :: "string \<Rightarrow> jsval \<Rightarrow> string" where
  "param k v = ''&'' @ k @ ''='' @ to_str v"

definition params :: "props \<Rightarrow> (string \<times> string) list \<Rightarrow> string" where
  "params obj ks = concat (map (\<lambda>(k, field). param k (pget obj field)) ks)"

section \<open>Access control lists (\<^verbatim>\<open>acls.js\<close>)\<close>

definition getAcl :: "env \<Rightarrow> string \<Rightarrow> jsval \<Rightarrow> jsval io" where
  "getAcl E base interfaceAclId = admin_call E (service base ''acl'' ''get_acl'' @ param ''interface_acl_id'' interfaceAclId) results0"

definition getAcls :: "env \<Rightarrow> string \<Rightarrow> jsval \<Rightarrow> jsval io" where
  "getAcls E base interfaceId = admin_call E (service base ''acl'' ''get_acls'' @ param ''interface_id'' interfaceId) results"

definition createAcl :: "env \<Rightarrow> string \<Rightarrow> props \<Rightarrow> jsval io" where
  "createAcl E base acl = admin_call E (service base ''acl'' ''create_acl'' @ params acl
     [(''allow_deny'', ''allowDeny''), (''start'', ''start''), (''end'', ''end''), (''interface_id'', ''interfaceId''),
      (''notes'', ''notes''), (''workgroup_id'', ''workgroupId''), (''entity_id'', ''entityId'')]) results0"

definition deleteAcl :: "env \<Rightarrow> string \<Rightarrow> jsval \<Rightarrow> jsval io" where
  "deleteAcl E base interfaceAclId = admin_call E (service base ''acl'' ''delete_acl'' @ param ''interface_acl_id'' interfaceAclId) results0"

definition editAcl_url :: "string \<Rightarrow> props \<Rightarrow> string" where
  "editAcl_url base acl = service base ''acl'' ''edit_acl'' @ params acl
     [(''interface_acl_id'', ''interfaceAclId''), (''allow_deny'', ''allowDeny''), (''start'', ''start''), (''end'', ''end''),
      (''interface_id'', ''interfaceId''), (''notes'', ''notes''), (''eval_position'', ''evalPosition''),
      (''workgroup_id'', ''workgroupId''), (''entity_id'', ''entityId'')]
     @ (if phas acl ''notes'' then param ''notes'' (pget acl ''notes'') else [])"

definition editAcl :: "env \<Rightarrow> string \<Rightarrow> props \<Rightarrow> jsval io" where
  "editAcl E base acl = admin_call E (editAcl_url base acl) results0"

definition move_acl :: "int \<Rightarrow> props \<Rightarrow> props" where
  "move_acl d acl = pset acl ''evalPosition'' (case parse_int (pget acl ''evalPosition'') of JNum n \<Rightarrow> JNum (n + d) | _ \<Rightarrow> JNaN)"

definition increaseAclPriority :: "env \<Rightarrow> string \<Rightarrow> props \<Rightarrow> jsval io" where
  "increaseAclPriority E base acl = editAcl E base (move_acl (- 10) acl)"

definition decreaseAclPriority :: "env \<Rightarrow> string \<Rightarrow> props \<Rightarrow> jsval io" where
  "decreaseAclPriority E base acl = editAcl E base (move_acl 10 acl)"

section \<open>Reviews, entities, interfaces and links\<close>

definition getEndpointsInReview :: "env \<Rightarrow> string \<Rightarrow> jsval io" where
  "getEndpointsInReview E base = admin_call E (service base ''admin/admin'' ''get_endpoints_in_review'') results"

definition reviewEndpoint :: "env \<Rightarrow> string \<Rightarrow> jsval \<Rightarrow> jsval \<Rightarrow> jsval \<Rightarrow> jsval io" where
  "reviewEndpoint E base approve circuitEpId vrfEpId = admin_call E (service base ''admin/admin'' ''review_endpoint''
     @ (if truthy approve then ''&approve=1'' else ''&approve=0'')
     @ (if truthy circuitEpId then param ''circuit_ep_id'' circuitEpId
        else if truthy vrfEpId then param ''vrf_ep_id'' vrfEpId else [])) results"

definition admin_getEntities :: "env \<Rightarrow> string \<Rightarrow> jsval \<Rightarrow> jsval io" where
  "admin_getEntities E base workgroupId =
     admin_try E (service base ''entity'' ''get_entities'' @ param ''workgroup_id'' workgroupId) results (JArr [])"

definition admin_getInterfaces :: "env \<Rightarrow> string \<Rightarrow> jsval \<Rightarrow> jsval io" where
  "admin_getInterfaces E base nodeId = admin_call E (service base ''interface'' ''get_interfaces'' @ param ''node_id'' nodeId) results"

definition getInterfacesByWorkgroupId :: "env \<Rightarrow> string \<Rightarrow> jsval \<Rightarrow> jsval io" where
  "getInterfacesByWorkgroupId E base workgroupId =
     admin_call E (service base ''interface'' ''get_workgroup_interfaces'' @ param ''workgroup_id'' workgroupId) results"

definition getInterface :: "env \<Rightarrow> string \<Rightarrow> jsval \<Rightarrow> jsval io" where
  "getInterface E base interfaceId =
     admin_call E (service base ''interface'' ''get_interface'' @ param ''interface_id'' interfaceId) results0"

definition editInterface :: "env \<Rightarrow> string \<Rightarrow> props \<Rightarrow> jsval io" where
  "editInterface E base intf = admin_call E (service base ''interface'' ''edit_interface''
     @ param ''interface_id'' (pget intf ''interfaceId'')
     @ params intf (filter (\<lambda>(k, field). phas intf field) [(''mpls_vlan_tag_range'', ''mplsVlanTagRange''),
         (''cloud_interconnect_type'', ''cloudInterconnectType''), (''cloud_interconnect_id'', ''cloudInterconnectId'')])
     @ param ''workgroup_id'' (pget intf ''workgroupId'')) results"

definition migrateInterface :: "env \<Rightarrow> string \<Rightarrow> jsval \<Rightarrow> jsval \<Rightarrow> jsval io" where
  "migrateInterface E base srcInterfaceId dstInterfaceId = admin_call E (service base ''interface'' ''migrate_interface''
     @ param ''src_interface_id'' srcInterfaceId @ param ''dst_interface_id'' dstInterfaceId) results"

definition deleteLink :: "env \<Rightarrow> string \<Rightarrow> jsval \<Rightarrow> jsval io" where
  "deleteLink E base linkID = admin_call E (service base ''link'' ''edit_link'' @ param ''link_id'' linkID @ ''&status=down'') results"

definition getLinks :: "env \<Rightarrow> string \<Rightarrow> jsval io" where
  "getLinks E base = admin_call E (service base ''link'' ''get_links'') results"

section \<open>Nodes (\<^verbatim>\<open>nodes.js\<close>)\<close>

definition valid_controllers :: "string list" where
  "valid_controllers = [''netconf'', ''nso'', ''openflow'']"

definition one_of :: "jsval \<Rightarrow> string list \<Rightarrow> bool" where
  "one_of v vs \<longleftrightarrow> list_ex (strict_eq v) (map JStr vs)"

definition invalid_argument :: "string \<Rightarrow> jsval \<Rightarrow> string \<Rightarrow> exn" where
  "invalid_argument what v call = Throw (JStr (''Invalid '' @ what @ '' '' @ [CHR 0x27] @ to_str v @ [CHR 0x27] @ '' used in '' @ call @ ''.''))"

definition node_params :: "(string \<times> string) list" where
  "node_params = [(''name'', ''name''), (''short_name'', ''shortName''), (''longitude'', ''longitude''), (''latitude'', ''latitude''),
     (''vlan_range'', ''vlanRange''), (''ip_address'', ''ipAddress''), (''tcp_port'', ''tcpPort''), (''make'', ''make''),
     (''model'', ''model''), (''controller'', ''controller'')]"

definition createNode :: "env \<Rightarrow> string \<Rightarrow> props \<Rightarrow> jsval io" where
  "createNode E base node =
     (if \<not> one_of (pget node ''controller'') valid_controllers
      then io_lift (Inl (invalid_argument ''controller'' (pget node ''controller'') ''createNode''))
      else admin_call E (service base ''node'' ''create_node'' @ params node node_params) results0)"

definition editNode :: "env \<Rightarrow> string \<Rightarrow> props \<Rightarrow> jsval io" where
  "editNode E base node =
     (if \<not> one_of (pget node ''controller'') valid_controllers
      then io_lift (Inl (invalid_argument ''controller'' (pget node ''controller'') ''editNode''))
      else admin_call E (service base ''node'' ''edit_node'' @ params node ((''node_id'', ''nodeId'') # node_params)) results0)"

definition getNode :: "env \<Rightarrow> string \<Rightarrow> jsval \<Rightarrow> jsval io" where
  "getNode E base nodeId = admin_call E (service base ''node'' ''get_node'' @ param ''node_id'' nodeId) results0"

definition getNodes :: "env \<Rightarrow> string \<Rightarrow> jsval io" where
  "getNodes E base = admin_call E (service base ''node'' ''get_nodes'') results"

definition approveDiff :: "env \<Rightarrow> string \<Rightarrow> jsval \<Rightarrow> jsval io" where
  "approveDiff E base nodeId = admin_call E (service base ''node'' ''approve_diff'' @ param ''node_id'' nodeId) results"

definition getDiff :: "env \<Rightarrow> string \<Rightarrow> jsval \<Rightarrow> jsval io" where
  "getDiff E base nodeId = admin_call E (service base ''node'' ''get_diff'' @ param ''node_id'' nodeId) results0"

definition deleteNode :: "env \<Rightarrow> string \<Rightarrow> jsval \<Rightarrow> jsval io" where
  "deleteNode E base nodeId = admin_call E (service base ''node'' ''delete_node'' @ param ''node_id'' nodeId) results"

section \<open>Users (\<^verbatim>\<open>users.jsx\<close>, \<^verbatim>\<open>user_add.jsx\<close>, \<^verbatim>\<open>user_edit.jsx\<close>, \<^verbatim>\<open>user_menu.jsx\<close>)\<close>

definition old_user_params ::
    "string \<Rightarrow> string \<Rightarrow> jsval \<Rightarrow> jsval \<Rightarrow> jsval \<Rightarrow> jsval \<Rightarrow> jsval \<Rightarrow> jsval \<Rightarrow> jsval \<Rightarrow> string" where
  "old_user_params base call user_id first_name family_name email_address type status auth_name =
     service base ''admin/admin'' call @ param ''user_id'' user_id @ param ''first_name'' first_name @ param ''family_name'' family_name
     @ param ''email_address'' email_address @ param ''type'' type @ param ''status'' status @ param ''auth_name'' auth_name"

definition addUser :: "env \<Rightarrow> string \<Rightarrow> jsval \<Rightarrow> jsval \<Rightarrow> jsval \<Rightarrow> jsval \<Rightarrow> jsval \<Rightarrow> jsval \<Rightarrow> jsval \<Rightarrow> jsval io" where
  "addUser E base user_id first_name family_name email_address type status auth_name =
     admin_try E (old_user_params base ''add_user'' user_id first_name family_name email_address type status auth_name) results (JArr [])"

definition old_editUser :: "env \<Rightarrow> string \<Rightarrow> jsval \<Rightarrow> jsval \<Rightarrow> jsval \<Rightarrow> jsval \<Rightarrow> jsval \<Rightarrow> jsval \<Rightarrow> jsval \<Rightarrow> jsval io" where
  "old_editUser E base user_id first_name family_name email_address type status auth_name =
     admin_try E (old_user_params base ''edit_user'' user_id first_name family_name email_address type status auth_name) results (JArr [])"

definition admin_getCurrentUser :: "env \<Rightarrow> string \<Rightarrow> jsval io" where
  "admin_getCurrentUser E base = api_get E (service base ''user'' ''get_current'') results0 JNull"

definition getUser :: "env \<Rightarrow> string \<Rightarrow> jsval \<Rightarrow> jsval io" where
  "getUser E base user_id = admin_try E (service base ''user'' ''get_user'' @ param ''user_id'' user_id) Inr JNull"

definition getUsers :: "env \<Rightarrow> string \<Rightarrow> jsval io" where
  "getUsers E base = admin_try E (service base ''user'' ''get_users'') results (JArr [])"

definition username_params :: "props \<Rightarrow> string res" where
  "username_params user = (case pget user ''usernames'' of
     JArr us \<Rightarrow> Inr (concat (map (param ''username'') us)) | _ \<Rightarrow> Inl TypeError)"

definition createUser :: "env \<Rightarrow> string \<Rightarrow> props \<Rightarrow> jsval io" where
  "createUser E base user = io_bind (io_lift (username_params user)) (\<lambda>names.
     admin_call E (service base ''user'' ''create_user'' @ params user [(''email'', ''email''), (''first_name'', ''firstName''),
       (''last_name'', ''lastName'')] @ names) results0)"

definition deleteUser :: "env \<Rightarrow> string \<Rightarrow> jsval \<Rightarrow> jsval io" where
  "deleteUser E base user_id = admin_call E (service base ''user'' ''delete_user'' @ param ''user_id'' user_id) results0"

definition editUser :: "env \<Rightarrow> string \<Rightarrow> props \<Rightarrow> jsval io" where
  "editUser E base user = io_bind (io_lift (username_params user)) (\<lambda>names.
     admin_call E (service base ''user'' ''edit_user'' @ params user [(''user_id'', ''userId''), (''first_name'', ''firstName''),
       (''last_name'', ''lastName''), (''email'', ''email'')] @ names) results)"

section \<open>Workgroups (\<^verbatim>\<open>workgroup.js\<close>)\<close>

definition admin_getWorkgroups :: "env \<Rightarrow> string \<Rightarrow> jsval io" where
  "admin_getWorkgroups E base = admin_try E (service base ''data'' ''get_workgroups'') results (JArr [])"

definition admin_getAllWorkgroups :: "env \<Rightarrow> string \<Rightarrow> jsval io" where
  "admin_getAllWorkgroups E base = admin_try E (service base ''workgroup_manage'' ''get_all_workgroups'') results (JArr [])"

definition valid_types :: "string list" where
  "valid_types = [''demo'', ''normal'', ''admin'']"

definition workgroup_params :: "(string \<times> string) list" where
  "workgroup_params = [(''name'', ''name''), (''description'', ''description''), (''external_id'', ''externalId''), (''type'', ''type'')]"

definition createWorkgroup :: "env \<Rightarrow> string \<Rightarrow> props \<Rightarrow> jsval io" where
  "createWorkgroup E base workgroup =
     (if \<not> one_of (pget workgroup ''type'') valid_types
      then io_lift (Inl (invalid_argument ''type'' (pget workgroup ''type'') ''createWorkgroup''))
      else admin_call E (service base ''workgroup'' ''create_workgroup'' @ params workgroup workgroup_params) results0)"

definition deleteWorkgroup :: "env \<Rightarrow> string \<Rightarrow> jsval \<Rightarrow> jsval io" where
  "deleteWorkgroup E base workgroup_id =
     admin_call E (service base ''workgroup'' ''delete_workgroup'' @ param ''workgroup_id'' workgroup_id) results0"

definition editWorkgroup :: "env \<Rightarrow> string \<Rightarrow> props \<Rightarrow> jsval io" where
  "editWorkgroup E base workgroup =
     (if \<not> one_of (pget workgroup ''type'') valid_types
      then io_lift (Inl (invalid_argument ''type'' (pget workgroup ''type'') ''editWorkgroup''))
      else admin_call E (service base ''workgroup'' ''edit_workgroup''
        @ params workgroup (workgroup_params @ [(''workgroup_id'', ''workgroupId'')])) results0)"

definition getWorkgroup :: "env \<Rightarrow> string \<Rightarrow> jsval \<Rightarrow> jsval io" where
  "getWorkgroup E base workgroup_id =
     admin_try E (service base ''workgroup'' ''get_workgroup'' @ param ''workgroup_id'' workgroup_id) Inr (JArr [])"

definition getWorkgroupUsers :: "env \<Rightarrow> string \<Rightarrow> jsval \<Rightarrow> jsval io" where
  "getWorkgroupUsers E base workgroup_id =
     admin_try E (service base ''workgroup'' ''get_workgroup_users'' @ param ''workgroup_id'' workgroup_id) Inr (JArr [])"

definition modifyWorkgroupUser :: "env \<Rightarrow> string \<Rightarrow> jsval \<Rightarrow> jsval \<Rightarrow> jsval \<Rightarrow> jsval io" where
  "modifyWorkgroupUser E base workgroup_id user_id role = admin_call E (service base ''workgroup'' ''modify_workgroup_user''
     @ param ''workgroup_id'' workgroup_id @ param ''user_id'' user_id @ param ''role'' role) results0"

definition removeWorkgroupUser :: "env \<Rightarrow> string \<Rightarrow> jsval \<Rightarrow> jsval \<Rightarrow> jsval io" where
  "removeWorkgroupUser E base workgroup_id user_id = admin_call E (service base ''workgroup'' ''remove_workgroup_user''
     @ param ''workgroup_id'' workgroup_id @ param ''user_id'' user_id) results0"

definition addWorkgroupUser :: "env \<Rightarrow> string \<Rightarrow> jsval \<Rightarrow> jsval \<Rightarrow> jsval \<Rightarrow> jsval io" where
  "addWorkgroupUser E base workgroup_id user_id role = admin_call E (service base ''workgroup'' ''add_workgroup_user''
     @ param ''workgroup_id'' workgroup_id @ param ''user_id'' user_id @ param ''role'' role) results0"

end
