(* ===== verification/AdminForms.thy ===== *)
theory AdminForms
  imports AdminApi Provisioning Dom
begin

text \<open>
  The components of the new administration pages (\<^verbatim>\<open>new/admin_new/src\<close>): the table with its filter
  and pages, the input with suggestions, the forms for access control lists, nodes, users,
  workgroups and interfaces, and the page context that keeps the user and the workgroup.

  The state of a component is the tuple of its state variables; a handler maps it to the next
  one.  Of what a component renders, the parts that depend on the state are modelled.
\<close>

section \<open>The table (\<^verbatim>\<open>generic_components/CustomTable.jsx\<close>, \<^verbatim>\<open>Table.jsx\<close>)\<close>

text \<open>
  The filter the user types is a regular expression; whether it matches a text, or is none at all,
  is the argument \<open>test\<close>.
\<close>

record table_state =
  tb_page :: nat
  tb_filter :: string

fun any_key :: "(string \<Rightarrow> string \<Rightarrow> bool res) \<Rightarrow> string \<Rightarrow> string list \<Rightarrow> props \<Rightarrow> bool res" where
  "any_key test flt [] d = Inr False"
| "any_key test flt (k # ks) d = rbind (test flt (to_str (pget d k))) (\<lambda>b. if b then Inr True else any_key test flt ks d)"

definition row_matches :: "(string \<Rightarrow> string \<Rightarrow> bool res) \<Rightarrow> string list option \<Rightarrow> string \<Rightarrow> props \<Rightarrow> bool res" where
  "row_matches test keys flt d = (case keys of
     None \<Rightarrow> Inr True
   | Some ks \<Rightarrow> if flt = [] then Inr True else any_key test flt ks d)"

fun rfilter :: "('a \<Rightarrow> bool res) \<Rightarrow> 'a list \<Rightarrow> 'a list res" where
  "rfilter f [] = Inr []"
| "rfilter f (x # xs) = rbind (f x) (\<lambda>b. rbind (rfilter f xs) (\<lambda>ys. Inr (if b then x # ys else ys)))"

definition page_rows :: "nat option \<Rightarrow> nat \<Rightarrow> 'a list \<Rightarrow> 'a list" where
  "page_rows psize page xs = (case psize of
     None \<Rightarrow> xs
   | Some n \<Rightarrow> map snd (filter (\<lambda>(i, _). n * page \<le> i \<and> i < n * page + n) (zip [0..<length xs] xs)))"

text \<open>The number of pages, \<^verbatim>\<open>Math.ceil(items / pageSize)\<close>.\<close>

definition page_count :: "nat \<Rightarrow> nat \<Rightarrow> nat" where
  "page_count psize items = (items + psize - 1) div psize"

record table_view =
  tv_rows :: "props list"
  tv_items :: nat
  tv_pages :: "bool list"

definition CustomTable :: "(string \<Rightarrow> string \<Rightarrow> bool res) \<Rightarrow> string list option \<Rightarrow> nat option \<Rightarrow> props list \<Rightarrow> table_state \<Rightarrow> table_view res" where
  "CustomTable test keys psize rows S =
     rbind (rfilter (row_matches test keys (tb_filter S)) rows) (\<lambda>xs.
     Inr \<lparr>tv_rows = page_rows psize (tb_page S) xs, tv_items = length xs,
          tv_pages = (case psize of None \<Rightarrow> [] | Some n \<Rightarrow> map (\<lambda>i. tb_page S = i) [0..<page_count n (length xs)])\<rparr>)"

definition set_page :: "nat \<Rightarrow> table_state \<Rightarrow> table_state" where
  "set_page i S = S\<lparr>tb_page := i\<rparr>"

definition filter_change :: "string \<Rightarrow> table_state \<Rightarrow> table_state" where
  "filter_change v S = S\<lparr>tb_page := 0, tb_filter := v\<rparr>"

text \<open>A cell given by a path of keys.\<close>

fun key_path :: "jsval \<Rightarrow> string list \<Rightarrow> jsval res" where
  "key_path v [] = Inr v"
| "key_path v (k # ks) = rbind (jget v k) (\<lambda>w. key_path w ks)"

definition cell_text :: "string \<Rightarrow> props \<Rightarrow> string res" where
  "cell_text key row = rbind (key_path (JObj row) (split_on CHR ''.'' key)) (\<lambda>v. Inr (if is_nullish v then [] else to_str v))"

section \<open>The input with suggestions (\<^verbatim>\<open>generic_components/AutoComplete.jsx\<close>)\<close>

type_synonym suggestion = "string \<times> jsval"

fun chosen_text :: "jsval \<Rightarrow> suggestion list \<Rightarrow> string" where
  "chosen_text v [] = []"
| "chosen_text v ((name, w) # ss) = (if loose_eq w v then name else chosen_text v ss)"

definition suggested :: "(string \<Rightarrow> string \<Rightarrow> bool res) \<Rightarrow> string \<Rightarrow> suggestion list \<Rightarrow> suggestion list res" where
  "suggested test input ss = rfilter (\<lambda>(name, v). rbind (test input name) (\<lambda>b. if b then Inr True else test input (to_str v))) ss"

section \<open>Forms\<close>

text \<open>The values a form starts with: those of the object it edits, with defaults for what it
  lacks or has empty.\<close>

definition acl_form :: "props \<Rightarrow> props" where
  "acl_form acl = [(''interfaceAclId'', js_or (pget acl ''interface_acl_id'') (JNum (- 1))), (''interfaceId'', js_or (pget acl ''interface_id'') (JNum (- 1))),
     (''start'', js_or (pget acl ''start'') (JNum 1)), (''end'', js_or (pget acl ''end'') (JNum 4095)), (''notes'', js_or (pget acl ''notes'') (JStr [])),
     (''allowDeny'', js_or (pget acl ''allow_deny'') (JStr ''allow'')), (''evalPosition'', js_or (pget acl ''eval_position'') (JNum (- 1))),
     (''entityId'', js_or (pget acl ''entity_id'') (JNum (- 1))), (''workgroupId'', js_or (pget acl ''workgroup_id'') (JNum (- 1)))]"

definition node_form :: "props \<Rightarrow> props" where
  "node_form node = [(''name'', js_or (pget node ''name'') (JStr [])), (''shortName'', js_or (pget node ''short_name'') (JStr [])),
     (''longitude'', js_or (pget node ''longitude'') (JNum 0)), (''latitude'', js_or (pget node ''latitude'') (JNum 0)),
     (''vlanRange'', js_or (pget node ''vlan_range'') (JStr ''1-4095'')), (''ipAddress'', js_or (pget node ''ip_address'') (JStr [])),
     (''tcpPort'', js_or (pget node ''tcp_port'') (JNum 830)), (''make'', js_or (pget node ''make'') (JStr ''Juniper'')),
     (''model'', js_or (pget node ''model'') (JStr ''MX'')), (''controller'', js_or (pget node ''controller'') (JStr ''netconf'')),
     (''nodeId'', js_or (pget node ''node_id'') (JNum 0))]"

definition workgroup_form :: "props option \<Rightarrow> props" where
  "workgroup_form workgroup = (let w = (case workgroup of None \<Rightarrow> [] | Some w \<Rightarrow> w) in
     [(''name'', js_or (pget w ''name'') (JStr [])), (''description'', js_or (pget w ''description'') (JStr [])),
      (''externalId'', js_or (pget w ''external_id'') (JStr [])), (''type'', js_or (pget w ''type'') (JStr ''normal'')),
      (''workgroupId'', js_or (pget w ''workgroup_id'') (JNum 0))])"

definition interface_values :: "props option \<Rightarrow> props" where
  "interface_values intf = (let i = (case intf of None \<Rightarrow> [] | Some i \<Rightarrow> i) in
     [(''name'', js_or (pget i ''name'') (JStr [])), (''description'', js_or (pget i ''description'') (JStr [])),
      (''mplsVlanTagRange'', js_or (pget i ''mpls_vlan_tag_range'') (JStr ''1-4095'')),
      (''workgroupId'', if truthy (pget i ''workgroup_id'') then parse_int (pget i ''workgroup_id'') else JNum (- 1)),
      (''cloudInterconnectType'', js_or (pget i ''cloud_interconnect_type'') (JStr [])),
      (''cloudInterconnectId'', js_or (pget i ''cloud_interconnect_id'') (JStr [])),
      (''interfaceId'', js_or (pget i ''interface_id'') (JNum (- 1)))])"

text \<open>Every input stores its text; the submit handler of each form passes its values on.\<close>

definition form_input :: "string \<Rightarrow> string \<Rightarrow> props \<Rightarrow> props" where
  "form_input field v F = pset F field (JStr v)"

definition form_cancel :: "env \<Rightarrow> 'a io \<Rightarrow> 'a option io" where
  "form_cancel E onCancel = io_bind (confirm E ''Are you sure you wish to cancel? Any changes will be lost.'') (\<lambda>ok.
     if \<not> ok then io_ret None else io_bind onCancel (\<lambda>x. io_ret (Some x)))"

subsection \<open>User names (\<^verbatim>\<open>users/UserForm.jsx\<close>)\<close>

text \<open>\<open>replaceAll(/^[, ]*|[, ]*$/g, '')\<close>.\<close>

definition strip_commas :: "string \<Rightarrow> string" where
  "strip_commas s = (let sep = (\<lambda>c. c = CHR '','' \<or> c = CHR '' '') in rev (dropWhile sep (rev (dropWhile sep s))))"

definition names_text :: "props \<Rightarrow> string res" where
  "names_text user = (if \<not> truthy (pget user ''usernames'') then Inr [] else case pget user ''usernames'' of
     JArr us \<Rightarrow> Inr (join_with '', '' (map (\<lambda>u. if is_nullish u then [] else to_str u) us)) | _ \<Rightarrow> Inl TypeError)"

definition user_names :: "string \<Rightarrow> string list" where
  "user_names s = map trim (split_on CHR '','' (strip_commas s))"

definition user_form :: "props \<Rightarrow> props res" where
  "user_form user = rbind (names_text user) (\<lambda>names. Inr
     [(''userId'', js_or (pget user ''user_id'') (JNum 0)), (''email'', js_or (pget user ''email'') (JStr [])),
      (''firstName'', js_or (pget user ''first_name'') (JStr [])), (''lastName'', js_or (pget user ''last_name'') (JStr [])),
      (''usernames'', JStr names)])"

definition user_submit :: "props \<Rightarrow> props" where
  "user_submit F = pset F ''usernames'' (JArr (map JStr (user_names (to_str (pget F ''usernames'')))))"

subsection \<open>VLAN ranges (\<^verbatim>\<open>interfaces/InterfaceForm.jsx\<close>)\<close>

definition vlan_range_error :: string where
  "vlan_range_error = ''Input must be a comma separated list of VLAN ranges. Ex 1-4095''"

definition vlan_parts :: "string \<Rightarrow> string list" where
  "vlan_parts v = filter (\<lambda>s. s \<noteq> []) (map trim (split_on CHR '','' (strip_commas v)))"

text \<open>\<open>/^\d+-\d+$/\<close>.\<close>

definition is_range :: "string \<Rightarrow> bool" where
  "is_range s = (let a = takeWhile is_digit s in a \<noteq> [] \<and> (case dropWhile is_digit s of
     [] \<Rightarrow> False | c # b \<Rightarrow> c = CHR ''-'' \<and> b \<noteq> [] \<and> list_all is_digit b))"

definition part_at :: "string list \<Rightarrow> nat \<Rightarrow> jsval" where
  "part_at ps i = (if i < length ps then JStr (ps ! i) else JUndef)"

definition range_bad :: "string \<Rightarrow> bool" where
  "range_bad s = (let ps = split_on CHR ''-'' s; lo = part_at ps 0; hi = part_at ps 1 in
     \<not> is_range s \<or> js_less lo (JNum 1) \<or> js_less (JNum 4095) lo \<or> js_less hi (JNum 1) \<or> js_less (JNum 4095) hi \<or>
     js_less (parse_int hi) (parse_int lo))"

definition validateVlanRange :: "input_el \<Rightarrow> input_el" where
  "validateVlanRange el = set_custom_validity (if list_ex range_bad (vlan_parts (el_value el)) then vlan_range_error else []) el"

section \<open>The page context (\<^verbatim>\<open>contexts/PageContext.jsx\<close>)\<close>

record page_context =
  pc_user :: jsval
  pc_workgroup :: jsval
  pc_store :: "string option"

definition context_select :: "props \<Rightarrow> page_context \<Rightarrow> page_context" where
  "context_select obj C = C\<lparr>pc_store := Some (encodeURIComponent (json_text (JObj obj)))\<rparr>"

definition group_session :: "jsval \<Rightarrow> props \<Rightarrow> props" where
  "group_session username g = [(''username'', username), (''workgroup_id'', pget g ''workgroup_id''),
     (''workgroup_name'', pget g ''name''), (''workgroup_type'', pget g ''type'')]"

fun select_group :: "jsval \<Rightarrow> jsval \<Rightarrow> jsval list \<Rightarrow> page_context \<Rightarrow> page_context res" where
  "select_group username ident [] C = Inr C"
| "select_group username ident (g # gs) C =
     (if is_nullish g then Inl TypeError
      else if loose_eq ident (pget (as_props g) ''workgroup_id'') then Inr (context_select (group_session username (as_props g)) C)
      else select_group username ident gs C)"

definition stored_session :: "page_context \<Rightarrow> jsval res" where
  "stored_session C = rbind (decodeURIComponent (case pc_store C of None \<Rightarrow> ''null'' | Some s \<Rightarrow> s)) json_parse"

text \<open>The first effect: the answer of the server selects a workgroup for a new session and
  refreshes the one of an old session.\<close>

definition context_load :: "jsval \<Rightarrow> page_context \<Rightarrow> page_context res" where
  "context_load resp C =
     (if is_nullish resp then Inl TypeError else
      let user = as_props resp in
      rbind (if pc_store C = None \<or> pc_store C = Some []
             then rbind (jidx (pget user ''workgroups'') 0) (\<lambda>g. if is_nullish g then Inl TypeError
               else Inr (context_select (group_session (pget user ''username'') (as_props g)) C))
             else rbind (stored_session C) (\<lambda>data. case pget user ''workgroups'' of
               JArr gs \<Rightarrow> (case gs of [] \<Rightarrow> Inr C | _ \<Rightarrow> rbind (jget data ''workgroup_id'') (\<lambda>ident. select_group (pget user ''username'') ident gs C))
             | _ \<Rightarrow> Inl TypeError)) (\<lambda>C1.
      rbind (stored_session C1) (\<lambda>data.
      rbind (jget data ''workgroup_name'') (\<lambda>name. rbind (jget data ''workgroup_id'') (\<lambda>ident.
      Inr (C1\<lparr>pc_workgroup := JObj [(''name'', name), (''workgroup_id'', ident)], pc_user := resp\<rparr>))))))"

text \<open>The second effect runs when the user or the workgroup changes.\<close>

definition context_changed :: "page_context \<Rightarrow> page_context res" where
  "context_changed C =
     (if is_nullish (pc_user C) then Inr C
      else if is_nullish (pc_workgroup C) then Inl TypeError
      else Inr (context_select (group_session (pget (as_props (pc_user C)) ''username'') (as_props (pc_workgroup C))) C))"

definition context_setWorkgroup :: "jsval \<Rightarrow> page_context \<Rightarrow> page_context" where
  "context_setWorkgroup g C = C\<lparr>pc_workgroup := g\<rparr>"

definition context_ready :: "page_context \<Rightarrow> bool" where
  "context_ready C \<longleftrightarrow> \<not> is_nullish (pc_user C) \<and> \<not> is_nullish (pc_workgroup C)"

end
