(* ===== verification/AdminTheorems.thy ===== *)
theory AdminTheorems
  imports AdminForms
begin

text \<open>
  The new administration pages: the pages of a table, the VLAN ranges a form accepts, the
  names of a user through the form that edits them, the query a request carries, and what
  the page context keeps of the session.
\<close>

section \<open>Pages\<close>

lemma window_slice:
  "map snd (filter (\<lambda>(i, _). m \<le> i \<and> i < m + n) (zip [k..<k + length xs] xs)) = take (m + n - max m k) (drop (m - k) xs)"
proof (induction xs arbitrary: k)
  case (Cons x xs)
  have z: "zip [k..<k + length (x # xs)] (x # xs) = (k, x) # zip [Suc k..<Suc k + length xs] xs"
    by (simp add: upt_conv_Cons del: upt_Suc)
  show ?case
  proof (cases "k < m")
    case True
    then have "m - k = Suc (m - Suc k)" "max m k = max m (Suc k)" by auto
    with True show ?thesis unfolding z using Cons.IH [of "Suc k"] by (simp del: upt_Suc)
  next
    case False
    show ?thesis
    proof (cases "k < m + n")
      case True
      with False have "m + n - max m k = Suc (m + n - max m (Suc k))" by auto
      with False True show ?thesis unfolding z using Cons.IH [of "Suc k"] by (simp del: upt_Suc)
    next
      case outside: False
      with False have "m + n - max m k = 0" "m + n - max m (Suc k) = 0" by auto
      with False outside show ?thesis unfolding z using Cons.IH [of "Suc k"] by (simp del: upt_Suc)
    qed
  qed
qed simp

lemma page_rows_slice: "page_rows (Some n) p xs = take n (drop (n * p) xs)"
  using window_slice [of "n * p" n 0 xs] by (simp add: page_rows_def)

lemma concat_slices: "concat (map (\<lambda>i. take n (drop (n * i) xs)) [0..<c]) = take (n * c) xs"
  by (induction c) (simp_all add: take_add [symmetric] add.commute)

lemma page_count_bounds:
  assumes "0 < n"
  shows "m \<le> n * page_count n m" and "i < page_count n m \<Longrightarrow> n * i < m"
proof -
  have d: "(m + n - 1) div n * n + (m + n - 1) mod n = m + n - 1" by simp
  have r: "(m + n - 1) mod n < n" using assms by simp
  show "m \<le> n * page_count n m" 
  proof -
    have "m + n - 1 < (m + n - 1) div n * n + n" using d r by linarith
    then show ?thesis using assms unfolding page_count_def by (subst mult.commute) linarith
  qed
  assume "i < page_count n m"
  then have "Suc i \<le> (m + n - 1) div n" unfolding page_count_def by simp
  then have "Suc i * n \<le> (m + n - 1) div n * n" by (rule mult_le_mono1)
  then have "Suc i * n \<le> m + n - 1" using d by linarith
  then show "n * i < m" using assms by (simp add: mult.commute)
qed

section \<open>Texts\<close>

lemma split_on_single: "a \<noteq> [] \<Longrightarrow> c \<notin> set a \<Longrightarrow> c \<notin> set b \<Longrightarrow> split_on c (a @ c # b) = [a, b]"
  by simp

lemma is_range_iff: "is_range s \<longleftrightarrow> (\<exists>a b. s = a @ CHR ''-'' # b \<and> a \<noteq> [] \<and> b \<noteq> [] \<and> list_all is_digit a \<and> list_all is_digit b)"
proof
  assume r: "is_range s"
  then obtain b where "dropWhile is_digit s = CHR ''-'' # b" "b \<noteq> []" "list_all is_digit b" "takeWhile is_digit s \<noteq> []"
    by (auto simp: is_range_def Let_def split: list.splits)
  moreover have "list_all is_digit (takeWhile is_digit s)" by (auto simp: list_all_iff dest: set_takeWhileD)
  moreover have "s = takeWhile is_digit s @ dropWhile is_digit s" by simp
  ultimately show "\<exists>a b. s = a @ CHR ''-'' # b \<and> a \<noteq> [] \<and> b \<noteq> [] \<and> list_all is_digit a \<and> list_all is_digit b" by metis
next
  assume "\<exists>a b. s = a @ CHR ''-'' # b \<and> a \<noteq> [] \<and> b \<noteq> [] \<and> list_all is_digit a \<and> list_all is_digit b"
  then obtain a b where s: "s = a @ CHR ''-'' # b" "a \<noteq> []" "b \<noteq> []" "list_all is_digit a" "list_all is_digit b" by blast
  have "\<not> is_digit (CHR ''-'')" by code_simp
  then have "takeWhile is_digit s = a" "dropWhile is_digit s = CHR ''-'' # b"
    using s(1,4) by (auto simp: list_all_iff takeWhile_append dropWhile_append)
  with s show "is_range s" by (simp add: is_range_def)
qed

lemma digit_chars: "is_digit c \<Longrightarrow> \<not> is_ws c \<and> c \<noteq> CHR ''-'' \<and> c \<noteq> CHR ''+'' \<and> c \<noteq> CHR ''x'' \<and> c \<noteq> CHR ''X'' \<and> c \<noteq> CHR '',''"
  by (auto simp: is_ws_def is_digit_def digits10_def)

lemma digits_no_ws:
  assumes "list_all is_digit a"
  shows "dropWhile is_ws a = a" and "trim a = a"
proof -
  have "dropWhile is_ws b = b" if "list_all is_digit b" for b
    using that by (cases b) (auto dest: digit_chars)
  then show "dropWhile is_ws a = a" "trim a = a" using assms by (simp_all add: trim_def)
qed

lemma digits_number: "a \<noteq> [] \<Longrightarrow> list_all is_digit a \<Longrightarrow> str_to_num a = JNum (int (read_digits 10 a))"
  by (simp add: str_to_num_def digits_no_ws Let_def)

lemma digits_parse_int:
  assumes "a \<noteq> []" and "list_all is_digit a"
  shows "parse_int (JStr a) = JNum (int (read_digits 10 a))"
proof -
  obtain c cs where a: "a = c # cs" using assms(1) by (cases a) auto
  have t: "takeWhile is_digit a = a" using assms(2) by (simp add: takeWhile_eq_all_conv list_all_iff)
  have "take 2 a \<noteq> ''0x'' \<and> take 2 a \<noteq> ''0X''"
    using a assms(2) by (cases cs) (auto dest: digit_chars)
  then have "parse_prefix a = Some (read_digits 10 a)" using assms(1) unfolding parse_prefix_def Let_def t by auto
  moreover have "hd a \<noteq> CHR ''-''" "hd a \<noteq> CHR ''+''" using a assms(2) by (auto dest: digit_chars)
  ultimately show ?thesis using assms(2) by (simp add: parse_int_def digits_no_ws Let_def)
qed

text \<open>The ranges the form takes for good: two numbers, in order and within the limits.\<close>

definition good_range :: "string \<Rightarrow> bool" where
  "good_range s \<longleftrightarrow> (\<exists>a b. s = a @ CHR ''-'' # b \<and> a \<noteq> [] \<and> b \<noteq> [] \<and> list_all is_digit a \<and> list_all is_digit b \<and>
     1 \<le> read_digits 10 a \<and> read_digits 10 a \<le> read_digits 10 b \<and> read_digits 10 b \<le> 4095)"

lemma range_bad_digits:
  assumes "a \<noteq> []" "b \<noteq> []" "list_all is_digit a" "list_all is_digit b"
  shows "range_bad (a @ CHR ''-'' # b) \<longleftrightarrow> \<not> (1 \<le> read_digits 10 a \<and> read_digits 10 a \<le> read_digits 10 b \<and> read_digits 10 b \<le> 4095)"
proof -
  have "CHR ''-'' \<notin> set a" "CHR ''-'' \<notin> set b" using assms(3,4) by (auto simp: list_all_iff dest: digit_chars)
  then have "split_on CHR ''-'' (a @ CHR ''-'' # b) = [a, b]" by simp
  moreover have "is_range (a @ CHR ''-'' # b)" using assms unfolding is_range_iff by blast
  ultimately show ?thesis using assms
    by (auto simp: range_bad_def Let_def part_at_def js_less_def digits_number digits_parse_int)
qed

lemma range_bad_iff: "range_bad s \<longleftrightarrow> \<not> good_range s"
proof (cases "is_range s")
  case True
  then obtain a b where s: "s = a @ CHR ''-'' # b" and d: "a \<noteq> []" "b \<noteq> []" "list_all is_digit a" "list_all is_digit b"
    unfolding is_range_iff by blast
  have "CHR ''-'' \<notin> set a" "CHR ''-'' \<notin> set b" using d(3,4) by (auto simp: list_all_iff dest: digit_chars)
  then have "a' = a \<and> b' = b" if "s = a' @ CHR ''-'' # b'" for a' b'
    using append_Cons_eq_iff [of "CHR ''-''" a b a' b'] s that by blast
  then have "good_range s \<longleftrightarrow> 1 \<le> read_digits 10 a \<and> read_digits 10 a \<le> read_digits 10 b \<and> read_digits 10 b \<le> 4095"
    unfolding good_range_def using s d by blast
  then show ?thesis using range_bad_digits [OF d] s by blast
next
  case False
  then show ?thesis by (auto simp: range_bad_def good_range_def is_range_iff Let_def)
qed

section \<open>Names\<close>

lemma trimmed_ends:
  assumes "trim u = u" and "u \<noteq> []"
  shows "\<not> is_ws (hd u)" and "\<not> is_ws (last u)"
proof -
  let ?d = "dropWhile is_ws u"
  have l: "length ?d \<le> length u" "length (dropWhile is_ws (rev ?d)) \<le> length ?d" using length_dropWhile_le [of is_ws "rev ?d"] by (simp_all add: length_dropWhile_le)
  have "length (dropWhile is_ws (rev ?d)) = length u" using arg_cong [OF assms(1), of length] by (simp add: trim_def)
  with l have d: "length ?d = length u" by simp
  then have u: "?d = u" by (metis append_eq_conv_conj drop0 dropWhile_eq_drop length_drop diff_self_eq_0 length_takeWhile_le diff_diff_cancel)
  then show "\<not> is_ws (hd u)" using assms(2) by (metis hd_dropWhile)
  have "rev (dropWhile is_ws (rev u)) = u" using assms(1) u by (simp add: trim_def)
  then have "dropWhile is_ws (rev u) = rev u" by (metis rev_rev_ident)
  then have "\<not> is_ws (hd (rev u))" using assms(2) by (metis hd_dropWhile rev_is_Nil_conv)
  then show "\<not> is_ws (last u)" by (simp add: hd_rev)
qed

lemma trim_space: "trim (CHR '' '' # u) = trim u"
  by (simp add: trim_def is_ws_def)

lemma split_names:
  "(\<And>x. x \<in> set (u # us) \<Longrightarrow> CHR '','' \<notin> set x) \<Longrightarrow>
     split_on CHR '','' (join_with '', '' (u # us)) = u # map (Cons CHR '' '') us"
proof (induction us arbitrary: u)
  case (Cons v us)
  have "split_on CHR '','' (CHR '' '' # join_with '', '' (v # us)) = map (Cons CHR '' '') (v # us)"
    using Cons by simp
  then show ?case using Cons.prems by simp
qed simp

lemma join_nonempty: "u \<noteq> [] \<Longrightarrow> join_with sep (u # us) \<noteq> [] \<and> hd (join_with sep (u # us)) = hd u"
  by (cases us) auto

lemma join_last: "us \<noteq> [] \<Longrightarrow> last us \<noteq> [] \<Longrightarrow> join_with sep us \<noteq> [] \<and> last (join_with sep us) = last (last us)"
  by (induction sep us rule: join_with.induct) auto

lemma dropWhile_hd: "xs \<noteq> [] \<Longrightarrow> \<not> P (hd xs) \<Longrightarrow> dropWhile P xs = xs"
  by (cases xs) auto

lemma user_names_join:
  assumes "us \<noteq> []" and "\<And>u. u \<in> set us \<Longrightarrow> u \<noteq> [] \<and> CHR '','' \<notin> set u \<and> trim u = u"
  shows "user_names (join_with '', '' us) = us"
proof -
  obtain u vs where us: "us = u # vs" using assms(1) by (cases us) auto
  let ?j = "join_with '', '' us"
  have first: "u \<noteq> []" "hd ?j = hd u" "?j \<noteq> []" and final: "last us \<noteq> []" "last ?j = last (last us)"
    using join_nonempty [of u "'', ''" vs] join_last [of us "'', ''"] assms us by auto
  have w: "is_ws CHR '' ''" by (simp add: is_ws_def)
  have ends: "hd v \<noteq> CHR '' '' \<and> last v \<noteq> CHR '' '' \<and> hd v \<noteq> CHR '','' \<and> last v \<noteq> CHR '',''" if "v \<in> set us" for v
    using trimmed_ends [of v] assms(2) [OF that] w hd_in_set [of v] last_in_set [of v] by metis
  have "u \<in> set us" "last us \<in> set us" using us by simp_all
  then have "hd ?j \<noteq> CHR '' '' \<and> hd ?j \<noteq> CHR '',''" "last ?j \<noteq> CHR '' '' \<and> last ?j \<noteq> CHR '',''"
    using ends first final by metis+
  then have "strip_commas ?j = ?j"
    using first(3) by (simp add: strip_commas_def Let_def dropWhile_hd hd_rev)
  then have "user_names ?j = map trim (u # map (Cons CHR '' '') vs)"
    using split_names [of u vs] assms(2) us by (simp add: user_names_def)
  also have "\<dots> = us" using assms(2) us by (simp add: trim_space map_idI)
  finally show ?thesis .
qed

section \<open>Queries\<close>

text \<open>The parameters a server reads from an address: after the question mark, separated by
  ampersands, each split at its first equals sign.\<close>

definition pair_of :: "string \<Rightarrow> string \<times> string" where
  "pair_of s = (takeWhile (\<lambda>c. c \<noteq> CHR ''='') s, drop 1 (dropWhile (\<lambda>c. c \<noteq> CHR ''='') s))"

definition query :: "string \<Rightarrow> (string \<times> string) list" where
  "query url = map pair_of (split_on CHR ''&'' (drop 1 (dropWhile (\<lambda>c. c \<noteq> CHR ''?'') url)))"

lemma pair_of_text: "CHR ''='' \<notin> set k \<Longrightarrow> pair_of (k @ CHR ''='' # v) = (k, v)"
  by (auto simp: pair_of_def takeWhile_append dropWhile_append)

lemma split_params:
  "CHR ''&'' \<notin> set s \<Longrightarrow> (\<And>k v. (k, v) \<in> set kvs \<Longrightarrow> CHR ''&'' \<notin> set k \<and> CHR ''&'' \<notin> set v) \<Longrightarrow>
     split_on CHR ''&'' (s @ concat (map (\<lambda>(k, v). ''&'' @ k @ ''='' @ v) kvs)) = s # map (\<lambda>(k, v). k @ CHR ''='' # v) kvs"
proof (induction kvs arbitrary: s)
  case (Cons kv kvs)
  obtain k v where kv: "kv = (k, v)" by (cases kv)
  have "split_on CHR ''&'' ((k @ CHR ''='' # v) @ concat (map (\<lambda>(k, v). ''&'' @ k @ ''='' @ v) kvs)) =
      (k @ CHR ''='' # v) # map (\<lambda>(k, v). k @ CHR ''='' # v) kvs"
    using Cons.prems(2) kv by (intro Cons.IH) auto
  then show ?case using Cons.prems(1) kv by simp
qed simp

lemma service_query:
  assumes "CHR ''?'' \<notin> set (base @ cgi)" and "CHR ''&'' \<notin> set call"
    and "\<And>k v. (k, v) \<in> set kvs \<Longrightarrow> CHR ''&'' \<notin> set k \<and> CHR ''='' \<notin> set k \<and> CHR ''&'' \<notin> set v"
  shows "query (service base cgi call @ concat (map (\<lambda>(k, v). ''&'' @ k @ ''='' @ v) kvs)) = (''method'', call) # kvs"
proof -
  let ?ps = "concat (map (\<lambda>(k, v). ''&'' @ k @ ''='' @ v) kvs)"
  have "CHR ''?'' \<notin> set (base @ ''/services/'' @ cgi @ ''.cgi'')" using assms(1) by auto
  then have "dropWhile (\<lambda>c. c \<noteq> CHR ''?'') ((base @ ''/services/'' @ cgi @ ''.cgi'') @ CHR ''?'' # (''method'' @ CHR ''='' # call) @ ?ps) =
      CHR ''?'' # (''method'' @ CHR ''='' # call) @ ?ps"
    by (subst dropWhile_append2) auto
  moreover have "service base cgi call @ ?ps = (base @ ''/services/'' @ cgi @ ''.cgi'') @ CHR ''?'' # (''method'' @ CHR ''='' # call) @ ?ps"
    by (simp add: service_def)
  moreover have "split_on CHR ''&'' ((''method'' @ CHR ''='' # call) @ ?ps) = (''method'' @ CHR ''='' # call) # map (\<lambda>(k, v). k @ CHR ''='' # v) kvs"
    using assms(2,3) by (intro split_params) auto
  moreover have "map pair_of (map (\<lambda>(k, v). k @ CHR ''='' # v) kvs) = kvs"
    using assms(3) by (auto simp: pair_of_text intro!: map_idI)
  ultimately show ?thesis using pair_of_text [of "''method''" call] by (simp add: query_def)
qed

lemma params_text: "params obj ks = concat (map (\<lambda>(k, v). ''&'' @ k @ ''='' @ v) (map (\<lambda>(k, f). (k, to_str (pget obj f))) ks))"
  by (simp add: params_def param_def case_prod_unfold comp_def)

lemma service_params_query:
  assumes "CHR ''?'' \<notin> set (base @ cgi)" and "CHR ''&'' \<notin> set call"
    and "\<And>k f. (k, f) \<in> set ks \<Longrightarrow> CHR ''&'' \<notin> set k \<and> CHR ''='' \<notin> set k \<and> CHR ''&'' \<notin> set (to_str (pget obj f))"
  shows "query (service base cgi call @ params obj ks) = (''method'', call) # map (\<lambda>(k, f). (k, to_str (pget obj f))) ks"
  unfolding params_text using assms by (intro service_query) auto

lemma admin_call_sends: "snd (admin_call E url post t) = t @ [Sent (get_request url)]"
  by (simp add: admin_call_def api_call_eq)

section \<open>Properties\<close>

text \<open>
  The pages of a table show every row the filter leaves, in order and once each; no page the
  selector offers is empty, and none has more rows than the size of a page.
\<close>

theorem table_pages:
  assumes "rfilter (row_matches test keys (tb_filter S)) rows = Inr xs" and "0 < n"
  defines "shown \<equiv> \<lambda>i. tv_rows (projr (CustomTable test keys (Some n) rows (set_page i S)))"
  shows "concat (map shown [0..<length (tv_pages (projr (CustomTable test keys (Some n) rows S)))]) = xs \<and>
    list_all (\<lambda>i. shown i \<noteq> [] \<and> length (shown i) \<le> n) [0..<length (tv_pages (projr (CustomTable test keys (Some n) rows S)))]"
proof -
  have s: "shown i = take n (drop (n * i) xs)" for i
    using assms(1) by (simp add: shown_def CustomTable_def set_page_def page_rows_slice)
  have "length (tv_pages (projr (CustomTable test keys (Some n) rows S))) = page_count n (length xs)"
    using assms(1) by (simp add: CustomTable_def)
  moreover have "concat (map shown [0..<page_count n (length xs)]) = xs"
    using page_count_bounds(1) [OF assms(2), of "length xs"] unfolding s by (simp add: concat_slices)
  moreover have "shown i \<noteq> [] \<and> length (shown i) \<le> n" if "i < page_count n (length xs)" for i
    using page_count_bounds(2) [OF assms(2) that] assms(2) unfolding s by auto
  ultimately show ?thesis by (simp add: list_all_iff)
qed

theorem table_pages_witness:
  "map (\<lambda>i. tv_rows (projr (CustomTable (\<lambda>p s. Inr (p = s)) None (Some 2) [[(''a'', JNum 1)], [(''a'', JNum 2)], [(''a'', JNum 3)]]
     (set_page i \<lparr>tb_page = 0, tb_filter = []\<rparr>)))) [0..<2] = [[[(''a'', JNum 1)], [(''a'', JNum 2)]], [[(''a'', JNum 3)]]] \<and>
   concat (map (\<lambda>i. tv_rows (projr (CustomTable (\<lambda>p s. Inr (p = s)) None (Some 2) [[(''a'', JNum 1)], [(''a'', JNum 2)], [(''a'', JNum 3)]]
     (set_page i \<lparr>tb_page = 0, tb_filter = []\<rparr>)))) [0..<2]) = [[(''a'', JNum 1)], [(''a'', JNum 2)], [(''a'', JNum 3)]]"
proof -
  let ?test = "(\<lambda>p s. Inr (p = s)) :: string \<Rightarrow> string \<Rightarrow> bool res"
  let ?rows = "[[(''a'', JNum 1)], [(''a'', JNum 2)], [(''a'', JNum 3)]]" and ?S = "\<lparr>tb_page = 0, tb_filter = []\<rparr>"
  have "rfilter (row_matches ?test None (tb_filter ?S)) ?rows = Inr ?rows" by (simp add: row_matches_def)
  from table_pages [OF this, of 2]
  have "concat (map (\<lambda>i. tv_rows (projr (CustomTable ?test None (Some 2) ?rows (set_page i ?S))))
      [0..<length (tv_pages (projr (CustomTable ?test None (Some 2) ?rows ?S)))]) = ?rows" by simp
  moreover have "length (tv_pages (projr (CustomTable ?test None (Some 2) ?rows ?S))) = 2" by code_simp
  ultimately have "concat (map (\<lambda>i. tv_rows (projr (CustomTable ?test None (Some 2) ?rows (set_page i ?S)))) [0..<2]) = ?rows" by metis
  moreover have "map (\<lambda>i. tv_rows (projr (CustomTable ?test None (Some 2) ?rows (set_page i ?S)))) [0..<2] =
      [[[(''a'', JNum 1)], [(''a'', JNum 2)]], [[(''a'', JNum 3)]]]" by code_simp
  ultimately show ?thesis by blast
qed

text \<open>
  The interface form accepts exactly the comma separated lists of VLAN ranges: each
  part, without the blanks around it and unless it is empty, is two numbers joined by a hyphen, the
  first at least 1, the second at most 4095 and not less than the first.
\<close>

theorem vlan_range_accepted:
  "el_custom (validateVlanRange el) = [] \<longleftrightarrow> list_all good_range (vlan_parts (el_value el))"
  by (auto simp: validateVlanRange_def set_custom_validity_def vlan_range_error_def list_ex_iff list_all_iff range_bad_iff)

text \<open>
  A user's names pass through the form that edits them: saved unchanged, the request has one
  parameter for each name, in order, provided that no name is empty, has a comma or starts
  or ends with blanks.  A user without names is saved with one empty name.
\<close>

theorem user_edit_request:
  assumes "pget user ''usernames'' = JArr (map JStr us)" and "\<And>u. u \<in> set us \<Longrightarrow> u \<noteq> [] \<and> CHR '','' \<notin> set u \<and> trim u = u"
  shows "\<exists>F. user_form user = Inr F \<and> editUser E base (user_submit F) =
    admin_call E (service base ''user'' ''edit_user'' @ param ''user_id'' (js_or (pget user ''user_id'') (JNum 0))
      @ param ''first_name'' (js_or (pget user ''first_name'') (JStr [])) @ param ''last_name'' (js_or (pget user ''last_name'') (JStr []))
      @ param ''email'' (js_or (pget user ''email'') (JStr []))
      @ concat (map (\<lambda>u. ''&username='' @ u) (if us = [] then [[]] else us))) results"
proof -
  let ?j = "join_with '', '' us"
  have n: "names_text user = Inr ?j" using assms(1) by (simp add: names_text_def o_def)
  have "user_names ?j = (if us = [] then [[]] else us)"
    using user_names_join [OF _ assms(2)] by (simp add: user_names_def strip_commas_def trim_def)
  then show ?thesis using n by (simp add: user_form_def editUser_def user_submit_def username_params_def params_def param_def o_def)
qed

theorem user_edit_request_witness:
  "\<forall>E. \<exists>F. user_form [(''user_id'', JNum 7), (''usernames'', JArr [JStr ''ada'', JStr ''love lace''])] = Inr F \<and>
     editUser E ''/oess'' (user_submit F) = admin_call E (service ''/oess'' ''user'' ''edit_user''
       @ ''&user_id=7&first_name=&last_name=&email=&username=ada&username=love lace'') results"
proof -
  let ?user = "[(''user_id'', JNum 7), (''usernames'', JArr [JStr ''ada'', JStr ''love lace''])]"
  have a: "pget ?user ''usernames'' = JArr (map JStr [''ada'', ''love lace''])" by simp
  have "trim ''ada'' = ''ada''" "trim ''love lace'' = ''love lace''" by code_simp+
  then have b: "u \<noteq> [] \<and> CHR '','' \<notin> set u \<and> trim u = u" if "u \<in> set [''ada'', ''love lace'']" for u using that by auto
  have "to_str (JNum 7) = ''7''" by code_simp
  with user_edit_request [OF a b, of _ "''/oess''"] show ?thesis by (simp add: param_def js_or_def)
qed

text \<open>
  Creating a node: with a controller the service knows, one request is sent, from which the
  server reads the ten fields of the form, provided that none has an ampersand; with another
  controller the call throws and nothing is sent.
\<close>

theorem create_node_request:
  assumes "CHR ''?'' \<notin> set base" and "\<And>k f. (k, f) \<in> set node_params \<Longrightarrow> CHR ''&'' \<notin> set (to_str (pget node f))"
  shows "if pget node ''controller'' \<in> JStr ` set valid_controllers
    then \<exists>url. snd (createNode E base node t) = t @ [Sent (get_request url)] \<and>
      query url = (''method'', ''create_node'') # map (\<lambda>(k, f). (k, to_str (pget node f))) node_params
    else \<exists>m. createNode E base node t = (Inl (Throw (JStr m)), t)"
proof -
  have v: "one_of (pget node ''controller'') valid_controllers \<longleftrightarrow> pget node ''controller'' \<in> JStr ` set valid_controllers"
    by (cases "pget node ''controller''") (auto simp: one_of_def valid_controllers_def)
  have "query (service base ''node'' ''create_node'' @ params node node_params) =
      (''method'', ''create_node'') # map (\<lambda>(k, f). (k, to_str (pget node f))) node_params"
  proof (rule service_params_query)
    fix k f assume f: "(k, f) \<in> set node_params"
    then have "CHR ''&'' \<notin> set k \<and> CHR ''='' \<notin> set k" by (auto simp: node_params_def)
    with assms(2) [OF f] show "CHR ''&'' \<notin> set k \<and> CHR ''='' \<notin> set k \<and> CHR ''&'' \<notin> set (to_str (pget node f))" by blast
  qed (use assms(1) in simp_all)
  then show ?thesis using v by (auto simp: createNode_def admin_call_sends invalid_argument_def)
qed

theorem create_node_request_witness:
  "\<forall>E. \<exists>url. snd (createNode E ''/oess'' (node_form [(''name'', JStr ''mx1'')]) []) = [Sent (get_request url)] \<and>
     query url = [(''method'', ''create_node''), (''name'', ''mx1''), (''short_name'', []), (''longitude'', ''0''), (''latitude'', ''0''),
       (''vlan_range'', ''1-4095''), (''ip_address'', []), (''tcp_port'', ''830''), (''make'', ''Juniper''), (''model'', ''MX''), (''controller'', ''netconf'')]"
proof -
  let ?node = "node_form [(''name'', JStr ''mx1'')]"
  have "to_str (JNum 0) = ''0''" "to_str (JNum 830) = ''830''" by (simp_all add: show_int_def show_nat.simps digit_chr_def)
  then have f: "map (\<lambda>(k, f). (k, to_str (pget ?node f))) node_params = [(''name'', ''mx1''), (''short_name'', []), (''longitude'', ''0''),
      (''latitude'', ''0''), (''vlan_range'', ''1-4095''), (''ip_address'', []), (''tcp_port'', ''830''), (''make'', ''Juniper''), (''model'', ''MX''),
      (''controller'', ''netconf'')]"
    by (simp add: node_form_def node_params_def js_or_def)
  have amp: "CHR ''&'' \<notin> set (to_str (pget ?node f))" if kf: "(k, f) \<in> set node_params" for k f
  proof -
    have "(k, to_str (pget ?node f)) \<in> set (map (\<lambda>(k, f). (k, to_str (pget ?node f))) node_params)" using kf by force
    then show ?thesis unfolding f by auto
  qed
  have q: "CHR ''?'' \<notin> set ''/oess''" by simp
  have c: "pget ?node ''controller'' \<in> JStr ` set valid_controllers" by (simp add: node_form_def js_or_def valid_controllers_def)
  have "\<exists>url. snd (createNode E ''/oess'' ?node []) = [] @ [Sent (get_request url)] \<and>
      query url = (''method'', ''create_node'') # map (\<lambda>(k, f). (k, to_str (pget ?node f))) node_params" for E
    using create_node_request [of "''/oess''" ?node E "[]", OF q amp] unfolding if_P [OF c] .
  then show ?thesis unfolding f by simp
qed

text \<open>
  The page context forgets the type of the workgroup: once the user is loaded, the session it
  stores has the name and the identifier of the workgroup, but no type, although the server told it
  and the first effect stored it.
\<close>

theorem context_forgets_type:
  assumes "context_load resp C = Inr C1" and "context_changed C1 = Inr C2"
    and "wf_js (JObj (group_session (pget (as_props resp) ''username'') (as_props (pc_workgroup C1))))"
  shows "\<exists>ps. stored_session C2 = Inr (JObj ps) \<and> \<not> phas ps ''workgroup_type''"
proof -
  obtain name ident where C1: "pc_workgroup C1 = JObj [(''name'', name), (''workgroup_id'', ident)]" "pc_user C1 = resp" "\<not> is_nullish resp"
    using assms(1) by (auto simp: context_load_def Let_def rbind_Inr_iff split: if_splits)
  let ?obj = "group_session (pget (as_props resp) ''username'') [(''name'', name), (''workgroup_id'', ident)]"
  have "C2 = context_select ?obj C1" using assms(2) C1 by (simp add: context_changed_def)
  moreover have "json_parse (json_text (JObj ?obj)) = Inr (json_norm (JObj ?obj))"
    using assms(3) C1 by (intro json_parse_text) simp
  ultimately have "stored_session C2 = Inr (json_norm (JObj ?obj))"
    by (simp add: stored_session_def context_select_def decode_encode del: json_text.simps json_norm.simps)
  then show ?thesis by (auto simp: group_session_def phas_def)
qed

definition sample_resp :: jsval where
  "sample_resp = JObj [(''username'', JStr ''ada''), (''workgroups'', JArr [JObj [(''workgroup_id'', JNum 3), (''name'', JStr ''lab''), (''type'', JStr ''normal'')]])]"

definition sample_context :: page_context where
  "sample_context = \<lparr>pc_user = JNull, pc_workgroup = JNull, pc_store = None\<rparr>"

theorem context_forgets_type_witness:
  "\<exists>ps. stored_session (projr (context_changed (projr (context_load sample_resp sample_context)))) = Inr (JObj ps) \<and> \<not> phas ps ''workgroup_type''"
proof -
  let ?r = "context_load sample_resp sample_context"
  have "\<not> isl ?r" by code_simp
  then have a: "?r = Inr (projr ?r)" by (metis sum.collapse(2))
  have "\<not> isl (context_changed (projr ?r))" by code_simp
  then have b: "context_changed (projr ?r) = Inr (projr (context_changed (projr ?r)))" by (metis sum.collapse(2))
  have "wf_js (JObj (group_session (pget (as_props sample_resp) ''username'') (as_props (pc_workgroup (projr ?r)))))" by code_simp
  from context_forgets_type [OF a b this] show ?thesis .
qed

end
