(* ===== verification/AdminPages.thy ===== *)
theory AdminPages
  imports AdminTheorems
begin

text \<open>
  The administration pages themselves (\<^verbatim>\<open>new/admin_new/src/pages\<close>) with the tables, providers and
  dialogs only they use: what each handler asks the user, sends to the server, puts into the
  status line, does to the rows of its table and where it goes afterwards.

  A page is its state: the status line of the page context, the calls to the router's history,
  the rows of its table (the answer of a list call is an array of objects) and, per page, what else it keeps.  A handler
  maps a page to the next one as a computation of \<open>Io\<close>; an \<^verbatim>\<open>await\<close> in a handler is the order of
  the events of the trace.
\<close>

section \<open>Status line and state\<close>

text \<open>A message is a value, or an error object of the engine where the code stores the error itself.\<close>

datatype status_text = Shown jsval | Raised exn

record status =
  st_type :: jsval
  st_message :: status_text

datatype nav = Push string | GoBack | Go int

record admin =
  ad_status :: status
  ad_nav :: "nav list"
  ad_rows :: "props list"

definition no_status :: status where
  "no_status = \<lparr>st_type = JNull, st_message = Shown (JStr [])\<rparr>"

definition success :: "string \<Rightarrow> status" where
  "success msg = \<lparr>st_type = JStr ''success'', st_message = Shown (JStr msg)\<rparr>"

text \<open>\<open>{type: 'error', message: error.toString()}\<close>, \<open>{type: 'error', message: error}\<close> and \<open>setStatus(error)\<close>.\<close>

definition failure :: "exn \<Rightarrow> status" where
  "failure e = \<lparr>st_type = JStr ''error'', st_message = Shown (JStr (exn_text e))\<rparr>"

definition failure_raw :: "exn \<Rightarrow> status" where
  "failure_raw e = \<lparr>st_type = JStr ''error'', st_message = (case e of Throw v \<Rightarrow> Shown v | _ \<Rightarrow> Raised e)\<rparr>"

definition status_is :: "exn \<Rightarrow> status" where
  "status_is e = (case e of
     Throw (JObj ps) \<Rightarrow> \<lparr>st_type = pget ps ''type'', st_message = Shown (pget ps ''message'')\<rparr>
   | Throw _ \<Rightarrow> \<lparr>st_type = JUndef, st_message = Shown JUndef\<rparr>
   | _ \<Rightarrow> \<lparr>st_type = JUndef, st_message = Raised e\<rparr>)"

text \<open>The status line (\<^verbatim>\<open>generic_components/Toast.jsx\<close>): the class of the box and its message, if it is shown.\<close>

definition Toast :: "status \<Rightarrow> (string \<times> status_text) option" where
  "Toast s = map_option (\<lambda>c. (c, st_message s)) (case st_type s of
     JStr ty \<Rightarrow> map_of [(''success'', ''alert alert-success''), (''info'', ''alert alert-info''),
       (''warning'', ''alert alert-warning''), (''error'', ''alert alert-danger'')] ty
   | _ \<Rightarrow> None)"

definition toast_close :: "'a admin_scheme \<Rightarrow> 'a admin_scheme" where
  "toast_close A = A\<lparr>ad_status := \<lparr>st_type = JNull, st_message = Shown JUndef\<rparr>\<rparr>"

definition goes :: "nav \<Rightarrow> 'a admin_scheme \<Rightarrow> 'a admin_scheme" where
  "goes n A = A\<lparr>ad_nav := ad_nav A @ [n]\<rparr>"

definition tells :: "status \<Rightarrow> 'a admin_scheme \<Rightarrow> 'a admin_scheme" where
  "tells s A = A\<lparr>ad_status := s\<rparr>"

text \<open>What follows a call, when it succeeds and when it fails.\<close>

definition settle :: "'b io \<Rightarrow> ('b \<Rightarrow> 'c io) \<Rightarrow> (exn \<Rightarrow> 'c io) \<Rightarrow> 'c io" where
  "settle m ok err t = (case m t of (Inl e, t') \<Rightarrow> err e t' | (Inr x, t') \<Rightarrow> ok x t')"

definition quoted :: "jsval \<Rightarrow> string" where
  "quoted v = [CHR 0x27] @ to_str v @ [CHR 0x27]"

definition as_rows :: "jsval \<Rightarrow> props list" where
  "as_rows v = (case v of JArr xs \<Rightarrow> map as_props xs | _ \<Rightarrow> [])"

definition username0 :: "props \<Rightarrow> jsval res" where
  "username0 user = jidx (pget user ''usernames'') 0"

section \<open>Routes (\<^verbatim>\<open>App.jsx\<close>, \<^verbatim>\<open>AdminRoute.jsx\<close>)\<close>

text \<open>Whether a path of the table fits an address is decided by the router, the argument \<open>fits\<close>;
  the first path that fits is taken.\<close>

datatype admin_page = ToUsers | Cloud | CreateUser | EditUser | Users | CreateNode | CreateAcl | EditAcl | Acls
  | EditInterface | Interfaces | EditNode | Nodes | Links | CreateWorkgroup | WorkgroupInterfaces
  | AddWorkgroupUser | WorkgroupUsers | EditWorkgroup | Workgroups | NotAuthorized

definition routes :: "(bool \<times> string \<times> admin_page) list" where
  "routes = [(True, ''/'', ToUsers), (False, ''/cloud'', Cloud), (False, ''/users/new'', CreateUser),
     (False, ''/users/:id'', EditUser), (False, ''/users'', Users), (False, ''/users'', Users), (False, ''/nodes/new'', CreateNode),
     (False, ''/nodes/:id/interfaces/:interfaceId/acls/new'', CreateAcl),
     (False, ''/nodes/:id/interfaces/:interfaceId/acls/:interfaceAclId'', EditAcl),
     (False, ''/nodes/:id/interfaces/:interfaceId/acls'', Acls),
     (False, ''/nodes/:id/interfaces/:interfaceId'', EditInterface), (False, ''/nodes/:id/interfaces'', Interfaces),
     (False, ''/nodes/:id'', EditNode), (False, ''/nodes'', Nodes), (False, ''/links'', Links),
     (False, ''/workgroups/new'', CreateWorkgroup), (False, ''/workgroups/:id/interfaces'', WorkgroupInterfaces),
     (False, ''/workgroups/:id/users/add'', AddWorkgroupUser), (False, ''/workgroups/:id/users'', WorkgroupUsers),
     (False, ''/workgroups/:id'', EditWorkgroup), (False, ''/workgroups'', Workgroups)]"

definition AdminRoute :: "props \<Rightarrow> admin_page \<Rightarrow> admin_page" where
  "AdminRoute user p = (if truthy (pget user ''is_admin'') then p else NotAuthorized)"

definition App :: "(bool \<Rightarrow> string \<Rightarrow> string \<Rightarrow> bool) \<Rightarrow> props \<Rightarrow> string \<Rightarrow> admin_page option" where
  "App fits user address = map_option (\<lambda>(ex, p, page). AdminRoute user page) (find (\<lambda>(ex, p, page). fits ex p address) routes)"

definition active_links :: "string \<Rightarrow> (string \<times> bool) list" where
  "active_links pathname = map (\<lambda>url. (url, take (length url) pathname = url)) [''/cloud'', ''/nodes'', ''/links'', ''/users'', ''/workgroups'']"

section \<open>Deleting the object of a row\<close>

definition without :: "string \<Rightarrow> jsval \<Rightarrow> props list \<Rightarrow> props list" where
  "without key ident rows = filter (\<lambda>r. \<not> loose_eq (pget r key) ident) rows"

definition delete_row :: "env \<Rightarrow> string \<Rightarrow> jsval io \<Rightarrow> string \<Rightarrow> string \<Rightarrow> jsval \<Rightarrow> 'a admin_scheme \<Rightarrow> 'a admin_scheme io" where
  "delete_row E question call msg key ident A = io_bind (confirm E question) (\<lambda>ok.
     if \<not> ok then io_ret A
     else settle call (\<lambda>_. io_ret (tells (success msg) A\<lparr>ad_rows := without key ident (ad_rows A)\<rparr>)) (\<lambda>e. io_ret (tells (failure e) A)))"

text \<open>\<open>Nodes.deleteNode\<close>, \<open>Users.deleteUser\<close>, \<open>Workgroups.deleteWorkgroup\<close> and \<open>WorkgroupUsers.removeWorkgroupUserHandler\<close>.\<close>

definition Nodes_deleteNode :: "env \<Rightarrow> string \<Rightarrow> props \<Rightarrow> 'a admin_scheme \<Rightarrow> 'a admin_scheme io" where
  "Nodes_deleteNode E base node = delete_row E (''Delete node '' @ quoted (pget node ''name'') @ ''?'') (deleteNode E base (pget node ''node_id''))
     (''Node '' @ quoted (pget node ''name'') @ '' was successfully deleted.'') ''node_id'' (pget node ''node_id'')"

definition Users_deleteUser :: "env \<Rightarrow> string \<Rightarrow> props \<Rightarrow> 'a admin_scheme \<Rightarrow> 'a admin_scheme io" where
  "Users_deleteUser E base user A = io_bind (io_lift (username0 user)) (\<lambda>name.
     delete_row E (''Delete user '' @ quoted name @ ''?'') (deleteUser E base (pget user ''user_id''))
       (''User '' @ quoted name @ '' was successfully deleted.'') ''user_id'' (pget user ''user_id'') A)"

definition Workgroups_deleteWorkgroup :: "env \<Rightarrow> string \<Rightarrow> props \<Rightarrow> 'a admin_scheme \<Rightarrow> 'a admin_scheme io" where
  "Workgroups_deleteWorkgroup E base workgroup = delete_row E (''Delete workgroup '' @ quoted (pget workgroup ''name'') @ ''?'')
     (deleteWorkgroup E base (pget workgroup ''workgroup_id''))
     (''Workgroup '' @ quoted (pget workgroup ''name'') @ '' was successfully deleted.'') ''workgroup_id'' (pget workgroup ''workgroup_id'')"

definition removeWorkgroupUserHandler :: "env \<Rightarrow> string \<Rightarrow> jsval \<Rightarrow> props \<Rightarrow> 'a admin_scheme \<Rightarrow> 'a admin_scheme io" where
  "removeWorkgroupUserHandler E base group_id user A = io_bind (io_lift (username0 user)) (\<lambda>name.
     delete_row E (''Remove '' @ quoted name @ '' from workgroup?'') (removeWorkgroupUser E base group_id (pget user ''user_id''))
       (to_str name @ '' successfully removed from workgroup.'') ''user_id'' (pget user ''user_id'') A)"

section \<open>The pages with tables\<close>

text \<open>The tables are filled when a page is mounted; some pages only log an error.\<close>

definition fill_rows :: "jsval io \<Rightarrow> (exn \<Rightarrow> 'a admin_scheme \<Rightarrow> 'a admin_scheme) \<Rightarrow> 'a admin_scheme \<Rightarrow> 'a admin_scheme io" where
  "fill_rows call err A = settle call (\<lambda>v. io_ret (A\<lparr>ad_rows := as_rows v\<rparr>)) (\<lambda>e. io_ret (err e A))"

definition Users_mount :: "env \<Rightarrow> string \<Rightarrow> 'a admin_scheme \<Rightarrow> 'a admin_scheme io" where
  "Users_mount E base = fill_rows (getUsers E base) (\<lambda>e A. A)"

definition Workgroups_mount :: "env \<Rightarrow> string \<Rightarrow> 'a admin_scheme \<Rightarrow> 'a admin_scheme io" where
  "Workgroups_mount E base = fill_rows (admin_getAllWorkgroups E base) (\<lambda>e A. A)"

definition WorkgroupUsers_mount :: "env \<Rightarrow> string \<Rightarrow> jsval \<Rightarrow> 'a admin_scheme \<Rightarrow> 'a admin_scheme io" where
  "WorkgroupUsers_mount E base group_id = fill_rows (getWorkgroupUsers E base group_id) (\<lambda>e A. A)"

definition LinkProvider_load :: "env \<Rightarrow> string \<Rightarrow> 'a admin_scheme \<Rightarrow> 'a admin_scheme io" where
  "LinkProvider_load E base = fill_rows (getLinks E base) (\<lambda>e. tells (failure e))"

definition reloadAcls :: "env \<Rightarrow> string \<Rightarrow> jsval \<Rightarrow> 'a admin_scheme \<Rightarrow> 'a admin_scheme io" where
  "reloadAcls E base interfaceId = fill_rows (getAcls E base interfaceId) (\<lambda>e. tells (failure e))"

definition modifyWorkgroupUserHandler :: "env \<Rightarrow> string \<Rightarrow> jsval \<Rightarrow> props \<Rightarrow> string \<Rightarrow> 'a admin_scheme \<Rightarrow> 'a admin_scheme io" where
  "modifyWorkgroupUserHandler E base group_id user role A =
     settle (modifyWorkgroupUser E base group_id (pget user ''user_id'') (JStr role))
       (\<lambda>_. io_ret (tells (case username0 user of
          Inr name \<Rightarrow> success (to_str name @ [CHR 0x27] @ ''s role was successfully set to '' @ quoted (JStr role) @ ''.'') | Inl e \<Rightarrow> failure e) A))
       (\<lambda>e. io_ret (tells (failure e) A))"

text \<open>With third-party management the buttons that change users and workgroups are not drawn.\<close>

datatype row_button = EditUserLink | DeleteUserButton | RemoveUserButton | ManageUsersLink | AddUserLink | EditWorkgroupLink
  | ManageInterfacesLink | DeleteWorkgroupButton | EditInterfaceLink bool | ManageAclsLink bool | MigrateButton bool

definition Users_buttons :: "jsval \<Rightarrow> row_button list" where
  "Users_buttons third_party = (if loose_eq third_party (JNum 1) then [] else [EditUserLink, DeleteUserButton])"

definition Workgroups_buttons :: "jsval \<Rightarrow> row_button list" where
  "Workgroups_buttons third_party = (if loose_eq third_party (JNum 1) then [ManageUsersLink]
     else [AddUserLink, EditWorkgroupLink, ManageInterfacesLink, ManageUsersLink, DeleteWorkgroupButton])"

definition WorkgroupUsers_buttons :: "jsval \<Rightarrow> row_button list" where
  "WorkgroupUsers_buttons third_party = (if loose_eq third_party (JNum 1) then [] else [RemoveUserButton])"

definition role_disabled :: "jsval \<Rightarrow> bool" where
  "role_disabled third_party = loose_eq third_party (JNum 1)"

definition create_link :: "jsval \<Rightarrow> bool" where
  "create_link third_party \<longleftrightarrow> \<not> loose_eq third_party (JNum 1)"

subsection \<open>Access control lists (\<^verbatim>\<open>acls/AclTable.jsx\<close>)\<close>

definition acl_action :: "env \<Rightarrow> string \<Rightarrow> jsval \<Rightarrow> jsval io \<Rightarrow> string \<Rightarrow> 'a admin_scheme \<Rightarrow> 'a admin_scheme io" where
  "acl_action E base interfaceId call msg A =
     settle call (\<lambda>_. reloadAcls E base interfaceId (tells (success msg) A)) (\<lambda>e. io_ret (tells (failure_raw e) A))"

definition onDeleteAcl :: "env \<Rightarrow> string \<Rightarrow> jsval \<Rightarrow> props \<Rightarrow> 'a admin_scheme \<Rightarrow> 'a admin_scheme io" where
  "onDeleteAcl E base interfaceId acl =
     acl_action E base interfaceId (deleteAcl E base (pget acl ''interface_acl_id'')) ''ACL entry was successfully deleted.''"

definition acl_values :: "props \<Rightarrow> props" where
  "acl_values acl = [(''interfaceAclId'', pget acl ''interface_acl_id''), (''evalPosition'', pget acl ''eval_position''),
     (''allowDeny'', pget acl ''allow_deny''), (''start'', pget acl ''start''), (''end'', pget acl ''end''),
     (''interfaceId'', pget acl ''interface_id''), (''notes'', pget acl ''notes''),
     (''entityId'', js_or (pget acl ''entity_id'') (JNum (- 1))), (''workgroupId'', js_or (pget acl ''workgroup_id'') (JNum (- 1)))]"

definition decreasePriority :: "env \<Rightarrow> string \<Rightarrow> jsval \<Rightarrow> props \<Rightarrow> 'a admin_scheme \<Rightarrow> 'a admin_scheme io" where
  "decreasePriority E base interfaceId acl =
     acl_action E base interfaceId (decreaseAclPriority E base (acl_values acl)) ''ACL entry was successfully edited.''"

definition increasePriority :: "env \<Rightarrow> string \<Rightarrow> jsval \<Rightarrow> props \<Rightarrow> 'a admin_scheme \<Rightarrow> 'a admin_scheme io" where
  "increasePriority E base interfaceId acl =
     acl_action E base interfaceId (increaseAclPriority E base (acl_values acl)) ''ACL entry was successfully edited.''"

section \<open>The pages with forms\<close>

record edit_page = admin +
  ed_object :: jsval

definition edit_load :: "jsval io \<Rightarrow> (exn \<Rightarrow> status) \<Rightarrow> 'a edit_page_scheme \<Rightarrow> 'a edit_page_scheme io" where
  "edit_load call err A = settle call (\<lambda>v. io_ret (A\<lparr>ed_object := v\<rparr>)) (\<lambda>e. io_ret (tells (err e) A))"

definition edit_loading :: "'a edit_page_scheme \<Rightarrow> bool" where
  "edit_loading A \<longleftrightarrow> is_nullish (ed_object A)"

definition EditNode_load :: "env \<Rightarrow> string \<Rightarrow> jsval \<Rightarrow> 'a edit_page_scheme \<Rightarrow> 'a edit_page_scheme io" where
  "EditNode_load E base ident = edit_load (getNode E base ident) status_is"

definition EditUser_load :: "env \<Rightarrow> string \<Rightarrow> jsval \<Rightarrow> 'a edit_page_scheme \<Rightarrow> 'a edit_page_scheme io" where
  "EditUser_load E base ident = edit_load (getUser E base ident) status_is"

definition EditWorkgroup_load :: "env \<Rightarrow> string \<Rightarrow> jsval \<Rightarrow> 'a edit_page_scheme \<Rightarrow> 'a edit_page_scheme io" where
  "EditWorkgroup_load E base ident = edit_load (getWorkgroup E base ident) status_is"

definition EditInterface_load :: "env \<Rightarrow> string \<Rightarrow> jsval \<Rightarrow> 'a edit_page_scheme \<Rightarrow> 'a edit_page_scheme io" where
  "EditInterface_load E base ident = edit_load (getInterface E base ident) failure"

text \<open>The entry is shown once its interface is known as well; a property can be set on an object only.\<close>

definition with_interface :: "jsval \<Rightarrow> jsval \<Rightarrow> jsval res" where
  "with_interface acl intf = (case acl of JObj ps \<Rightarrow> Inr (JObj (pset ps ''interface'' intf)) | JArr xs \<Rightarrow> Inr acl | _ \<Rightarrow> Inl TypeError)"

definition EditAcl_load :: "env \<Rightarrow> string \<Rightarrow> jsval \<Rightarrow> jsval \<Rightarrow> 'a edit_page_scheme \<Rightarrow> 'a edit_page_scheme io" where
  "EditAcl_load E base aclId interfaceId A = settle (getAcl E base aclId)
     (\<lambda>acl. edit_load (io_bind (getInterface E base interfaceId) (\<lambda>intf. io_lift (with_interface acl intf))) failure A)
     (\<lambda>e. io_ret (tells (failure e) A))"

definition EditAcl_loading :: "'a edit_page_scheme \<Rightarrow> bool" where
  "EditAcl_loading A \<longleftrightarrow> is_nullish (ed_object A) \<or> \<not> truthy (pget (as_props (ed_object A)) ''interface'')"

text \<open>The submit handlers: some pages are left only after a success, some in any case.\<close>

definition CreateNode_submit :: "env \<Rightarrow> string \<Rightarrow> props \<Rightarrow> 'a admin_scheme \<Rightarrow> 'a admin_scheme io" where
  "CreateNode_submit E base e A = settle (createNode E base e)
     (\<lambda>_. io_ret (goes (Push ''/nodes'') (tells (success (''Node '' @ quoted (pget e ''name'') @ '' was successfully created.'')) A)))
     (\<lambda>x. io_ret (tells (failure_raw x) A))"

definition EditNode_submit :: "env \<Rightarrow> string \<Rightarrow> props \<Rightarrow> 'a admin_scheme \<Rightarrow> 'a admin_scheme io" where
  "EditNode_submit E base e A = settle (editNode E base e)
     (\<lambda>_. io_ret (goes GoBack (tells (success (''Node '' @ quoted (pget e ''name'') @ '' was successfully edited.'')) A)))
     (\<lambda>x. io_ret (goes GoBack (tells (failure x) A)))"

definition CreateWorkgroup_submit :: "env \<Rightarrow> string \<Rightarrow> props \<Rightarrow> 'a admin_scheme \<Rightarrow> 'a admin_scheme io" where
  "CreateWorkgroup_submit E base e A = settle (createWorkgroup E base e)
     (\<lambda>_. io_ret (goes (Push ''/workgroups'') (tells (success (''Workgroup '' @ quoted (pget e ''name'') @ '' was successfully created.'')) A)))
     (\<lambda>x. io_ret (tells (failure_raw x) A))"

definition EditWorkgroup_submit :: "env \<Rightarrow> string \<Rightarrow> props \<Rightarrow> 'a admin_scheme \<Rightarrow> 'a admin_scheme io" where
  "EditWorkgroup_submit E base e A = settle (editWorkgroup E base e)
     (\<lambda>_. io_ret (goes (Push ''/workgroups'') (tells (success (''Workgroup '' @ quoted (pget e ''name'') @ '' was successfully edited.'')) A)))
     (\<lambda>x. io_ret (tells (failure x) A))"

definition CreateUser_submit :: "env \<Rightarrow> string \<Rightarrow> props \<Rightarrow> 'a admin_scheme \<Rightarrow> 'a admin_scheme io" where
  "CreateUser_submit E base e A = settle (io_bind (createUser E base e) (\<lambda>_. io_lift (username0 e)))
     (\<lambda>name. io_ret (goes (Push ''/users'') (tells (success (''User '' @ quoted name @ '' was successfully created.'')) A)))
     (\<lambda>x. io_ret (goes (Push ''/users'') (tells (failure_raw x) A)))"

definition EditUser_submit :: "env \<Rightarrow> string \<Rightarrow> props \<Rightarrow> 'a admin_scheme \<Rightarrow> 'a admin_scheme io" where
  "EditUser_submit E base e A = settle (io_bind (editUser E base e) (\<lambda>_. io_lift (username0 e)))
     (\<lambda>name. io_ret (goes (Push ''/users'') (tells (success (''User '' @ quoted name @ '' was successfully edited.'')) A)))
     (\<lambda>x. io_ret (goes (Push ''/users'') (tells (failure x) A)))"

definition EditInterface_submit :: "env \<Rightarrow> string \<Rightarrow> props \<Rightarrow> 'a admin_scheme \<Rightarrow> 'a admin_scheme io" where
  "EditInterface_submit E base e A = settle (editInterface E base e)
     (\<lambda>_. io_ret (goes GoBack (tells (success (''Interface '' @ quoted (pget e ''name'') @ '' was successfully edited.'')) A)))
     (\<lambda>x. io_ret (tells (failure x) A))"

definition CreateAcl_submit :: "env \<Rightarrow> string \<Rightarrow> props \<Rightarrow> 'a admin_scheme \<Rightarrow> 'a admin_scheme io" where
  "CreateAcl_submit E base e A = settle (createAcl E base e)
     (\<lambda>_. io_ret (goes GoBack (tells (success ''ACL was successfully created.'') A)))
     (\<lambda>x. io_ret (goes GoBack (tells (failure_raw x) A)))"

definition EditAcl_submit :: "env \<Rightarrow> string \<Rightarrow> props \<Rightarrow> 'a admin_scheme \<Rightarrow> 'a admin_scheme io" where
  "EditAcl_submit E base e A = settle (editAcl E base e)
     (\<lambda>_. io_ret (goes GoBack (tells (success ''ACL was successfully edited.'') A)))
     (\<lambda>x. io_ret (goes GoBack (tells (failure x) A)))"

definition AddWorkgroupUser_submit :: "env \<Rightarrow> string \<Rightarrow> jsval \<Rightarrow> props \<Rightarrow> 'a admin_scheme \<Rightarrow> 'a admin_scheme io" where
  "AddWorkgroupUser_submit E base group_id e A =
     settle (addWorkgroupUser E base (pget e ''workgroupId'') (pget e ''userId'') (pget e ''role''))
     (\<lambda>_. io_ret (goes (Push (''/workgroups/'' @ to_str group_id @ ''/users'')) (tells (success (''User '' @ quoted (pget e ''username'') @ '' was successfully added.'')) A)))
     (\<lambda>x. io_ret (goes (Push (''/workgroups/'' @ to_str group_id @ ''/users'')) (tells (failure_raw x) A)))"

text \<open>The form for a new member of a workgroup (\<^verbatim>\<open>workgroups/AddWorkgroupUserForm.jsx\<close>).\<close>

record member_form =
  mf_userId :: jsval
  mf_role :: string
  mf_workgroupId :: jsval
  mf_users :: "props list"

definition new_member_form :: "jsval \<Rightarrow> member_form" where
  "new_member_form workgroupId = \<lparr>mf_userId = JNull, mf_role = ''read-only'', mf_workgroupId = js_or workgroupId (JNum 0), mf_users = []\<rparr>"

definition member_form_load :: "env \<Rightarrow> string \<Rightarrow> member_form \<Rightarrow> member_form io" where
  "member_form_load E base F = settle (getUsers E base) (\<lambda>v. io_ret (F\<lparr>mf_users := as_rows v\<rparr>)) (\<lambda>e. io_ret F)"

definition member_suggestions :: "member_form \<Rightarrow> suggestion list res" where
  "member_suggestions F = rmap (\<lambda>user. rbind (username0 user) (\<lambda>name. Inr (to_str name, parse_int (pget user ''user_id'')))) (mf_users F)"

definition member_payload :: "member_form \<Rightarrow> props res" where
  "member_payload F = (case filter (\<lambda>user. loose_eq (pget user ''user_id'') (mf_userId F)) (mf_users F) of
     [] \<Rightarrow> Inl TypeError
   | user # _ \<Rightarrow> rbind (username0 user) (\<lambda>name. Inr
       [(''role'', JStr (mf_role F)), (''userId'', mf_userId F), (''workgroupId'', mf_workgroupId F), (''username'', name)]))"

definition member_submit :: "env \<Rightarrow> string \<Rightarrow> jsval \<Rightarrow> member_form \<Rightarrow> 'a admin_scheme \<Rightarrow> 'a admin_scheme io" where
  "member_submit E base group_id F A = io_bind (io_lift (member_payload F)) (\<lambda>e. AddWorkgroupUser_submit E base group_id e A)"

section \<open>Nodes and interfaces\<close>

record nodes_page = admin +
  diffNodeId :: jsval
  diffNodeName :: jsval
  nodes_visible :: bool

definition Nodes_mount :: "env \<Rightarrow> string \<Rightarrow> 'a nodes_page_scheme \<Rightarrow> 'a nodes_page_scheme io" where
  "Nodes_mount E base = fill_rows (getNodes E base) (\<lambda>e A. A)"

definition open_diff :: "props \<Rightarrow> 'a nodes_page_scheme \<Rightarrow> 'a nodes_page_scheme" where
  "open_diff node A = A\<lparr>nodes_visible := True, diffNodeId := pget node ''node_id'', diffNodeName := pget node ''name''\<rparr>"

definition close_diff :: "'a nodes_page_scheme \<Rightarrow> 'a nodes_page_scheme" where
  "close_diff A = A\<lparr>nodes_visible := False\<rparr>"

definition onApprovalHandler :: "env \<Rightarrow> string \<Rightarrow> 'a nodes_page_scheme \<Rightarrow> 'a nodes_page_scheme io" where
  "onApprovalHandler E base A = io_bind
     (settle (approveDiff E base (diffNodeId A))
        (\<lambda>_. fill_rows (getNodes E base) (\<lambda>e. tells (failure e))
           (tells (success (''Pending changes for '' @ quoted (diffNodeName A) @ '' were successfully approved.'')) A))
        (\<lambda>e. io_ret (tells (failure e) A)))
     (\<lambda>A'. io_ret (close_diff A'))"

record interfaces_page = admin +
  ip_node :: jsval
  ip_interface :: jsval
  migrateInterfaceModalVisible :: bool

definition reserved_text :: "props \<Rightarrow> props" where
  "reserved_text x = pset x ''utilized_total_bandwith'' (JStr (to_str (pget x ''utilized_bandwidth'') @ '' / '' @ to_str (pget x ''bandwidth'')))"

definition Interfaces_mount :: "env \<Rightarrow> string \<Rightarrow> jsval \<Rightarrow> 'a interfaces_page_scheme \<Rightarrow> 'a interfaces_page_scheme io" where
  "Interfaces_mount E base nodeId A = settle
     (io_bind (getNode E base nodeId) (\<lambda>node. io_bind (admin_getInterfaces E base nodeId) (\<lambda>v. io_ret (node, v))))
     (\<lambda>(node, v). io_ret (A\<lparr>ad_rows := map reserved_text (as_rows v), ip_node := node\<rparr>))
     (\<lambda>e. io_ret (tells (failure e) A))"

definition open_migration :: "props \<Rightarrow> 'a interfaces_page_scheme \<Rightarrow> 'a interfaces_page_scheme" where
  "open_migration row A = A\<lparr>migrateInterfaceModalVisible := True, ip_interface := JObj row\<rparr>"

definition Interfaces_migrateInterface :: "env \<Rightarrow> string \<Rightarrow> props \<Rightarrow> 'a interfaces_page_scheme \<Rightarrow> 'a interfaces_page_scheme io" where
  "Interfaces_migrateInterface E base data A = io_bind (confirm E ''Are you sure you wish to continue?'') (\<lambda>ok.
     if \<not> ok then io_ret A
     else settle (migrateInterface E base (pget data ''srcInterfaceId'') (pget data ''dstInterfaceId''))
       (\<lambda>_. io_ret (goes (Go 0) A))
       (\<lambda>e. io_ret (tells (failure e) (A\<lparr>migrateInterfaceModalVisible := False\<rparr>))))"

text \<open>The buttons of an interface, with whether they can be used.\<close>

definition Interfaces_buttons :: "props \<Rightarrow> row_button list" where
  "Interfaces_buttons row = (let menu = \<not> is_nullish (pget row ''workgroup_id'') in
     [EditInterfaceLink (pget row ''role'' \<noteq> JStr ''trunk''), ManageAclsLink menu, MigrateButton menu])"

subsection \<open>Interfaces of a workgroup (\<^verbatim>\<open>workgroups/WorkgroupInterfaces.jsx\<close>)\<close>

record group_interfaces_page = admin +
  addInterfaceModalVisible :: bool

definition WorkgroupInterfaces_mount :: "env \<Rightarrow> string \<Rightarrow> jsval \<Rightarrow> 'a group_interfaces_page_scheme \<Rightarrow> 'a group_interfaces_page_scheme io" where
  "WorkgroupInterfaces_mount E base workgroup_id = fill_rows (getInterfacesByWorkgroupId E base workgroup_id) (\<lambda>e. tells (failure e))"

definition group_edit :: "env \<Rightarrow> string \<Rightarrow> jsval \<Rightarrow> jsval \<Rightarrow> 'a group_interfaces_page_scheme \<Rightarrow> 'a group_interfaces_page_scheme io" where
  "group_edit E base interfaceId workgroupId A =
     settle (editInterface E base [(''interfaceId'', interfaceId), (''workgroupId'', workgroupId)])
       (\<lambda>_. io_ret (goes (Go 0) A))
       (\<lambda>e. io_ret (tells (failure e) (A\<lparr>addInterfaceModalVisible := False\<rparr>)))"

definition addInterface :: "env \<Rightarrow> string \<Rightarrow> jsval \<Rightarrow> props \<Rightarrow> 'a group_interfaces_page_scheme \<Rightarrow> 'a group_interfaces_page_scheme io" where
  "addInterface E base workgroup_id data = group_edit E base (pget data ''interfaceId'') workgroup_id"

definition removeInterface :: "env \<Rightarrow> string \<Rightarrow> props \<Rightarrow> 'a group_interfaces_page_scheme \<Rightarrow> 'a group_interfaces_page_scheme io" where
  "removeInterface E base data A = io_bind
     (confirm E (''Are you sure you want to remove '' @ to_str (pget data ''node'') @ '' - '' @ to_str (pget data ''name'') @ '' from workgroup?'')) (\<lambda>ok.
     if \<not> ok then io_ret A else group_edit E base (pget data ''interface_id'') (JNum (- 1)) A)"

text \<open>The two dialogs that choose an interface (\<^verbatim>\<open>MigrateInterfaceForm.jsx\<close>,
  \<^verbatim>\<open>AddWorkgroupInterfaceForm.jsx\<close>): the answer for a node clears the choice.\<close>

record interface_picker =
  pk_nodeId :: jsval
  pk_nodes :: "props list"
  pk_interfaceId :: jsval
  pk_interfaces :: "props list"

definition new_picker :: interface_picker where
  "new_picker = \<lparr>pk_nodeId = JNum (- 1), pk_nodes = [], pk_interfaceId = JNum (- 1), pk_interfaces = []\<rparr>"

definition picker_nodes :: "env \<Rightarrow> string \<Rightarrow> interface_picker \<Rightarrow> interface_picker io" where
  "picker_nodes E base P = io_bind (getNodes E base) (\<lambda>v. io_ret (P\<lparr>pk_nodes := as_rows v\<rparr>))"

definition picker_interfaces :: "env \<Rightarrow> string \<Rightarrow> interface_picker \<Rightarrow> interface_picker io" where
  "picker_interfaces E base P = io_bind (admin_getInterfaces E base (pk_nodeId P)) (\<lambda>v.
     io_ret (P\<lparr>pk_interfaces := as_rows v, pk_interfaceId := JNum (- 1)\<rparr>))"

definition named_suggestions :: "string \<Rightarrow> props list \<Rightarrow> suggestion list" where
  "named_suggestions key rows = map (\<lambda>r. (to_str (pget r ''name''), parse_int (pget r key))) rows"

definition migration_payload :: "jsval \<Rightarrow> interface_picker \<Rightarrow> props" where
  "migration_payload interfaceId P = [(''srcInterfaceId'', parse_int interfaceId), (''dstInterfaceId'', pk_interfaceId P)]"

definition addition_payload :: "interface_picker \<Rightarrow> props" where
  "addition_payload P = [(''interfaceId'', pk_interfaceId P)]"

definition group_suggestions :: "suggestion option \<Rightarrow> string \<Rightarrow> props list \<Rightarrow> suggestion list" where
  "group_suggestions nullOption key rows = (case nullOption of None \<Rightarrow> [] | Some s \<Rightarrow> [s]) @ named_suggestions key rows"

section \<open>Reviews of cloud endpoints (\<^verbatim>\<open>cloud/Cloud.jsx\<close>)\<close>

record cloud_page = admin +
  onApprovalHandlerLoading :: bool

definition Cloud_mount :: "env \<Rightarrow> string \<Rightarrow> 'a cloud_page_scheme \<Rightarrow> 'a cloud_page_scheme io" where
  "Cloud_mount E base = fill_rows (getEndpointsInReview E base) (\<lambda>e. tells (failure e))"

definition Cloud_onApprovalHandler :: "env \<Rightarrow> string \<Rightarrow> bool \<Rightarrow> jsval \<Rightarrow> jsval \<Rightarrow> 'a cloud_page_scheme \<Rightarrow> 'a cloud_page_scheme io" where
  "Cloud_onApprovalHandler E base approve circuitEpId vrfEpId A =
     io_bind (confirm E (''Are you sure you want to '' @ quoted (JStr (if approve then ''approve'' else ''deny'')) @ '' this endpoint?'')) (\<lambda>ok.
     if \<not> ok then io_ret A
     else io_bind (settle (reviewEndpoint E base (JBool approve) circuitEpId vrfEpId)
         (\<lambda>_. io_ret (tells (success (''Endpoint was successfully '' @ (if approve then ''approved'' else ''denied'') @ ''.'')) A))
         (\<lambda>e. io_ret (tells (failure e) A)))
       (\<lambda>A'. fill_rows (getEndpointsInReview E base) (\<lambda>e A. A) (A'\<lparr>onApprovalHandlerLoading := False\<rparr>)))"

definition review_row :: "env \<Rightarrow> string \<Rightarrow> bool \<Rightarrow> props \<Rightarrow> 'a cloud_page_scheme \<Rightarrow> 'a cloud_page_scheme io" where
  "review_row E base approve row = Cloud_onApprovalHandler E base approve (pget row ''circuit_ep_id'') (pget row ''vrf_endpoint_id'')"

definition connectionLink :: "props \<Rightarrow> string \<times> string" where
  "connectionLink row = (if truthy (pget row ''circuit_id'')
     then (''../../index.cgi?action=modify_l2vpn&circuit_id='' @ to_str (pget row ''circuit_id''), to_str (pget row ''circuit_id''))
     else (''../../index.cgi?action=modify_cloud&vrf_id='' @ to_str (pget row ''vrf_id''), if is_nullish (pget row ''vrf_id'') then [] else to_str (pget row ''vrf_id'')))"

section \<open>Pending changes of a node (\<^verbatim>\<open>nodes/diff\<close>)\<close>

text \<open>
  The dialog asks for the changes of a node whenever the node it is given differs from the last
  one; the answers may arrive in any order.  An event is the page giving the dialog a node, or the
  arrival of one of the outstanding answers.
\<close>

record diff_form =
  df_node :: jsval
  df_text :: jsval
  df_error :: "exn option"
  df_loading :: bool
  df_pending :: "jsval list"

datatype diff_event = ShowNode jsval | DiffAnswer nat "jsval res"

definition diff_mount :: "jsval \<Rightarrow> diff_form" where
  "diff_mount node = \<lparr>df_node = node, df_text = JStr [], df_error = None, df_loading = True, df_pending = [node]\<rparr>"

fun diff_step :: "diff_event \<Rightarrow> diff_form \<Rightarrow> diff_form option" where
  "diff_step (ShowNode node) F = Some (if node = df_node F then F
     else F\<lparr>df_node := node, df_error := None, df_loading := True, df_pending := df_pending F @ [node]\<rparr>)"
| "diff_step (DiffAnswer i r) F = (if length (df_pending F) \<le> i then None
     else let F' = F\<lparr>df_loading := False, df_pending := take i (df_pending F) @ drop (Suc i) (df_pending F)\<rparr>
       in Some (case r of Inr text \<Rightarrow> F'\<lparr>df_text := text\<rparr> | Inl e \<Rightarrow> F'\<lparr>df_error := Some e\<rparr>))"

fun diff_steps :: "diff_event list \<Rightarrow> diff_form \<Rightarrow> diff_form option" where
  "diff_steps [] F = Some F"
| "diff_steps (e # es) F = Option.bind (diff_step e F) (diff_steps es)"

datatype diff_line = Added string | Removed string | Plain string

definition diff_line_of :: "string \<Rightarrow> diff_line" where
  "diff_line_of line = (case line of [] \<Rightarrow> Plain line | c # _ \<Rightarrow>
     if c = CHR ''+'' then Added line else if c = CHR ''-'' then Removed line else Plain line)"

definition Diff :: "jsval \<Rightarrow> diff_line list res" where
  "Diff text = (case text of JStr s \<Rightarrow> Inr (map diff_line_of (split_on CHR 0x0A s)) | _ \<Rightarrow> Inl TypeError)"

datatype diff_content = DiffLoading | DiffError exn | NoChanges | DiffLines "diff_line list"

text \<open>What the dialog shows, and whether the changes can be approved.\<close>

definition DiffApprovalForm :: "diff_form \<Rightarrow> (diff_content \<times> bool) res" where
  "DiffApprovalForm F =
     (if df_loading F then Inr (DiffLoading, False)
      else case df_error F of
        Some e \<Rightarrow> Inr (DiffError e, False)
      | None \<Rightarrow> if df_text F = JStr [] then Inr (NoChanges, False)
          else rbind (Diff (df_text F)) (\<lambda>ls. Inr (DiffLines ls, True)))"

end
