(* ===== verification/AdminPageTheorems.thy ===== *)
theory AdminPageTheorems
  imports AdminPages
begin

text \<open>
  Properties of the administration pages: rows disappear exactly when the server has deleted their
  object, entries of an access control list are moved without other changes, and the dialog for
  pending changes offers for approval what the server answered for the node, as long as no other
  node is opened before the answer.
\<close>

section \<open>Calls and their continuations\<close>

definition answer :: "env \<Rightarrow> event list \<Rightarrow> string \<Rightarrow> (jsval \<Rightarrow> jsval res) \<Rightarrow> jsval res" where
  "answer E t url post = rbind (serve E t (get_request url)) (\<lambda>d. rbind (err_set d) post)"

lemma admin_call_answer: "admin_call E url post t = (answer E t url post, t @ [Sent (get_request url)])"
  by (simp add: admin_call_def api_call_eq answer_def)

lemma settle_call:
  "settle (admin_call E url post) ok err t =
     (case answer E t url post of Inl e \<Rightarrow> err e (t @ [Sent (get_request url)]) | Inr v \<Rightarrow> ok v (t @ [Sent (get_request url)]))"
  by (simp add: settle_def admin_call_answer split: sum.split)

lemma tells_simps [simp]:
  "ad_status (tells s A) = s" "ad_nav (tells s A) = ad_nav A" "ad_rows (tells s A) = ad_rows A"
  by (simp_all add: tells_def)

lemma toast_simps [simp]:
  "Toast (success m) = Some (''alert alert-success'', Shown (JStr m))"
  "Toast (failure e) = Some (''alert alert-danger'', Shown (JStr (exn_text e)))"
  by (simp_all add: Toast_def success_def failure_def)

section \<open>Deletions\<close>

text \<open>What a deletion promises: nothing happens unless the user agrees; then one request is sent,
  and the rows of the object go exactly if the server accepts it; the user is told either way.\<close>

definition deletion :: "env \<Rightarrow> string \<Rightarrow> string \<Rightarrow> (jsval \<Rightarrow> jsval res) \<Rightarrow> string \<Rightarrow> props \<Rightarrow> 'a admin_scheme \<Rightarrow> event list \<Rightarrow>
    ('a admin_scheme res \<times> event list) \<Rightarrow> bool" where
  "deletion E question url post key row A t out \<longleftrightarrow>
     (if answers E t question
      then \<exists>A'. out = (Inr A', t @ [Asked question, Sent (get_request url)]) \<and> ad_nav A' = ad_nav A \<and>
        (case answer E (t @ [Asked question]) url post of
           Inr v \<Rightarrow> ad_rows A' = without key (pget row key) (ad_rows A) \<and> map_option fst (Toast (ad_status A')) = Some ''alert alert-success''
         | Inl e \<Rightarrow> ad_rows A' = ad_rows A \<and> Toast (ad_status A') = Some (''alert alert-danger'', Shown (JStr (exn_text e))))
      else out = (Inr A, t @ [Asked question]))"

lemma delete_row_deletes:
  "deletion E question url post key row A t (delete_row E question (admin_call E url post) msg key (pget row key) A t)"
  by (simp add: deletion_def delete_row_def settle_call split: sum.split)

locale row_deletion =
  fixes E :: env and handler :: "props \<Rightarrow> 'a admin_scheme \<Rightarrow> 'a admin_scheme io"
    and question url msg :: "props \<Rightarrow> string" and post :: "jsval \<Rightarrow> jsval res" and key :: string and ready :: "props \<Rightarrow> bool"
  assumes handler_eq: "ready row \<Longrightarrow>
    handler row A = delete_row E (question row) (admin_call E (url row) post) (msg row) key (pget row key) A"
begin

lemma deletes: "ready row \<Longrightarrow> deletion E (question row) (url row) post key row A t (handler row A t)"
  by (simp add: handler_eq delete_row_deletes)

lemma others_stay:
  assumes "ready row" and "handler row A t = (Inr A', t')" and "r \<in> set (ad_rows A)" and "\<not> loose_eq (pget r key) (pget row key)"
  shows "r \<in> set (ad_rows A')"
  using deletes [OF assms(1), of A t] assms(2-4)
  by (auto simp: deletion_def without_def split: if_splits sum.splits)

end

definition user_name :: "props \<Rightarrow> jsval" where
  "user_name user = (case username0 user of Inr v \<Rightarrow> v | Inl e \<Rightarrow> JUndef)"

definition named :: "props \<Rightarrow> bool" where
  "named user \<longleftrightarrow> (\<exists>v. username0 user = Inr v)"

interpretation nodes_rows: row_deletion E "Nodes_deleteNode E base" "\<lambda>node. ''Delete node '' @ quoted (pget node ''name'') @ ''?''"
    "\<lambda>node. service base ''node'' ''delete_node'' @ param ''node_id'' (pget node ''node_id'')"
    "\<lambda>node. ''Node '' @ quoted (pget node ''name'') @ '' was successfully deleted.''" results "''node_id''" "\<lambda>_. True" for E base
  by unfold_locales (simp add: Nodes_deleteNode_def deleteNode_def)

interpretation users_rows: row_deletion E "Users_deleteUser E base" "\<lambda>user. ''Delete user '' @ quoted (user_name user) @ ''?''"
    "\<lambda>user. service base ''user'' ''delete_user'' @ param ''user_id'' (pget user ''user_id'')"
    "\<lambda>user. ''User '' @ quoted (user_name user) @ '' was successfully deleted.''" results0 "''user_id''" named for E base
  by unfold_locales (auto simp: Users_deleteUser_def deleteUser_def named_def user_name_def)

interpretation workgroups_rows: row_deletion E "Workgroups_deleteWorkgroup E base" "\<lambda>w. ''Delete workgroup '' @ quoted (pget w ''name'') @ ''?''"
    "\<lambda>w. service base ''workgroup'' ''delete_workgroup'' @ param ''workgroup_id'' (pget w ''workgroup_id'')"
    "\<lambda>w. ''Workgroup '' @ quoted (pget w ''name'') @ '' was successfully deleted.''" results0 "''workgroup_id''" "\<lambda>_. True" for E base
  by unfold_locales (simp add: Workgroups_deleteWorkgroup_def deleteWorkgroup_def)

interpretation members_rows: row_deletion E "removeWorkgroupUserHandler E base group_id" "\<lambda>user. ''Remove '' @ quoted (user_name user) @ '' from workgroup?''"
    "\<lambda>user. service base ''workgroup'' ''remove_workgroup_user'' @ param ''workgroup_id'' group_id @ param ''user_id'' (pget user ''user_id'')"
    "\<lambda>user. to_str (user_name user) @ '' successfully removed from workgroup.''" results0 "''user_id''" named for E base group_id
  by unfold_locales (auto simp: removeWorkgroupUserHandler_def removeWorkgroupUser_def named_def user_name_def)

section \<open>The dialog for pending changes\<close>

text \<open>The runs of the dialog in which no node is opened while an answer is outstanding.\<close>

inductive diff_run :: "env \<Rightarrow> string \<Rightarrow> diff_form \<Rightarrow> bool" for E base where
  mounted: "diff_run E base (diff_mount node)"
| shown: "diff_run E base F \<Longrightarrow> df_pending F = [] \<Longrightarrow> diff_step (ShowNode node) F = Some F' \<Longrightarrow> diff_run E base F'"
| answered: "diff_run E base F \<Longrightarrow> i < length (df_pending F) \<Longrightarrow>
    diff_step (DiffAnswer i (fst (getDiff E base (df_pending F ! i) t))) F = Some F' \<Longrightarrow> diff_run E base F'"

definition diff_settled :: "env \<Rightarrow> string \<Rightarrow> diff_form \<Rightarrow> bool" where
  "diff_settled E base F \<longleftrightarrow> (\<exists>t. case fst (getDiff E base (df_node F) t) of
     Inl e \<Rightarrow> df_error F = Some e | Inr text \<Rightarrow> df_error F = None \<and> df_text F = text)"

lemma diff_run_invariant:
  "diff_run E base F \<Longrightarrow>
     (df_pending F = [df_node F] \<and> df_loading F \<and> df_error F = None) \<or> (df_pending F = [] \<and> \<not> df_loading F \<and> diff_settled E base F)"
proof (induction rule: diff_run.induct)
  case (mounted node)
  then show ?case by (simp add: diff_mount_def)
next
  case (shown F node F')
  then show ?case by (auto simp: diff_settled_def split: if_splits)
next
  case (answered F i t F')
  then have F: "df_pending F = [df_node F]" "i = 0" "df_error F = None" by auto
  let ?r = "fst (getDiff E base (df_node F) t)"
  have "df_node F' = df_node F" "df_pending F' = []" "\<not> df_loading F'"
    and "case ?r of Inl e \<Rightarrow> df_error F' = Some e | Inr text \<Rightarrow> df_error F' = None \<and> df_text F' = text"
    using answered.hyps(3) F by (auto simp: Let_def split: sum.splits)
  then show ?case unfolding diff_settled_def by auto
qed

lemma approval_cases:
  "DiffApprovalForm F = Inr (c, True) \<Longrightarrow> \<not> df_loading F \<and> df_error F = None \<and>
     (\<exists>s. df_text F = JStr s \<and> s \<noteq> [] \<and> c = DiffLines (map diff_line_of (split_on CHR 0x0A s)))"
  by (auto simp: DiffApprovalForm_def Diff_def rbind_Inr_iff split: if_splits option.splits jsval.splits)

section \<open>Moving an entry\<close>

definition acl_params :: "(string \<times> string) list" where
  "acl_params = [(''interface_acl_id'', ''interfaceAclId''), (''allow_deny'', ''allowDeny''), (''start'', ''start''), (''end'', ''end''),
     (''interface_id'', ''interfaceId''), (''notes'', ''notes''), (''eval_position'', ''evalPosition''),
     (''workgroup_id'', ''workgroupId''), (''entity_id'', ''entityId''), (''notes'', ''notes'')]"

lemma editAcl_url_params: "phas acl ''notes'' \<Longrightarrow> editAcl_url base acl = service base ''acl'' ''edit_acl'' @ params acl acl_params"
  by (simp add: editAcl_url_def acl_params_def params_def)

lemma acl_params_keys: "(k, f) \<in> set acl_params \<Longrightarrow> CHR ''&'' \<notin> set k \<and> CHR ''='' \<notin> set k"
  by (auto simp: acl_params_def)

lemma move_acl_keeps: "f \<noteq> ''evalPosition'' \<Longrightarrow> pget (move_acl d acl) f = pget acl f"
  by (simp add: move_acl_def)

lemma move_acl_position: "parse_int (pget acl ''evalPosition'') = JNum n \<Longrightarrow> pget (move_acl d acl) ''evalPosition'' = JNum (n + d)"
  by (simp add: move_acl_def)

definition moved_fields :: "props \<Rightarrow> int \<Rightarrow> (string \<times> string) list" where
  "moved_fields acl n = [(''interface_acl_id'', to_str (pget acl ''interface_acl_id'')), (''allow_deny'', to_str (pget acl ''allow_deny'')),
     (''start'', to_str (pget acl ''start'')), (''end'', to_str (pget acl ''end'')), (''interface_id'', to_str (pget acl ''interface_id'')),
     (''notes'', to_str (pget acl ''notes'')), (''eval_position'', show_int n),
     (''workgroup_id'', to_str (js_or (pget acl ''workgroup_id'') (JNum (- 1)))),
     (''entity_id'', to_str (js_or (pget acl ''entity_id'') (JNum (- 1)))), (''notes'', to_str (pget acl ''notes''))]"

lemma moved_params:
  assumes "parse_int (pget acl ''eval_position'') = JNum n"
  shows "map (\<lambda>(k, f). (k, to_str (pget (move_acl d (acl_values acl)) f))) acl_params = moved_fields acl (n + d)"
proof -
  have "pget (move_acl d (acl_values acl)) ''evalPosition'' = JNum (n + d)"
    by (rule move_acl_position) (simp add: acl_values_def assms)
  then show ?thesis by (simp add: acl_params_def moved_fields_def move_acl_keeps acl_values_def)
qed

lemma show_int_no_amp: "CHR ''&'' \<notin> set (show_int i)"
  by (auto simp: show_int_def is_digit_def digits10_def dest!: show_nat_digits)

definition acl_fields_sent :: "string list" where
  "acl_fields_sent = [''interface_acl_id'', ''allow_deny'', ''start'', ''end'', ''interface_id'', ''notes'', ''workgroup_id'', ''entity_id'']"

lemma moved_fields_no_amp:
  assumes "\<And>f. f \<in> set acl_fields_sent \<Longrightarrow> CHR ''&'' \<notin> set (to_str (pget acl f))" and "(k, v) \<in> set (moved_fields acl n)"
  shows "CHR ''&'' \<notin> set v"
proof -
  have "CHR ''&'' \<notin> set (to_str (js_or (pget acl f) (JNum (- 1))))" if "f \<in> set acl_fields_sent" for f
    using assms(1) [OF that] by (auto simp: js_or_def show_int_no_amp)
  then show ?thesis using assms show_int_no_amp [of n] unfolding moved_fields_def acl_fields_sent_def by auto
qed

lemma move_request:
  assumes "CHR ''?'' \<notin> set base" and "parse_int (pget acl ''eval_position'') = JNum n"
    and "\<And>k v. (k, v) \<in> set (moved_fields acl (n + d)) \<Longrightarrow> CHR ''&'' \<notin> set v"
  shows "query (editAcl_url base (move_acl d (acl_values acl))) = (''method'', ''edit_acl'') # moved_fields acl (n + d)"
proof -
  let ?a = "move_acl d (acl_values acl)"
  have "CHR ''&'' \<notin> set (to_str (pget ?a f))" if "(k, f) \<in> set acl_params" for k f
    using that assms(3) [of k "to_str (pget ?a f)"] unfolding moved_params [OF assms(2), symmetric] by force
  then have "query (service base ''acl'' ''edit_acl'' @ params ?a acl_params) = (''method'', ''edit_acl'') # moved_fields acl (n + d)"
    unfolding moved_params [OF assms(2), of d, symmetric] using assms(1) acl_params_keys by (intro service_params_query) auto
  moreover have "phas ?a ''notes''" by (simp add: move_acl_def acl_values_def)
  ultimately show ?thesis by (simp add: editAcl_url_params)
qed

text \<open>What moving an entry promises: one request that changes nothing but the position; if the
  server accepts it, the list is read again and shown; otherwise the rows stay.\<close>

definition acls_url :: "string \<Rightarrow> jsval \<Rightarrow> string" where
  "acls_url base interfaceId = service base ''acl'' ''get_acls'' @ param ''interface_id'' interfaceId"

definition moves :: "env \<Rightarrow> string \<Rightarrow> jsval \<Rightarrow> props \<Rightarrow> int \<Rightarrow> ('a admin_scheme \<Rightarrow> 'a admin_scheme io) \<Rightarrow> 'a admin_scheme \<Rightarrow> event list \<Rightarrow> bool" where
  "moves E base interfaceId acl n handler A t \<longleftrightarrow>
     (\<exists>url A' t'. query url = (''method'', ''edit_acl'') # moved_fields acl n \<and> handler A t = (Inr A', t') \<and>
        (let t1 = t @ [Sent (get_request url)] in case answer E t url results0 of
           Inl e \<Rightarrow> t' = t1 \<and> ad_rows A' = ad_rows A
         | Inr v \<Rightarrow> t' = t1 @ [Sent (get_request (acls_url base interfaceId))] \<and>
             (\<forall>w. answer E t1 (acls_url base interfaceId) results = Inr w \<longrightarrow>
               ad_rows A' = as_rows w \<and> ad_status A' = success ''ACL entry was successfully edited.'')))"

lemma acl_action_moves:
  assumes "query (editAcl_url base a) = (''method'', ''edit_acl'') # moved_fields acl n"
  shows "moves E base i acl n (acl_action E base i (editAcl E base a) ''ACL entry was successfully edited.'') A t"
  unfolding moves_def
  by (rule exI [of _ "editAcl_url base a"])
    (auto simp: assms acl_action_def editAcl_def settle_call reloadAcls_def fill_rows_def getAcls_def acls_url_def Let_def split: sum.split)

section \<open>Properties\<close>


definition page_env :: env where
  "page_env = \<lparr>path = [], approval_email = [], serve = (\<lambda>_ _. Inr (JObj [(''results'', JArr [JStr ''+x''])])), answers = (\<lambda>_ _. True)\<rparr>"

definition user_row :: props where
  "user_row = [(''user_id'', JNum 7), (''usernames'', JArr [JStr ''ada''])]"

definition users_page :: admin where
  "users_page = \<lparr>ad_status = no_status, ad_nav = [], ad_rows = [user_row, [(''user_id'', JNum 8)]]\<rparr>"



definition listed_acl :: props where
  "listed_acl = [(''interface_acl_id'', JNum 4), (''eval_position'', JStr ''30''), (''allow_deny'', JStr ''allow''), (''start'', JNum 1), (''end'', JNum 9),
     (''interface_id'', JNum 5), (''notes'', JNull)]"



definition changes_shown :: diff_form where
  "changes_shown = \<lparr>df_node = JNum 3, df_text = JStr ''+x'', df_error = None, df_loading = False, df_pending = []\<rparr>"


text \<open>
  The dialog does not tie an answer to the node it was asked for.  If a second node is opened before
  the first one is answered and the answers arrive in the other order, the second node can be
  approved with the changes of the first one on display; and opening the same node
  once more, for instance after its changes were approved, asks for nothing and changes nothing.
\<close>

theorem diff_form_stale:
  assumes "df_pending F = []" and "df_node F \<noteq> a" and "a \<noteq> b" and "s \<noteq> []"
  shows "(\<exists>F'. diff_steps [ShowNode a, ShowNode b, DiffAnswer 1 (Inr text), DiffAnswer 0 (Inr (JStr s))] F = Some F' \<and>
      df_node F' = b \<and> df_pending F' = [] \<and> DiffApprovalForm F' = Inr (DiffLines (map diff_line_of (split_on CHR 0x0A s)), True)) \<and>
    diff_steps [ShowNode (df_node F)] F = Some F"
  using assms by (simp add: Let_def DiffApprovalForm_def Diff_def)

theorem diff_form_stale_witness:
  "\<exists>F'. diff_steps [ShowNode (JNum 1), ShowNode (JNum 2), DiffAnswer 1 (Inr (JStr [])), DiffAnswer 0 (Inr (JStr ''+x''))] changes_shown = Some F' \<and>
     df_node F' = JNum 2 \<and> DiffApprovalForm F' = Inr (DiffLines (map diff_line_of (split_on CHR 0x0A ''+x'')), True)"
  using diff_form_stale [of changes_shown "JNum 1" "JNum 2" "''+x''" "JStr []"] by (auto simp: changes_shown_def)

text \<open>
  A node that cannot be read.  When the server answers the request of the page for editing a node with
  an error text, the page stays at its loading text and no message is shown; the page
  for editing an interface shows the error.
\<close>

theorem node_error_hidden:
  assumes "serve E t (get_request (service base ''node'' ''get_node'' @ param ''node_id'' i)) = Inr (JObj ps)"
    and "serve E t (get_request (service base ''interface'' ''get_interface'' @ param ''interface_id'' i)) = Inr (JObj ps)"
    and "pget ps ''error_text'' = JStr m" and "m \<noteq> []" and "edit_loading A"
  shows "\<exists>A' A'' t' t''. EditNode_load E base i A t = (Inr A', t') \<and> edit_loading A' \<and> Toast (ad_status A') = None \<and>
    EditInterface_load E base i A t = (Inr A'', t'') \<and> edit_loading A'' \<and> Toast (ad_status A'') = Some (''alert alert-danger'', Shown (JStr m))"
proof -
  have "err_set (JObj ps) = Inl (Throw (JStr m))" using assms(3,4) by (simp add: err_set_def)
  then have "answer E t (service base ''node'' ''get_node'' @ param ''node_id'' i) results0 = Inl (Throw (JStr m))"
    "answer E t (service base ''interface'' ''get_interface'' @ param ''interface_id'' i) results0 = Inl (Throw (JStr m))"
    using assms(1,2) by (simp_all add: answer_def)
  then show ?thesis using assms(5)
    by (simp add: EditNode_load_def EditInterface_load_def edit_load_def getNode_def getInterface_def settle_call
        edit_loading_def tells_def status_is_def Toast_def failure_def)
qed

definition refusing_env :: env where
  "refusing_env = page_env\<lparr>serve := (\<lambda>_ _. Inr (JObj [(''error_text'', JStr ''no such node'')]))\<rparr>"

definition edit_page0 :: edit_page where
  "edit_page0 = \<lparr>ad_status = no_status, ad_nav = [], ad_rows = [], ed_object = JNull\<rparr>"

theorem node_error_hidden_witness:
  "\<exists>A' A'' t' t''. EditNode_load refusing_env ''/oess'' (JNum 3) edit_page0 [] = (Inr A', t') \<and>
     edit_loading A' \<and> Toast (ad_status A') = None \<and>
     EditInterface_load refusing_env ''/oess'' (JNum 3) edit_page0 [] = (Inr A'', t'') \<and>
     edit_loading A'' \<and> Toast (ad_status A'') = Some (''alert alert-danger'', Shown (JStr ''no such node''))"
  by (rule node_error_hidden [where ps = "[(''error_text'', JStr ''no such node'')]"]) (simp_all add: refusing_env_def page_env_def edit_loading_def edit_page0_def)

end
