(* ===== verification/ServerVlans.thy ===== *)
theory ServerVlans
  imports AdminTheorems
begin

text \<open>
  The web services of the server, VLANs of an interface (\<^verbatim>\<open>src/perl-lib/OESS/lib/OESS\<close>): the
  check of the ranges an administrator types (\<^verbatim>\<open>Webservice.pm\<close>), the access rules of an
  interface (\<^verbatim>\<open>ACL.pm\<close>), the test whether a workgroup may use a VLAN (\<^verbatim>\<open>Interface.pm\<close>) and
  the service that edits an interface (\<^verbatim>\<open>frontend/webservice/interface.cgi\<close>).

  A Perl scalar that may be \<open>undef\<close> is an option, a hash used as a set is the list of its
  keys (texts, as Perl has them), and identifiers and VLANs are integers.  What the database answers
  is an argument of the handlers; what they ask of it is a trace of operations.
\<close>

section \<open>Perl's texts\<close>

definition perl_ws :: "char \<Rightarrow> bool" where
  "perl_ws c \<longleftrightarrow> c \<in> {CHR '' '', CHR 0x09, CHR 0x0A, CHR 0x0B, CHR 0x0C, CHR 0x0D}"

definition strip_with :: "(char \<Rightarrow> bool) \<Rightarrow> string \<Rightarrow> string" where
  "strip_with p s = rev (dropWhile p (rev (dropWhile p s)))"

text \<open>\<open>split\<close> leaves out the empty fields at the end; a field that is not there reads as the
  empty text.\<close>

definition psplit :: "char \<Rightarrow> string \<Rightarrow> string list" where
  "psplit c s = rev (dropWhile (\<lambda>f. f = []) (rev (split_on c s)))"

definition field :: "string list \<Rightarrow> nat \<Rightarrow> string" where
  "field fs i = (if i < length fs then fs ! i else [])"

text \<open>The number of a text: blanks, a sign and the digits that follow, 0 without digits (texts of
  fractions and exponents do not occur in the columns read here).\<close>

definition perl_num :: "string \<Rightarrow> int" where
  "perl_num s = (let t = dropWhile perl_ws s in
     if t \<noteq> [] \<and> hd t = CHR ''-'' then - int (read_digits 10 (takeWhile is_digit (tl t)))
     else if t \<noteq> [] \<and> hd t = CHR ''+'' then int (read_digits 10 (takeWhile is_digit (tl t)))
     else int (read_digits 10 (takeWhile is_digit t)))"

text \<open>A call that answers an error text or a value, and the rest of the function after it.\<close>

fun ebind :: "'e + 'a \<Rightarrow> ('a \<Rightarrow> 'e + 'b) \<Rightarrow> 'e + 'b" where
  "ebind (Inl e) f = Inl e"
| "ebind (Inr x) f = f x"

section \<open>The ranges an administrator types (\<^verbatim>\<open>Webservice.pm\<close>)\<close>

definition server_parts :: "string \<Rightarrow> string list" where
  "server_parts str = filter (\<lambda>r. r \<noteq> []) (map (strip_with perl_ws)
     (psplit CHR '','' (strip_with (\<lambda>c. c = CHR '','' \<or> perl_ws c) str)))"

definition server_range_bad :: "string \<Rightarrow> bool" where
  "server_range_bad r = (\<not> is_range r \<or> (let ps = psplit CHR ''-'' r; lo = perl_num (field ps 0); hi = perl_num (field ps 1) in
     lo < 1 \<or> 4095 < lo \<or> hi < 1 \<or> 4095 < hi \<or> hi < lo))"

definition validate_vlan_tag_range :: "string \<Rightarrow> string + string" where
  "validate_vlan_tag_range str = (if list_ex server_range_bad (server_parts str)
     then Inl ''Input must be a comma separated list of VLAN ranges. Ex 1-4095''
     else Inr (join_with '','' (server_parts str)))"

section \<open>Access rules (\<^verbatim>\<open>ACL.pm\<close>)\<close>

record access_rule =
  ar_workgroup :: "int option"
  ar_allow_deny :: string
  ar_start :: int
  ar_end :: int

definition rule_from_model :: "int option \<Rightarrow> string \<Rightarrow> int \<Rightarrow> int option \<Rightarrow> access_rule" where
  "rule_from_model wg ad st en = \<lparr>ar_workgroup = wg, ar_allow_deny = ad, ar_start = st,
     ar_end = (case en of Some e \<Rightarrow> e | None \<Rightarrow> st)\<rparr>"

definition vlan_allowed :: "access_rule \<Rightarrow> int \<Rightarrow> int \<Rightarrow> int" where
  "vlan_allowed a wg vlan =
     (if ar_workgroup a \<noteq> None \<and> ar_workgroup a \<noteq> Some wg then - 1
      else if ar_end a < vlan \<or> vlan < ar_start a then - 1
      else if ar_allow_deny a = ''deny'' then 0
      else 1)"

section \<open>Interfaces (\<^verbatim>\<open>Interface.pm\<close>)\<close>

record server_intf =
  si_id :: int
  si_role :: string
  si_workgroup :: "int option"
  si_range :: "string option"
  si_used :: "int list"
  si_acls :: "access_rule list"
  si_bandwidth :: int
  si_provisionable :: "int option"
  si_utilized :: int
  si_cloud_id :: "string option"
  si_cloud_type :: "string option"

definition vlan_in_use :: "server_intf \<Rightarrow> int \<Rightarrow> bool" where
  "vlan_in_use i vlan = list_ex (\<lambda>used. used = vlan) (si_used i)"

text \<open>The loop counter starts as the text before the hyphen: that text is the first key, the
  later ones are numbers.\<close>

definition range_keys :: "string \<Rightarrow> string list" where
  "range_keys r = (if CHR ''-'' \<in> set r then
     (let ps = split_on CHR ''-'' r; start = field ps 0; fin = field ps 1 in
       if perl_num start \<le> perl_num fin then start # map show_int [perl_num start + 1..perl_num fin] else [])
     else [r])"

definition mpls_range :: "server_intf \<Rightarrow> string list" where
  "mpls_range i = (case si_range i of None \<Rightarrow> [] | Some t \<Rightarrow> concat (map range_keys (psplit CHR '','' t)))"

fun rules_allow :: "access_rule list \<Rightarrow> int \<Rightarrow> int \<Rightarrow> bool" where
  "rules_allow [] wg vlan = False"
| "rules_allow (a # as) wg vlan =
     (if vlan_allowed a wg vlan = 1 then True else if vlan_allowed a wg vlan = 0 then False else rules_allow as wg vlan)"

definition vlan_valid :: "server_intf \<Rightarrow> int \<Rightarrow> int \<Rightarrow> bool" where
  "vlan_valid i wg vlan =
     (if vlan < 1 \<or> 4095 < vlan then False
      else if vlan_in_use i vlan then False
      else if \<not> rules_allow (si_acls i) wg vlan then False
      else show_int vlan \<in> set (mpls_range i))"

section \<open>Editing an interface (\<^verbatim>\<open>interface.cgi\<close>)\<close>

datatype db_op = StartTransaction | RemoveRules int | CreateRule int access_rule | UpdateInterface server_intf | Commit | Rollback

record edit_params =
  ed_interface :: int
  ed_workgroup :: "int option"
  ed_range :: "string option"
  ed_cloud_id :: "string option option"
  ed_cloud_type :: "string option option"

definition edit_range :: "string option \<Rightarrow> server_intf \<Rightarrow> string + server_intf" where
  "edit_range r i = (case r of None \<Rightarrow> Inr i | Some t \<Rightarrow> (case validate_vlan_tag_range t of
     Inl e \<Rightarrow> Inl (''mpls_vlan_tag_range: '' @ e) | Inr t' \<Rightarrow> Inr (i\<lparr>si_range := Some t'\<rparr>)))"

definition edit_cloud :: "edit_params \<Rightarrow> server_intf \<Rightarrow> server_intf" where
  "edit_cloud P i = (let j = (case ed_cloud_id P of None \<Rightarrow> i | Some c \<Rightarrow> i\<lparr>si_cloud_id := c\<rparr>) in
     case ed_cloud_type P of None \<Rightarrow> j | Some t \<Rightarrow> j\<lparr>si_cloud_type := t\<rparr>)"

text \<open>The change of the workgroup: \<open>removed\<close> is the error of removing the rules, \<open>created\<close>
  tells whether the default rule could be stored.\<close>

definition edit_workgroup :: "string option \<Rightarrow> bool \<Rightarrow> int option \<Rightarrow> server_intf \<Rightarrow> db_op list \<times> (string + server_intf)" where
  "edit_workgroup removed created wg i = (case wg of
     None \<Rightarrow> ([], Inr i)
   | Some w \<Rightarrow>
       if w = (case si_workgroup i of None \<Rightarrow> 0 | Some v \<Rightarrow> v) then ([], Inr i)
       else if w = - 1 then
         ([RemoveRules (si_id i)], case removed of Some e \<Rightarrow> Inl e | None \<Rightarrow> Inr (i\<lparr>si_workgroup := None\<rparr>))
       else if si_workgroup i \<noteq> None then ([], Inr (i\<lparr>si_workgroup := Some w\<rparr>))
       else ([CreateRule w (rule_from_model (Some (- 1)) ''allow'' 1 (Some 4095))],
         if created then Inr (i\<lparr>si_workgroup := Some w, si_range := Some ''1-4095''\<rparr>)
         else Inl ''Failed to edit interface while creating default ACL.''))"

definition edit_interface :: "string option \<Rightarrow> string option \<Rightarrow> server_intf option \<Rightarrow> string option \<Rightarrow> bool \<Rightarrow> edit_params
    \<Rightarrow> db_op list \<times> (string + server_intf)" where
  "edit_interface no_user no_access found removed created P = (case no_user of Some e \<Rightarrow> ([], Inl e) | None \<Rightarrow>
     case no_access of Some e \<Rightarrow> ([], Inl e) | None \<Rightarrow>
     case found of None \<Rightarrow> ([StartTransaction], Inl (''Couldn't find interface '' @ show_int (ed_interface P) @ ''.'')) | Some i \<Rightarrow>
     if si_role i = ''trunk'' then ([StartTransaction], Inl ''Trunk interfaces cannot be modified.'')
     else let (ops, res) = edit_workgroup removed created (ed_workgroup P) i in
     case ebind res (edit_range (ed_range P)) of
       Inl e \<Rightarrow> (StartTransaction # ops @ [Rollback], Inl e)
     | Inr j \<Rightarrow> let k = edit_cloud P j in (StartTransaction # ops @ [UpdateInterface k, Commit], Inr k))"

section \<open>Lists of ranges\<close>

text \<open>The non-empty fields of a text without the blanks around them: what both the form and the
  service read, whatever they strip first.\<close>

definition fields_of :: "(char \<Rightarrow> bool) \<Rightarrow> char \<Rightarrow> string \<Rightarrow> string list" where
  "fields_of p c s = filter (\<lambda>f. f \<noteq> []) (map (strip_with p) (split_on c s))"

lemma strip_with_Nil [simp]: "strip_with p [] = []"
  by (simp add: strip_with_def)

lemma strip_with_Cons: "p x \<Longrightarrow> strip_with p (x # s) = strip_with p s"
  by (simp add: strip_with_def)

lemma strip_with_snoc: "p x \<Longrightarrow> strip_with p (s @ [x]) = strip_with p s"
proof (cases "\<forall>y\<in>set s. p y")
  case True
  moreover assume "p x"
  ultimately have "dropWhile p (s @ [x]) = []" and "dropWhile p s = []" by simp_all
  then show ?thesis by (simp only: strip_with_def)
next
  case False
  then show "p x \<Longrightarrow> ?thesis" by (auto simp: strip_with_def dropWhile_append)
qed

lemma split_on_snoc_same: "split_on c (s @ [c]) = split_on c s @ [[]]"
  by (induction s) (auto split: list.splits)

lemma split_on_snoc: "x \<noteq> c \<Longrightarrow> split_on c (s @ [x]) = butlast (split_on c s) @ [last (split_on c s) @ [x]]"
proof (induction s)
  case (Cons y s)
  then show ?case by (cases "split_on c s") auto
qed simp

lemma fields_of_Cons: "x = c \<or> p x \<Longrightarrow> fields_of p c (x # s) = fields_of p c s"
  by (cases "split_on c s") (auto simp: fields_of_def strip_with_Cons)

lemma fields_of_snoc:
  assumes "x = c \<or> p x"
  shows "fields_of p c (s @ [x]) = fields_of p c s"
proof (cases "x = c")
  case True
  then show ?thesis by (simp add: fields_of_def split_on_snoc_same)
next
  case False
  have "split_on c s = butlast (split_on c s) @ [last (split_on c s)]" by simp
  then have "fields_of p c s = filter (\<lambda>f. f \<noteq> []) (map (strip_with p) (butlast (split_on c s) @ [last (split_on c s)]))"
    unfolding fields_of_def by presburger
  moreover have "fields_of p c (s @ [x]) =
      filter (\<lambda>f. f \<noteq> []) (map (strip_with p) (butlast (split_on c s) @ [last (split_on c s)]))"
    using False assms by (simp add: fields_of_def split_on_snoc strip_with_snoc del: append_butlast_last_id)
  ultimately show ?thesis by simp
qed

lemma fields_of_drop: "(\<And>x. q x \<Longrightarrow> x = c \<or> p x) \<Longrightarrow> fields_of p c (dropWhile q s) = fields_of p c s"
  by (induction s) (auto simp: fields_of_Cons)

lemma fields_of_strip:
  assumes "\<And>x. q x \<Longrightarrow> x = c \<or> p x"
  shows "fields_of p c (strip_with q s) = fields_of p c s"
proof -
  have "fields_of p c (rev (dropWhile q (rev t))) = fields_of p c t" for t
    by (induction t rule: rev_induct) (auto simp: fields_of_snoc dest!: assms)
  then show ?thesis by (simp add: strip_with_def fields_of_drop assms)
qed

lemma filter_psplit: "f [] = [] \<Longrightarrow> filter (\<lambda>x. x \<noteq> []) (map f (psplit c s)) = filter (\<lambda>x. x \<noteq> []) (map f (split_on c s))"
proof -
  assume f: "f [] = []"
  have "filter (\<lambda>x. x \<noteq> []) (map f (rev (dropWhile (\<lambda>g. g = []) (rev t)))) = filter (\<lambda>x. x \<noteq> []) (map f t)" for t
    by (induction t rule: rev_induct) (auto simp: f)
  then show ?thesis by (simp add: psplit_def)
qed

lemma server_parts_fields: "server_parts s = fields_of perl_ws CHR '','' s"
proof -
  have "server_parts s = fields_of perl_ws CHR '','' (strip_with (\<lambda>c. c = CHR '','' \<or> perl_ws c) s)"
    by (simp add: server_parts_def fields_of_def filter_psplit)
  then show ?thesis by (simp add: fields_of_strip)
qed

lemma vlan_parts_fields: "vlan_parts s = fields_of is_ws CHR '','' s"
proof -
  have "trim = strip_with is_ws" by (rule ext) (simp add: trim_def strip_with_def)
  then have "vlan_parts s = fields_of is_ws CHR '','' (strip_with (\<lambda>c. c = CHR '','' \<or> c = CHR '' '') s)"
    by (simp add: vlan_parts_def fields_of_def strip_commas_def strip_with_def Let_def)
  moreover have "is_ws CHR '' ''" by (simp add: is_ws_def)
  ultimately show ?thesis using fields_of_strip [of "\<lambda>c. c = CHR '','' \<or> c = CHR '' ''" "CHR '',''" is_ws s] by auto
qed

lemma split_on_chars: "f \<in> set (split_on c s) \<Longrightarrow> set f \<subseteq> set s"
proof (induction s arbitrary: f)
  case (Cons x s)
  show ?case
  proof (cases "x = c")
    case True
    with Cons show ?thesis by (cases "f = []") auto
  next
    case False
    obtain g gs where g: "split_on c s = g # gs" by (meson neq_Nil_conv split_on_nonempty)
    have "f = x # g \<or> f \<in> set gs" using Cons.prems False g by auto
    moreover have "set g \<subseteq> set s" using Cons.IH g by simp
    moreover have "set f \<subseteq> set s" if "f \<in> set gs" using Cons.IH g that by simp
    ultimately show ?thesis by auto
  qed
qed simp

lemma strip_with_cong:
  assumes "\<And>x. x \<in> set s \<Longrightarrow> p x = q x"
  shows "strip_with p s = strip_with q s"
proof -
  have "p x = q x" if "x \<in> set (rev (dropWhile q s))" for x
    using that by (intro assms) (simp add: set_dropWhileD)
  then have "dropWhile p (rev (dropWhile q s)) = dropWhile q (rev (dropWhile q s))" by (intro dropWhile_cong) simp_all
  moreover have "dropWhile p s = dropWhile q s" by (intro dropWhile_cong assms) simp_all
  ultimately show ?thesis by (simp add: strip_with_def)
qed

text \<open>The client and the service find the same fields, unless there is a no-break space.\<close>

lemma parts_agree:
  assumes "CHR 0xA0 \<notin> set s"
  shows "vlan_parts s = server_parts s"
proof -
  have "strip_with is_ws f = strip_with perl_ws f" if "f \<in> set (split_on CHR '','' s)" for f
  proof (rule strip_with_cong)
    fix x assume "x \<in> set f"
    then have "x \<noteq> CHR 0xA0" using split_on_chars [OF that] assms by blast
    then show "is_ws x = perl_ws x" by (simp add: is_ws_def perl_ws_def)
  qed
  then have "map (strip_with is_ws) (split_on CHR '','' s) = map (strip_with perl_ws) (split_on CHR '','' s)"
    by (rule map_cong [OF refl])
  then show ?thesis unfolding vlan_parts_fields server_parts_fields fields_of_def by presburger
qed

lemma strip_with_clean: "(\<And>x. x \<in> set s \<Longrightarrow> \<not> p x) \<Longrightarrow> strip_with p s = s"
proof -
  assume "\<And>x. x \<in> set s \<Longrightarrow> \<not> p x"
  then have "dropWhile p t = t" if "set t \<subseteq> set s" for t using that by (cases t) auto
  then show ?thesis by (simp add: strip_with_def)
qed

lemma digits_perl_num:
  assumes "a \<noteq> []" and "list_all is_digit a"
  shows "perl_num a = int (read_digits 10 a)"
proof -
  obtain c cs where a: "a = c # cs" using assms(1) by (cases a) auto
  with assms(2) have d: "is_digit c" by simp
  then have "\<not> perl_ws c" using digit_chars [OF d] by (auto simp: perl_ws_def is_ws_def)
  then have "dropWhile perl_ws a = a" using a by simp
  moreover have "takeWhile is_digit a = a" using assms(2) by (simp add: takeWhile_eq_all_conv list_all_iff)
  ultimately show ?thesis using a digit_chars [OF d] by (auto simp: perl_num_def Let_def)
qed

lemma range_split:
  assumes "a \<noteq> []" "b \<noteq> []" "list_all is_digit a" "list_all is_digit b"
  shows "split_on CHR ''-'' (a @ CHR ''-'' # b) = [a, b]"
    and "psplit CHR ''-'' (a @ CHR ''-'' # b) = [a, b]"
proof -
  have "CHR ''-'' \<notin> set a" "CHR ''-'' \<notin> set b" using assms(3,4) by (auto simp: list_all_iff dest: digit_chars)
  then show "split_on CHR ''-'' (a @ CHR ''-'' # b) = [a, b]" by simp
  then show "psplit CHR ''-'' (a @ CHR ''-'' # b) = [a, b]" using assms(2) by (simp add: psplit_def)
qed

lemma server_range_bad_iff: "server_range_bad r \<longleftrightarrow> \<not> good_range r"
proof (cases "is_range r")
  case True
  then obtain a b where r: "r = a @ CHR ''-'' # b" and d: "a \<noteq> []" "b \<noteq> []" "list_all is_digit a" "list_all is_digit b"
    unfolding is_range_iff by blast
  have "server_range_bad r \<longleftrightarrow> \<not> (1 \<le> read_digits 10 a \<and> read_digits 10 a \<le> read_digits 10 b \<and> read_digits 10 b \<le> 4095)"
    using True d by (auto simp: server_range_bad_def r range_split field_def digits_perl_num Let_def)
  then show ?thesis using range_bad_digits [OF d] range_bad_iff [of r] r by blast
next
  case False
  then show ?thesis by (auto simp: server_range_bad_def good_range_def is_range_iff)
qed

lemma validate_iff: "validate_vlan_tag_range s = Inr t \<longleftrightarrow> list_all good_range (server_parts s) \<and> t = join_with '','' (server_parts s)"
  by (auto simp: validate_vlan_tag_range_def list_ex_iff list_all_iff server_range_bad_iff)

lemma good_range_chars: "good_range r \<Longrightarrow> c \<in> set r \<Longrightarrow> is_digit c \<or> c = CHR ''-''"
  by (auto simp: good_range_def list_all_iff)

lemma good_range_clean:
  assumes "good_range r"
  shows "r \<noteq> [] \<and> CHR '','' \<notin> set r \<and> strip_with perl_ws r = r"
proof -
  have "\<not> perl_ws c \<and> c \<noteq> CHR '',''" if "c \<in> set r" for c
    using good_range_chars [OF assms that] by (auto simp: perl_ws_def is_ws_def dest: digit_chars)
  moreover have "r \<noteq> []" using assms by (auto simp: good_range_def)
  ultimately show ?thesis by (auto intro!: strip_with_clean)
qed

lemma fields_of_join:
  assumes "list_all good_range rs"
  shows "split_on CHR '','' (join_with '','' rs) = (if rs = [] then [[]] else rs)"
    and "fields_of perl_ws CHR '','' (join_with '','' rs) = rs"
proof -
  have c: "r \<noteq> [] \<and> CHR '','' \<notin> set r \<and> strip_with perl_ws r = r" if "r \<in> set rs" for r
    using assms that good_range_clean by (auto simp: list_all_iff)
  then show j: "split_on CHR '','' (join_with '','' rs) = (if rs = [] then [[]] else rs)"
    using split_on_join [of rs "CHR '',''"] by auto
  have "map (strip_with perl_ws) rs = rs" using c by (intro map_idI) blast
  moreover have "filter (\<lambda>f. f \<noteq> []) rs = rs" using c by (simp add: filter_id_conv)
  ultimately show "fields_of perl_ws CHR '','' (join_with '','' rs) = rs" by (simp add: fields_of_def j)
qed

lemma psplit_join:
  assumes "list_all good_range rs"
  shows "psplit CHR '','' (join_with '','' rs) = rs"
proof (cases rs rule: rev_cases)
  case (snoc qs q)
  then have "q \<noteq> []" using assms good_range_clean by simp
  moreover have "split_on CHR '','' (join_with '','' rs) = rs" using snoc fields_of_join(1) [OF assms] by simp
  ultimately show ?thesis unfolding psplit_def using snoc by simp
qed (simp add: psplit_def)

section \<open>The VLANs of a range\<close>

lemma range_keys_good:
  assumes "good_range r"
  shows "show_int v \<in> set (range_keys r) \<longleftrightarrow>
    (\<exists>a b. r = a @ CHR ''-'' # b \<and> (show_int v = a \<or> int (read_digits 10 a) < v \<and> v \<le> int (read_digits 10 b)))"
proof -
  obtain a b where r: "r = a @ CHR ''-'' # b" and d: "a \<noteq> []" "b \<noteq> []" "list_all is_digit a" "list_all is_digit b"
    and le: "read_digits 10 a \<le> read_digits 10 b" using assms unfolding good_range_def by blast
  have "CHR ''-'' \<notin> set a" "CHR ''-'' \<notin> set b" using d(3,4) by (auto simp: list_all_iff dest: digit_chars)
  then have u: "a' = a \<and> b' = b" if "r = a' @ CHR ''-'' # b'" for a' b'
    using append_Cons_eq_iff [of "CHR ''-''" a b a' b'] r that by blast
  have "show_int v \<in> set (range_keys r) \<longleftrightarrow> show_int v = a \<or> int (read_digits 10 a) < v \<and> v \<le> int (read_digits 10 b)"
    using le by (auto simp: range_keys_def r range_split [OF d] field_def digits_perl_num d)
  then show ?thesis using u r by blast
qed

lemma rules_allow_first:
  "rules_allow as wg v \<longleftrightarrow> (\<exists>k<length as. vlan_allowed (as ! k) wg v = 1 \<and> (\<forall>m<k. vlan_allowed (as ! m) wg v = - 1))"
proof (induction as)
  case (Cons a as)
  have "vlan_allowed a wg v \<in> {1, 0, - 1}" by (simp add: vlan_allowed_def)
  moreover have "(\<exists>k<length (a # as). vlan_allowed ((a # as) ! k) wg v = 1 \<and> (\<forall>m<k. vlan_allowed ((a # as) ! m) wg v = - 1)) \<longleftrightarrow>
    vlan_allowed a wg v = 1 \<or> vlan_allowed a wg v = - 1 \<and>
      (\<exists>k<length as. vlan_allowed (as ! k) wg v = 1 \<and> (\<forall>m<k. vlan_allowed (as ! m) wg v = - 1))"
    by (simp add: Ex_less_Suc2 All_less_Suc2) auto
  ultimately show ?case using Cons.IH by auto
qed simp

definition range_ok :: "server_intf \<Rightarrow> bool" where
  "range_ok i = (case si_range i of None \<Rightarrow> True | Some t \<Rightarrow> list_all good_range (psplit CHR '','' t))"

lemma mpls_range_parts:
  assumes "validate_vlan_tag_range s = Inr t" and "si_range i = Some t"
  shows "show_int v \<in> set (mpls_range i) \<longleftrightarrow> (\<exists>a b. a @ CHR ''-'' # b \<in> set (server_parts s) \<and>
    (show_int v = a \<or> int (read_digits 10 a) < v \<and> v \<le> int (read_digits 10 b)))"
proof -
  have g: "list_all good_range (server_parts s)" and t: "t = join_with '','' (server_parts s)" using assms(1) validate_iff by blast+
  have "set (mpls_range i) = (\<Union>r\<in>set (server_parts s). set (range_keys r))"
    by (simp add: mpls_range_def assms(2) t psplit_join [OF g])
  then have "show_int v \<in> set (mpls_range i) \<longleftrightarrow> (\<exists>r\<in>set (server_parts s). show_int v \<in> set (range_keys r))" by blast
  also have "\<dots> \<longleftrightarrow> (\<exists>r\<in>set (server_parts s). \<exists>a b. r = a @ CHR ''-'' # b \<and>
      (show_int v = a \<or> int (read_digits 10 a) < v \<and> v \<le> int (read_digits 10 b)))"
    using g by (auto simp: list_all_iff range_keys_good)
  finally show ?thesis by blast
qed

lemma edit_range_ok: "edit_range r i = Inr j \<Longrightarrow> range_ok i \<Longrightarrow> range_ok j"
  by (auto simp: edit_range_def range_ok_def validate_iff psplit_join split: option.splits sum.splits)

lemma edit_range_fields: "edit_range r i = Inr j \<Longrightarrow> si_id j = si_id i \<and> si_acls j = si_acls i \<and> si_used j = si_used i"
  by (auto simp: edit_range_def split: option.splits sum.splits)

lemma range_ok_all: "range_ok (i\<lparr>si_workgroup := w, si_range := Some ''1-4095''\<rparr>)"
proof -
  have "\<not> server_range_bad ''1-4095''" by code_simp
  moreover have "psplit CHR '','' ''1-4095'' = [''1-4095'']" by code_simp
  ultimately show ?thesis by (simp add: range_ok_def server_range_bad_iff)
qed

lemma range_ok_workgroup [simp]: "range_ok (i\<lparr>si_workgroup := w\<rparr>) = range_ok i"
  by (simp add: range_ok_def)

lemma edit_workgroup_result:
  assumes "edit_workgroup rm cr wg i = (ops, Inr j)"
  shows "si_id j = si_id i \<and> si_acls j = si_acls i \<and> si_used j = si_used i \<and> (range_ok i \<longrightarrow> range_ok j)"
  using assms by (auto simp: edit_workgroup_def range_ok_all split: option.splits if_splits)

lemma edit_workgroup_ops: "edit_workgroup rm cr wg i = (ops, res) \<Longrightarrow> Commit \<notin> set ops \<and> (\<forall>k. UpdateInterface k \<notin> set ops)"
  by (auto simp: edit_workgroup_def split: option.splits if_splits)

lemma edit_cloud_fields [simp]:
  "si_id (edit_cloud P i) = si_id i" "si_range (edit_cloud P i) = si_range i"
  "si_acls (edit_cloud P i) = si_acls i" "si_used (edit_cloud P i) = si_used i"
  by (simp_all add: edit_cloud_def Let_def split: option.splits)

lemma ebind_Inr_iff: "ebind m f = Inr y \<longleftrightarrow> (\<exists>x. m = Inr x \<and> f x = Inr y)"
  by (cases m) auto

text \<open>A call that succeeds: the interface was found, is no trunk, and passed through the three
  changes, in this order.\<close>

lemma edit_interface_Inr:
  assumes "edit_interface nu na found rm cr P = (ops, Inr k)"
  obtains i wops j l where "found = Some i" and "si_role i \<noteq> ''trunk''" and "edit_workgroup rm cr (ed_workgroup P) i = (wops, Inr j)"
    and "edit_range (ed_range P) j = Inr l" and "k = edit_cloud P l" and "ops = StartTransaction # wops @ [UpdateInterface k, Commit]"
proof -
  from assms obtain i where i: "found = Some i" "si_role i \<noteq> ''trunk''" and n: "nu = None" "na = None"
    by (auto simp: edit_interface_def split: option.splits if_splits)
  obtain wops res where w: "edit_workgroup rm cr (ed_workgroup P) i = (wops, res)" by fastforce
  from assms i n w obtain l where l: "ebind res (edit_range (ed_range P)) = Inr l"
      and k: "k = edit_cloud P l" "ops = StartTransaction # wops @ [UpdateInterface k, Commit]"
    by (auto simp: edit_interface_def Let_def split: sum.splits)
  from l obtain j where "res = Inr j" "edit_range (ed_range P) j = Inr l" unfolding ebind_Inr_iff by blast
  with i w k that show ?thesis by blast
qed

section \<open>Properties\<close>

text \<open>
  (C6) The form in the browser and the service agree on the ranges of VLANs: a text without
  no-break spaces raises no error in the form exactly when the service accepts it, and what the
  service then stores is a text it accepts unchanged and in which it finds the ranges the form found.
\<close>

theorem vlan_range_agreement:
  assumes "CHR 0xA0 \<notin> set (el_value el)"
  shows "(el_custom (validateVlanRange el) = [] \<longleftrightarrow> (\<exists>t. validate_vlan_tag_range (el_value el) = Inr t)) \<and>
    (\<forall>t. validate_vlan_tag_range (el_value el) = Inr t \<longrightarrow>
      validate_vlan_tag_range t = Inr t \<and> server_parts t = vlan_parts (el_value el))"
proof -
  have p: "vlan_parts (el_value el) = server_parts (el_value el)" using parts_agree [OF assms] .
  have "el_custom (validateVlanRange el) = [] \<longleftrightarrow> list_all good_range (vlan_parts (el_value el))"
    by (auto simp: validateVlanRange_def set_custom_validity_def vlan_range_error_def list_ex_iff list_all_iff range_bad_iff)
  then have "el_custom (validateVlanRange el) = [] \<longleftrightarrow> (\<exists>t. validate_vlan_tag_range (el_value el) = Inr t)"
    by (simp add: p validate_iff)
  moreover have "validate_vlan_tag_range t = Inr t \<and> server_parts t = vlan_parts (el_value el)"
    if "validate_vlan_tag_range (el_value el) = Inr t" for t
  proof -
    have g: "list_all good_range (server_parts (el_value el))" and t: "t = join_with '','' (server_parts (el_value el))"
      using that validate_iff by blast+
    have "server_parts t = server_parts (el_value el)" by (simp add: t server_parts_fields [of "join_with _ _"] fields_of_join(2) [OF g])
    then show ?thesis using g t p by (simp add: validate_iff)
  qed
  ultimately show ?thesis by blast
qed

theorem vlan_range_agreement_witness:
  "el_custom (validateVlanRange ((text_input True)\<lparr>el_value := '' 10-20 , ,7-9,''\<rparr>)) = [] \<and>
   validate_vlan_tag_range '' 10-20 , ,7-9,'' = Inr ''10-20,7-9''"
proof -
  let ?el = "(text_input True)\<lparr>el_value := '' 10-20 , ,7-9,''\<rparr>"
  have "validate_vlan_tag_range (el_value ?el) = Inr ''10-20,7-9''" by code_simp
  moreover have "CHR 0xA0 \<notin> set (el_value ?el)" by simp
  ultimately show ?thesis using vlan_range_agreement [of ?el] by auto
qed


definition sample_intf :: server_intf where
  "sample_intf = \<lparr>si_id = 5, si_role = ''unknown'', si_workgroup = Some 3, si_range = None, si_used = [9],
     si_acls = [\<lparr>ar_workgroup = Some 4, ar_allow_deny = ''deny'', ar_start = 1, ar_end = 4095\<rparr>,
       \<lparr>ar_workgroup = None, ar_allow_deny = ''allow'', ar_start = 1, ar_end = 4095\<rparr>],
     si_bandwidth = 10000, si_provisionable = None, si_utilized = 0, si_cloud_id = None, si_cloud_type = None\<rparr>"

definition sample_edit :: "string \<Rightarrow> edit_params" where
  "sample_edit t = \<lparr>ed_interface = 5, ed_workgroup = None, ed_range = Some t, ed_cloud_id = None, ed_cloud_type = None\<rparr>"

lemma sample_edited: "edit_interface None None (Some sample_intf) None True (sample_edit ''007-9'') =
   ([StartTransaction, UpdateInterface (sample_intf\<lparr>si_range := Some ''007-9''\<rparr>), Commit], Inr (sample_intf\<lparr>si_range := Some ''007-9''\<rparr>))"
proof -
  have "validate_vlan_tag_range ''007-9'' = Inr ''007-9''" by code_simp
  then show ?thesis by (simp add: edit_interface_def sample_edit_def sample_intf_def edit_workgroup_def edit_range_def edit_cloud_def Let_def)
qed


text \<open>
  (C16) Editing an interface is one transaction: an answer that is an error leaves nothing
  committed, and once the rules of the interface have been touched it ends with a rollback; an answer
  that is an interface ends with the commit of that interface, which was not a trunk, and
  the list of its VLAN ranges stays well formed.
\<close>

theorem edit_interface_transaction:
  assumes "edit_interface nu na found rm cr P = (ops, res)"
  shows "case res of
      Inl e \<Rightarrow> Commit \<notin> set ops \<and> (\<forall>k. UpdateInterface k \<notin> set ops) \<and> (1 < length ops \<longrightarrow> last ops = Rollback)
    | Inr k \<Rightarrow> last ops = Commit \<and> UpdateInterface k \<in> set ops \<and> Rollback \<notin> set ops \<and>
        (\<exists>i. found = Some i \<and> si_role i \<noteq> ''trunk'' \<and> si_id k = si_id i \<and> (range_ok i \<longrightarrow> range_ok k))"
proof (cases res)
  case (Inl e)
  have "Commit \<notin> set ops \<and> (\<forall>k. UpdateInterface k \<notin> set ops) \<and> (1 < length ops \<longrightarrow> last ops = Rollback)"
    using assms Inl
    by (auto simp: edit_interface_def Let_def dest: edit_workgroup_ops split: option.splits if_splits prod.splits sum.splits)
  then show ?thesis by (simp add: Inl)
next
  case (Inr k)
  obtain i wops j l where i: "found = Some i" "si_role i \<noteq> ''trunk''" and w: "edit_workgroup rm cr (ed_workgroup P) i = (wops, Inr j)"
    and r: "edit_range (ed_range P) j = Inr l" and k: "k = edit_cloud P l" "ops = StartTransaction # wops @ [UpdateInterface k, Commit]"
    using assms unfolding Inr by (rule edit_interface_Inr)
  have "range_ok k = range_ok l" by (simp add: range_ok_def k)
  moreover have "Rollback \<notin> set wops" using w by (auto simp: edit_workgroup_def split: option.splits if_splits)
  ultimately show ?thesis using i edit_workgroup_result [OF w] edit_range_fields [OF r] edit_range_ok [OF r] by (simp add: Inr k)
qed

theorem edit_interface_transaction_witness:
  "range_ok (sample_intf\<lparr>si_range := Some ''007-9''\<rparr>) \<and>
   edit_interface None None (Some sample_intf) (Some ''down'') True (sample_edit ''1-2''\<lparr>ed_workgroup := Some (- 1)\<rparr>) =
     ([StartTransaction, RemoveRules 5, Rollback], Inl ''down'')"
proof -
  have "range_ok sample_intf" by (simp add: range_ok_def sample_intf_def)
  then have "range_ok (sample_intf\<lparr>si_range := Some ''007-9''\<rparr>)" using edit_interface_transaction [OF sample_edited] by simp
  moreover have "edit_interface None None (Some sample_intf) (Some ''down'') True (sample_edit ''1-2''\<lparr>ed_workgroup := Some (- 1)\<rparr>) =
     ([StartTransaction, RemoveRules 5, Rollback], Inl ''down'')"
    by (simp add: edit_interface_def sample_edit_def sample_intf_def edit_workgroup_def)
  ultimately show ?thesis by blast
qed

end
