(* ===== verification/ServerSelect.thy ===== *)
theory ServerSelect
  imports ServerVlans
begin

text \<open>
  The choice of an interface for an endpoint: \<^verbatim>\<open>Entity.pm\<close> (\<open>select_interface\<close>),
  \<^verbatim>\<open>Cloud/AzureInterfaceSelector.pm\<close>, and the limits on its bandwidth, \<^verbatim>\<open>Interface.pm\<close> and
  \<^verbatim>\<open>Cloud/BandwidthValidator.pm\<close>.  The list of interfaces of an entity is part of its state,
  because the loop of \<open>select_interface\<close> assigns to its variable and so to the list; a place
  of the list may thus become undefined, and a method called on it ends the program.  The answers
  of the Azure service and of the database are fields of a record of services.
\<close>

section \<open>Bandwidth\<close>

record speed_check =
  sp_rate :: int
  sp_admin_only :: "string option"
  sp_approval :: "string option"

record intf_selector =
  is_type :: string
  is_min :: int
  is_max :: int
  is_speeds :: "speed_check list"

fun active_selector :: "string \<Rightarrow> int \<Rightarrow> intf_selector list \<Rightarrow> intf_selector option" where
  "active_selector ty bw [] = None"
| "active_selector ty bw (s # ss) =
     (if ty \<noteq> is_type s then active_selector ty bw ss
      else if is_max s < bw \<or> bw < is_min s then active_selector ty bw ss
      else Some s)"

definition selected_speeds :: "intf_selector list \<Rightarrow> string \<Rightarrow> int \<Rightarrow> speed_check list" where
  "selected_speeds ss ty bw = (case active_selector ty bw ss of None \<Rightarrow> [] | Some s \<Rightarrow> is_speeds s)"

fun any_valid :: "int \<Rightarrow> bool \<Rightarrow> speed_check list \<Rightarrow> bool" where
  "any_valid bw admin [] = False"
| "any_valid bw admin (c # cs) =
     (if sp_rate c \<noteq> bw then any_valid bw admin cs
      else if sp_admin_only c = Some ''1'' \<and> \<not> admin then any_valid bw admin cs
      else True)"

fun any_approval :: "int \<Rightarrow> speed_check list \<Rightarrow> bool" where
  "any_approval bw [] = False"
| "any_approval bw (c # cs) =
     (if sp_rate c \<noteq> bw then any_approval bw cs
      else if sp_approval c = Some ''1'' then True
      else any_approval bw cs)"

definition validator_bandwidth_valid :: "intf_selector list \<Rightarrow> string \<Rightarrow> int \<Rightarrow> int \<Rightarrow> bool \<Rightarrow> bool" where
  "validator_bandwidth_valid ss ty ibw bw admin = any_valid bw admin (selected_speeds ss ty ibw)"

definition requires_approval :: "intf_selector list \<Rightarrow> string \<Rightarrow> int \<Rightarrow> int \<Rightarrow> bool" where
  "requires_approval ss ty ibw bw = any_approval bw (selected_speeds ss ty ibw)"

definition is_bandwidth_valid :: "intf_selector list \<Rightarrow> server_intf \<Rightarrow> int \<Rightarrow> bool \<Rightarrow> bool" where
  "is_bandwidth_valid ss i bw admin = (case si_cloud_type i of
     None \<Rightarrow> bw = 0
   | Some ty \<Rightarrow> if ty = ''aws-hosted-vinterface'' then True else validator_bandwidth_valid ss ty (si_bandwidth i) bw admin)"

definition bandwidth_requires_approval :: "intf_selector list \<Rightarrow> server_intf \<Rightarrow> int \<Rightarrow> bool" where
  "bandwidth_requires_approval ss i bw = (case si_cloud_type i of
     None \<Rightarrow> bw \<noteq> 0
   | Some ty \<Rightarrow> requires_approval ss ty (si_bandwidth i) bw)"

section \<open>Azure ports (\<^verbatim>\<open>AzureInterfaceSelector.pm\<close>)\<close>

datatype 'a outcome = Died | Failed string | Done 'a

record azure_conn =
  az_error :: "string option"
  az_bandwidth :: int
  az_primary :: string
  az_secondary :: string

text \<open>\<open>sv_cross\<close> asks Azure for the cross connection of a service key, \<open>sv_endpoints\<close> is the
  database's list of the interfaces of the endpoints that use a key, and \<open>sv_port\<close> the
  interface with an interconnect identifier.\<close>

record select_services =
  sv_cross :: "string option \<Rightarrow> string \<Rightarrow> azure_conn"
  sv_endpoints :: "string \<Rightarrow> string + int list"
  sv_port :: "string \<Rightarrow> int option"

definition is_azure :: "server_intf \<Rightarrow> bool" where
  "is_azure i \<longleftrightarrow> si_cloud_type i = Some ''azure-express-route''"

definition azure_index :: "server_intf list \<Rightarrow> int \<Rightarrow> server_intf option" where
  "azure_index is n = find (\<lambda>i. si_id i = n) (rev (filter is_azure is))"

definition interconnect_known :: "server_intf list \<Rightarrow> bool" where
  "interconnect_known is = (let az = filter is_azure is in az \<noteq> [] \<and> (case si_cloud_id (last az) of
     None \<Rightarrow> False | Some c \<Rightarrow> c \<noteq> [] \<and> c \<noteq> ''0''))"

definition free_port :: "select_services \<Rightarrow> int list \<Rightarrow> string \<Rightarrow> int option" where
  "free_port S used port = (case sv_port S port of None \<Rightarrow> None | Some n \<Rightarrow> if n \<in> set used then None else Some n)"

definition azure_select :: "select_services \<Rightarrow> string \<Rightarrow> azure_conn \<Rightarrow> server_intf option list \<Rightarrow> server_intf option outcome" where
  "azure_select S key conn slots = (if None \<in> set slots then Died else
     let is = map the slots in
     if \<not> interconnect_known is then Done None
     else case sv_endpoints S key of Inl e \<Rightarrow> Done None | Inr used \<Rightarrow>
       (case free_port S used (az_primary conn) of
          Some n \<Rightarrow> Done (azure_index is n)
        | None \<Rightarrow> (case free_port S used (az_secondary conn) of
            Some n \<Rightarrow> Done (azure_index is n)
          | None \<Rightarrow> Done None)))"

section \<open>The choice (\<^verbatim>\<open>Entity.pm\<close>)\<close>

record select_args =
  sl_tag :: int
  sl_workgroup :: int
  sl_bandwidth :: int
  sl_account :: "string option"

record entity =
  en_interfaces :: "server_intf option list"
  en_reservations :: "(int \<times> int) list"

definition key_zone :: "string \<Rightarrow> string" where
  "key_zone account = ''zone'' @ field (psplit CHR ''/'' account) 2"

definition conn_zone :: "string option \<Rightarrow> string" where
  "conn_zone interconnect = field (psplit CHR ''-'' (case interconnect of None \<Rightarrow> [] | Some c \<Rightarrow> c)) 4"

text \<open>One turn of the loop: the interface is passed over, the search ends with an error, or a
  candidate is tried; in the last two the place of the list holds the new value of the variable.\<close>

datatype turn = Pass | Quit string "server_intf option" | Crash | Try server_intf

definition azure_turn :: "select_services \<Rightarrow> select_args \<Rightarrow> server_intf option list \<Rightarrow> server_intf \<Rightarrow> turn" where
  "azure_turn S A slots i = (case sl_account A of
     None \<Rightarrow> Quit ''cloud_account_id not provided.'' (Some i)
   | Some key \<Rightarrow> let conn = sv_cross S (si_cloud_id i) key in
       case az_error conn of Some e \<Rightarrow> Quit e (Some i) | None \<Rightarrow>
       if az_bandwidth conn \<noteq> sl_bandwidth A
       then Quit ''Bandwidth set on Azure endpoint must match the bandwidth configured via Azure Portal.'' (Some i)
       else case azure_select S key conn slots of
         Done (Some j) \<Rightarrow> Try j
       | Done None \<Rightarrow> Quit ''Couldn't find an available interface for azure connection.'' None
       | _ \<Rightarrow> Crash)"

definition turn_of :: "select_services \<Rightarrow> select_args \<Rightarrow> server_intf option list \<Rightarrow> server_intf \<Rightarrow> turn" where
  "turn_of S A slots i = (case si_cloud_type i of None \<Rightarrow> Try i | Some ty \<Rightarrow>
     if ty = ''gcp-partner-interconnect'' then
       (case sl_account A of
          None \<Rightarrow> Quit ''cloud_account_id not provided.'' (Some i)
        | Some account \<Rightarrow> if conn_zone (si_cloud_id i) \<noteq> key_zone account then Pass else Try i)
     else if ty = ''azure-express-route'' then azure_turn S A slots i
     else Try i)"

fun select_loop :: "select_services \<Rightarrow> select_args \<Rightarrow> (int \<times> int) list \<Rightarrow> server_intf option list \<Rightarrow> server_intf option list
    \<Rightarrow> entity \<times> server_intf outcome" where
  "select_loop S A R front [] = (\<lparr>en_interfaces = front, en_reservations = R\<rparr>, Failed ''Unknown error occurred.'')"
| "select_loop S A R front (None # rest) = (\<lparr>en_interfaces = front @ None # rest, en_reservations = R\<rparr>, Died)"
| "select_loop S A R front (Some i # rest) = (case turn_of S A (front @ Some i # rest) i of
     Pass \<Rightarrow> select_loop S A R (front @ [Some i]) rest
   | Quit e slot \<Rightarrow> (\<lparr>en_interfaces = front @ slot # rest, en_reservations = R\<rparr>, Failed e)
   | Crash \<Rightarrow> (\<lparr>en_interfaces = front @ Some i # rest, en_reservations = R\<rparr>, Died)
   | Try j \<Rightarrow>
       if vlan_valid j (sl_workgroup A) (sl_tag A) \<and> (si_id j, sl_tag A) \<notin> set R
       then (\<lparr>en_interfaces = front @ Some j # rest, en_reservations = (si_id j, sl_tag A) # R\<rparr>, Done j)
       else select_loop S A R (front @ [Some j]) rest)"

text \<open>The count of endpoints with the account is only read to log it, but an error of the query
  ends the call.\<close>

definition account_error :: "select_services \<Rightarrow> select_args \<Rightarrow> string option" where
  "account_error S A = (case sl_account A of None \<Rightarrow> None | Some account \<Rightarrow>
     if account = [] then None else (case sv_endpoints S account of Inl e \<Rightarrow> Some e | Inr _ \<Rightarrow> None))"

definition select_interface :: "select_services \<Rightarrow> select_args \<Rightarrow> entity \<Rightarrow> entity \<times> server_intf outcome" where
  "select_interface S A E = (case account_error S A of
     Some e \<Rightarrow> (E, Failed e)
   | None \<Rightarrow> select_loop S A (en_reservations E) [] (en_interfaces E))"

text \<open>Calls of one entity, one after the other.\<close>

fun selections :: "select_services \<Rightarrow> select_args list \<Rightarrow> entity \<Rightarrow> entity \<times> (server_intf \<times> select_args) list" where
  "selections S [] E = (E, [])"
| "selections S (A # As) E = (case select_interface S A E of
     (E', Died) \<Rightarrow> (E', [])
   | (E', Failed e) \<Rightarrow> selections S As E'
   | (E', Done i) \<Rightarrow> (case selections S As E' of (E'', is) \<Rightarrow> (E'', (i, A) # is)))"

section \<open>Laws of the loop\<close>

lemma select_loop_Done:
  "select_loop S A R front rest = (E, Done j) \<Longrightarrow>
    vlan_valid j (sl_workgroup A) (sl_tag A) \<and> (si_id j, sl_tag A) \<notin> set R \<and> en_reservations E = (si_id j, sl_tag A) # R"
  by (induction S A R front rest rule: select_loop.induct) (auto split: turn.splits if_splits)

lemma select_loop_other: "select_loop S A R front rest = (E, r) \<Longrightarrow> (\<And>j. r \<noteq> Done j) \<Longrightarrow> en_reservations E = R"
  by (induction S A R front rest rule: select_loop.induct) (auto split: turn.splits if_splits)

lemma select_Done:
  assumes "select_interface S A E = (E', Done j)"
  shows "vlan_valid j (sl_workgroup A) (sl_tag A) \<and> (si_id j, sl_tag A) \<notin> set (en_reservations E) \<and>
    en_reservations E' = (si_id j, sl_tag A) # en_reservations E"
  using assms select_loop_Done unfolding select_interface_def by (fastforce split: option.splits)

lemma select_other: "select_interface S A E = (E', r) \<Longrightarrow> (\<And>j. r \<noteq> Done j) \<Longrightarrow> en_reservations E' = en_reservations E"
  using select_loop_other unfolding select_interface_def by (fastforce split: option.splits)

lemma turn_of_plain: "si_cloud_type i \<notin> {Some ''gcp-partner-interconnect'', Some ''azure-express-route''} \<Longrightarrow> turn_of S A slots i = Try i"
  by (auto simp: turn_of_def split: option.splits)

lemma turn_of_azure: "is_azure i \<Longrightarrow> turn_of S A slots i = azure_turn S A slots i"
  by (simp add: turn_of_def is_azure_def)

lemma find_SomeD: "find P xs = Some x \<Longrightarrow> x \<in> set xs \<and> P x"
  by (induction xs) (auto split: if_splits)

lemma azure_turn_Try:
  assumes "azure_turn S A slots i = Try j"
  obtains key used where "sl_account A = Some key" and "sv_endpoints S key = Inr used" and "is_azure j" and "Some j \<in> set slots" and
    "si_id j \<notin> set used" and "az_bandwidth (sv_cross S (si_cloud_id i) key) = sl_bandwidth A" and
    "Some (si_id j) \<in> {sv_port S (az_primary (sv_cross S (si_cloud_id i) key)), sv_port S (az_secondary (sv_cross S (si_cloud_id i) key))}"
proof -
  from assms obtain key where k: "sl_account A = Some key" and b: "az_bandwidth (sv_cross S (si_cloud_id i) key) = sl_bandwidth A"
      and s: "azure_select S key (sv_cross S (si_cloud_id i) key) slots = Done (Some j)"
    by (auto simp: azure_turn_def Let_def split: option.splits if_splits outcome.splits)
  from s obtain used n where u: "sv_endpoints S key = Inr used" and n: "None \<notin> set slots" "azure_index (map the slots) n = Some j"
      and p: "free_port S used (az_primary (sv_cross S (si_cloud_id i) key)) = Some n \<or>
        free_port S used (az_secondary (sv_cross S (si_cloud_id i) key)) = Some n"
    by (auto simp: azure_select_def Let_def split: if_splits sum.splits option.splits)
  have j: "si_id j = n" "is_azure j" "j \<in> set (map the slots)"
    using find_SomeD [OF n(2) [unfolded azure_index_def]] by auto
  then obtain s where "s \<in> set slots" "j = the s" by auto
  moreover have "s \<noteq> None" using n(1) calculation(1) by metis
  ultimately have "Some j \<in> set slots" by auto
  moreover have "si_id j \<notin> set used" "Some (si_id j) \<in> {sv_port S (az_primary (sv_cross S (si_cloud_id i) key)),
      sv_port S (az_secondary (sv_cross S (si_cloud_id i) key))}"
    using p unfolding free_port_def j(1) by (auto split: option.splits if_splits)
  ultimately show ?thesis by (intro that [OF k u j(2) _ _ b])
qed

text \<open>On an entity of Azure ports only, the list keeps to the ports it had.\<close>

lemma azure_loop:
  assumes "\<forall>i\<in>I. is_azure i"
  shows "select_loop S A R front rest = (E, Done j) \<Longrightarrow> set front \<union> set rest \<subseteq> Some ` I \<Longrightarrow>
    \<exists>i\<in>I. \<exists>slots. azure_turn S A slots i = Try j \<and> set slots \<subseteq> Some ` I"
proof (induction S A R front rest rule: select_loop.induct)
  case (3 S A R front i rest)
  let ?slots = "front @ Some i # rest"
  have i: "i \<in> I" and sl: "set ?slots \<subseteq> Some ` I" using "3.prems"(2) by auto
  then have t: "turn_of S A ?slots i = azure_turn S A ?slots i" using assms by (simp add: turn_of_azure)
  show ?case
  proof (cases "turn_of S A ?slots i")
    case Pass
    then show ?thesis using "3.IH"(1) "3.prems" by simp
  next
    case (Try k)
    obtain "Some k \<in> set ?slots" using Try t azure_turn_Try by metis
    then have k: "set (front @ [Some k]) \<union> set rest \<subseteq> Some ` I" using sl by auto
    show ?thesis
    proof (cases "vlan_valid k (sl_workgroup A) (sl_tag A) \<and> (si_id k, sl_tag A) \<notin> set R")
      case True
      then have "k = j" using Try "3.prems"(1) by simp
      with Try t i sl show ?thesis by metis
    next
      case False
      then show ?thesis using "3.IH"(2) [OF Try False] Try k "3.prems"(1) by auto
    qed
  qed (use "3.prems" in auto)
qed auto

section \<open>Properties\<close>

text \<open>Two ports with all VLANs open, services that know a key with one of its ports in use, and a
  request.\<close>

definition sample_port :: "int \<Rightarrow> string option \<Rightarrow> server_intf" where
  "sample_port n ty = sample_intf\<lparr>si_id := n, si_range := Some ''8-9'', si_used := [], si_cloud_id := Some ''ix'', si_cloud_type := ty\<rparr>"

definition sample_services :: select_services where
  "sample_services = \<lparr>sv_cross = (\<lambda>c key. \<lparr>az_error = None, az_bandwidth = 50, az_primary = ''p'', az_secondary = ''s''\<rparr>),
     sv_endpoints = (\<lambda>key. Inr (if key = ''k'' then [21] else [])), sv_port = (\<lambda>p. Some (if p = ''p'' then 21 else 22))\<rparr>"

definition sample_request :: "string option \<Rightarrow> select_args" where
  "sample_request key = \<lparr>sl_tag = 8, sl_workgroup = 3, sl_bandwidth = 50, sl_account = key\<rparr>"

text \<open>
  (C7) Calls of \<open>select_interface\<close> on one entity never choose the same pair of interface and
  VLAN twice, nor one that had been reserved before, and each interface chosen is valid for the VLAN
  and the workgroup of its call.
\<close>

theorem selections_distinct:
  assumes "selections S As E = (E', chosen)"
  shows "distinct (map (\<lambda>(i, A). (si_id i, sl_tag A)) chosen) \<and>
    (\<forall>(i, A)\<in>set chosen. vlan_valid i (sl_workgroup A) (sl_tag A) \<and> (si_id i, sl_tag A) \<notin> set (en_reservations E))"
  using assms
proof (induction As arbitrary: E E' chosen)
  case (Cons A As)
  obtain F r where f: "select_interface S A E = (F, r)" by fastforce
  show ?case
  proof (cases r)
    case (Done i)
    obtain rest where g: "selections S As F = (E', rest)" "chosen = (i, A) # rest"
      using Cons.prems f Done by (auto split: prod.splits)
    have d: "vlan_valid i (sl_workgroup A) (sl_tag A) \<and> (si_id i, sl_tag A) \<notin> set (en_reservations E) \<and>
        en_reservations F = (si_id i, sl_tag A) # en_reservations E" using select_Done f Done by blast
    have b: "vlan_valid j (sl_workgroup B) (sl_tag B)" "(si_id j, sl_tag B) \<notin> set (en_reservations E)" "(si_id j, sl_tag B) \<noteq> (si_id i, sl_tag A)"
      if "(j, B) \<in> set rest" for j B using Cons.IH [OF g(1)] d that by auto
    then have "(si_id i, sl_tag A) \<notin> set (map (\<lambda>(i, A). (si_id i, sl_tag A)) rest)" by force
    then show ?thesis using Cons.IH [OF g(1)] d b unfolding g(2) by simp blast
  next
    case (Failed e)
    then have "selections S As F = (E', chosen)" using Cons.prems f by simp
    moreover have "en_reservations F = en_reservations E" using select_other [OF f] Failed by simp
    ultimately show ?thesis using Cons.IH [of F E' chosen] by simp
  next
    case Died
    then show ?thesis using Cons.prems f by simp
  qed
qed simp

theorem selections_distinct_witness:
  "map (\<lambda>(i, A). (si_id i, sl_tag A)) (snd (selections sample_services (replicate 3 (sample_request None))
     \<lparr>en_interfaces = map Some [sample_port 21 None, sample_port 22 None], en_reservations = []\<rparr>)) = [(21, 8), (22, 8)] \<and>
   distinct [(21::int, 8::int), (22, 8)]"
proof -
  let ?run = "selections sample_services (replicate 3 (sample_request None))
     \<lparr>en_interfaces = map Some [sample_port 21 None, sample_port 22 None], en_reservations = []\<rparr>"
  have m: "map (\<lambda>(i, A). (si_id i, sl_tag A)) (snd ?run) = [(21, 8), (22, 8)]" by code_simp
  have "distinct (map (\<lambda>(i, A). (si_id i, sl_tag A)) (snd ?run))" using selections_distinct [of sample_services _ _ "fst ?run" "snd ?run"] by simp
  with m show ?thesis by metis
qed

text \<open>
  (C18) For an entity without cloud ports of Google or Azure the search is complete: it
  returns the first interface of the list that is valid for the VLAN and not reserved with it, fails
  only if there is none, and leaves the list of interfaces as it was.
\<close>

theorem select_first_free:
  assumes "account_error S A = None" and "en_interfaces E = map Some is"
    and "\<forall>i\<in>set is. si_cloud_type i \<notin> {Some ''gcp-partner-interconnect'', Some ''azure-express-route''}"
  shows "en_interfaces (fst (select_interface S A E)) = map Some is \<and>
    snd (select_interface S A E) =
      (case find (\<lambda>i. vlan_valid i (sl_workgroup A) (sl_tag A) \<and> (si_id i, sl_tag A) \<notin> set (en_reservations E)) is of
         Some i \<Rightarrow> Done i | None \<Rightarrow> Failed ''Unknown error occurred.'')"
proof -
  have "en_interfaces (fst (select_loop S A R front (map Some is))) = front @ map Some is \<and>
      snd (select_loop S A R front (map Some is)) =
        (case find (\<lambda>i. vlan_valid i (sl_workgroup A) (sl_tag A) \<and> (si_id i, sl_tag A) \<notin> set R) is of
           Some i \<Rightarrow> Done i | None \<Rightarrow> Failed ''Unknown error occurred.'')" for R front
    using assms(3) by (induction "is" arbitrary: front) (auto simp: turn_of_plain)
  from this [of "en_reservations E" "[]"] show ?thesis using assms(1,2) by (simp add: select_interface_def)
qed

theorem select_first_free_witness:
  "snd (select_interface sample_services (sample_request None)
     \<lparr>en_interfaces = map Some [sample_port 21 None, sample_port 22 None], en_reservations = [(21, 8)]\<rparr>) = Done (sample_port 22 None)"
proof -
  let ?E = "\<lparr>en_interfaces = map Some [sample_port 21 None, sample_port 22 None], en_reservations = [(21, 8)]\<rparr>"
  have v: "vlan_valid (sample_port 22 None) 3 8" by code_simp
  have "account_error sample_services (sample_request None) = None" by (simp add: account_error_def sample_request_def)
  moreover have "\<forall>i\<in>set [sample_port 21 None, sample_port 22 None].
      si_cloud_type i \<notin> {Some ''gcp-partner-interconnect'', Some ''azure-express-route''}" by (simp add: sample_port_def)
  ultimately show ?thesis using select_first_free [of sample_services "sample_request None" ?E "[sample_port 21 None, sample_port 22 None]"] v
    by (simp add: sample_request_def) (simp add: sample_port_def)
qed

text \<open>
  (C17) A service key of Azure is used on its own ports, each at most once: the interface that
  is selected is a port of the entity no endpoint of the key uses yet, it is the primary or
  the secondary port Azure names, and the bandwidth asked for is the one configured there.
\<close>

theorem azure_selection:
  assumes "en_interfaces E = map Some is" and "\<forall>i\<in>set is. is_azure i" and "select_interface S A E = (E', Done j)"
  shows "j \<in> set is \<and> (\<exists>i\<in>set is. \<exists>key used. sl_account A = Some key \<and> sv_endpoints S key = Inr used \<and> si_id j \<notin> set used \<and>
    (let conn = sv_cross S (si_cloud_id i) key in az_bandwidth conn = sl_bandwidth A \<and>
       Some (si_id j) \<in> {sv_port S (az_primary conn), sv_port S (az_secondary conn)}))"
proof -
  from assms(1,3) have l: "select_loop S A (en_reservations E) [] (map Some is) = (E', Done j)"
    by (simp add: select_interface_def split: option.splits)
  obtain i slots where i: "i \<in> set is" and t: "azure_turn S A slots i = Try j" and sl: "set slots \<subseteq> Some ` set is"
    using azure_loop [OF assms(2) l] by auto
  from t show ?thesis
  proof (rule azure_turn_Try)
    fix key used
    assume "sl_account A = Some key" "sv_endpoints S key = Inr used" "Some j \<in> set slots" "si_id j \<notin> set used"
      "az_bandwidth (sv_cross S (si_cloud_id i) key) = sl_bandwidth A"
      "Some (si_id j) \<in> {sv_port S (az_primary (sv_cross S (si_cloud_id i) key)), sv_port S (az_secondary (sv_cross S (si_cloud_id i) key))}"
    then show ?thesis using i sl unfolding Let_def by blast
  qed
qed

theorem azure_selection_witness:
  "si_id (sample_port 22 (Some ''azure-express-route'')) \<notin> set [21] \<and>
   snd (select_interface sample_services (sample_request (Some ''k''))
     \<lparr>en_interfaces = map Some [sample_port 21 (Some ''azure-express-route''), sample_port 22 (Some ''azure-express-route'')], en_reservations = []\<rparr>)
   = Done (sample_port 22 (Some ''azure-express-route''))"
proof -
  let ?is = "[sample_port 21 (Some ''azure-express-route''), sample_port 22 (Some ''azure-express-route'')]"
  let ?E = "\<lparr>en_interfaces = map Some ?is, en_reservations = []\<rparr>" and ?j = "sample_port 22 (Some ''azure-express-route'')"
  obtain F r where f: "select_interface sample_services (sample_request (Some ''k'')) ?E = (F, r)" by fastforce
  moreover have "snd (select_interface sample_services (sample_request (Some ''k'')) ?E) = Done ?j" by code_simp
  ultimately have r: "select_interface sample_services (sample_request (Some ''k'')) ?E = (F, Done ?j)" by simp
  have "\<forall>i\<in>set ?is. is_azure i" by (simp add: is_azure_def sample_port_def)
  from azure_selection [OF _ this r] have "si_id ?j \<notin> set [21]"
    by (auto simp: sample_services_def sample_request_def)
  with r show ?thesis by simp
qed

end
