(* ===== verification/ServerAccess.thy ===== *)
theory ServerAccess
  imports ServerVlans
begin

text \<open>
  Who may do what: the access checks of \<^verbatim>\<open>DB/User.pm\<close> and the object methods of \<^verbatim>\<open>User.pm\<close>
  that call them for each name of a user.  The tables they query are lists of rows in a record and
  each query is the function of the rows its \<^verbatim>\<open>select\<close> states, first row first.
\<close>

section \<open>Tables\<close>

record workgroup_row =
  wg_id :: int
  wg_type :: string
  wg_status :: string

record circuit_row =
  ck_id :: int
  ck_workgroup :: int
  ck_state :: string

text \<open>\<open>ac_auth\<close> holds the names of the users, \<open>ac_users\<close> the status of each, \<open>ac_members\<close>
  user, workgroup and role, \<open>ac_owners\<close> the workgroup of an interface and
  \<open>ac_edges\<close> circuit, interface and end of an endpoint.\<close>

record access_db =
  ac_users :: "(int \<times> string) list"
  ac_auth :: "(string \<times> int) list"
  ac_groups :: "workgroup_row list"
  ac_members :: "(int \<times> int \<times> string) list"
  ac_circuits :: "circuit_row list"
  ac_owners :: "(int \<times> int) list"
  ac_edges :: "(int \<times> int \<times> int) list"

datatype user_key = UserId int | UserName string

record db_user =
  us_id :: int
  us_name :: string
  us_status :: string
  us_is_admin :: bool

definition role_in :: "access_db \<Rightarrow> int \<Rightarrow> int \<Rightarrow> string option" where
  "role_in D u w = (case filter (\<lambda>(v, x, r). v = u \<and> x = w) (ac_members D) of [] \<Rightarrow> None | (_, _, r) # _ \<Rightarrow> Some r)"

definition member_of :: "access_db \<Rightarrow> int \<Rightarrow> int \<Rightarrow> bool" where
  "member_of D u w = list_ex (\<lambda>(v, x, r). v = u \<and> x = w) (ac_members D)"

definition admin_groups :: "access_db \<Rightarrow> int \<Rightarrow> workgroup_row list" where
  "admin_groups D u = filter (\<lambda>g. member_of D u (wg_id g) \<and> wg_status g = ''active'' \<and> wg_type g = ''admin'') (ac_groups D)"

definition user_fetch :: "access_db \<Rightarrow> user_key \<Rightarrow> db_user option" where
  "user_fetch D k = (case filter (\<lambda>(name, v). (case k of UserId u \<Rightarrow> v = u | UserName n \<Rightarrow> name = n) \<and> v \<in> fst ` set (ac_users D)) (ac_auth D) of
     [] \<Rightarrow> None
   | (name, v) # _ \<Rightarrow> Some \<lparr>us_id = v, us_name = name, us_status = (case map_of (ac_users D) v of Some s \<Rightarrow> s | None \<Rightarrow> []),
       us_is_admin = (admin_groups D v \<noteq> [])\<rparr>)"

definition workgroup_fetch :: "access_db \<Rightarrow> int \<Rightarrow> workgroup_row option" where
  "workgroup_fetch D w = find (\<lambda>g. wg_id g = w \<and> wg_status g = ''active'') (ac_groups D)"

definition get_workgroups :: "access_db \<Rightarrow> int \<Rightarrow> workgroup_row list" where
  "get_workgroups D u = (if admin_groups D u \<noteq> [] then filter (\<lambda>g. wg_status g = ''active'') (ac_groups D)
     else filter (\<lambda>g. member_of D u (wg_id g) \<and> wg_status g = ''active'') (ac_groups D))"

section \<open>The checks\<close>

text \<open>The flags a list of groups sets: normal access and admin access.\<close>

fun system_flags :: "access_db \<Rightarrow> int \<Rightarrow> workgroup_row list \<Rightarrow> bool \<times> bool \<Rightarrow> bool \<times> bool" where
  "system_flags D u [] (n, a) = (n, a)"
| "system_flags D u (g # gs) (n, a) = (if wg_type g \<noteq> ''admin'' then system_flags D u gs (n, a)
     else case role_in D u (wg_id g) of
       Some r \<Rightarrow> system_flags D u gs (if r = ''admin'' then (True, True) else if r = ''normal'' then (True, a) else (n, a))
     | None \<Rightarrow> system_flags D u gs (n, a))"

definition role_granted :: "string \<Rightarrow> bool \<Rightarrow> bool \<Rightarrow> bool \<Rightarrow> bool" where
  "role_granted role r n a \<longleftrightarrow> (role = ''read-only'' \<and> r) \<or> (role = ''normal'' \<and> n) \<or> (role = ''admin'' \<and> a)"

definition has_system_access :: "access_db \<Rightarrow> user_key \<Rightarrow> string \<Rightarrow> string + unit" where
  "has_system_access D k role = (case user_fetch D k of
     None \<Rightarrow> Inl ''Invalid or decommissioned user specified.''
   | Some u \<Rightarrow> if us_status u = ''decom'' then Inl ''Invalid or decommissioned user specified.''
       else if \<not> us_is_admin u then Inl (''User '' @ us_name u @ '' does not have system admin privileges.'')
       else let (n, a) = system_flags D (us_id u) (get_workgroups D (us_id u)) (False, False) in
         if role_granted role True n a then Inr () else Inl (''User '' @ us_name u @ '' does not have the proper level of access.''))"

definition has_workgroup_access :: "access_db \<Rightarrow> user_key \<Rightarrow> int \<Rightarrow> string \<Rightarrow> string + unit" where
  "has_workgroup_access D k w role = (case user_fetch D k of
     None \<Rightarrow> Inl ''Invalid or decommissioned user specified.''
   | Some u \<Rightarrow> if us_status u = ''decom'' then Inl ''Invalid or decommissioned user specified.''
       else (case workgroup_fetch D w of
         None \<Rightarrow> Inl ''Invalid or decommissioned workgroup specified.''
       | Some g \<Rightarrow>
           if wg_type g = ''admin'' then has_system_access D (UserId (us_id u)) role
           else let wr = role_in D (us_id u) w;
                    sys = (has_system_access D (UserId (us_id u)) (if role = ''read-only'' then ''read-only'' else ''normal'') = Inr ());
                    r = (wr \<noteq> None \<or> sys); n = (wr \<in> {Some ''normal'', Some ''admin''} \<or> sys); a = (wr = Some ''admin'' \<or> sys) in
             if role_granted role r n a then Inr () else Inl (''User '' @ us_name u @ '' does not have the proper access permissions'')))"

text \<open>The permissions on a circuit; the record of the four is here the flag for create, update
  and delete, which are always set together, and the flag for read.\<close>

definition full_role :: "string \<Rightarrow> bool" where
  "full_role r \<longleftrightarrow> r = ''admin'' \<or> r = ''normal''"

definition admin_roles :: "access_db \<Rightarrow> int \<Rightarrow> string list" where
  "admin_roles D u = map (\<lambda>(_, _, r). r) (filter (\<lambda>(v, w, r). v = u \<and>
     list_ex (\<lambda>g. wg_id g = w \<and> wg_type g = ''admin'') (ac_groups D)) (ac_members D))"

definition owner_roles :: "access_db \<Rightarrow> int \<Rightarrow> int \<Rightarrow> string list" where
  "owner_roles D u w = map (\<lambda>(_, _, r). r) (filter (\<lambda>(v, x, r). v = u \<and> x = w) (ac_members D))"

definition interface_roles :: "access_db \<Rightarrow> int \<Rightarrow> int \<Rightarrow> string list" where
  "interface_roles D u c = map (\<lambda>(_, _, r). r) (filter (\<lambda>(v, w, r). v = u \<and>
     list_ex (\<lambda>(d, i, fin). d = c \<and> fin = - 1 \<and> list_ex (\<lambda>(j, x). j = i \<and> x = w) (ac_owners D)) (ac_edges D)) (ac_members D))"

definition has_circuit_permission :: "access_db \<Rightarrow> user_key \<Rightarrow> int \<Rightarrow> string \<Rightarrow> string + unit" where
  "has_circuit_permission D k c permission =
     (if permission \<notin> {''create'', ''read'', ''update'', ''delete''}
      then Inl ''Required argument 'permission' must be 'create', 'read', 'update', or 'delete'.''
      else case user_fetch D k of
        None \<Rightarrow> Inl ''Invalid or decommissioned user specified.''
      | Some u \<Rightarrow> if us_status u = ''decom'' then Inl ''Invalid or decommissioned user specified.''
          else (case find (\<lambda>x. ck_id x = c) (ac_circuits D) of
            None \<Rightarrow> Inl ''Invalid or decommissioned circuit specified.''
          | Some x \<Rightarrow> if ck_state x = ''decom'' then Inl ''Invalid or decommissioned circuit specified.''
              else let roles = admin_roles D (us_id u) @ owner_roles D (us_id u) (ck_workgroup x);
                       all = list_ex full_role roles; rd = (roles \<noteq> [] \<or> interface_roles D (us_id u) c \<noteq> []) in
                if (if permission = ''read'' then rd else all) then Inr ()
                else Inl (''User '' @ us_name u @ '' doesn't have '' @ permission @ '' permission for circuit '' @ show_int c @ ''.'')))"

text \<open>The methods of \<^verbatim>\<open>User.pm\<close>: one name of the user that passes is enough.\<close>

fun any_name :: "(string \<Rightarrow> string + unit) \<Rightarrow> string option \<Rightarrow> string list \<Rightarrow> string option + unit" where
  "any_name f err [] = Inl err"
| "any_name f err (n # ns) = (case f n of Inr _ \<Rightarrow> Inr () | Inl e \<Rightarrow> any_name f (Some e) ns)"

definition user_workgroup_access :: "access_db \<Rightarrow> string list \<Rightarrow> int \<Rightarrow> string \<Rightarrow> string option + unit" where
  "user_workgroup_access D names w role = any_name (\<lambda>n. has_workgroup_access D (UserName n) w role) None names"

definition user_system_access :: "access_db \<Rightarrow> string list \<Rightarrow> string \<Rightarrow> string option + unit" where
  "user_system_access D names role = any_name (\<lambda>n. has_system_access D (UserName n) role) None names"

section \<open>What the checks decide\<close>

text \<open>The keys of the tables: a user has at most one role in a workgroup, an identifier names one
  workgroup or one circuit, a name one user, and rows refer to rows that exist.\<close>

definition access_db_ok :: "access_db \<Rightarrow> bool" where
  "access_db_ok D \<longleftrightarrow> distinct (map (\<lambda>(u, w, r). (u, w)) (ac_members D)) \<and> distinct (map wg_id (ac_groups D)) \<and>
     distinct (map fst (ac_auth D)) \<and> distinct (map fst (ac_users D)) \<and>
     (\<forall>(u, w, r)\<in>set (ac_members D). w \<in> wg_id ` set (ac_groups D)) \<and> (\<forall>(n, u)\<in>set (ac_auth D). u \<in> fst ` set (ac_users D))"

definition system_role :: "access_db \<Rightarrow> int \<Rightarrow> (string \<Rightarrow> bool) \<Rightarrow> bool" where
  "system_role D u P \<longleftrightarrow> (\<exists>g\<in>set (ac_groups D). \<exists>r. wg_type g = ''admin'' \<and> wg_status g = ''active'' \<and> (u, wg_id g, r) \<in> set (ac_members D) \<and> P r)"

definition active_user :: "access_db \<Rightarrow> user_key \<Rightarrow> int \<Rightarrow> bool" where
  "active_user D k u \<longleftrightarrow> (\<exists>x. user_fetch D k = Some x \<and> us_id x = u \<and> us_status x \<noteq> ''decom'')"

lemma role_in_iff: "distinct (map (\<lambda>(u, w, r). (u, w)) (ac_members D)) \<Longrightarrow> role_in D u w = Some r \<longleftrightarrow> (u, w, r) \<in> set (ac_members D)"
proof -
  have "distinct (map (\<lambda>(u, w, r). (u, w)) ms) \<Longrightarrow>
    (case filter (\<lambda>(v, x, r). v = u \<and> x = w) ms of [] \<Rightarrow> None | (_, _, r) # _ \<Rightarrow> Some r) = Some r \<longleftrightarrow> (u, w, r) \<in> set ms" for ms
  proof (induction ms)
    case (Cons m ms)
    obtain v x q where m: "m = (v, x, q)" by (cases m) auto
    with Cons show ?case by (cases "v = u \<and> x = w") force+
  qed simp
  then show "distinct (map (\<lambda>(u, w, r). (u, w)) (ac_members D)) \<Longrightarrow> ?thesis" unfolding role_in_def .
qed

lemma admin_groups_system: "admin_groups D u \<noteq> [] \<longleftrightarrow> system_role D u (\<lambda>r. True)"
  by (fastforce simp: admin_groups_def filter_empty_conv member_of_def list_ex_iff system_role_def)

lemma system_flags_iff:
  "system_flags D u gs (n, a) =
    (n \<or> (\<exists>g\<in>set gs. \<exists>r. wg_type g = ''admin'' \<and> role_in D u (wg_id g) = Some r \<and> full_role r),
     a \<or> (\<exists>g\<in>set gs. wg_type g = ''admin'' \<and> role_in D u (wg_id g) = Some ''admin''))"
  by (induction D u gs "(n, a)" arbitrary: n a rule: system_flags.induct) (auto simp: full_role_def split: option.splits)

lemma filter_headD: "filter P xs = x # ys \<Longrightarrow> x \<in> set xs \<and> P x"
  by (induction xs) (auto split: if_splits)

lemma user_fetch_key: "active_user D k u \<Longrightarrow> active_user D (UserId u) u"
proof -
  assume "active_user D k u"
  then obtain n rest where f: "filter (\<lambda>(name, v). (case k of UserId w \<Rightarrow> v = w | UserName m \<Rightarrow> name = m) \<and> v \<in> fst ` set (ac_users D)) (ac_auth D)
        = (n, u) # rest" and s: "map_of (ac_users D) u \<noteq> Some ''decom''"
    by (auto simp: active_user_def user_fetch_def split: list.splits option.splits)
  then have "(n, u) \<in> set (ac_auth D)" "u \<in> fst ` set (ac_users D)" using filter_headD [OF f] by auto
  then have "filter (\<lambda>(name, v). v = u \<and> v \<in> fst ` set (ac_users D)) (ac_auth D) \<noteq> []" by (auto simp: filter_empty_conv)
  then obtain m q where g: "filter (\<lambda>(name, v). v = u \<and> v \<in> fst ` set (ac_users D)) (ac_auth D) = (m, u) # q"
    by (cases "filter (\<lambda>(name, v). v = u \<and> v \<in> fst ` set (ac_users D)) (ac_auth D)") (auto dest: filter_headD)
  then show ?thesis using s by (auto simp: active_user_def user_fetch_def split: option.splits)
qed

lemma active_user_id: "active_user D (UserId u) v \<Longrightarrow> v = u"
  by (auto simp: active_user_def user_fetch_def split: list.splits dest!: filter_headD)

lemma active_user_unique: "active_user D k u \<Longrightarrow> active_user D k v \<Longrightarrow> u = v"
  by (auto simp: active_user_def)

lemma system_access_iff:
  assumes "access_db_ok D"
  shows "has_system_access D k role = Inr () \<longleftrightarrow> (\<exists>u. active_user D k u \<and> system_role D u (\<lambda>r. True) \<and>
    role_granted role True (system_role D u full_role) (system_role D u (\<lambda>r. r = ''admin'')))"
proof (cases "user_fetch D k")
  case (Some x)
  let ?u = "us_id x"
  have d: "distinct (map (\<lambda>(u, w, r). (u, w)) (ac_members D))" using assms by (simp add: access_db_ok_def)
  have a: "us_is_admin x \<longleftrightarrow> system_role D ?u (\<lambda>r. True)"
    using Some by (auto simp: user_fetch_def admin_groups_system split: list.splits)
  have f: "system_flags D ?u (get_workgroups D ?u) (False, False) = (system_role D ?u full_role, system_role D ?u (\<lambda>r. r = ''admin''))"
    if "system_role D ?u (\<lambda>r. True)"
    using that unfolding system_flags_iff get_workgroups_def admin_groups_system role_in_iff [OF d] system_role_def by auto
  show ?thesis
  proof (cases "us_is_admin x \<and> us_status x \<noteq> ''decom''")
    case True
    then have "active_user D k ?u" using Some by (simp add: active_user_def)
    with True a f Some active_user_unique show ?thesis by (auto simp: has_system_access_def)
  next
    case False
    with a Some show ?thesis by (auto simp: has_system_access_def active_user_def)
  qed
qed (auto simp: has_system_access_def active_user_def)

lemma workgroup_fetch_iff:
  assumes "distinct (map wg_id (ac_groups D))"
  shows "workgroup_fetch D w = Some g \<longleftrightarrow> g \<in> set (ac_groups D) \<and> wg_id g = w \<and> wg_status g = ''active''"
proof -
  have "distinct (map wg_id gs) \<Longrightarrow> find (\<lambda>g. wg_id g = w \<and> wg_status g = ''active'') gs = Some g \<longleftrightarrow>
      g \<in> set gs \<and> wg_id g = w \<and> wg_status g = ''active''" for gs
    by (induction gs) auto
  then show ?thesis using assms unfolding workgroup_fetch_def .
qed

definition group_role :: "access_db \<Rightarrow> int \<Rightarrow> int \<Rightarrow> (string \<Rightarrow> bool) \<Rightarrow> bool" where
  "group_role D u w P \<longleftrightarrow> (\<exists>r. (u, w, r) \<in> set (ac_members D) \<and> P r)"

definition granted_in :: "access_db \<Rightarrow> int \<Rightarrow> workgroup_row \<Rightarrow> string \<Rightarrow> bool" where
  "granted_in D u g role = (if wg_type g = ''admin'' then has_system_access D (UserId u) role = Inr ()
     else let sys = (has_system_access D (UserId u) (if role = ''read-only'' then ''read-only'' else ''normal'') = Inr ()) in
       role_granted role (group_role D u (wg_id g) (\<lambda>r. True) \<or> sys) (group_role D u (wg_id g) full_role \<or> sys)
         (group_role D u (wg_id g) (\<lambda>r. r = ''admin'') \<or> sys))"

lemma workgroup_access_iff:
  assumes "access_db_ok D" and "workgroup_fetch D w = Some g"
  shows "has_workgroup_access D k w role = Inr () \<longleftrightarrow> (\<exists>u. active_user D k u \<and> granted_in D u g role)"
proof -
  have d: "distinct (map (\<lambda>(u, w, r). (u, w)) (ac_members D))" and dg: "distinct (map wg_id (ac_groups D))"
    using assms by (simp_all add: access_db_ok_def)
  have w: "wg_id g = w" using workgroup_fetch_iff [OF dg] assms(2) by blast
  have r: "(role_in D u w \<noteq> None) = group_role D u w (\<lambda>r. True)"
    "(role_in D u w \<in> {Some ''normal'', Some ''admin''}) = group_role D u w full_role"
    "(role_in D u w = Some ''admin'') = group_role D u w (\<lambda>r. r = ''admin'')" for u
    using role_in_iff [OF d, of u w] by (auto simp: full_role_def group_role_def)
  show ?thesis
    unfolding has_workgroup_access_def assms(2) active_user_def granted_in_def Let_def r w
    by (auto split: option.splits if_splits)
qed

lemma role_granted_simps [simp]:
  "role_granted ''read-only'' r n a = r" "role_granted ''normal'' r n a = n" "role_granted ''admin'' r n a = a"
  by (simp_all add: role_granted_def)

lemma role_granted_roles: "role_granted role r n a \<Longrightarrow> role \<in> {''read-only'', ''normal'', ''admin''}"
  by (auto simp: role_granted_def)

lemma system_role_mono: "system_role D u P \<Longrightarrow> (\<And>r. P r \<Longrightarrow> Q r) \<Longrightarrow> system_role D u Q"
  by (auto simp: system_role_def)

lemma system_access_down:
  assumes "access_db_ok D" and "(low, high) \<in> {(''read-only'', ''normal''), (''read-only'', ''admin''), (''normal'', ''admin'')}"
    and "has_system_access D k high = Inr ()"
  shows "has_system_access D k low = Inr ()"
proof -
  obtain u where u: "active_user D k u" "system_role D u (\<lambda>r. True)"
      and g: "role_granted high True (system_role D u full_role) (system_role D u (\<lambda>r. r = ''admin''))"
    using assms(3) unfolding system_access_iff [OF assms(1)] by blast
  have "system_role D u (\<lambda>r. r = ''admin'') \<Longrightarrow> system_role D u full_role" by (erule system_role_mono) (simp add: full_role_def)
  then have "role_granted low True (system_role D u full_role) (system_role D u (\<lambda>r. r = ''admin''))" using assms(2) g by auto
  with u show ?thesis unfolding system_access_iff [OF assms(1)] by blast
qed

lemma granted_down:
  assumes "access_db_ok D" and "(low, high) \<in> {(''read-only'', ''normal''), (''read-only'', ''admin''), (''normal'', ''admin'')}"
    and "granted_in D u g high"
  shows "granted_in D u g low"
proof (cases "wg_type g = ''admin''")
  case True
  then show ?thesis using assms(3) system_access_down [OF assms(1,2)] by (simp add: granted_in_def)
next
  case False
  let ?w = "wg_id g"
  have s: "has_system_access D (UserId u) ''normal'' = Inr () \<Longrightarrow> has_system_access D (UserId u) ''read-only'' = Inr ()"
    by (rule system_access_down [OF assms(1)]) auto
  have m: "group_role D u ?w (\<lambda>r. r = ''admin'') \<Longrightarrow> group_role D u ?w full_role" "group_role D u ?w full_role \<Longrightarrow> group_role D u ?w (\<lambda>r. True)"
    by (auto simp: group_role_def full_role_def)
  show ?thesis using assms(2,3) False s m by (elim insertE emptyE) (auto simp: granted_in_def)
qed

lemma granted_belongs:
  assumes "access_db_ok D" and "granted_in D u g role"
  shows "group_role D u (wg_id g) (\<lambda>r. True) \<or> system_role D u (\<lambda>r. True)"
proof -
  have "has_system_access D (UserId u) r = Inr () \<Longrightarrow> system_role D u (\<lambda>r. True)" for r
    unfolding system_access_iff [OF assms(1)] using active_user_id by blast
  moreover have "group_role D u (wg_id g) P \<Longrightarrow> group_role D u (wg_id g) (\<lambda>r. True)" for P by (auto simp: group_role_def)
  ultimately show ?thesis using assms(2) by (auto simp: granted_in_def role_granted_def Let_def split: if_splits)
qed

lemma admin_roles_set: "set (admin_roles D u) = {r. \<exists>g\<in>set (ac_groups D). wg_type g = ''admin'' \<and> (u, wg_id g, r) \<in> set (ac_members D)}"
  by (force simp: admin_roles_def list_ex_iff)

lemma owner_roles_set: "set (owner_roles D u w) = {r. (u, w, r) \<in> set (ac_members D)}"
  by (force simp: owner_roles_def)

lemma circuit_permission_iff:
  assumes "find (\<lambda>x. ck_id x = c) (ac_circuits D) = Some x" and "ck_state x \<noteq> ''decom''" and "permission \<in> {''create'', ''update'', ''delete''}"
  shows "has_circuit_permission D k c permission = Inr () \<longleftrightarrow> (\<exists>u. active_user D k u \<and>
    ((\<exists>g\<in>set (ac_groups D). \<exists>r. wg_type g = ''admin'' \<and> (u, wg_id g, r) \<in> set (ac_members D) \<and> full_role r) \<or>
     (\<exists>r. (u, ck_workgroup x, r) \<in> set (ac_members D) \<and> full_role r)))"
proof -
  have p: "permission \<noteq> ''read''" "permission \<in> {''create'', ''read'', ''update'', ''delete''}" using assms(3) by auto
  show ?thesis
  proof (cases "user_fetch D k")
    case (Some y)
    have "(\<exists>r\<in>set (admin_roles D (us_id y)) \<union> set (owner_roles D (us_id y) (ck_workgroup x)). full_role r) \<longleftrightarrow>
        (\<exists>g\<in>set (ac_groups D). \<exists>r. wg_type g = ''admin'' \<and> (us_id y, wg_id g, r) \<in> set (ac_members D) \<and> full_role r) \<or>
        (\<exists>r. (us_id y, ck_workgroup x, r) \<in> set (ac_members D) \<and> full_role r)"
      unfolding admin_roles_set owner_roles_set by blast
    then show ?thesis using p Some assms(1,2)
      by (simp add: has_circuit_permission_def active_user_def list_ex_iff)
  qed (use p in \<open>simp add: has_circuit_permission_def active_user_def\<close>)
qed

section \<open>Properties\<close>


definition sample_access :: access_db where
  "sample_access = \<lparr>ac_users = [(1, ''active''), (2, ''active''), (3, ''decom'')], ac_auth = [(''ann'', 1), (''bob'', 2), (''bobby'', 2), (''cy'', 3)],
     ac_groups = [\<lparr>wg_id = 10, wg_type = ''normal'', wg_status = ''active''\<rparr>, \<lparr>wg_id = 11, wg_type = ''admin'', wg_status = ''active''\<rparr>],
     ac_members = [(1, 10, ''admin''), (2, 10, ''read-only''), (3, 11, ''admin'')],
     ac_circuits = [\<lparr>ck_id = 7, ck_workgroup = 10, ck_state = ''active''\<rparr>], ac_owners = [], ac_edges = []\<rparr>"

lemma sample_access_ok: "access_db_ok sample_access"
  by (simp add: access_db_ok_def sample_access_def)


text \<open>
  (C15) The two ways to decide who may change a circuit agree: as long as no workgroup is
  decommissioned, a user has the permission to create, update or delete on a circuit exactly when the
  user has access, as a normal user, to the workgroup that owns the circuit.  (The query for the
  workgroups of administrators in \<open>has_circuit_permission\<close> does not ask for their status.)
\<close>

theorem circuit_permission_owner:
  assumes "access_db_ok D" and "\<forall>g\<in>set (ac_groups D). wg_status g = ''active''"
    and "find (\<lambda>x. ck_id x = c) (ac_circuits D) = Some x" and "ck_state x \<noteq> ''decom''" and "ck_workgroup x \<in> wg_id ` set (ac_groups D)"
    and "permission \<in> {''create'', ''update'', ''delete''}"
  shows "has_circuit_permission D k c permission = Inr () \<longleftrightarrow> has_workgroup_access D k (ck_workgroup x) ''normal'' = Inr ()"
proof -
  have dg: "distinct (map wg_id (ac_groups D))" using assms(1) by (simp add: access_db_ok_def)
  obtain g where g: "g \<in> set (ac_groups D)" "wg_id g = ck_workgroup x" using assms(5) by auto
  then have f: "workgroup_fetch D (ck_workgroup x) = Some g" using workgroup_fetch_iff [OF dg] assms(2) by blast
  let ?admin = "\<lambda>u. \<exists>g\<in>set (ac_groups D). \<exists>r. wg_type g = ''admin'' \<and> (u, wg_id g, r) \<in> set (ac_members D) \<and> full_role r"
  have sys: "has_system_access D (UserId u) ''normal'' = Inr () \<longleftrightarrow> ?admin u" if "active_user D k u" for u
  proof -
    have "system_role D u full_role \<longleftrightarrow> ?admin u" using assms(2) by (auto simp: system_role_def)
    moreover have "system_role D u full_role \<Longrightarrow> system_role D u (\<lambda>r. True)" by (erule system_role_mono) simp
    ultimately show ?thesis unfolding system_access_iff [OF assms(1)] using user_fetch_key [OF that] by (auto dest: active_user_id)
  qed
  have "granted_in D u g ''normal'' \<longleftrightarrow> ?admin u \<or> group_role D u (ck_workgroup x) full_role" if "active_user D k u" for u
    using sys [OF that] g by (auto simp: granted_in_def group_role_def)
  then show ?thesis
    unfolding circuit_permission_iff [OF assms(3,4,6)] workgroup_access_iff [OF assms(1) f] group_role_def by blast
qed

theorem circuit_permission_owner_witness:
  "has_circuit_permission sample_access (UserName ''ann'') 7 ''update'' = Inr () \<and>
   has_circuit_permission sample_access (UserName ''bobby'') 7 ''delete'' \<noteq> Inr () \<and>
   has_circuit_permission sample_access (UserName ''bobby'') 7 ''read'' = Inr ()"
proof -
  let ?x = "\<lparr>ck_id = 7, ck_workgroup = 10, ck_state = ''active''\<rparr> :: circuit_row"
  have h: "\<forall>g\<in>set (ac_groups sample_access). wg_status g = ''active''" "find (\<lambda>x. ck_id x = 7) (ac_circuits sample_access) = Some ?x"
    "ck_state ?x \<noteq> ''decom''" "ck_workgroup ?x \<in> wg_id ` set (ac_groups sample_access)" by (simp_all add: sample_access_def)
  have "has_workgroup_access sample_access (UserName ''ann'') 10 ''normal'' = Inr ()"
    "has_workgroup_access sample_access (UserName ''bobby'') 10 ''normal'' \<noteq> Inr ()"
    "has_circuit_permission sample_access (UserName ''bobby'') 7 ''read'' = Inr ()" by code_simp+
  then show ?thesis using circuit_permission_owner [OF sample_access_ok h, of "''update''" "UserName ''ann''"]
      circuit_permission_owner [OF sample_access_ok h, of "''delete''" "UserName ''bobby''"] by simp
qed

end
