(* ===== verification/ServerUnits.thy ===== *)
theory ServerUnits
  imports ServerVlans
begin

text \<open>
  Endpoints in the database: the choice of a unit for a VLAN (\<^verbatim>\<open>DB/Endpoint.pm\<close>,
  \<open>find_available_unit\<close>) and the methods of \<^verbatim>\<open>Endpoint.pm\<close> that create, update and remove an
  endpoint.  The tables are lists of rows; a query is the list of the rows its \<^verbatim>\<open>where\<close>
  clause selects.  The statements are taken to succeed.
\<close>

section \<open>Tables\<close>

record ep_row =
  er_id :: int
  er_owner :: int
  er_interface :: int
  er_tag :: int
  er_inner :: "int option"
  er_unit :: int
  er_bandwidth :: int
  er_mtu :: int
  er_state :: string
  er_end :: int

text \<open>\<open>db_vrf_eps\<close> is \<^verbatim>\<open>vrf_ep\<close>, whose owner is a VRF, \<open>db_ckt_eps\<close> is
  \<^verbatim>\<open>circuit_edge_interface_membership\<close>, \<open>db_insts\<close> the instantiations of circuits with state
  and end, and \<open>db_cloud\<close> the cloud accounts of endpoints.\<close>

record ep_db =
  db_vrfs :: "(int \<times> string) list"
  db_vrf_eps :: "ep_row list"
  db_circuits :: "(int \<times> string) list"
  db_insts :: "(int \<times> string \<times> int) list"
  db_ckt_eps :: "ep_row list"
  db_cloud :: "(int option \<times> int option \<times> string \<times> string) list"
  db_next :: int

definition live_vrf :: "ep_db \<Rightarrow> int \<Rightarrow> bool" where
  "live_vrf D v = list_ex (\<lambda>(w, s). w = v \<and> s \<noteq> ''decom'') (db_vrfs D)"

definition live_circuit :: "ep_db \<Rightarrow> int \<Rightarrow> bool" where
  "live_circuit D c = (list_ex (\<lambda>(d, s). d = c \<and> s \<noteq> ''decom'') (db_circuits D) \<and>
     list_ex (\<lambda>(d, s, fin). d = c \<and> s \<noteq> ''decom'' \<and> fin = - 1) (db_insts D))"

text \<open>The condition on the tags: without an inner tag every row with the tag, with one
  the rows with both tags and those with the tag and no inner tag.\<close>

definition tag_match :: "int \<Rightarrow> int option \<Rightarrow> ep_row \<Rightarrow> bool" where
  "tag_match tag inner r = (case inner of
     None \<Rightarrow> er_tag r = tag
   | Some q \<Rightarrow> (er_tag r = tag \<and> er_inner r = Some q) \<or> (er_tag r = tag \<and> er_inner r = None))"

definition live_vrf_rows :: "ep_db \<Rightarrow> int \<Rightarrow> ep_row list" where
  "live_vrf_rows D i = filter (\<lambda>r. er_interface r = i \<and> live_vrf D (er_owner r)) (db_vrf_eps D)"

definition live_ckt_rows :: "ep_db \<Rightarrow> int \<Rightarrow> ep_row list" where
  "live_ckt_rows D i = filter (\<lambda>r. er_end r = - 1 \<and> er_interface r = i \<and> live_circuit D (er_owner r) \<and> er_state r \<noteq> ''decom'') (db_ckt_eps D)"

section \<open>The unit of a VLAN\<close>

definition used_units :: "ep_db \<Rightarrow> int \<Rightarrow> int list" where
  "used_units D i = map er_unit (filter (\<lambda>r. 5000 \<le> er_unit r \<and> er_state r = ''active'' \<and> er_interface r = i) (db_vrf_eps D)) @
     map er_unit (live_ckt_rows D i)"

fun first_unit :: "int list \<Rightarrow> nat \<Rightarrow> int \<Rightarrow> int option" where
  "first_unit used 0 n = None"
| "first_unit used (Suc k) n = (if n \<in> set used then first_unit used k (n + 1) else Some n)"

definition find_available_unit :: "ep_db \<Rightarrow> int \<Rightarrow> int \<Rightarrow> int option \<Rightarrow> int option \<Rightarrow> int option \<Rightarrow> int option" where
  "find_available_unit D i tag inner circuit_ep vrf_ep = (case filter (tag_match tag inner) (live_vrf_rows D i) of
     r # _ \<Rightarrow> if vrf_ep = Some (er_id r) then Some (er_unit r) else None
   | [] \<Rightarrow> (case filter (tag_match tag inner) (live_ckt_rows D i) of
       r # _ \<Rightarrow> if circuit_ep = Some (er_id r) then Some (er_unit r) else None
     | [] \<Rightarrow> if inner = None then Some tag else first_unit (used_units D i) 11000 5000))"

section \<open>Endpoints (\<^verbatim>\<open>Endpoint.pm\<close>)\<close>

record endpoint =
  ep_interface :: int
  ep_tag :: int
  ep_inner :: "int option"
  ep_unit :: int
  ep_bandwidth :: int
  ep_mtu :: int
  ep_state :: string
  ep_account :: "string option"
  ep_connection :: "string option"
  ep_cloud_type :: "string option"
  ep_circuit_ep :: "int option"
  ep_vrf_ep :: "int option"

datatype ep_owner = OfCircuit int | OfVrf int

definition ep_validate :: "endpoint \<Rightarrow> string option" where
  "ep_validate e = (if (case ep_inner e of None \<Rightarrow> False | Some q \<Rightarrow> q < 1 \<or> 4094 < q)
     then Some ''Endpoint->{inner_tag} must be 1 to 4094 inclusive.''
     else if ep_tag e < 1 \<or> 4095 < ep_tag e then Some ''Endpoint->{tag} must be 1 to 4095 inclusive.''
     else None)"

definition row_of :: "int \<Rightarrow> int \<Rightarrow> endpoint \<Rightarrow> ep_row" where
  "row_of n owner e = \<lparr>er_id = n, er_owner = owner, er_interface = ep_interface e, er_tag = ep_tag e, er_inner = ep_inner e,
     er_unit = ep_unit e, er_bandwidth = ep_bandwidth e, er_mtu = ep_mtu e, er_state = ep_state e, er_end = - 1\<rparr>"

definition update_cloud :: "ep_db \<Rightarrow> endpoint \<Rightarrow> ep_db" where
  "update_cloud D e = (let kept = filter (\<lambda>(v, c, _). \<not> (v \<noteq> None \<and> v = ep_vrf_ep e) \<and> \<not> (c \<noteq> None \<and> c = ep_circuit_ep e)) (db_cloud D) in
     D\<lparr>db_cloud := (case ep_account e of None \<Rightarrow> kept | Some a \<Rightarrow>
       kept @ [(ep_vrf_ep e, ep_circuit_ep e, a, case ep_connection e of None \<Rightarrow> [] | Some c \<Rightarrow> c)])\<rparr>)"

definition add_circuit_edge_membership :: "ep_db \<Rightarrow> int \<Rightarrow> endpoint \<Rightarrow> ep_db \<times> int" where
  "add_circuit_edge_membership D c e = (D\<lparr>db_ckt_eps := db_ckt_eps D @ [row_of (db_next D) c e], db_next := db_next D + 1\<rparr>, db_next D)"

text \<open>A VRF endpoint without an MTU is stored with 9000; its cloud account is stored here too when
  the connection is known already.\<close>

definition add_vrf_ep :: "ep_db \<Rightarrow> int \<Rightarrow> endpoint \<Rightarrow> ep_db \<times> int" where
  "add_vrf_ep D v e = (let n = db_next D; r = (row_of n v e)\<lparr>er_mtu := (if ep_mtu e = 0 then 9000 else ep_mtu e)\<rparr> in
     (D\<lparr>db_vrf_eps := db_vrf_eps D @ [r], db_next := n + 1,
        db_cloud := (case (ep_account e, ep_connection e) of (Some a, Some c) \<Rightarrow> db_cloud D @ [(Some n, None, a, c)] | _ \<Rightarrow> db_cloud D)\<rparr>, n))"

definition endpoint_create :: "ep_db \<Rightarrow> ep_owner \<Rightarrow> endpoint \<Rightarrow> string + (ep_db \<times> endpoint)" where
  "endpoint_create D owner e = (case find_available_unit D (ep_interface e) (ep_tag e) (ep_inner e) None None of
     None \<Rightarrow> Inl ''Couldn't create Endpoint: Couldn't find an available Unit.''
   | Some u \<Rightarrow> let e' = e\<lparr>ep_unit := u\<rparr> in
       (case ep_validate e' of
          Some err \<Rightarrow> Inl (''Couldn't create Endpoint: '' @ err)
        | None \<Rightarrow> (case owner of
            OfCircuit c \<Rightarrow> let (D', n) = add_circuit_edge_membership D c e'; e'' = e'\<lparr>ep_circuit_ep := Some n\<rparr> in Inr (update_cloud D' e'', e'')
          | OfVrf v \<Rightarrow> let (D', n) = add_vrf_ep D v e'; e'' = e'\<lparr>ep_vrf_ep := Some n\<rparr> in Inr (update_cloud D' e'', e''))))"

definition set_ckt_row :: "endpoint \<Rightarrow> int \<Rightarrow> ep_row \<Rightarrow> ep_row" where
  "set_ckt_row e n r = (if er_id r \<noteq> n then r else r\<lparr>er_interface := ep_interface e, er_bandwidth := ep_bandwidth e, er_tag := ep_tag e,
     er_inner := ep_inner e, er_unit := ep_unit e, er_mtu := ep_mtu e, er_state := ep_state e\<rparr>)"

text \<open>The update of a VRF endpoint leaves the inner tag of the row alone when the endpoint has
  none.\<close>

definition set_vrf_row :: "endpoint \<Rightarrow> int \<Rightarrow> ep_row \<Rightarrow> ep_row" where
  "set_vrf_row e n r = (if er_id r \<noteq> n then r else r\<lparr>er_interface := ep_interface e, er_bandwidth := ep_bandwidth e, er_tag := ep_tag e,
     er_inner := (if ep_inner e = None then er_inner r else ep_inner e), er_unit := ep_unit e, er_mtu := ep_mtu e, er_state := ep_state e\<rparr>)"

definition endpoint_update_db :: "ep_db \<Rightarrow> endpoint \<Rightarrow> string + (ep_db \<times> endpoint)" where
  "endpoint_update_db D e = (case ep_validate e of
     Some err \<Rightarrow> Inl err
   | None \<Rightarrow> (case find_available_unit D (ep_interface e) (ep_tag e) (ep_inner e) (ep_circuit_ep e) (ep_vrf_ep e) of
       None \<Rightarrow> Inl ''Couldn't update Endpoint: Couldn't find an available Unit.''
     | Some u \<Rightarrow> let e' = e\<lparr>ep_unit := u\<rparr> in
         (case (ep_vrf_ep e, ep_circuit_ep e) of
            (Some n, _) \<Rightarrow> Inr (update_cloud (D\<lparr>db_vrf_eps := map (set_vrf_row e' n) (db_vrf_eps D)\<rparr>) e', e')
          | (None, Some n) \<Rightarrow> Inr (update_cloud (D\<lparr>db_ckt_eps := map (set_ckt_row e' n) (db_ckt_eps D)\<rparr>) e', e')
          | (None, None) \<Rightarrow> Inl ''Argument `endpoint->circuit_ep_id` or `endpoint->vrf_endpoint_id` is required but both are missing.'')))"

definition endpoint_remove :: "ep_db \<Rightarrow> endpoint \<Rightarrow> string + ep_db" where
  "endpoint_remove D e = (case (ep_vrf_ep e, ep_circuit_ep e) of
     (Some n, _) \<Rightarrow> Inr (D\<lparr>db_vrf_eps := filter (\<lambda>r. er_id r \<noteq> n) (db_vrf_eps D)\<rparr>)
   | (None, Some n) \<Rightarrow> Inr (D\<lparr>db_ckt_eps := filter (\<lambda>r. \<not> (er_id r = n \<and> er_end r = - 1)) (db_ckt_eps D)\<rparr>)
   | (None, None) \<Rightarrow> Inl ''Unknown Endpoint type specified.'')"

section \<open>Units and VLANs stay apart\<close>

definition overlap :: "ep_row \<Rightarrow> ep_row \<Rightarrow> bool" where
  "overlap a b \<longleftrightarrow> er_tag a = er_tag b \<and> (er_inner a = er_inner b \<or> er_inner a = None \<or> er_inner b = None)"

definition apart :: "ep_row \<Rightarrow> ep_row \<Rightarrow> bool" where
  "apart a b \<longleftrightarrow> \<not> overlap a b \<and> er_unit a \<noteq> er_unit b"

text \<open>The invariant of an interface: the endpoints of live connections do not overlap, have different
  units, and a unit below 5000 is the tag itself.\<close>

definition eps_ok :: "ep_db \<Rightarrow> int \<Rightarrow> bool" where
  "eps_ok D i \<longleftrightarrow> sorted_wrt apart (live_vrf_rows D i @ live_ckt_rows D i) \<and>
     (\<forall>r\<in>set (live_vrf_rows D i @ live_ckt_rows D i). 5000 \<le> er_unit r \<or> er_unit r = er_tag r)"

lemma apart_sym: "apart a b \<longleftrightarrow> apart b a"
  by (auto simp: apart_def overlap_def)

lemma apart_insert:
  assumes "sorted_wrt apart (xs @ ys)" and "\<forall>x\<in>set (xs @ ys). apart x r"
  shows "sorted_wrt apart ((xs @ [r]) @ ys)" and "sorted_wrt apart (xs @ ys @ [r])"
  using assms by (auto simp: sorted_wrt_append apart_sym)

lemma first_unit_Some: "first_unit used k n = Some u \<Longrightarrow> n \<le> u \<and> u < n + int k \<and> u \<notin> set used"
  by (induction used k n rule: first_unit.induct) (auto split: if_splits)

lemma first_unit_None: "first_unit used k n = None \<Longrightarrow> {n..<n + int k} \<subseteq> set used"
proof (induction used k n rule: first_unit.induct)
  case (2 used k n)
  then have "n \<in> set used" "{n + 1..<n + 1 + int k} \<subseteq> set used" by (auto split: if_splits)
  moreover have "{n..<n + int (Suc k)} = insert n {n + 1..<n + 1 + int k}" by auto
  ultimately show ?case by simp
qed simp

lemma first_unit_exists: "length used < k \<Longrightarrow> \<exists>u. first_unit used k n = Some u"
proof (rule ccontr)
  assume l: "length used < k" and "\<nexists>u. first_unit used k n = Some u"
  then have "{n..<n + int k} \<subseteq> set used" by (intro first_unit_None) (cases "first_unit used k n", auto)
  then have "card {n..<n + int k} \<le> card (set used)" by (intro card_mono) auto
  also have "\<dots> \<le> length used" by (rule card_length)
  finally show False using l by simp
qed

lemma new_unit:
  assumes "find_available_unit D i tag inner None None = Some u"
  shows "(\<forall>r\<in>set (live_vrf_rows D i @ live_ckt_rows D i). \<not> tag_match tag inner r) \<and>
    (if inner = None then u = tag else 5000 \<le> u \<and> u < 16000 \<and> u \<notin> set (used_units D i))"
  using assms first_unit_Some [of "used_units D i" 11000 5000 u]
  by (auto simp: find_available_unit_def filter_empty_conv split: list.splits if_splits)

lemma new_row_apart:
  assumes ok: "eps_ok D i" and active: "\<forall>r\<in>set (live_vrf_rows D i). er_state r = ''active''"
    and u: "find_available_unit D i tag inner None None = Some u" and tag: "tag < 5000"
    and new: "er_tag r = tag" "er_inner r = inner" "er_unit r = u" and x: "x \<in> set (live_vrf_rows D i @ live_ckt_rows D i)"
  shows "apart x r"
proof -
  have m: "\<not> tag_match tag inner x" and c: "if inner = None then u = tag else 5000 \<le> u \<and> u \<notin> set (used_units D i)"
    using new_unit [OF u] x by auto
  have "\<not> overlap x r" using m new by (auto simp: overlap_def tag_match_def split: option.splits)
  moreover have "er_unit x \<noteq> u"
  proof (cases inner)
    case None
    have "5000 \<le> er_unit x \<or> er_unit x = er_tag x" using ok x unfolding eps_ok_def by blast
    then show ?thesis using m None c tag by (auto simp: tag_match_def)
  next
    case (Some q)
    have "er_unit x \<in> set (used_units D i)" if "5000 \<le> er_unit x"
      using x active that by (auto simp: used_units_def live_vrf_rows_def)
    then show ?thesis using c Some by auto
  qed
  ultimately show ?thesis using new by (simp add: apart_def)
qed

lemma update_cloud_rows [simp]:
  "live_vrf_rows (update_cloud D e) i = live_vrf_rows D i" "live_ckt_rows (update_cloud D e) i = live_ckt_rows D i"
  by (simp_all add: update_cloud_def Let_def live_vrf_rows_def live_ckt_rows_def live_vrf_def live_circuit_def split: option.splits)

lemma add_ckt_rows:
  "live_vrf_rows (fst (add_circuit_edge_membership D c e)) i = live_vrf_rows D i"
  "live_ckt_rows (fst (add_circuit_edge_membership D c e)) i = live_ckt_rows D i @
     (if ep_interface e = i \<and> live_circuit D c \<and> ep_state e \<noteq> ''decom'' then [row_of (db_next D) c e] else [])"
  by (auto simp: add_circuit_edge_membership_def live_vrf_rows_def live_ckt_rows_def live_vrf_def live_circuit_def row_of_def)

lemma add_vrf_rows:
  "live_ckt_rows (fst (add_vrf_ep D v e)) i = live_ckt_rows D i"
  "live_vrf_rows (fst (add_vrf_ep D v e)) i = live_vrf_rows D i @
     (if ep_interface e = i \<and> live_vrf D v then [(row_of (db_next D) v e)\<lparr>er_mtu := (if ep_mtu e = 0 then 9000 else ep_mtu e)\<rparr>] else [])"
  by (auto simp: add_vrf_ep_def Let_def live_vrf_rows_def live_ckt_rows_def live_vrf_def live_circuit_def row_of_def split: option.splits)

lemma eps_ok_extend:
  assumes "eps_ok D i" and "\<forall>x\<in>set (live_vrf_rows D i @ live_ckt_rows D i). apart x r" and "5000 \<le> er_unit r \<or> er_unit r = er_tag r"
    and "(live_vrf_rows D' i, live_ckt_rows D' i) \<in> {(live_vrf_rows D i, live_ckt_rows D i), (live_vrf_rows D i @ [r], live_ckt_rows D i),
      (live_vrf_rows D i, live_ckt_rows D i @ [r])}"
  shows "eps_ok D' i"
  using assms(1,3,4) apart_insert [OF _ assms(2)] unfolding eps_ok_def by auto

text \<open>What a call of \<open>create\<close> that succeeds adds: one row, on the interface of the endpoint.\<close>

lemma endpoint_create_row:
  assumes "endpoint_create D owner e = Inr (D', e')"
  obtains u r where "find_available_unit D (ep_interface e) (ep_tag e) (ep_inner e) None None = Some u" and "ep_unit e' = u"
    and "1 \<le> ep_tag e" and "ep_tag e \<le> 4095" and "er_tag r = ep_tag e" and "er_inner r = ep_inner e" and "er_unit r = u"
    and "\<And>i. (live_vrf_rows D' i, live_ckt_rows D' i) \<in> (if ep_interface e = i
      then {(live_vrf_rows D i, live_ckt_rows D i), (live_vrf_rows D i @ [r], live_ckt_rows D i), (live_vrf_rows D i, live_ckt_rows D i @ [r])}
      else {(live_vrf_rows D i, live_ckt_rows D i)})"
proof -
  obtain u where u: "find_available_unit D (ep_interface e) (ep_tag e) (ep_inner e) None None = Some u"
    and v: "ep_validate (e\<lparr>ep_unit := u\<rparr>) = None" using assms by (auto simp: endpoint_create_def Let_def split: option.splits)
  have t: "1 \<le> ep_tag e" "ep_tag e \<le> 4095" using v by (auto simp: ep_validate_def split: if_splits)
  define f where "f = e\<lparr>ep_unit := u\<rparr>"
  show ?thesis
  proof (cases owner)
    case (OfCircuit c)
    show ?thesis
    proof (rule that [OF u _ t, of "row_of (db_next D) c f"])
      show "ep_unit e' = u" using assms u v by (auto simp: endpoint_create_def Let_def OfCircuit add_circuit_edge_membership_def)
      have "live_vrf_rows D' i = live_vrf_rows (fst (add_circuit_edge_membership D c f)) i"
        "live_ckt_rows D' i = live_ckt_rows (fst (add_circuit_edge_membership D c f)) i" for i
        using assms u v by (auto simp: endpoint_create_def Let_def OfCircuit f_def split: prod.splits)
      then show "(live_vrf_rows D' i, live_ckt_rows D' i) \<in> (if ep_interface e = i then {(live_vrf_rows D i, live_ckt_rows D i),
          (live_vrf_rows D i @ [row_of (db_next D) c f], live_ckt_rows D i), (live_vrf_rows D i, live_ckt_rows D i @ [row_of (db_next D) c f])}
          else {(live_vrf_rows D i, live_ckt_rows D i)})" for i
        by (simp add: add_ckt_rows f_def)
    qed (simp_all add: f_def row_of_def)
  next
    case (OfVrf w)
    let ?r = "(row_of (db_next D) w f)\<lparr>er_mtu := (if ep_mtu f = 0 then 9000 else ep_mtu f)\<rparr>"
    show ?thesis
    proof (rule that [OF u _ t, of ?r])
      show "ep_unit e' = u" using assms u v by (auto simp: endpoint_create_def Let_def OfVrf add_vrf_ep_def)
      have "live_vrf_rows D' i = live_vrf_rows (fst (add_vrf_ep D w f)) i" "live_ckt_rows D' i = live_ckt_rows (fst (add_vrf_ep D w f)) i" for i
        using assms u v by (auto simp: endpoint_create_def Let_def OfVrf f_def split: prod.splits)
      then show "(live_vrf_rows D' i, live_ckt_rows D' i) \<in> (if ep_interface e = i then {(live_vrf_rows D i, live_ckt_rows D i),
          (live_vrf_rows D i @ [?r], live_ckt_rows D i), (live_vrf_rows D i, live_ckt_rows D i @ [?r])}
          else {(live_vrf_rows D i, live_ckt_rows D i)})" for i
        by (simp add: add_vrf_rows f_def)
    qed (simp_all add: f_def row_of_def)
  qed
qed

lemma create_unit_facts:
  assumes "endpoint_create D owner e = Inr (D', e')" and "eps_ok D i"
    and "ep_interface e = i \<longrightarrow> (\<forall>r\<in>set (live_vrf_rows D i). er_state r = ''active'')"
  shows "eps_ok D' i \<and> (if ep_inner e = None then ep_unit e' = ep_tag e else 5000 \<le> ep_unit e' \<and> ep_unit e' < 16000) \<and>
    1 \<le> ep_tag e \<and> ep_tag e \<le> 4095"
proof -
  obtain u r where u: "find_available_unit D (ep_interface e) (ep_tag e) (ep_inner e) None None = Some u" and e': "ep_unit e' = u"
    and t: "1 \<le> ep_tag e" "ep_tag e \<le> 4095" and r: "er_tag r = ep_tag e" "er_inner r = ep_inner e" "er_unit r = u"
    and rows: "\<And>i. (live_vrf_rows D' i, live_ckt_rows D' i) \<in> (if ep_interface e = i
      then {(live_vrf_rows D i, live_ckt_rows D i), (live_vrf_rows D i @ [r], live_ckt_rows D i), (live_vrf_rows D i, live_ckt_rows D i @ [r])}
      else {(live_vrf_rows D i, live_ckt_rows D i)})"
    using assms(1) by (rule endpoint_create_row) blast
  have n: "if ep_inner e = None then u = ep_tag e else 5000 \<le> u \<and> u < 16000" using new_unit [OF u] by auto
  have "eps_ok D' i"
  proof (cases "ep_interface e = i")
    case True
    have "\<forall>x\<in>set (live_vrf_rows D i @ live_ckt_rows D i). apart x r"
      using new_row_apart [OF assms(2) _ _ _ r] assms(3) u t True by auto
    then show ?thesis by (rule eps_ok_extend [OF assms(2)]) (use n r rows [of i] True in \<open>auto split: if_splits\<close>)
  next
    case False
    then show ?thesis using rows [of i] assms(2) by (simp add: eps_ok_def)
  qed
  then show ?thesis using n e' t by simp
qed

lemmas create_unit_ok = create_unit_facts [THEN conjunct1]

section \<open>Properties\<close>


definition sample_row :: "int \<Rightarrow> int option \<Rightarrow> int \<Rightarrow> string \<Rightarrow> ep_row" where
  "sample_row n q u st = \<lparr>er_id = n, er_owner = 1, er_interface = 5, er_tag = 7, er_inner = q, er_unit = u, er_bandwidth = 0, er_mtu = 9000,
     er_state = st, er_end = - 1\<rparr>"

definition sample_db :: "ep_row list \<Rightarrow> ep_db" where
  "sample_db rs = \<lparr>db_vrfs = [(1, ''active'')], db_vrf_eps = rs, db_circuits = [(2, ''active'')], db_insts = [(2, ''active'', - 1)],
     db_ckt_eps = [], db_cloud = [], db_next = 20\<rparr>"

definition sample_ep :: "int option \<Rightarrow> int option \<Rightarrow> endpoint" where
  "sample_ep q v = \<lparr>ep_interface = 5, ep_tag = 7, ep_inner = q, ep_unit = 0, ep_bandwidth = 0, ep_mtu = 9000, ep_state = ''active'',
     ep_account = None, ep_connection = None, ep_cloud_type = None, ep_circuit_ep = None, ep_vrf_ep = v\<rparr>"

lemmas sample_unit_defs = sample_row_def sample_db_def sample_ep_def live_vrf_rows_def live_ckt_rows_def live_vrf_def live_circuit_def
  find_available_unit_def tag_match_def used_units_def

lemma first_unit_5000: "first_unit used 11000 5000 = (if 5000 \<in> set used then first_unit used 10999 5001 else Some 5000)"
  "first_unit used 10999 5001 = (if 5001 \<in> set used then first_unit used 10998 5002 else Some 5001)"
  by (simp_all add: numeral_eq_Suc)


text \<open>
  (C19) The search for a unit ends, and fails only for a reason: when no live endpoint of the
  interface takes the VLAN and fewer than 11000 units are in use, a unit is found.
\<close>

theorem unit_found:
  assumes "\<forall>r\<in>set (live_vrf_rows D i @ live_ckt_rows D i). \<not> tag_match tag inner r" and "length (used_units D i) < 11000"
  shows "\<exists>u. find_available_unit D i tag inner circuit_ep vrf_ep = Some u"
proof -
  have "filter (tag_match tag inner) (live_vrf_rows D i) = []" "filter (tag_match tag inner) (live_ckt_rows D i) = []"
    using assms(1) by (auto simp: filter_empty_conv)
  then show ?thesis using first_unit_exists [OF assms(2)] by (simp add: find_available_unit_def)
qed

theorem unit_found_witness:
  "\<exists>u. find_available_unit (sample_db [sample_row 10 (Some 100) 5000 ''active'']) 5 7 (Some 200) None None = Some u"
  by (rule unit_found) (simp_all add: sample_unit_defs)

text \<open>Two ways out of the invariant.  The units of layer 3 endpoints that wait for approval do not
  count as used, so a second endpoint may get the same one; and an update looks only at the first of
  the endpoints that take the VLAN, so an endpoint may drop its inner tag beside another one.\<close>

lemma review_unit_reused:
  "eps_ok (sample_db [sample_row 10 (Some 100) 5000 ''in-review'']) 5 \<and>
   find_available_unit (sample_db [sample_row 10 (Some 100) 5000 ''in-review'']) 5 7 (Some 200) None None = Some 5000"
  by (simp add: sample_unit_defs first_unit_5000 eps_ok_def)

lemma update_overlaps:
  "eps_ok (sample_db [sample_row 10 (Some 100) 5000 ''active'', sample_row 11 (Some 200) 5001 ''active'']) 5 \<and>
   find_available_unit (sample_db [sample_row 10 (Some 100) 5000 ''active'', sample_row 11 (Some 200) 5001 ''active'']) 5 7 None None (Some 10)
     = Some 5000"
  by (simp add: sample_unit_defs eps_ok_def apart_def overlap_def)

end
