(* ===== verification/ServerCircuit.thy ===== *)
theory ServerCircuit
  imports ServerSelect ServerAccess ServerUnits
begin

text \<open>
  The service that provisions layer 2 connections (\<^verbatim>\<open>frontend/webservice/circuit.cgi\<close>): \<open>provision\<close>
  with the creation of a circuit, its endpoints and a static path, \<open>update\<close> and \<open>remove\<close>.
  The transaction is in the state: a call that answers with success returns the tables it
  committed, every other call leaves the tables of before.  An answer tells whether the handler
  rolled back itself, or returned and left that to the end of the process.

  Arguments of the handlers, in one record, are the decoder of JSON, the lookups of interfaces,
  entities, links and nodes, the search for a path (a library for graphs), and the set-up of
  cloud ports with their providers.
\<close>

section \<open>Requests and answers\<close>

record ep_request =
  rq_node :: "string option"
  rq_interface :: "string option"
  rq_entity :: string
  rq_tag :: int
  rq_inner :: "int option"
  rq_bandwidth :: int
  rq_account :: "string option"
  rq_gateway :: "string option"
  rq_jumbo :: "int option"
  rq_ep_id :: "int option"

datatype 'a reply = Reply 'a | Refused bool string | Aborted

fun reply_bind :: "'a reply \<Rightarrow> ('a \<Rightarrow> 'b reply) \<Rightarrow> 'b reply" where
  "reply_bind (Reply x) f = f x"
| "reply_bind (Refused rolled e) f = Refused rolled e"
| "reply_bind Aborted f = Aborted"

record circuit_env =
  ce_remote_user :: string
  ce_names :: "string list option"
  ce_access :: access_db
  ce_decode :: "string \<Rightarrow> ep_request option"
  ce_interface :: "ep_db \<Rightarrow> string \<Rightarrow> string \<Rightarrow> server_intf option"
  ce_entity :: "ep_db \<Rightarrow> string \<Rightarrow> server_intf list option"
  ce_services :: "ep_db \<Rightarrow> select_services"
  ce_selectors :: "intf_selector list"
  ce_node :: "int \<Rightarrow> int"
  ce_link :: "string \<Rightarrow> (int \<times> int) option"
  ce_connects :: "(int \<times> int) list \<Rightarrow> int \<Rightarrow> int \<Rightarrow> bool"
  ce_cloud :: "endpoint list \<Rightarrow> string + endpoint list"
  ce_cleanup :: "endpoint list \<Rightarrow> string option"
  ce_endpoints :: "ep_db \<Rightarrow> int \<Rightarrow> endpoint list"
  ce_controller :: "endpoint \<Rightarrow> string"
  ce_now :: int

record circuit_args =
  ca_workgroup :: int
  ca_circuit :: "int option"
  ca_endpoints :: "string list"
  ca_links :: "string list option"
  ca_skip_cloud :: bool

section \<open>One endpoint\<close>

definition wants_jumbo :: "int option \<Rightarrow> bool" where
  "wants_jumbo j \<longleftrightarrow> (case j of None \<Rightarrow> True | Some v \<Rightarrow> v = 1)"

definition endpoint_mtu :: "string option \<Rightarrow> string option \<Rightarrow> int option \<Rightarrow> int" where
  "endpoint_mtu ty gw jumbo =
     (if ty = Some ''aws-hosted-connection'' then
        (if gw = Some ''transit'' then (if wants_jumbo jumbo then 8500 else 1500) else (if wants_jumbo jumbo then 9001 else 1500))
      else if ty = Some ''aws-hosted-vinterface'' then (if wants_jumbo jumbo then 9001 else 1500)
      else if ty = Some ''gcp-partner-interconnect'' then (if gw = Some ''1500'' then 1500 else 1440)
      else if ty = Some ''azure-express-route'' then 1500
      else (if wants_jumbo jumbo then 9000 else 1500))"

text \<open>The interface: the one that is named, or the entity's choice.  An entity that cannot be loaded
  is undefined and the call of its method ends the program.\<close>

definition choose_interface :: "circuit_env \<Rightarrow> int \<Rightarrow> ep_db \<Rightarrow> bool \<Rightarrow> string \<Rightarrow> ep_request \<Rightarrow> server_intf reply" where
  "choose_interface V wg D rolls prefix r = (case (rq_node r, rq_interface r) of
     (Some node, Some name) \<Rightarrow> (case ce_interface V D node name of
        None \<Rightarrow> Refused rolls (prefix @ ''Cannot find a valid Interface for '' @ rq_entity r @ ''.'')
      | Some i \<Rightarrow> Reply i)
   | _ \<Rightarrow> (case ce_entity V D (rq_entity r) of
        None \<Rightarrow> Aborted
      | Some is \<Rightarrow> (case snd (select_interface (ce_services V D)
            \<lparr>sl_tag = rq_tag r, sl_workgroup = wg, sl_bandwidth = rq_bandwidth r, sl_account = rq_account r\<rparr>
            \<lparr>en_interfaces = map Some is, en_reservations = []\<rparr>) of
          Died \<Rightarrow> Aborted
        | Failed e \<Rightarrow> Refused True (''Cannot find a valid Interface for '' @ rq_entity r @ '': '' @ e)
        | Done i \<Rightarrow> Reply i)))"

definition exceeds_provisionable :: "server_intf \<Rightarrow> int \<Rightarrow> bool" where
  "exceeds_provisionable i bw = (case si_provisionable i of None \<Rightarrow> False | Some p \<Rightarrow> p < bw + si_utilized i)"

definition endpoint_model :: "circuit_env \<Rightarrow> server_intf \<Rightarrow> ep_request \<Rightarrow> endpoint" where
  "endpoint_model V i r = \<lparr>ep_interface = si_id i, ep_tag = rq_tag r, ep_inner = rq_inner r, ep_unit = 0, ep_bandwidth = rq_bandwidth r,
     ep_mtu = endpoint_mtu (si_cloud_type i) (rq_gateway r) (rq_jumbo r),
     ep_state = (if bandwidth_requires_approval (ce_selectors V) i (rq_bandwidth r) then ''in-review'' else ''active''),
     ep_account = rq_account r, ep_connection = None, ep_cloud_type = si_cloud_type i, ep_circuit_ep = None, ep_vrf_ep = None\<rparr>"

text \<open>The checks of the bandwidth and the endpoint they lead to.\<close>

definition endpoint_for :: "circuit_env \<Rightarrow> bool \<Rightarrow> int \<Rightarrow> ep_db \<Rightarrow> bool \<Rightarrow> string \<Rightarrow> string \<Rightarrow> ep_request \<Rightarrow> endpoint reply" where
  "endpoint_for V admin wg D rolls prefix verb r = reply_bind (choose_interface V wg D rolls prefix r) (\<lambda>i.
     if \<not> is_bandwidth_valid (ce_selectors V) i (rq_bandwidth r) admin
     then Refused True (''Couldn't '' @ verb @ '' Connection: Specified bandwidth is invalid for '' @ rq_entity r @ ''.'')
     else if exceeds_provisionable i (rq_bandwidth r)
     then Refused True (''Couldn't create Connnection: Specified bandwidth exceeds provisionable bandwidth for '' @ [CHR 0x27] @ rq_entity r @ [CHR 0x27] @ ''.'')
     else Reply (endpoint_model V i r))"

section \<open>Creating a circuit\<close>

definition new_endpoint :: "circuit_env \<Rightarrow> bool \<Rightarrow> int \<Rightarrow> int \<Rightarrow> string \<Rightarrow> ep_db \<times> endpoint list \<Rightarrow> (ep_db \<times> endpoint list) reply" where
  "new_endpoint V admin wg c text st = (case st of (D, es) \<Rightarrow> (case ce_decode V text of
     None \<Rightarrow> Refused False ''Cannot decode endpoint: ''
   | Some r \<Rightarrow> reply_bind (endpoint_for V admin wg D True ''Couldn't create Circuit: '' ''create'' r) (\<lambda>e.
       case endpoint_create D (OfCircuit c) e of
         Inl err \<Rightarrow> Refused True (''Couldn't create Circuit: '' @ err)
       | Inr (D', e') \<Rightarrow> Reply (D', es @ [e']))))"

fun new_endpoints :: "circuit_env \<Rightarrow> bool \<Rightarrow> int \<Rightarrow> int \<Rightarrow> string list \<Rightarrow> ep_db \<times> endpoint list \<Rightarrow> (ep_db \<times> endpoint list) reply" where
  "new_endpoints V admin wg c [] st = Reply st"
| "new_endpoints V admin wg c (t # ts) st = reply_bind (new_endpoint V admin wg c t st) (new_endpoints V admin wg c ts)"

fun find_links :: "circuit_env \<Rightarrow> string list \<Rightarrow> (int \<times> int) list reply" where
  "find_links V [] = Reply []"
| "find_links V (n # ns) = (case ce_link V n of
     None \<Rightarrow> Refused True (''Couldn't create Circuit: Unknown link '' @ n @ '' used in static Path.'')
   | Some l \<Rightarrow> reply_bind (find_links V ns) (\<lambda>ls. Reply (l # ls)))"

text \<open>A static path needs two endpoints: with more the request is refused, with fewer a
  method of an undefined endpoint is called.\<close>

definition static_path :: "circuit_env \<Rightarrow> string list option \<Rightarrow> endpoint list \<Rightarrow> unit reply" where
  "static_path V links es = (case links of None \<Rightarrow> Reply () | Some ns \<Rightarrow>
     if 2 < length es then Refused True ''Couldn't create Circuit: Static path are unsupported on Circuits with more than two Endpoints.''
     else reply_bind (find_links V ns) (\<lambda>ls.
       if length es < 2 then Aborted
       else if \<not> ce_connects V ls (ce_node V (ep_interface (es ! 0))) (ce_node V (ep_interface (es ! 1)))
       then Refused True ''Couldn't create Circuit: Static Path doesn't connect selected Endpoints.''
       else Reply ()))"

text \<open>The providers set up some of the endpoints, in place (they are marked in the list); then all
  endpoints are written again, those of Azure with their outer tag only.\<close>

fun put_back :: "(endpoint \<times> bool) list \<Rightarrow> endpoint list \<Rightarrow> endpoint list" where
  "put_back [] as = []"
| "put_back ((e, True) # es) (a # as) = a # put_back es as"
| "put_back ((e, True) # es) [] = e # put_back es []"
| "put_back ((e, False) # es) as = e # put_back es as"

definition azure_outer :: "endpoint \<Rightarrow> endpoint" where
  "azure_outer e = (if ep_cloud_type e = Some ''azure-express-route'' then e\<lparr>ep_unit := ep_tag e, ep_inner := None\<rparr> else e)"

fun write_endpoints :: "string \<Rightarrow> endpoint list \<Rightarrow> ep_db \<Rightarrow> ep_db reply" where
  "write_endpoints prefix [] D = Reply D"
| "write_endpoints prefix (e # es) D = (case endpoint_update_db D (azure_outer e) of
     Inl err \<Rightarrow> Refused True (prefix @ err)
   | Inr (D', e') \<Rightarrow> write_endpoints prefix es D')"

definition setup_cloud :: "circuit_env \<Rightarrow> string \<Rightarrow> (endpoint \<times> bool) list \<Rightarrow> ep_db \<Rightarrow> ep_db reply" where
  "setup_cloud V prefix es D = (case ce_cloud V (map fst (filter snd es)) of
     Inl err \<Rightarrow> Refused True (prefix @ err)
   | Inr as \<Rightarrow> write_endpoints prefix (put_back es as) D)"

text \<open>The model handed to the database has no status and a time of provisioning, so the state is
  \<open>scheduled\<close>.\<close>

definition create_circuit :: "ep_db \<Rightarrow> ep_db \<times> int" where
  "create_circuit D = (let c = db_next D in
     (D\<lparr>db_circuits := db_circuits D @ [(c, ''scheduled'')], db_insts := db_insts D @ [(c, ''scheduled'', - 1)], db_next := c + 1\<rparr>, c))"

definition provision_new :: "circuit_env \<Rightarrow> circuit_args \<Rightarrow> bool \<Rightarrow> ep_db \<Rightarrow> (ep_db \<times> int \<times> endpoint list) reply" where
  "provision_new V A admin D = (let (D1, c) = create_circuit D in
     reply_bind (new_endpoints V admin (ca_workgroup A) c (ca_endpoints A) (D1, [])) (\<lambda>(D2, es).
     reply_bind (static_path V (ca_links A) es) (\<lambda>u.
     if ca_skip_cloud A then Reply (D2, c, es)
     else reply_bind (setup_cloud V ''Couldn't create Circuit: '' (map (\<lambda>e. (e, ep_state e = ''active'')) es) D2) (\<lambda>D3. Reply (D3, c, es)))))"

section \<open>The controller of a connection (\<^verbatim>\<open>RabbitMQ/Topic.pm\<close>)\<close>

definition fwdctl_topic_for_connection :: "string list \<Rightarrow> string + string" where
  "fwdctl_topic_for_connection cs = (case cs of
     [] \<Rightarrow> Inl (''Unexpected controller '' @ [CHR 0x27, CHR 0x27] @ '' found for connection endpoints.'')
   | c # rest \<Rightarrow>
       if list_ex (\<lambda>d. c \<noteq> d) rest then Inl ''Connection endpoints are not on the same controller.''
       else if c = ''openflow'' then Inr ''OF.FWDCTL.RPC''
       else if c = ''netconf'' then Inr ''MPLS.FWDCTL.RPC''
       else if c = ''nso'' then Inr ''NSO.FWDCTL.RPC''
       else Inl (''Unexpected controller '' @ [CHR 0x27] @ c @ [CHR 0x27] @ '' found for connection endpoints.''))"

section \<open>Editing a circuit\<close>

text \<open>The row of the circuit gets the state, and the circuit a new instantiation.\<close>

definition touch_circuit :: "int \<Rightarrow> string \<Rightarrow> int \<Rightarrow> ep_db \<Rightarrow> ep_db" where
  "touch_circuit now st c D = D\<lparr>db_circuits := map (\<lambda>(d, s). (d, if d = c then st else s)) (db_circuits D),
     db_insts := map (\<lambda>(d, s, fin). (d, s, if d = c \<and> fin = - 1 then now else fin)) (db_insts D) @ [(c, st, - 1)]\<rparr>"

record edit_state =
  es_db :: ep_db
  es_endpoints :: "(endpoint \<times> bool) list"
  es_pending :: "endpoint list"

text \<open>A new endpoint: an error of \<open>create\<close> is not looked at, the endpoint joins the circuit
  either way.  Only an active one is handed to the providers.\<close>

definition edit_add :: "circuit_env \<Rightarrow> bool \<Rightarrow> int \<Rightarrow> int \<Rightarrow> ep_request \<Rightarrow> edit_state \<Rightarrow> edit_state reply" where
  "edit_add V admin wg c r Z = reply_bind (endpoint_for V admin wg (es_db Z) False [] ''edit'' r) (\<lambda>e.
     let (D, f) = (case endpoint_create (es_db Z) (OfCircuit c) e of Inl err \<Rightarrow> (es_db Z, e) | Inr (D', e') \<Rightarrow> (D', e')) in
     Reply (Z\<lparr>es_db := D, es_endpoints := es_endpoints Z @ [(f, ep_state f = ''active'')]\<rparr>))"

definition edited_endpoint :: "ep_request \<Rightarrow> endpoint \<Rightarrow> endpoint" where
  "edited_endpoint r e = e\<lparr>ep_bandwidth := rq_bandwidth r, ep_inner := (case rq_inner r of None \<Rightarrow> ep_inner e | Some q \<Rightarrow> Some q),
     ep_tag := rq_tag r, ep_mtu := endpoint_mtu (ep_cloud_type e) (rq_gateway r) (rq_jumbo r)\<rparr>"

definition edit_existing :: "int \<Rightarrow> ep_request \<Rightarrow> edit_state \<Rightarrow> edit_state reply" where
  "edit_existing n r Z = (case find (\<lambda>(e, m). ep_circuit_ep e = Some n) (es_endpoints Z) of
     None \<Rightarrow> Aborted
   | Some (e, m) \<Rightarrow> (case endpoint_update_db (es_db Z) (edited_endpoint r e) of
       Inl err \<Rightarrow> Refused True (''Couldn't update Endpoint: '' @ err)
     | Inr (D', e') \<Rightarrow> Reply \<lparr>es_db = D', es_endpoints = map (\<lambda>(x, m). (if ep_circuit_ep x = Some n then e' else x, m)) (es_endpoints Z),
         es_pending = filter (\<lambda>x. ep_circuit_ep x \<noteq> Some n) (es_pending Z)\<rparr>))"

fun edit_endpoints :: "circuit_env \<Rightarrow> bool \<Rightarrow> int \<Rightarrow> int \<Rightarrow> string list \<Rightarrow> edit_state \<Rightarrow> edit_state reply" where
  "edit_endpoints V admin wg c [] Z = Reply Z"
| "edit_endpoints V admin wg c (t # ts) Z = (case ce_decode V t of
     None \<Rightarrow> Refused False ''Cannot decode endpoint: ''
   | Some r \<Rightarrow> reply_bind (case rq_ep_id r of None \<Rightarrow> edit_add V admin wg c r Z | Some n \<Rightarrow> edit_existing n r Z)
       (edit_endpoints V admin wg c ts))"

fun remove_endpoints :: "endpoint list \<Rightarrow> ep_db \<Rightarrow> ep_db reply" where
  "remove_endpoints [] D = Reply D"
| "remove_endpoints (e # es) D = (case endpoint_remove D e of Inl err \<Rightarrow> Refused True err | Inr D' \<Rightarrow> remove_endpoints es D')"

text \<open>The links of a static path are looked up but not changed: the path's \<open>remove_link\<close> takes an
  identifier, the call passes it the word \<open>name\<close>.\<close>

definition update_circuit :: "circuit_env \<Rightarrow> circuit_args \<Rightarrow> bool \<Rightarrow> int \<Rightarrow> string \<Rightarrow> ep_db \<Rightarrow> (ep_db \<times> int \<times> endpoint list) reply" where
  "update_circuit V A admin c st D = (let old = ce_endpoints V D c; D1 = touch_circuit (ce_now V) st c D in
     reply_bind (edit_endpoints V admin (ca_workgroup A) c (ca_endpoints A)
       \<lparr>es_db = D1, es_endpoints = map (\<lambda>e. (e, False)) old, es_pending = old\<rparr>) (\<lambda>Z.
     reply_bind (remove_endpoints (es_pending Z) (es_db Z)) (\<lambda>D2.
     let gone = map ep_circuit_ep (es_pending Z); es = filter (\<lambda>(e, m). ep_circuit_ep e \<notin> set gone) (es_endpoints Z) in
     reply_bind (if ca_skip_cloud A then Reply D2
       else case ce_cleanup V (es_pending Z) of Some err \<Rightarrow> Refused True err | None \<Rightarrow> setup_cloud V [] es D2) (\<lambda>D3.
     case (fwdctl_topic_for_connection (map (ce_controller V) (ce_endpoints V D3 c)), fwdctl_topic_for_connection (map (ce_controller V) old)) of
       (Inr _, Inr _) \<Rightarrow> Reply (D3, c, map fst es)
     | (new, prev) \<Rightarrow> Refused False ((case new of Inl e \<Rightarrow> e | Inr _ \<Rightarrow> []) @ '' '' @ (case prev of Inl e \<Rightarrow> e | Inr _ \<Rightarrow> []))))))"

section \<open>The handlers\<close>

text \<open>The committed tables and the answer.\<close>

definition commit :: "ep_db \<Rightarrow> (ep_db \<times> 'a) reply \<Rightarrow> ep_db \<times> 'a reply" where
  "commit D r = (case r of Reply (D', x) \<Rightarrow> (D', Reply x) | Refused b e \<Rightarrow> (D, Refused b e) | Aborted \<Rightarrow> (D, Aborted))"

definition provision :: "circuit_env \<Rightarrow> circuit_args \<Rightarrow> ep_db \<Rightarrow> ep_db \<times> (int \<times> endpoint list) reply" where
  "provision V A D = (case ce_names V of
     None \<Rightarrow> (D, Refused False (''User '' @ [CHR 0x27] @ ce_remote_user V @ [CHR 0x27] @ '' is invalid.''))
   | Some names \<Rightarrow>
       let member = user_workgroup_access (ce_access V) names (ca_workgroup A) ''normal'';
           admin = (user_system_access (ce_access V) names ''normal'' = Inr ()) in
       if member \<noteq> Inr () \<and> \<not> admin then (D, Refused False (case member of Inl (Some e) \<Rightarrow> e | _ \<Rightarrow> []))
       else (case ca_circuit A of
         Some c \<Rightarrow> if c = - 1 then commit D (provision_new V A admin D)
           else (case find (\<lambda>x. ck_id x = c) (ac_circuits (ce_access V)) of
             None \<Rightarrow> (D, Refused False ''Couldn't load Circuit from database.'')
           | Some x \<Rightarrow> commit D (update_circuit V A admin c (ck_state x) D))
       | None \<Rightarrow> commit D (provision_new V A admin D)))"

definition decom_circuit :: "int \<Rightarrow> int \<Rightarrow> ep_db \<Rightarrow> ep_db" where
  "decom_circuit now c D = touch_circuit now ''decom'' c D"

definition remove_circuit :: "circuit_env \<Rightarrow> int \<Rightarrow> ep_db \<Rightarrow> ep_db \<times> unit reply" where
  "remove_circuit V c D = (case ce_names V of
     None \<Rightarrow> (D, Refused False (''User '' @ [CHR 0x27] @ ce_remote_user V @ [CHR 0x27] @ '' is invalid.''))
   | Some names \<Rightarrow> (case find (\<lambda>x. ck_id x = c) (ac_circuits (ce_access V)) of
       None \<Rightarrow> (D, Refused True ''Couldn't load Circuit from database.'')
     | Some x \<Rightarrow>
         let member = user_workgroup_access (ce_access V) names (ck_workgroup x) ''normal'';
             admin = (user_system_access (ce_access V) names ''normal'' = Inr ()) in
         if member \<noteq> Inr () \<and> \<not> admin then (D, Refused True (case member of Inl (Some e) \<Rightarrow> e | _ \<Rightarrow> []))
         else commit D (reply_bind (remove_endpoints (ce_endpoints V D c) D) (\<lambda>D'. Reply (decom_circuit (ce_now V) c D', ())))))"

section \<open>What a creation that succeeds has checked\<close>

lemma reply_bind_Reply: "reply_bind m f = Reply y \<longleftrightarrow> (\<exists>x. m = Reply x \<and> f x = Reply y)"
  by (cases m) auto

lemma chosen_valid:
  assumes "choose_interface V wg D rolls prefix r = Reply i" and "rq_node r = None \<or> rq_interface r = None"
  shows "vlan_valid i wg (rq_tag r)"
proof -
  obtain intfs where "snd (select_interface (ce_services V D)
      \<lparr>sl_tag = rq_tag r, sl_workgroup = wg, sl_bandwidth = rq_bandwidth r, sl_account = rq_account r\<rparr>
      \<lparr>en_interfaces = map Some intfs, en_reservations = []\<rparr>) = Done i"
    using assms by (auto simp: choose_interface_def split: option.splits outcome.splits)
  then show ?thesis using select_Done by (metis prod.collapse select_args.select_convs(1,2))
qed

text \<open>The endpoint that a request leads to, and the interface behind it.\<close>

definition accepted :: "circuit_env \<Rightarrow> bool \<Rightarrow> int \<Rightarrow> ep_request \<Rightarrow> server_intf \<Rightarrow> endpoint \<Rightarrow> bool" where
  "accepted V admin wg r i e \<longleftrightarrow> ep_interface e = si_id i \<and> ep_tag e = rq_tag r \<and> ep_inner e = rq_inner r \<and>
     1 \<le> ep_tag e \<and> ep_tag e \<le> 4095 \<and>
     is_bandwidth_valid (ce_selectors V) i (rq_bandwidth r) admin \<and> \<not> exceeds_provisionable i (rq_bandwidth r) \<and>
     ep_state e = (if bandwidth_requires_approval (ce_selectors V) i (rq_bandwidth r) then ''in-review'' else ''active'') \<and>
     ep_mtu e = endpoint_mtu (si_cloud_type i) (rq_gateway r) (rq_jumbo r) \<and>
     (rq_node r = None \<or> rq_interface r = None \<longrightarrow> vlan_valid i wg (rq_tag r))"

lemma created_fields:
  assumes "endpoint_create D (OfCircuit c) e = Inr (D', e')"
  shows "\<exists>u. e' = e\<lparr>ep_unit := u, ep_circuit_ep := Some (db_next D)\<rparr> \<and>
    D' = update_cloud (D\<lparr>db_ckt_eps := db_ckt_eps D @ [row_of (db_next D) c e'], db_next := db_next D + 1\<rparr>) e' \<and>
    ep_validate e' = None"
  using assms
  by (auto simp: endpoint_create_def Let_def add_circuit_edge_membership_def row_of_def ep_validate_def split: option.splits if_splits)

lemma new_endpoint_accepted:
  assumes "new_endpoint V admin wg c t (D, es) = Reply (D', es')"
  obtains r i e e' where "ce_decode V t = Some r" and "e = endpoint_model V i r" and "endpoint_create D (OfCircuit c) e = Inr (D', e')"
    and "es' = es @ [e']" and "accepted V admin wg r i e'"
proof -
  obtain r where r: "ce_decode V t = Some r" using assms by (auto simp: new_endpoint_def split: option.splits)
  obtain e where e: "endpoint_for V admin wg D True ''Couldn't create Circuit: '' ''create'' r = Reply e"
    and c: "(case endpoint_create D (OfCircuit c) e of Inl err \<Rightarrow> Refused True (''Couldn't create Circuit: '' @ err)
      | Inr (D', e') \<Rightarrow> Reply (D', es @ [e'])) = Reply (D', es')"
    using assms r by (auto simp: new_endpoint_def reply_bind_Reply)
  from e obtain i where i: "choose_interface V wg D True ''Couldn't create Circuit: '' r = Reply i" and m: "e = endpoint_model V i r"
    and b: "is_bandwidth_valid (ce_selectors V) i (rq_bandwidth r) admin" "\<not> exceeds_provisionable i (rq_bandwidth r)"
    by (auto simp: endpoint_for_def reply_bind_Reply split: if_splits)
  from c obtain e' where e': "endpoint_create D (OfCircuit c) e = Inr (D', e')" "es' = es @ [e']"
    by (auto split: sum.splits prod.splits)
  have "accepted V admin wg r i e'"
    using created_fields [OF e'(1)] b chosen_valid [OF i]
    by (auto simp: accepted_def m endpoint_model_def ep_validate_def split: if_splits)
  with r m e' that show ?thesis by blast
qed

lemma new_endpoints_accepted:
  "new_endpoints V admin wg c ts (D, es) = Reply (D', es') \<Longrightarrow>
    \<exists>new. es' = es @ new \<and> list_all2 (\<lambda>t e. \<exists>r i. ce_decode V t = Some r \<and> accepted V admin wg r i e) ts new"
proof (induction ts arbitrary: D es)
  case (Cons t ts)
  obtain D1 es1 where a: "new_endpoint V admin wg c t (D, es) = Reply (D1, es1)" and rest: "new_endpoints V admin wg c ts (D1, es1) = Reply (D', es')"
    using Cons.prems by (auto simp: reply_bind_Reply)
  obtain r i e' where r: "ce_decode V t = Some r" "es1 = es @ [e']" "accepted V admin wg r i e'"
    using new_endpoint_accepted [OF a] by metis
  then obtain new where "es' = es1 @ new" "list_all2 (\<lambda>t e. \<exists>r i. ce_decode V t = Some r \<and> accepted V admin wg r i e) ts new"
    using Cons.IH [OF rest] by blast
  with r show ?case by (intro exI [of _ "e' # new"]) auto
qed simp

section \<open>The tables after a creation\<close>

text \<open>Identifiers are handed out in order; nobody uses one before.\<close>

definition db_fresh :: "ep_db \<Rightarrow> bool" where
  "db_fresh D \<longleftrightarrow> (\<forall>r\<in>set (db_ckt_eps D). er_id r < db_next D \<and> er_owner r < db_next D)"

definition no_review :: "ep_db \<Rightarrow> bool" where
  "no_review D \<longleftrightarrow> (\<forall>r\<in>set (db_vrf_eps D). er_state r = ''active'')"

text \<open>The endpoint's row is in the table of endpoints of circuits, under its own identifier.\<close>

definition linked :: "ep_db \<Rightarrow> int \<Rightarrow> endpoint \<Rightarrow> bool" where
  "linked D c e \<longleftrightarrow> ep_vrf_ep e = None \<and> ep_validate e = None \<and> ep_state e \<noteq> ''decom'' \<and> live_circuit D c \<and>
     (\<exists>n. ep_circuit_ep e = Some n \<and> row_of n c e \<in> set (db_ckt_eps D) \<and> (\<forall>r\<in>set (db_ckt_eps D). er_id r = n \<longrightarrow> r = row_of n c e))"

lemma update_cloud_tables [simp]:
  "db_ckt_eps (update_cloud D e) = db_ckt_eps D" "db_vrf_eps (update_cloud D e) = db_vrf_eps D"
  "db_circuits (update_cloud D e) = db_circuits D" "db_insts (update_cloud D e) = db_insts D" "db_next (update_cloud D e) = db_next D"
  by (simp_all add: update_cloud_def Let_def split: option.splits)

lemma live_circuit_tables: "db_circuits D' = db_circuits D \<Longrightarrow> db_insts D' = db_insts D \<Longrightarrow> live_circuit D' c = live_circuit D c"
  by (simp add: live_circuit_def)

lemma create_linked:
  assumes "endpoint_create D (OfCircuit c) e = Inr (D', e')" and "db_fresh D" and "live_circuit D c" and "c < db_next D"
    and "ep_vrf_ep e = None" and "ep_state e \<noteq> ''decom''"
  shows "linked D' c e' \<and> db_fresh D' \<and> live_circuit D' c \<and> c < db_next D' \<and> db_vrf_eps D' = db_vrf_eps D \<and> (linked D c x \<longrightarrow> linked D' c x)"
proof -
  obtain u where e': "e' = e\<lparr>ep_unit := u, ep_circuit_ep := Some (db_next D)\<rparr>" and v: "ep_validate e' = None"
    and D': "D' = update_cloud (D\<lparr>db_ckt_eps := db_ckt_eps D @ [row_of (db_next D) c e'], db_next := db_next D + 1\<rparr>) e'"
    using created_fields [OF assms(1)] by blast
  have t: "db_ckt_eps D' = db_ckt_eps D @ [row_of (db_next D) c e']" "db_circuits D' = db_circuits D" "db_insts D' = db_insts D"
    "db_next D' = db_next D + 1" "db_vrf_eps D' = db_vrf_eps D" by (simp_all add: D')
  have old: "er_id r \<noteq> db_next D" if "r \<in> set (db_ckt_eps D)" for r using assms(2) that by (auto simp: db_fresh_def)
  have l: "live_circuit D' d = live_circuit D d" for d by (rule live_circuit_tables) (simp_all add: t)
  have "linked D' c e'" using v assms(3,5,6) old by (auto simp: linked_def t l e' row_of_def)
  moreover have "db_fresh D'" using assms(2,4) by (auto simp: db_fresh_def t row_of_def)
  moreover have "linked D' c x" if x: "linked D c x"
  proof -
    obtain n where n: "ep_circuit_ep x = Some n" "row_of n c x \<in> set (db_ckt_eps D)" "\<forall>r\<in>set (db_ckt_eps D). er_id r = n \<longrightarrow> r = row_of n c x"
      using x by (auto simp: linked_def)
    have "n \<noteq> db_next D" using old [OF n(2)] by (simp add: row_of_def)
    then show ?thesis using x n by (auto simp: linked_def t l row_of_def)
  qed
  ultimately show ?thesis using l t assms(3,4) by simp
qed

lemma apart_no_match: "apart x r \<Longrightarrow> \<not> tag_match (er_tag r) (er_inner r) x"
  by (auto simp: tag_match_def apart_def overlap_def split: option.splits)

text \<open>Writing an endpoint again that is in the table as it is leaves the rows alone.\<close>

lemma rewrite_linked:
  assumes "linked D c e" and "eps_ok D (ep_interface e)" and "n = the (ep_circuit_ep e)"
  shows "endpoint_update_db D e = Inr (update_cloud D e, e)"
proof -
  let ?r = "row_of n c e" and ?i = "ep_interface e"
  have n: "ep_circuit_ep e = Some n" "?r \<in> set (db_ckt_eps D)" "\<forall>r\<in>set (db_ckt_eps D). er_id r = n \<longrightarrow> r = ?r"
    using assms(1,3) by (auto simp: linked_def)
  have f: "er_tag ?r = ep_tag e" "er_inner ?r = ep_inner e" "er_unit ?r = ep_unit e" "er_id ?r = n" by (simp_all add: row_of_def)
  have live: "?r \<in> set (live_ckt_rows D ?i)" using assms(1) n(2) by (auto simp: linked_def live_ckt_rows_def row_of_def)
  have s: "sorted_wrt apart (live_vrf_rows D ?i @ live_ckt_rows D ?i)" using assms(2) by (simp add: eps_ok_def)
  have "filter (tag_match (ep_tag e) (ep_inner e)) (live_vrf_rows D ?i) = []"
  proof -
    have "apart x ?r" if "x \<in> set (live_vrf_rows D ?i)" for x using s that live by (auto simp: sorted_wrt_append)
    then show ?thesis using apart_no_match [of _ ?r] unfolding filter_empty_conv f by blast
  qed
  moreover have "\<exists>rest. filter (tag_match (ep_tag e) (ep_inner e)) (live_ckt_rows D ?i) = ?r # rest"
  proof -
    obtain xs ys where l: "live_ckt_rows D ?i = xs @ ?r # ys" using live by (meson split_list)
    then have "apart x ?r" if "x \<in> set xs" for x using s that by (auto simp: sorted_wrt_append)
    then have "filter (tag_match (ep_tag e) (ep_inner e)) xs = []"
      using apart_no_match [of _ ?r] unfolding filter_empty_conv f by blast
    moreover have "tag_match (ep_tag e) (ep_inner e) ?r" by (simp add: tag_match_def row_of_def split: option.splits)
    ultimately show ?thesis by (simp add: l)
  qed
  ultimately have u: "find_available_unit D ?i (ep_tag e) (ep_inner e) (ep_circuit_ep e) (ep_vrf_ep e) = Some (ep_unit e)"
    using n(1) f by (auto simp: find_available_unit_def)
  have "set_ckt_row e n ?r = ?r" by (simp add: set_ckt_row_def row_of_def)
  then have "set_ckt_row e n x = x" if "x \<in> set (db_ckt_eps D)" for x
    using n(3) that by (cases "er_id x = n") (auto simp: set_ckt_row_def)
  then have "map (set_ckt_row e n) (db_ckt_eps D) = db_ckt_eps D" by (rule map_idI)
  then have "D\<lparr>db_ckt_eps := map (set_ckt_row e n) (db_ckt_eps D)\<rparr> = D" by simp
  moreover have "e\<lparr>ep_unit := ep_unit e\<rparr> = e" by simp
  ultimately show ?thesis using assms(1) u n(1) by (simp add: endpoint_update_db_def linked_def Let_def)
qed

lemma model_state: "ep_state (endpoint_model V i r) \<noteq> ''decom''" "ep_vrf_ep (endpoint_model V i r) = None"
  by (simp_all add: endpoint_model_def)

definition tables_ok :: "ep_db \<Rightarrow> bool" where
  "tables_ok D \<longleftrightarrow> (\<forall>i. eps_ok D i) \<and> no_review D \<and> db_fresh D"

lemma no_review_rows: "no_review D \<Longrightarrow> \<forall>r\<in>set (live_vrf_rows D i). er_state r = ''active''"
  by (simp add: no_review_def live_vrf_rows_def)

lemma create_tables_ok:
  assumes "endpoint_create D (OfCircuit c) e = Inr (D', e')" and "tables_ok D" and "live_circuit D c" and "c < db_next D"
    and "ep_vrf_ep e = None" and "ep_state e \<noteq> ''decom''"
  shows "tables_ok D'"
proof -
  have t: "\<And>i. eps_ok D i" "no_review D" "db_fresh D" using assms(2) by (simp_all add: tables_ok_def)
  have l: "db_fresh D'" "db_vrf_eps D' = db_vrf_eps D" using create_linked [OF assms(1) t(3) assms(3-6)] by blast+
  have "eps_ok D' i" for i
    using create_unit_ok [OF assms(1) t(1)] no_review_rows [OF t(2)] by blast
  then show ?thesis using l t(2) by (simp add: tables_ok_def no_review_def)
qed

lemma new_endpoints_tables:
  "new_endpoints V admin wg c ts (D, es) = Reply (D', es') \<Longrightarrow> tables_ok D \<Longrightarrow> live_circuit D c \<Longrightarrow> c < db_next D \<Longrightarrow>
    (\<forall>e\<in>set es. linked D c e) \<Longrightarrow> tables_ok D' \<and> (\<forall>e\<in>set es'. linked D' c e)"
proof (induction ts arbitrary: D es)
  case (Cons t ts)
  obtain D1 es1 where a: "new_endpoint V admin wg c t (D, es) = Reply (D1, es1)" and rest: "new_endpoints V admin wg c ts (D1, es1) = Reply (D', es')"
    using Cons.prems(1) by (auto simp: reply_bind_Reply)
  obtain r i e' where e': "endpoint_create D (OfCircuit c) (endpoint_model V i r) = Inr (D1, e')" "es1 = es @ [e']"
    using new_endpoint_accepted [OF a] by metis
  have f: "db_fresh D" using Cons.prems(2) by (simp add: tables_ok_def)
  note cr = create_linked [OF e'(1) f Cons.prems(3,4) model_state(2,1)]
  have "tables_ok D1" using create_tables_ok [OF e'(1) Cons.prems(2-4) model_state(2,1)] .
  moreover have "\<forall>e\<in>set es1. linked D1 c e" using cr Cons.prems(5) e'(2) by auto
  ultimately show ?case using Cons.IH [OF rest] cr by blast
qed simp

lemma write_linked:
  "tables_ok D \<Longrightarrow> (\<forall>e\<in>set es. linked D c e \<and> azure_outer e = e) \<Longrightarrow>
    \<exists>D'. write_endpoints prefix es D = Reply D' \<and> tables_ok D' \<and> db_ckt_eps D' = db_ckt_eps D \<and> db_vrf_eps D' = db_vrf_eps D"
proof (induction es arbitrary: D)
  case (Cons e es)
  let ?D = "update_cloud D e"
  have u: "endpoint_update_db D (azure_outer e) = Inr (?D, e)"
    using rewrite_linked [of D c e] Cons.prems by (simp add: tables_ok_def)
  have "tables_ok ?D" using Cons.prems(1) by (simp add: tables_ok_def eps_ok_def no_review_def db_fresh_def)
  moreover have "\<forall>x\<in>set es. linked ?D c x \<and> azure_outer x = x"
    using Cons.prems(2) by (simp add: linked_def live_circuit_def)
  ultimately show ?case using Cons.IH [of ?D] u by simp
qed simp

lemma create_circuit_tables:
  assumes "create_circuit D = (D1, c)" and "tables_ok D"
  shows "tables_ok D1 \<and> live_circuit D1 c \<and> c < db_next D1"
proof -
  have D1: "D1 = D\<lparr>db_circuits := db_circuits D @ [(c, ''scheduled'')], db_insts := db_insts D @ [(c, ''scheduled'', - 1)], db_next := c + 1\<rparr>"
    and c: "c = db_next D" using assms(1) by (auto simp: create_circuit_def Let_def)
  have l: "live_circuit D1 d = live_circuit D d" if "d \<noteq> c" for d using that by (simp add: D1 live_circuit_def)
  have o: "er_owner r \<noteq> c" if "r \<in> set (db_ckt_eps D)" for r using assms(2) that c by (auto simp: tables_ok_def db_fresh_def)
  have "live_ckt_rows D1 i = live_ckt_rows D i" for i
    using l o unfolding live_ckt_rows_def by (simp add: D1 cong: filter_cong conj_cong)
  moreover have "live_vrf_rows D1 i = live_vrf_rows D i" for i by (simp add: D1 live_vrf_rows_def live_vrf_def)
  ultimately have "eps_ok D1 i" for i using assms(2) by (simp add: tables_ok_def eps_ok_def)
  moreover have "no_review D1" "db_fresh D1" using assms(2) c by (auto simp: tables_ok_def no_review_def db_fresh_def D1)
  ultimately show ?thesis by (simp add: tables_ok_def D1 live_circuit_def)
qed

text \<open>What the providers may change of an endpoint: the identifier of the cloud connection.\<close>

definition keeps_vlans :: "circuit_env \<Rightarrow> bool" where
  "keeps_vlans V \<longleftrightarrow> (\<forall>es as. ce_cloud V es = Inr as \<longrightarrow> list_all2 (\<lambda>e a. \<exists>k. a = e\<lparr>ep_connection := k\<rparr>) es as)"

lemma put_back_all:
  "list_all2 R (map fst (filter snd es)) as \<Longrightarrow> (\<And>e a. R e a \<Longrightarrow> P e \<Longrightarrow> P a) \<Longrightarrow> (\<forall>(e, m)\<in>set es. P e) \<Longrightarrow> \<forall>x\<in>set (put_back es as). P x"
  by (induction es as rule: put_back.induct) auto

lemma linked_connection: "linked D c (e\<lparr>ep_connection := k\<rparr>) = linked D c e"
  by (simp add: linked_def row_of_def ep_validate_def)

lemma setup_linked:
  assumes "setup_cloud V prefix es D = Reply D'" and "keeps_vlans V" and "tables_ok D"
    and "\<forall>(e, m)\<in>set es. linked D c e \<and> ep_cloud_type e \<noteq> Some ''azure-express-route''"
  shows "tables_ok D' \<and> db_ckt_eps D' = db_ckt_eps D"
proof -
  obtain as where a: "ce_cloud V (map fst (filter snd es)) = Inr as" and w: "write_endpoints prefix (put_back es as) D = Reply D'"
    using assms(1) by (auto simp: setup_cloud_def split: sum.splits)
  have "list_all2 (\<lambda>e a. \<exists>k. a = e\<lparr>ep_connection := k\<rparr>) (map fst (filter snd es)) as" using assms(2) a by (simp add: keeps_vlans_def)
  then have "\<forall>x\<in>set (put_back es as). linked D c x \<and> ep_cloud_type x \<noteq> Some ''azure-express-route''"
    by (rule put_back_all) (use assms(4) in \<open>auto simp: linked_connection\<close>)
  then have "\<forall>x\<in>set (put_back es as). linked D c x \<and> azure_outer x = x" by (simp add: azure_outer_def)
  from write_linked [OF assms(3) this, of prefix] show ?thesis using w by auto
qed

text \<open>The parts of a creation that succeeds.\<close>

lemma provision_newE:
  assumes "provision V A D = (D', Reply (c, es))" and "ca_circuit A \<in> {None, Some (- 1)}"
  obtains names admin D1 D2 where "ce_names V = Some names" and "admin = (user_system_access (ce_access V) names ''normal'' = Inr ())"
    and "user_workgroup_access (ce_access V) names (ca_workgroup A) ''normal'' = Inr () \<or> admin"
    and "create_circuit D = (D1, c)" and "new_endpoints V admin (ca_workgroup A) c (ca_endpoints A) (D1, []) = Reply (D2, es)"
    and "if ca_skip_cloud A then D' = D2
      else setup_cloud V ''Couldn't create Circuit: '' (map (\<lambda>e. (e, ep_state e = ''active'')) es) D2 = Reply D'"
proof -
  obtain names where n: "ce_names V = Some names" using assms(1) by (auto simp: provision_def split: option.splits)
  define admin where "admin = (user_system_access (ce_access V) names ''normal'' = Inr ())"
  have m: "user_workgroup_access (ce_access V) names (ca_workgroup A) ''normal'' = Inr () \<or> admin"
    using assms(1) n by (auto simp: provision_def Let_def admin_def split: if_splits)
  then have "commit D (provision_new V A admin D) = (D', Reply (c, es))"
    using assms n by (auto simp: provision_def Let_def admin_def)
  then have p: "provision_new V A admin D = Reply (D', c, es)" by (auto simp: commit_def split: reply.splits)
  obtain D1 d where d: "create_circuit D = (D1, d)" by fastforce
  from p d obtain D2 fs where "new_endpoints V admin (ca_workgroup A) d (ca_endpoints A) (D1, []) = Reply (D2, fs)"
    and "(if ca_skip_cloud A then Reply (D2, d, fs) else reply_bind (setup_cloud V ''Couldn't create Circuit: ''
      (map (\<lambda>e. (e, ep_state e = ''active'')) fs) D2) (\<lambda>D3. Reply (D3, d, fs))) = Reply (D', c, es)"
    by (auto simp: provision_new_def reply_bind_Reply split: prod.splits)
  then show ?thesis using that [OF n admin_def m] d by (auto simp: reply_bind_Reply split: if_splits)
qed

section \<open>Properties\<close>



text \<open>Removing a circuit asks who owns it: it succeeds only for a user with access to the workgroup
  of the circuit or to the system, and afterwards the circuit is not live.\<close>

lemma remove_needs_owner:
  assumes "remove_circuit V c D = (D', Reply ())"
  shows "\<not> live_circuit D' c \<and> (\<exists>names x. ce_names V = Some names \<and> find (\<lambda>x. ck_id x = c) (ac_circuits (ce_access V)) = Some x \<and>
    (user_workgroup_access (ce_access V) names (ck_workgroup x) ''normal'' = Inr () \<or> user_system_access (ce_access V) names ''normal'' = Inr ()))"
proof -
  obtain names x where n: "ce_names V = Some names" "find (\<lambda>x. ck_id x = c) (ac_circuits (ce_access V)) = Some x"
      "user_workgroup_access (ce_access V) names (ck_workgroup x) ''normal'' = Inr () \<or> user_system_access (ce_access V) names ''normal'' = Inr ()"
    and m: "commit D (reply_bind (remove_endpoints (ce_endpoints V D c) D) (\<lambda>D'. Reply (decom_circuit (ce_now V) c D', ()))) = (D', Reply ())"
    using assms by (auto simp: remove_circuit_def Let_def split: option.splits if_splits)
  from m obtain D1 where "D' = decom_circuit (ce_now V) c D1"
    by (auto simp: commit_def reply_bind_Reply split: reply.splits prod.splits)
  then have "\<not> live_circuit D' c" by (auto simp: decom_circuit_def touch_circuit_def live_circuit_def list_ex_iff)
  then show ?thesis using n by blast
qed

text \<open>The parts of the handlers that do not read the tables of users.\<close>

definition reowned :: "(circuit_row \<Rightarrow> int) \<Rightarrow> circuit_env \<Rightarrow> circuit_env" where
  "reowned f V = V\<lparr>ce_access := (ce_access V)\<lparr>ac_circuits := map (\<lambda>x. x\<lparr>ck_workgroup := f x\<rparr>) (ac_circuits (ce_access V))\<rparr>\<rparr>"

lemma reowned_fields [simp]:
  "ce_names (reowned f V) = ce_names V" "ce_decode (reowned f V) = ce_decode V" "ce_interface (reowned f V) = ce_interface V"
  "ce_entity (reowned f V) = ce_entity V" "ce_services (reowned f V) = ce_services V" "ce_selectors (reowned f V) = ce_selectors V"
  "ce_node (reowned f V) = ce_node V" "ce_link (reowned f V) = ce_link V" "ce_connects (reowned f V) = ce_connects V"
  "ce_cloud (reowned f V) = ce_cloud V" "ce_cleanup (reowned f V) = ce_cleanup V" "ce_endpoints (reowned f V) = ce_endpoints V"
  "ce_controller (reowned f V) = ce_controller V" "ce_now (reowned f V) = ce_now V" "ce_remote_user (reowned f V) = ce_remote_user V"
  by (simp_all add: reowned_def)

lemma reowned_endpoint_for [simp]: "endpoint_for (reowned f V) admin wg D rolls prefix verb r = endpoint_for V admin wg D rolls prefix verb r"
  unfolding endpoint_for_def choose_interface_def endpoint_model_def reowned_fields ..

lemma reowned_new [simp]: "provision_new (reowned f V) A admin D = provision_new V A admin D"
proof -
  have "new_endpoint (reowned f V) = new_endpoint V" by (intro ext) (simp only: new_endpoint_def reowned_fields reowned_endpoint_for)
  then have a: "new_endpoints (reowned f V) admin wg c ts = new_endpoints V admin wg c ts" for wg c ts
    by (induction ts) (auto intro!: ext)
  have l: "find_links (reowned f V) ns = find_links V ns" for ns by (induction ns) (simp_all cong: option.case_cong)
  show ?thesis unfolding provision_new_def static_path_def setup_cloud_def a l reowned_fields ..
qed

lemma reowned_update [simp]: "update_circuit (reowned f V) A admin c st D = update_circuit V A admin c st D"
proof -
  have "edit_add (reowned f V) = edit_add V" by (intro ext) (simp only: edit_add_def reowned_endpoint_for)
  then have e: "edit_endpoints (reowned f V) admin wg d ts = edit_endpoints V admin wg d ts" for wg d ts
    by (induction ts) (auto intro!: ext split: option.splits)
  show ?thesis unfolding update_circuit_def setup_cloud_def e reowned_fields ..
qed

lemma reowned_access [simp]:
  "has_system_access (ce_access (reowned f V)) k role = has_system_access (ce_access V) k role"
  "has_workgroup_access (ce_access (reowned f V)) k w role = has_workgroup_access (ce_access V) k w role"
proof -
  have t: "ac_users (ce_access (reowned f V)) = ac_users (ce_access V)" "ac_auth (ce_access (reowned f V)) = ac_auth (ce_access V)"
    "ac_groups (ce_access (reowned f V)) = ac_groups (ce_access V)" "ac_members (ce_access (reowned f V)) = ac_members (ce_access V)"
    by (simp_all add: reowned_def)
  have u: "user_fetch (ce_access (reowned f V)) k = user_fetch (ce_access V) k" for k
    unfolding user_fetch_def admin_groups_def member_of_def t ..
  have r: "role_in (ce_access (reowned f V)) u w = role_in (ce_access V) u w" for u w by (simp add: role_in_def t)
  have "system_flags (ce_access (reowned f V)) u gs p = system_flags (ce_access V) u gs p" for u gs p
    by (induction gs arbitrary: p) (auto simp: r split: option.splits prod.splits)
  moreover have "get_workgroups (ce_access (reowned f V)) u = get_workgroups (ce_access V) u" for u
    unfolding get_workgroups_def admin_groups_def member_of_def t ..
  ultimately have s: "has_system_access (ce_access (reowned f V)) k role = has_system_access (ce_access V) k role" for k role
    unfolding has_system_access_def u by presburger
  then show "has_system_access (ce_access (reowned f V)) k role = has_system_access (ce_access V) k role" .
  show "has_workgroup_access (ce_access (reowned f V)) k w role = has_workgroup_access (ce_access V) k w role"
    unfolding has_workgroup_access_def u r s workgroup_fetch_def t ..
qed

lemma find_map: "(\<And>x. P (g x) = P x) \<Longrightarrow> find P (map g xs) = map_option g (find P xs)"
  by (induction xs) auto

text \<open>
  (C20) Who may edit a circuit does not depend on who owns it: give the circuits to other
  workgroups, and \<open>provision\<close>, which also edits the circuit with the identifier in the request,
  answers and stores the same.  The access that is checked is that to the workgroup the request
  names.  (Removing a circuit checks the owner.)
\<close>

theorem provision_ignores_owner: "provision (reowned f V) A D = provision V A D"
proof -
  have a: "user_workgroup_access (ce_access (reowned f V)) ns w role = user_workgroup_access (ce_access V) ns w role"
    "user_system_access (ce_access (reowned f V)) ns role = user_system_access (ce_access V) ns role" for ns w role
    unfolding user_workgroup_access_def user_system_access_def reowned_access by (rule refl)+
  have f: "find (\<lambda>x. ck_id x = c) (ac_circuits (ce_access (reowned f V))) =
      map_option (\<lambda>x. x\<lparr>ck_workgroup := f x\<rparr>) (find (\<lambda>x. ck_id x = c) (ac_circuits (ce_access V)))" for c
    by (simp add: reowned_def find_map)
  have st: "ck_state (x\<lparr>ck_workgroup := n\<rparr>) = ck_state x" for x :: circuit_row and n by simp
  show ?thesis unfolding provision_def a reowned_fields reowned_new reowned_update f case_map_option o_def st ..
qed

text \<open>An environment with one entity of two ports, and a request for an endpoint on VLAN 8.\<close>

definition lab_request :: ep_request where
  "lab_request = \<lparr>rq_node = None, rq_interface = None, rq_entity = ''lab'', rq_tag = 8, rq_inner = None, rq_bandwidth = 0,
     rq_account = None, rq_gateway = None, rq_jumbo = None, rq_ep_id = None\<rparr>"

definition lab_env :: circuit_env where
  "lab_env = \<lparr>ce_remote_user = ''ann'', ce_names = Some [''ann''], ce_access = sample_access,
     ce_decode = (\<lambda>t. if t = ''lab'' then Some lab_request else None),
     ce_interface = (\<lambda>D node name. None),
     ce_entity = (\<lambda>D name. Some [(sample_port 21 None)\<lparr>si_used := map er_tag (live_ckt_rows D 21), si_workgroup := Some 10\<rparr>,
       (sample_port 22 None)\<lparr>si_used := map er_tag (live_ckt_rows D 22), si_workgroup := Some 10\<rparr>]),
     ce_services = (\<lambda>D. sample_services), ce_selectors = [], ce_node = (\<lambda>i. i), ce_link = (\<lambda>n. None), ce_connects = (\<lambda>ls a z. True),
     ce_cloud = (\<lambda>es. Inr es), ce_cleanup = (\<lambda>es. None), ce_endpoints = (\<lambda>D c. []), ce_controller = (\<lambda>e. ''nso''), ce_now = 100\<rparr>"

definition lab_args :: circuit_args where
  "lab_args = \<lparr>ca_workgroup = 10, ca_circuit = None, ca_endpoints = [''lab'', ''lab''], ca_links = None, ca_skip_cloud = False\<rparr>"

lemma sample_provisioned:
  "\<exists>D' es. provision lab_env lab_args (sample_db []) = (D', Reply (20, es)) \<and> map ep_interface es = [21, 22] \<and> map ep_cloud_type es = [None, None]"
proof -
  let ?p = "provision lab_env lab_args (sample_db [])"
  have "(case snd ?p of Reply (c, es) \<Rightarrow> c = 20 \<and> map ep_interface es = [21, 22] \<and> map ep_cloud_type es = [None, None] | _ \<Rightarrow> False)" by code_simp
  then show ?thesis by (cases ?p) (auto split: reply.splits)
qed



end
