(* ===== verification/ServerDiff.thy ===== *)
theory ServerDiff
  imports ServerVlans
begin

text \<open>
  The comparison of a connection with its configuration on the network: \<open>nso_diff\<close> of
  \<^verbatim>\<open>L2Circuit.pm\<close> and of \<^verbatim>\<open>VRF.pm\<close>, which return for each device a text with the lines to
  remove and to add.  Both walk over the endpoints of the network with an index of the active endpoints
  of the connection, then over what is left in the index; the walk is defined once, over
  the texts for an endpoint that is removed, changed or added.  The texts of one device follow
  the order of the lists (Perl leaves the order of the second walk open).
\<close>

section \<open>The walk\<close>

type_synonym ep_key = "string \<times> int"
type_synonym device_diff = "(string \<times> string) list"

fun diff_add :: "string \<Rightarrow> string \<Rightarrow> device_diff \<Rightarrow> device_diff" where
  "diff_add k t [] = [(k, t)]"
| "diff_add k t ((j, u) # d) = (if j = k then (j, u @ t) # d else (j, u) # diff_add k t d)"

definition conn_index :: "('a \<Rightarrow> ep_key) \<Rightarrow> 'a list \<Rightarrow> (ep_key \<times> 'a) list" where
  "conn_index key es = fold (\<lambda>e I. (key e, e) # filter (\<lambda>(k, _). k \<noteq> key e) I) es []"

definition conn_init :: "('a \<Rightarrow> ep_key) \<Rightarrow> 'a list \<Rightarrow> device_diff" where
  "conn_init key es = fold (\<lambda>e d. diff_add (fst (key e)) [] d) es []"

fun conn_walk :: "('b \<Rightarrow> ep_key) \<Rightarrow> ('b \<Rightarrow> string) \<Rightarrow> ('b \<Rightarrow> 'a \<Rightarrow> string) \<Rightarrow> 'b list \<Rightarrow> (ep_key \<times> 'a) list \<Rightarrow> device_diff
    \<Rightarrow> (ep_key \<times> 'a) list \<times> device_diff" where
  "conn_walk key gone changed [] I d = (I, d)"
| "conn_walk key gone changed (b # bs) I d = (case map_of I (key b) of
     None \<Rightarrow> conn_walk key gone changed bs I (diff_add (fst (key b)) (gone b) d)
   | Some a \<Rightarrow> conn_walk key gone changed bs (filter (\<lambda>(k, _). k \<noteq> key b) I) (diff_add (fst (key b)) (changed b a) d))"

definition conn_rest :: "('a \<Rightarrow> string) \<Rightarrow> (ep_key \<times> 'a) list \<Rightarrow> device_diff \<Rightarrow> device_diff" where
  "conn_rest added I d = fold (\<lambda>(k, a) d. diff_add (fst k) (added a) d) I d"

definition conn_diff :: "('a \<Rightarrow> ep_key) \<Rightarrow> ('b \<Rightarrow> ep_key) \<Rightarrow> ('b \<Rightarrow> string) \<Rightarrow> ('b \<Rightarrow> 'a \<Rightarrow> string) \<Rightarrow> ('a \<Rightarrow> string)
    \<Rightarrow> 'a list \<Rightarrow> 'b list \<Rightarrow> device_diff" where
  "conn_diff key nkey gone changed added es bs =
     (let (I, d) = conn_walk nkey gone changed bs (conn_index key es) (conn_init key es) in conn_rest added I d)"

section \<open>Layer 2 (\<^verbatim>\<open>L2Circuit.pm\<close>)\<close>

record conn_peer =
  cp_id :: int
  cp_local_ip :: string
  cp_peer_asn :: int
  cp_peer_ip :: string
  cp_bfd :: int

record conn_ep =
  cn_node :: string
  cn_id :: int
  cn_state :: string
  cn_interface :: string
  cn_unit :: int
  cn_bandwidth :: int
  cn_mtu :: int
  cn_tag :: int
  cn_inner :: "int option"
  cn_peers :: "conn_peer list"

record nso_peer =
  np_id :: int
  np_local_asn :: int
  np_local_ip :: string
  np_peer_asn :: int
  np_peer_ip :: string
  np_bfd :: int

record nso_ep =
  no_device :: string
  no_id :: int
  no_interface :: string
  no_unit :: int
  no_bandwidth :: int
  no_mtu :: int
  no_tag :: int
  no_inner :: "int option"
  no_peers :: "nso_peer list"

definition num_of :: "int option \<Rightarrow> int" where
  "num_of q = (case q of None \<Rightarrow> 0 | Some n \<Rightarrow> n)"

definition change_line :: "string \<Rightarrow> string \<Rightarrow> string" where
  "change_line label v = label @ v @ [CHR 0x0A]"

definition unit_name :: "string \<Rightarrow> int \<Rightarrow> string" where
  "unit_name intf u = intf @ ''.'' @ show_int u"

definition inner_line :: "string \<Rightarrow> int option \<Rightarrow> string" where
  "inner_line label q = (case q of None \<Rightarrow> [] | Some n \<Rightarrow> change_line label (show_int n))"

definition differs :: "bool \<Rightarrow> string \<Rightarrow> string \<Rightarrow> string" where
  "differs same old new = (if same then [] else old @ new)"

definition l2_gone :: "nso_ep \<Rightarrow> string" where
  "l2_gone b = change_line ''-  '' (unit_name (no_interface b) (no_unit b)) @ change_line ''-    Bandwidth: '' (show_int (no_bandwidth b)) @
     change_line ''-    Tag:       '' (show_int (no_tag b)) @ inner_line ''-    Inner Tag: '' (no_inner b)"

definition l2_added :: "conn_ep \<Rightarrow> string" where
  "l2_added a = change_line ''+  '' (unit_name (cn_interface a) (cn_unit a)) @ change_line ''+    Bandwidth: '' (show_int (cn_bandwidth a)) @
     change_line ''+    Tag:       '' (show_int (cn_tag a)) @ inner_line ''+    Inner Tag: '' (cn_inner a)"

definition l2_same :: "nso_ep \<Rightarrow> conn_ep \<Rightarrow> bool" where
  "l2_same b a \<longleftrightarrow> no_interface b = cn_interface a \<and> no_bandwidth b = cn_bandwidth a \<and> no_tag b = cn_tag a \<and> num_of (no_inner b) = num_of (cn_inner a)"

definition l2_changed :: "nso_ep \<Rightarrow> conn_ep \<Rightarrow> string" where
  "l2_changed b a =
     (if l2_same b a then []
      else if no_interface b \<noteq> cn_interface a
      then change_line ''-  '' (unit_name (no_interface b) (no_unit b)) @ change_line ''+  '' (unit_name (cn_interface a) (cn_unit a))
      else change_line ''  '' (unit_name (no_interface b) (no_unit b))) @
     differs (no_bandwidth b = cn_bandwidth a) (change_line ''-    Bandwidth: '' (show_int (no_bandwidth b)))
       (change_line ''+    Bandwidth: '' (show_int (cn_bandwidth a))) @
     differs (no_tag b = cn_tag a) (change_line ''-    Tag:       '' (show_int (no_tag b))) (change_line ''+    Tag:       '' (show_int (cn_tag a))) @
     differs (num_of (no_inner b) = num_of (cn_inner a)) (inner_line ''-    Inner Tag: '' (no_inner b)) (inner_line ''+    Inner Tag: '' (cn_inner a))"

definition conn_key :: "conn_ep \<Rightarrow> ep_key" where
  "conn_key a = (cn_node a, cn_id a)"

definition nso_key :: "nso_ep \<Rightarrow> ep_key" where
  "nso_key b = (no_device b, no_id b)"

definition active_eps :: "conn_ep list \<Rightarrow> conn_ep list" where
  "active_eps es = filter (\<lambda>e. cn_state e = ''active'') es"

definition l2_nso_diff :: "conn_ep list \<Rightarrow> nso_ep list \<Rightarrow> device_diff" where
  "l2_nso_diff es bs = filter (\<lambda>(k, t). t \<noteq> []) (conn_diff conn_key nso_key l2_gone l2_changed l2_added (active_eps es) bs)"

section \<open>Layer 3 (\<^verbatim>\<open>VRF.pm\<close>)\<close>

text \<open>The configuration has the address of a peer without its subnet.\<close>

definition bare_ip :: "string \<Rightarrow> string" where
  "bare_ip ip = field (psplit CHR ''/'' ip) 0"

definition peer_lines :: "string \<Rightarrow> int \<Rightarrow> int \<Rightarrow> string \<Rightarrow> int \<Rightarrow> string \<Rightarrow> int \<Rightarrow> string" where
  "peer_lines s n asn lip pasn pip bfd = change_line (s @ ''    Peer: '') (show_int n) @ change_line (s @ ''      Local ASN: '') (show_int asn) @
     change_line (s @ ''      Local IP:  '') lip @ change_line (s @ ''      Peer ASN:  '') (show_int pasn) @
     change_line (s @ ''      Peer IP:   '') pip @ change_line (s @ ''      BFD:       '') (show_int bfd)"

definition peer_gone :: "nso_peer \<Rightarrow> string" where
  "peer_gone p = peer_lines ''-'' (np_id p) (np_local_asn p) (np_local_ip p) (np_peer_asn p) (np_peer_ip p) (np_bfd p)"

definition peer_added :: "int \<Rightarrow> conn_peer \<Rightarrow> string" where
  "peer_added asn q = peer_lines ''+'' (cp_id q) asn (cp_local_ip q) (cp_peer_asn q) (bare_ip (cp_peer_ip q)) (cp_bfd q)"

definition peer_same :: "nso_peer \<Rightarrow> conn_peer \<Rightarrow> bool" where
  "peer_same p q \<longleftrightarrow> np_local_ip p = cp_local_ip q \<and> np_peer_asn p = cp_peer_asn q \<and> np_peer_ip p = bare_ip (cp_peer_ip q) \<and> np_bfd p = cp_bfd q"

definition peer_changed :: "nso_peer \<Rightarrow> conn_peer \<Rightarrow> string" where
  "peer_changed p q = (if peer_same p q then [] else change_line ''     Peer: '' (show_int (np_id p))) @
     differs (np_local_ip p = cp_local_ip q) (change_line ''-      Local IP:  '' (np_local_ip p)) (change_line ''+      Local IP:  '' (cp_local_ip q)) @
     differs (np_peer_asn p = cp_peer_asn q) (change_line ''-      Peer ASN:  '' (show_int (np_peer_asn p)))
       (change_line ''+      Peer ASN:  '' (show_int (cp_peer_asn q))) @
     differs (np_peer_ip p = bare_ip (cp_peer_ip q)) (change_line ''-      Peer IP:   '' (np_peer_ip p))
       (change_line ''+      Peer IP:   '' (bare_ip (cp_peer_ip q))) @
     differs (np_bfd p = cp_bfd q) (change_line ''-      BFD:       '' (show_int (np_bfd p))) (change_line ''+      BFD:       '' (show_int (cp_bfd q)))"

text \<open>The peers of one endpoint, by their identifiers, are walked over in the same way, into one
  text.\<close>

definition peer_key :: "conn_peer \<Rightarrow> ep_key" where
  "peer_key q = ([], cp_id q)"

definition nso_peer_key :: "nso_peer \<Rightarrow> ep_key" where
  "nso_peer_key p = ([], np_id p)"

definition peers_diff :: "int \<Rightarrow> conn_peer list \<Rightarrow> nso_peer list \<Rightarrow> string" where
  "peers_diff asn qs ps = concat (map snd (conn_diff peer_key nso_peer_key peer_gone peer_changed (peer_added asn) qs ps))"

definition vrf_gone :: "nso_ep \<Rightarrow> string" where
  "vrf_gone b = change_line ''-  '' (unit_name (no_interface b) (no_unit b)) @ change_line ''-    Bandwidth: '' (show_int (no_bandwidth b)) @
     change_line ''-    MTU:       '' (show_int (no_mtu b)) @ change_line ''-    Tag:       '' (show_int (no_tag b)) @
     inner_line ''-    Inner Tag: '' (no_inner b) @ concat (map peer_gone (no_peers b))"

definition vrf_added :: "int \<Rightarrow> conn_ep \<Rightarrow> string" where
  "vrf_added asn a = change_line ''+  '' (unit_name (cn_interface a) (cn_unit a)) @ change_line ''+    Bandwidth: '' (show_int (cn_bandwidth a)) @
     change_line ''+    MTU:       '' (show_int (cn_mtu a)) @ change_line ''+    Tag:       '' (show_int (cn_tag a)) @
     inner_line ''+    Inner Tag: '' (cn_inner a) @ concat (map (peer_added asn) (cn_peers a))"

definition vrf_ep_same :: "nso_ep \<Rightarrow> conn_ep \<Rightarrow> bool" where
  "vrf_ep_same b a \<longleftrightarrow> l2_same b a \<and> no_mtu b = cn_mtu a"

definition vrf_ep_diff :: "nso_ep \<Rightarrow> conn_ep \<Rightarrow> string" where
  "vrf_ep_diff b a =
     (if no_interface b \<noteq> cn_interface a
      then change_line ''-  '' (unit_name (no_interface b) (no_unit b)) @ change_line ''+  '' (unit_name (cn_interface a) (cn_unit a))
      else change_line ''   '' (unit_name (no_interface b) (no_unit b))) @
     differs (no_bandwidth b = cn_bandwidth a) (change_line ''-    Bandwidth: '' (show_int (no_bandwidth b)))
       (change_line ''+    Bandwidth: '' (show_int (cn_bandwidth a))) @
     differs (no_mtu b = cn_mtu a) (change_line ''-    MTU:       '' (show_int (no_mtu b))) (change_line ''+    MTU:       '' (show_int (cn_mtu a))) @
     differs (no_tag b = cn_tag a) (change_line ''-    Tag:       '' (show_int (no_tag b))) (change_line ''+    Tag:       '' (show_int (cn_tag a))) @
     differs (num_of (no_inner b) = num_of (cn_inner a)) (inner_line ''-    Inner Tag: '' (no_inner b)) (inner_line ''+    Inner Tag: '' (cn_inner a))"

definition vrf_changed :: "int \<Rightarrow> nso_ep \<Rightarrow> conn_ep \<Rightarrow> string" where
  "vrf_changed asn b a = (let pd = peers_diff asn (cn_peers a) (no_peers b) in
     if vrf_ep_same b a \<and> pd = [] then [] else vrf_ep_diff b a @ pd)"

text \<open>The heading of each device: the connection, and its workgroup when that differs.\<close>

definition workgroup_lines :: "string option \<Rightarrow> string \<Rightarrow> string" where
  "workgroup_lines wg nwg = (case wg of
     None \<Rightarrow> change_line ''- Workgroup: '' nwg
   | Some w \<Rightarrow> if w \<noteq> nwg then change_line ''- Workgroup: '' nwg @ change_line ''+ Workgroup: '' w else [])"

definition vrf_nso_diff :: "string \<Rightarrow> string option \<Rightarrow> int \<Rightarrow> conn_ep list \<Rightarrow> string \<Rightarrow> nso_ep list \<Rightarrow> device_diff" where
  "vrf_nso_diff name wg asn es nwg bs = concat (map (\<lambda>(k, t).
     if t = [] \<and> workgroup_lines wg nwg = [] then [] else [(k, change_line ''OESS-VRF-'' (name @ '':'') @ workgroup_lines wg nwg @ t)])
     (conn_diff conn_key nso_key vrf_gone (vrf_changed asn) (vrf_added asn) (active_eps es) bs))"

section \<open>When nothing is said\<close>

definition quiet :: "device_diff \<Rightarrow> bool" where
  "quiet d \<longleftrightarrow> (\<forall>(k, t)\<in>set d. t = [])"

lemma quiet_add [simp]: "quiet (diff_add k t d) \<longleftrightarrow> quiet d \<and> t = []"
  by (induction k t d rule: diff_add.induct) (auto simp: quiet_def)

lemma quiet_init [simp]: "quiet (conn_init key es)"
proof -
  have "quiet d \<Longrightarrow> quiet (fold (\<lambda>e d. diff_add (fst (key e)) [] d) es d)" for d
    by (induction es arbitrary: d) auto
  from this [of "[]"] show ?thesis by (simp add: conn_init_def quiet_def)
qed

lemma quiet_rest: "quiet (conn_rest added I d) \<longleftrightarrow> quiet d \<and> (\<forall>(k, a)\<in>set I. added a = [])"
  unfolding conn_rest_def by (induction I arbitrary: d) auto

lemma conn_index_snoc: "conn_index key (es @ [e]) = (key e, e) # filter (\<lambda>(k, _). k \<noteq> key e) (conn_index key es)"
  by (simp add: conn_index_def)

lemma map_of_filter_key: "map_of (filter (\<lambda>(k, _). k \<noteq> j) I) k = (if k = j then None else map_of I k)"
  by (induction I) auto

lemma conn_index_set:
  "distinct (map key es) \<Longrightarrow> (j, b) \<in> set (conn_index key es) \<longleftrightarrow> b \<in> set es \<and> key b = j"
proof (induction es rule: rev_induct)
  case (snoc e es)
  then have "key b \<noteq> key e" if "b \<in> set es" using that by (auto simp: image_iff)
  then show ?case using snoc by (auto simp: conn_index_snoc)
qed (simp add: conn_index_def)

lemma conn_index_map:
  "distinct (map key es) \<Longrightarrow> map_of (conn_index key es) k = Some a \<longleftrightarrow> a \<in> set es \<and> key a = k"
proof (induction es rule: rev_induct)
  case (snoc e es)
  then have "key b \<noteq> key e" if "b \<in> set es" for b using that by (auto simp: image_iff)
  then show ?case using snoc by (auto simp: conn_index_snoc map_of_filter_key)
qed (simp add: conn_index_def)

lemma conn_walk_quiet:
  "distinct (map nkey bs) \<Longrightarrow> quiet (snd (conn_walk nkey gone changed bs I d)) \<longleftrightarrow> quiet d \<and>
    (\<forall>b\<in>set bs. case map_of I (nkey b) of None \<Rightarrow> gone b = [] | Some a \<Rightarrow> changed b a = [])"
proof (induction bs arbitrary: I d)
  case (Cons b bs)
  then have o: "nkey c \<noteq> nkey b" if "c \<in> set bs" for c using that by (auto simp: image_iff)
  have d: "distinct (map nkey bs)" using Cons.prems by simp
  show ?case
  proof (cases "map_of I (nkey b)")
    case None
    then show ?thesis using Cons.IH [OF d] by simp
  next
    case (Some a)
    have "(\<forall>c\<in>set bs. case map_of (filter (\<lambda>(k, _). k \<noteq> nkey b) I) (nkey c) of None \<Rightarrow> gone c = [] | Some a \<Rightarrow> changed c a = []) \<longleftrightarrow>
        (\<forall>c\<in>set bs. case map_of I (nkey c) of None \<Rightarrow> gone c = [] | Some a \<Rightarrow> changed c a = [])"
      using o by (auto simp: map_of_filter_key)
    then show ?thesis using Cons.IH [OF d] Some by simp
  qed
qed simp

lemma conn_walk_left: "set (fst (conn_walk nkey gone changed bs I d)) = {(k, a) \<in> set I. k \<notin> nkey ` set bs}"
proof (induction bs arbitrary: I d)
  case (Cons b bs)
  show ?case
  proof (cases "map_of I (nkey b)")
    case None
    then have "nkey b \<notin> fst ` set I" by (simp add: map_of_eq_None_iff)
    then have "(k, a) \<in> set I \<Longrightarrow> k \<noteq> nkey b" for k a by force
    then show ?thesis using Cons.IH None by auto
  next
    case (Some a)
    then show ?thesis using Cons.IH by auto
  qed
qed simp

text \<open>What the texts promise: the one for an endpoint that goes or comes is never empty, the one for
  an endpoint that stays is empty exactly if it is the same on both sides.\<close>

locale diff_texts =
  fixes key :: "'a \<Rightarrow> ep_key" and nkey :: "'b \<Rightarrow> ep_key" and gone :: "'b \<Rightarrow> string" and changed :: "'b \<Rightarrow> 'a \<Rightarrow> string"
    and added :: "'a \<Rightarrow> string" and same :: "'b \<Rightarrow> 'a \<Rightarrow> bool"
  assumes gone_told: "gone b \<noteq> []" and added_told: "added a \<noteq> []" and changed_told: "changed b a = [] \<longleftrightarrow> same b a"
begin

lemma index_case:
  assumes "distinct (map key es)"
  shows "(case map_of (conn_index key es) (nkey b) of None \<Rightarrow> False | Some a \<Rightarrow> same b a) \<longleftrightarrow>
    nkey b \<in> key ` set es \<and> (\<forall>a\<in>set es. key a = nkey b \<longrightarrow> same b a)"
proof -
  have m: "map_of (conn_index key es) (nkey b) = Some a" if "a \<in> set es" "key a = nkey b" for a
    using that by (simp add: conn_index_map [OF assms])
  show ?thesis
  proof (cases "nkey b \<in> key ` set es")
    case True
    then obtain a where a: "a \<in> set es" "key a = nkey b" by (metis imageE)
    have "c = a" if "c \<in> set es" "key c = nkey b" for c using m [OF that] m [OF a] by simp
    then have "(\<forall>c\<in>set es. key c = nkey b \<longrightarrow> same b c) \<longleftrightarrow> same b a" using a by metis
    then show ?thesis using True by (simp add: m [OF a])
  next
    case False
    have "map_of (conn_index key es) (nkey b) \<noteq> Some a" for a
    proof
      assume "map_of (conn_index key es) (nkey b) = Some a"
      then have "a \<in> set es \<and> key a = nkey b" by (simp only: conn_index_map [OF assms])
      then show False using False by (metis imageI)
    qed
    then have "map_of (conn_index key es) (nkey b) = None" by (meson not_Some_eq)
    then show ?thesis using False by simp
  qed
qed

lemma quiet_iff:
  assumes "distinct (map key es)" and "distinct (map nkey bs)"
  shows "quiet (conn_diff key nkey gone changed added es bs) \<longleftrightarrow>
    key ` set es = nkey ` set bs \<and> (\<forall>b\<in>set bs. \<forall>a\<in>set es. key a = nkey b \<longrightarrow> same b a)"
proof -
  let ?I = "conn_index key es"
  have t: "(case m of None \<Rightarrow> gone b = [] | Some a \<Rightarrow> changed b a = []) \<longleftrightarrow> (case m of None \<Rightarrow> False | Some a \<Rightarrow> same b a)" for b m
    by (simp add: gone_told changed_told split: option.split)
  have e: "(\<forall>x\<in>X. added (snd x) = []) \<longleftrightarrow> X = {}" for X :: "(ep_key \<times> 'a) set" using added_told by auto
  have "quiet (conn_diff key nkey gone changed added es bs) \<longleftrightarrow>
      (\<forall>b\<in>set bs. case map_of ?I (nkey b) of None \<Rightarrow> False | Some a \<Rightarrow> same b a) \<and> {(k, a) \<in> set ?I. k \<notin> nkey ` set bs} = {}"
    unfolding conn_diff_def Let_def case_prod_unfold quiet_rest conn_walk_quiet [OF assms(2)] conn_walk_left t e
    by simp
  also have "(\<forall>b\<in>set bs. case map_of ?I (nkey b) of None \<Rightarrow> False | Some a \<Rightarrow> same b a) \<longleftrightarrow>
      (\<forall>b\<in>set bs. nkey b \<in> key ` set es \<and> (\<forall>a\<in>set es. key a = nkey b \<longrightarrow> same b a))"
    by (intro ball_cong refl index_case assms(1))
  also have "{(k, a) \<in> set ?I. k \<notin> nkey ` set bs} = (\<lambda>a. (key a, a)) ` {a \<in> set es. key a \<notin> nkey ` set bs}"
  proof (rule set_eqI)
    fix x :: "ep_key \<times> 'a"
    obtain k a where "x = (k, a)" by (cases x)
    then show "x \<in> {(k, a) \<in> set ?I. k \<notin> nkey ` set bs} \<longleftrightarrow> x \<in> (\<lambda>a. (key a, a)) ` {a \<in> set es. key a \<notin> nkey ` set bs}"
      using conn_index_set [OF assms(1), of k a] by (simp add: image_iff) metis
  qed
  also have "\<dots> = {} \<longleftrightarrow> key ` set es \<subseteq> nkey ` set bs" by (simp add: image_subset_iff Ball_def)
  finally have q: "quiet (conn_diff key nkey gone changed added es bs) \<longleftrightarrow>
      (\<forall>b\<in>set bs. nkey b \<in> key ` set es \<and> (\<forall>a\<in>set es. key a = nkey b \<longrightarrow> same b a)) \<and> key ` set es \<subseteq> nkey ` set bs" .
  have "(\<forall>b\<in>set bs. nkey b \<in> key ` set es) \<longleftrightarrow> nkey ` set bs \<subseteq> key ` set es" by (rule image_subset_iff [symmetric])
  then show ?thesis unfolding q ball_conj_distrib by (metis subset_antisym order_refl)
qed

end

lemma change_line_told [simp]: "change_line l v \<noteq> []"
  by (simp add: change_line_def)

lemma l2_changed_same: "l2_changed b a = [] \<longleftrightarrow> l2_same b a"
  by (auto simp: l2_changed_def l2_same_def differs_def)

lemma peer_changed_same: "peer_changed p q = [] \<longleftrightarrow> peer_same p q"
  by (auto simp: peer_changed_def peer_same_def differs_def)

lemma vrf_changed_same: "vrf_changed asn b a = [] \<longleftrightarrow> vrf_ep_same b a \<and> peers_diff asn (cn_peers a) (no_peers b) = []"
  by (auto simp: vrf_changed_def vrf_ep_diff_def Let_def)

interpretation l2d: diff_texts conn_key nso_key l2_gone l2_changed l2_added l2_same
  by unfold_locales (simp_all add: l2_gone_def l2_added_def l2_changed_same)

interpretation peerd: diff_texts peer_key nso_peer_key peer_gone peer_changed "peer_added asn" peer_same for asn
  by unfold_locales (simp_all add: peer_gone_def peer_added_def peer_lines_def peer_changed_same)

interpretation vrfd: diff_texts conn_key nso_key vrf_gone "vrf_changed asn" "vrf_added asn"
  "\<lambda>b a. vrf_ep_same b a \<and> peers_diff asn (cn_peers a) (no_peers b) = []" for asn
  by unfold_locales (simp_all add: vrf_gone_def vrf_added_def vrf_changed_same)

text \<open>Two sets with keys of their own hold the same keyed data.\<close>

lemma keyed_images:
  assumes "\<And>a b. a \<in> A \<Longrightarrow> b \<in> B \<Longrightarrow> same b a \<longleftrightarrow> f a = g b" and "inj_on key A" and "inj_on nkey B"
  shows "key ` A = nkey ` B \<and> (\<forall>b\<in>B. \<forall>a\<in>A. key a = nkey b \<longrightarrow> same b a) \<longleftrightarrow> (\<lambda>a. (key a, f a)) ` A = (\<lambda>b. (nkey b, g b)) ` B"
proof
  assume l: "key ` A = nkey ` B \<and> (\<forall>b\<in>B. \<forall>a\<in>A. key a = nkey b \<longrightarrow> same b a)"
  show "(\<lambda>a. (key a, f a)) ` A = (\<lambda>b. (nkey b, g b)) ` B"
  proof (intro equalityI subsetI)
    fix x assume "x \<in> (\<lambda>a. (key a, f a)) ` A"
    then obtain a where a: "a \<in> A" "x = (key a, f a)" by blast
    then obtain b where "b \<in> B" "nkey b = key a" using l by (metis imageE imageI)
    then show "x \<in> (\<lambda>b. (nkey b, g b)) ` B" using l a assms(1) by (intro image_eqI [of _ _ b]) auto
  next
    fix x assume "x \<in> (\<lambda>b. (nkey b, g b)) ` B"
    then obtain b where b: "b \<in> B" "x = (nkey b, g b)" by blast
    then obtain a where "a \<in> A" "nkey b = key a" using l by (metis imageE imageI)
    then show "x \<in> (\<lambda>a. (key a, f a)) ` A" using l b assms(1) by (intro image_eqI [of _ _ a]) auto
  qed
next
  assume r: "(\<lambda>a. (key a, f a)) ` A = (\<lambda>b. (nkey b, g b)) ` B"
  have "key ` A = fst ` (\<lambda>a. (key a, f a)) ` A" "nkey ` B = fst ` (\<lambda>b. (nkey b, g b)) ` B" by force+
  then have "key ` A = nkey ` B" by (simp only: r)
  moreover have "same b a" if "b \<in> B" "a \<in> A" "key a = nkey b" for a b
  proof -
    have "(key a, f a) \<in> (\<lambda>b. (nkey b, g b)) ` B" using r that(2) by blast
    then obtain c where "c \<in> B" "nkey c = key a" "g c = f a" by auto
    then have "c = b" using assms(3) that by (simp add: inj_on_def)
    then show ?thesis using assms(1) that \<open>g c = f a\<close> by simp
  qed
  ultimately show "key ` A = nkey ` B \<and> (\<forall>b\<in>B. \<forall>a\<in>A. key a = nkey b \<longrightarrow> same b a)" by blast
qed

lemma quiet_filter: "filter (\<lambda>(k, t). t \<noteq> []) d = [] \<longleftrightarrow> quiet d"
  by (auto simp: quiet_def filter_empty_conv)

lemma quiet_concat: "concat (map snd d) = [] \<longleftrightarrow> quiet d"
  by (auto simp: quiet_def)

lemma peers_diff_empty:
  assumes "distinct (map cp_id qs)" and "distinct (map np_id ps)"
  shows "peers_diff asn qs ps = [] \<longleftrightarrow>
    (\<lambda>q. (cp_id q, cp_local_ip q, cp_peer_asn q, bare_ip (cp_peer_ip q), cp_bfd q)) ` set qs =
    (\<lambda>p. (np_id p, np_local_ip p, np_peer_asn p, np_peer_ip p, np_bfd p)) ` set ps"
proof -
  have d: "distinct (map peer_key qs)" "distinct (map nso_peer_key ps)"
    using assms by (auto simp: distinct_map inj_on_def peer_key_def nso_peer_key_def)
  let ?f = "\<lambda>q. (cp_local_ip q, cp_peer_asn q, bare_ip (cp_peer_ip q), cp_bfd q)" and ?g = "\<lambda>p. (np_local_ip p, np_peer_asn p, np_peer_ip p, np_bfd p)"
  have "peers_diff asn qs ps = [] \<longleftrightarrow> peer_key ` set qs = nso_peer_key ` set ps \<and>
      (\<forall>p\<in>set ps. \<forall>q\<in>set qs. peer_key q = nso_peer_key p \<longrightarrow> peer_same p q)"
    unfolding peers_diff_def quiet_concat by (rule peerd.quiet_iff [OF d])
  also have "\<dots> \<longleftrightarrow> cp_id ` set qs = np_id ` set ps \<and> (\<forall>p\<in>set ps. \<forall>q\<in>set qs. cp_id q = np_id p \<longrightarrow> peer_same p q)"
  proof -
    have "peer_key ` set qs = Pair [] ` cp_id ` set qs" "nso_peer_key ` set ps = Pair [] ` np_id ` set ps"
      by (simp_all add: image_image peer_key_def nso_peer_key_def)
    then have "peer_key ` set qs = nso_peer_key ` set ps \<longleftrightarrow> cp_id ` set qs = np_id ` set ps" by (simp add: inj_image_eq_iff inj_on_def)
    then show ?thesis by (simp add: peer_key_def nso_peer_key_def)
  qed
  also have "\<dots> \<longleftrightarrow> (\<lambda>q. (cp_id q, ?f q)) ` set qs = (\<lambda>p. (np_id p, ?g p)) ` set ps"
    by (rule keyed_images) (use assms in \<open>auto simp: peer_same_def distinct_map\<close>)
  finally show ?thesis .
qed

section \<open>Properties\<close>

text \<open>
  (C9) The difference of a layer 2 connection and its configuration is empty exactly when
  they agree: the active endpoints of the connection and those of the configuration have the same
  devices and identifiers, and each pair has the same interface, bandwidth, tag and inner tag (none
  counting as 0).  Identifiers are unique on both sides.
\<close>

theorem l2_diff_empty:
  assumes "distinct (map conn_key (active_eps es))" and "distinct (map nso_key bs)"
  shows "l2_nso_diff es bs = [] \<longleftrightarrow>
    (\<lambda>a. (conn_key a, cn_interface a, cn_bandwidth a, cn_tag a, num_of (cn_inner a))) ` set (active_eps es) =
    (\<lambda>b. (nso_key b, no_interface b, no_bandwidth b, no_tag b, num_of (no_inner b))) ` set bs"
proof -
  have "l2_nso_diff es bs = [] \<longleftrightarrow> quiet (conn_diff conn_key nso_key l2_gone l2_changed l2_added (active_eps es) bs)"
    unfolding l2_nso_diff_def by (rule quiet_filter)
  also have "\<dots> \<longleftrightarrow> conn_key ` set (active_eps es) = nso_key ` set bs \<and> (\<forall>b\<in>set bs. \<forall>a\<in>set (active_eps es). conn_key a = nso_key b \<longrightarrow> l2_same b a)"
    by (rule l2d.quiet_iff [OF assms])
  also have "\<dots> \<longleftrightarrow> (\<lambda>a. (conn_key a, cn_interface a, cn_bandwidth a, cn_tag a, num_of (cn_inner a))) ` set (active_eps es) =
      (\<lambda>b. (nso_key b, no_interface b, no_bandwidth b, no_tag b, num_of (no_inner b))) ` set bs"
    by (rule keyed_images) (use assms in \<open>auto simp: l2_same_def distinct_map\<close>)
  finally show ?thesis .
qed

definition sample_conn_ep :: "int \<Rightarrow> conn_peer list \<Rightarrow> conn_ep" where
  "sample_conn_ep n ps = \<lparr>cn_node = ''xr0'', cn_id = n, cn_state = ''active'', cn_interface = ''ge0'', cn_unit = 7, cn_bandwidth = 0, cn_mtu = 9000,
     cn_tag = 7, cn_inner = None, cn_peers = ps\<rparr>"

definition sample_nso_ep :: "int \<Rightarrow> nso_peer list \<Rightarrow> nso_ep" where
  "sample_nso_ep n ps = \<lparr>no_device = ''xr0'', no_id = n, no_interface = ''ge0'', no_unit = 8, no_bandwidth = 0, no_mtu = 9000,
     no_tag = 7, no_inner = None, no_peers = ps\<rparr>"

lemmas sample_diff_defs = sample_conn_ep_def sample_nso_ep_def active_eps_def conn_key_def nso_key_def num_of_def

theorem l2_diff_empty_witness:
  "l2_nso_diff [sample_conn_ep 1 []] [sample_nso_ep 1 []] = [] \<and> l2_nso_diff [sample_conn_ep 1 []] [sample_nso_ep 2 []] \<noteq> []"
  using l2_diff_empty [of "[sample_conn_ep 1 []]" "[sample_nso_ep 1 []]"] l2_diff_empty [of "[sample_conn_ep 1 []]" "[sample_nso_ep 2 []]"]
  by (simp add: sample_diff_defs)

lemma diff_add_told: "diff_add k t d \<noteq> []"
  by (induction k t d rule: diff_add.induct) simp_all

lemma conn_init_Nil: "conn_init key es = [] \<longleftrightarrow> es = []"
proof -
  have "fold (\<lambda>e d. diff_add (fst (key e)) [] d) es d = [] \<longleftrightarrow> d = [] \<and> es = []" for d
    by (induction es arbitrary: d) (simp_all add: diff_add_told)
  then show ?thesis by (simp add: conn_init_def)
qed

lemma conn_walk_Nil: "snd (conn_walk nkey gone changed bs I d) = [] \<longleftrightarrow> d = [] \<and> bs = []"
  by (induction bs arbitrary: I d) (simp_all add: diff_add_told split: option.split)

lemma conn_rest_Nil: "conn_rest added I d = [] \<longleftrightarrow> d = [] \<and> I = []"
  unfolding conn_rest_def by (induction I arbitrary: d) (simp_all add: diff_add_told case_prod_unfold)

lemma conn_diff_Nil: "conn_diff key nkey gone changed added es bs = [] \<longleftrightarrow> es = [] \<and> bs = []"
proof (cases "es = [] \<and> bs = []")
  case True
  then show ?thesis by (simp add: conn_diff_def conn_index_def conn_init_def conn_rest_def)
next
  case False
  then show ?thesis unfolding conn_diff_def Let_def case_prod_unfold conn_rest_Nil conn_walk_Nil conn_init_Nil by argo
qed

lemma headed_Nil: "concat (map (\<lambda>(k, t). if t = [] \<and> W then [] else [f k t]) d) = [] \<longleftrightarrow> d = [] \<or> W \<and> quiet d"
  by (induction d) (auto simp: quiet_def split: if_splits)

definition peer_data :: "conn_peer \<Rightarrow> int \<times> string \<times> int \<times> string \<times> int" where
  "peer_data q = (cp_id q, cp_local_ip q, cp_peer_asn q, bare_ip (cp_peer_ip q), cp_bfd q)"

definition nso_peer_data :: "nso_peer \<Rightarrow> int \<times> string \<times> int \<times> string \<times> int" where
  "nso_peer_data p = (np_id p, np_local_ip p, np_peer_asn p, np_peer_ip p, np_bfd p)"

text \<open>
  (C10) The difference of a layer 3 connection and its configuration is empty exactly when
  there is no endpoint on either side, or the workgroup is the same and the endpoints agree in device,
  identifier, interface, bandwidth, MTU and tags, and in their peers: identifier, local address,
  ASN, address without subnet, and BFD.
\<close>

theorem vrf_diff_empty:
  assumes "distinct (map conn_key (active_eps es))" and "distinct (map nso_key bs)"
    and "\<forall>a\<in>set (active_eps es). distinct (map cp_id (cn_peers a))" and "\<forall>b\<in>set bs. distinct (map np_id (no_peers b))"
  shows "vrf_nso_diff name wg asn es nwg bs = [] \<longleftrightarrow> active_eps es = [] \<and> bs = [] \<or> wg = Some nwg \<and>
    (\<lambda>a. (conn_key a, (cn_interface a, cn_bandwidth a, cn_mtu a, cn_tag a, num_of (cn_inner a)), peer_data ` set (cn_peers a))) ` set (active_eps es) =
    (\<lambda>b. (nso_key b, (no_interface b, no_bandwidth b, no_mtu b, no_tag b, num_of (no_inner b)), nso_peer_data ` set (no_peers b))) ` set bs"
proof -
  let ?d = "conn_diff conn_key nso_key vrf_gone (vrf_changed asn) (vrf_added asn) (active_eps es) bs"
  have w: "workgroup_lines wg nwg = [] \<longleftrightarrow> wg = Some nwg" by (auto simp: workgroup_lines_def split: option.splits)
  have "vrf_nso_diff name wg asn es nwg bs = [] \<longleftrightarrow> ?d = [] \<or> wg = Some nwg \<and> quiet ?d"
    unfolding vrf_nso_diff_def w by (rule headed_Nil)
  also have "?d = [] \<longleftrightarrow> active_eps es = [] \<and> bs = []" by (rule conn_diff_Nil)
  also have "quiet ?d \<longleftrightarrow> conn_key ` set (active_eps es) = nso_key ` set bs \<and> (\<forall>b\<in>set bs. \<forall>a\<in>set (active_eps es).
      conn_key a = nso_key b \<longrightarrow> vrf_ep_same b a \<and> peers_diff asn (cn_peers a) (no_peers b) = [])"
    by (rule vrfd.quiet_iff [OF assms(1,2)])
  also have "\<dots> \<longleftrightarrow>
    (\<lambda>a. (conn_key a, (cn_interface a, cn_bandwidth a, cn_mtu a, cn_tag a, num_of (cn_inner a)), peer_data ` set (cn_peers a))) ` set (active_eps es) =
    (\<lambda>b. (nso_key b, (no_interface b, no_bandwidth b, no_mtu b, no_tag b, num_of (no_inner b)), nso_peer_data ` set (no_peers b))) ` set bs"
  proof (rule keyed_images)
    fix a b assume "a \<in> set (active_eps es)" "b \<in> set bs"
    then have "peers_diff asn (cn_peers a) (no_peers b) = [] \<longleftrightarrow> peer_data ` set (cn_peers a) = nso_peer_data ` set (no_peers b)"
      using peers_diff_empty assms(3,4) unfolding peer_data_def nso_peer_data_def by blast
    then show "vrf_ep_same b a \<and> peers_diff asn (cn_peers a) (no_peers b) = [] \<longleftrightarrow>
        ((cn_interface a, cn_bandwidth a, cn_mtu a, cn_tag a, num_of (cn_inner a)), peer_data ` set (cn_peers a)) =
        ((no_interface b, no_bandwidth b, no_mtu b, no_tag b, num_of (no_inner b)), nso_peer_data ` set (no_peers b))"
      by (auto simp: vrf_ep_same_def l2_same_def)
  qed (use assms(1,2) in \<open>auto simp: distinct_map\<close>)
  finally show ?thesis .
qed

definition sample_conn_peer :: conn_peer where
  "sample_conn_peer = \<lparr>cp_id = 3, cp_local_ip = ''10.0.0.1/31'', cp_peer_asn = 64512, cp_peer_ip = ''10.0.0.0/31'', cp_bfd = 0\<rparr>"

definition sample_nso_peer :: "int \<Rightarrow> nso_peer" where
  "sample_nso_peer asn = \<lparr>np_id = 3, np_local_asn = 1, np_local_ip = ''10.0.0.1/31'', np_peer_asn = asn, np_peer_ip = ''10.0.0.0'', np_bfd = 0\<rparr>"

theorem vrf_diff_empty_witness:
  "vrf_nso_diff ''5'' (Some ''lab'') 2 [sample_conn_ep 1 [sample_conn_peer]] ''lab'' [sample_nso_ep 1 [sample_nso_peer 64512]] = [] \<and>
   vrf_nso_diff ''5'' (Some ''lab'') 2 [sample_conn_ep 1 [sample_conn_peer]] ''lab'' [sample_nso_ep 1 [sample_nso_peer 64513]] \<noteq> []"
proof -
  have b: "bare_ip ''10.0.0.0/31'' = ''10.0.0.0''" by code_simp
  show ?thesis
    using vrf_diff_empty [of "[sample_conn_ep 1 [sample_conn_peer]]" "[sample_nso_ep 1 [sample_nso_peer 64512]]" "''5''" "Some ''lab''" 2 "''lab''"]
      vrf_diff_empty [of "[sample_conn_ep 1 [sample_conn_peer]]" "[sample_nso_ep 1 [sample_nso_peer 64513]]" "''5''" "Some ''lab''" 2 "''lab''"]
    by (simp add: sample_diff_defs sample_conn_peer_def sample_nso_peer_def peer_data_def nso_peer_data_def b)
qed

end
