(* ===== verification/ServerFlow.thy ===== *)
theory ServerFlow
  imports ServerSelect ServerDiff "HOL-Library.Word" "HOL-Library.Sublist"
begin

text \<open>
  Flow rules for OpenFlow switches (\<^verbatim>\<open>FlowRule.pm\<close>): their validation, the form in which they are
  sent over D-Bus, the rule read back from the statistics of a switch, comparing and merging of rules, and
  the removal of duplicates from a list of rules (\<^verbatim>\<open>Circuit.pm\<close>, \<open>_dedup_flows\<close>).
  A match is a hash of numbers, here a list of pairs, and an action a hash with one key.  The fields sent are
  unsigned integers of 16 and 64 bits, into which D-Bus puts an integer modulo their size.
\<close>

section \<open>Rules\<close>

text \<open>The value of an action is a number, or for an output port a hash with a maximal length and a port, which
  as a number and as a text is its address.\<close>

datatype flow_value = Num int | Ref nat "int option" "int option"

type_synonym flow_action = "string \<times> flow_value option"
type_synonym flow_match = "(string \<times> int option) list"

record flow_rule =
  fr_priority :: int
  fr_match :: flow_match
  fr_actions :: "flow_action list"
  fr_dpid :: "int option"
  fr_idle :: int
  fr_hard :: int

definition value_num :: "flow_value option \<Rightarrow> int" where
  "value_num v = (case v of None \<Rightarrow> 0 | Some (Num n) \<Rightarrow> n | Some (Ref a l p) \<Rightarrow> int a)"

text \<open>For a port that is out of range the result is that of the call that logs the error: the number \<open>k\<close> of
  appenders the message reaches, which is true unless it is 0.\<close>

definition validate_port :: "nat \<Rightarrow> int \<Rightarrow> bool" where
  "validate_port k p \<longleftrightarrow> (if 0 < p \<and> p \<le> 65535 then True else k \<noteq> 0)"

definition validate_vlan_id :: "int \<Rightarrow> bool" where
  "validate_vlan_id v \<longleftrightarrow> v = 65535 \<or> v = - 1 \<or> v = 0 \<or> (0 < v \<and> v < 4096)"

definition validate_priority :: "int \<Rightarrow> bool" where
  "validate_priority p \<longleftrightarrow> 0 < p \<and> p \<le> 65535"

text \<open>The match is changed while it is checked: 65535 becomes -1.\<close>

definition validate_field :: "nat \<Rightarrow> string \<times> int option \<Rightarrow> (string \<times> int option) option" where
  "validate_field k x = (case x of (key, v) \<Rightarrow>
     if key = ''in_port'' then (if validate_port k (num_of v) then Some (key, v) else None)
     else if key = ''dl_vlan'' then
       (if validate_vlan_id (num_of v) then Some (key, if num_of v = 65535 then Some (- 1) else v) else None)
     else if key = ''dl_type'' \<or> key = ''dl_dst'' then Some (key, v)
     else None)"

definition validate_match :: "nat \<Rightarrow> flow_match \<Rightarrow> flow_match option" where
  "validate_match k m = those (map (validate_field k) m)"

definition validate_action :: "nat \<Rightarrow> flow_action \<Rightarrow> flow_action option" where
  "validate_action k a = (case a of (key, v) \<Rightarrow>
     if key = ''set_vlan_vid'' then Some (''set_vlan_id'', v)
     else if key = ''output'' then (if validate_port k (value_num v) then Some (key, v) else None)
     else Some (key, v))"

definition validate_actions :: "nat \<Rightarrow> flow_action list \<Rightarrow> flow_action list option" where
  "validate_actions k as = those (map (validate_action k) as)"

definition flow_new :: "nat \<Rightarrow> flow_rule \<Rightarrow> flow_rule option" where
  "flow_new k R = (case validate_match k (fr_match R) of None \<Rightarrow> None | Some m \<Rightarrow>
     (case validate_actions k (fr_actions R) of None \<Rightarrow> None | Some as \<Rightarrow>
        if validate_priority (fr_priority R) then Some (R\<lparr>fr_match := m, fr_actions := as\<rparr>) else None))"

definition set_match :: "nat \<Rightarrow> flow_match \<Rightarrow> flow_rule \<Rightarrow> bool \<times> flow_rule" where
  "set_match k m R = (case validate_match k m of None \<Rightarrow> (False, R) | Some m' \<Rightarrow> (True, R\<lparr>fr_match := m'\<rparr>))"

definition set_actions :: "nat \<Rightarrow> flow_action list \<Rightarrow> flow_rule \<Rightarrow> bool \<times> flow_rule" where
  "set_actions k as R = (case validate_actions k as of None \<Rightarrow> (False, R) | Some as' \<Rightarrow> (True, R\<lparr>fr_actions := as'\<rparr>))"

definition set_priority :: "int \<Rightarrow> flow_rule \<Rightarrow> bool \<times> flow_rule" where
  "set_priority p R = (if validate_priority p then (True, R\<lparr>fr_priority := p\<rparr>) else (False, R))"

definition set_dpid :: "int option \<Rightarrow> flow_rule \<Rightarrow> bool \<times> flow_rule" where
  "set_dpid d R = (True, R\<lparr>fr_dpid := d\<rparr>)"

section \<open>D-Bus\<close>

definition dbus_uint16 :: "int \<Rightarrow> 16 word" where
  "dbus_uint16 n = word_of_int n"

definition dbus_uint64 :: "int \<Rightarrow> 64 word" where
  "dbus_uint64 n = word_of_int n"

definition lc :: "string \<Rightarrow> string" where
  "lc = map (\<lambda>c. if 65 \<le> (of_char c :: nat) \<and> (of_char c :: nat) \<le> 90 then char_of ((of_char c :: nat) + 32) else c)"

text \<open>An action: its type, then a maximal length and a port for an output, else one value.\<close>

datatype dbus_action = DOutput "16 word" "16 word" "16 word" | DValue "16 word" "16 word"

definition dbus_output :: "flow_value option \<Rightarrow> dbus_action list option" where
  "dbus_output v = (let (len, port) = (case v of None \<Rightarrow> (Some 65535, None) | Some (Num n) \<Rightarrow> (Some 65535, Some n) | Some (Ref a l p) \<Rightarrow> (l, p)) in
     (case port of None \<Rightarrow> None | Some p \<Rightarrow>
        Some [DOutput (dbus_uint16 0) (dbus_uint16 (case len of None \<Rightarrow> 65535 | Some l \<Rightarrow> l)) (dbus_uint16 p)]))"

definition dbus_vlan :: "flow_value option \<Rightarrow> dbus_action" where
  "dbus_vlan v = (if v = None \<or> value_num v = - 1 \<or> value_num v = 65535 then DValue (dbus_uint16 3) (dbus_uint16 0)
     else DValue (dbus_uint16 1) (dbus_uint16 (value_num v)))"

definition dbus_action_of :: "flow_action \<Rightarrow> dbus_action list option" where
  "dbus_action_of a = (case a of (key, v) \<Rightarrow>
     if lc key = ''output'' then dbus_output v
     else if lc key = ''set_vlan_vid'' then Some [dbus_vlan v]
     else if lc key = ''set_vlan_id'' then Some [dbus_vlan v]
     else if lc key = ''drop'' then Some []
     else None)"

datatype dbus_attr = A16 "16 word" | A64 "64 word"

definition dbus_field :: "string \<times> int option \<Rightarrow> (string \<times> dbus_attr) list option" where
  "dbus_field x = (case x of (key, v) \<Rightarrow>
     if key = ''in_port'' then Some [(''IN_PORT'', A16 (dbus_uint16 (num_of v)))]
     else if key = ''dl_vlan'' then Some [(''DL_VLAN'', A16 (dbus_uint16 (num_of v)))]
     else if key = ''dl_type'' then Some [(''DL_TYPE'', A16 (dbus_uint16 (num_of v)))]
     else if key = ''dl_dst'' then Some [(''DL_DST'', A64 (dbus_uint64 (num_of v)))]
     else if key \<in> {''dl_vlan_pcp'', ''nw_proto'', ''tp_src'', ''nw_tos'', ''tp_dst''} then Some []
     else None)"

definition to_dbus :: "int option \<Rightarrow> flow_rule \<Rightarrow> (64 word \<times> (string \<times> dbus_attr) list \<times> dbus_action list) option" where
  "to_dbus command R = (case those (map dbus_action_of (fr_actions R)) of None \<Rightarrow> None | Some as \<Rightarrow>
     (case those (map dbus_field (fr_match R)) of None \<Rightarrow> None | Some m \<Rightarrow>
        Some (dbus_uint64 (num_of (fr_dpid R)),
          concat m @ [(''PRIORITY'', A16 (dbus_uint16 (fr_priority R))), (''HARD_TIMEOUT'', A16 (dbus_uint16 (fr_hard R))),
            (''IDLE_TIMEOUT'', A16 (dbus_uint16 (fr_idle R)))] @ (case command of None \<Rightarrow> [] | Some c \<Rightarrow> [(''COMMAND'', A16 (dbus_uint16 c))]),
          concat as)))"

section \<open>Statistics of a switch\<close>

datatype stat_action = SOutput int | SSetVlan int | SStripVlan | SOther int

definition parse_action :: "stat_action \<Rightarrow> flow_action list" where
  "parse_action a = (case a of
     SOutput p \<Rightarrow> [(''output'', Some (Num p))]
   | SSetVlan v \<Rightarrow> [(''set_vlan_id'', Some (Num v))]
   | SStripVlan \<Rightarrow> [(''set_vlan_id'', Some (Num (- 1)))]
   | SOther t \<Rightarrow> [])"

definition parse_field :: "string \<times> int \<Rightarrow> flow_match" where
  "parse_field x = (case x of (key, v) \<Rightarrow>
     if key = ''dl_vlan'' then [(key, Some (if v = 0 then - 1 else v))]
     else if key = ''in_port'' \<or> key = ''dl_dst'' \<or> key = ''dl_type'' then [(key, Some v)]
     else [])"

definition parse_stat :: "nat \<Rightarrow> int \<Rightarrow> int \<Rightarrow> (string \<times> int) list \<Rightarrow> stat_action list \<Rightarrow> flow_rule option" where
  "parse_stat k dpid priority m as = flow_new k \<lparr>fr_priority = priority, fr_match = concat (map parse_field m),
     fr_actions = concat (map parse_action as), fr_dpid = Some dpid, fr_idle = 0, fr_hard = 0\<rparr>"

section \<open>Comparing and merging\<close>

definition match_agrees :: "flow_match \<Rightarrow> flow_match \<Rightarrow> bool" where
  "match_agrees m n = list_all (\<lambda>(key, v). case map_of n key of Some (Some w) \<Rightarrow> w = num_of v | _ \<Rightarrow> False) m"

definition compare_match :: "flow_rule \<Rightarrow> flow_rule \<Rightarrow> bool" where
  "compare_match R S \<longleftrightarrow> fr_priority R = fr_priority S \<and> match_agrees (fr_match R) (fr_match S) \<and> match_agrees (fr_match S) (fr_match R)"

text \<open>Values are compared as texts, an undefined one being the empty text.\<close>

definition same_text :: "flow_value option \<Rightarrow> flow_value option \<Rightarrow> bool" where
  "same_text v w = (case (v, w) of
     (None, None) \<Rightarrow> True
   | (Some (Num n), Some (Num m)) \<Rightarrow> n = m
   | (Some (Ref a _ _), Some (Ref b _ _)) \<Rightarrow> a = b
   | _ \<Rightarrow> False)"

text \<open>The second action is asked for the key of the first one.\<close>

definition same_action :: "flow_action \<Rightarrow> flow_action \<Rightarrow> bool" where
  "same_action a b = same_text (snd a) (if fst b = fst a then snd b else None)"

definition compare_actions :: "flow_rule \<Rightarrow> flow_rule \<Rightarrow> bool" where
  "compare_actions R S = list_all2 same_action (fr_actions R) (fr_actions S)"

definition compare_flow :: "flow_rule \<Rightarrow> flow_rule \<Rightarrow> bool" where
  "compare_flow R S \<longleftrightarrow> compare_match R S \<and> compare_actions R S \<and> num_of (fr_dpid R) = num_of (fr_dpid S) \<and> fr_priority R = fr_priority S"

definition same_number :: "flow_action \<Rightarrow> flow_action \<Rightarrow> bool" where
  "same_number a b \<longleftrightarrow> fst b = fst a \<and> snd b \<noteq> None \<and> value_num (snd a) = value_num (snd b)"

text \<open>The scan of \<open>_has_equivilent_actions\<close>: \<open>j\<close> actions of the other rule have been found in a row.\<close>

fun scan_actions :: "flow_action list \<Rightarrow> flow_action list \<Rightarrow> nat \<Rightarrow> bool" where
  "scan_actions [] other j = False"
| "scan_actions (a # as) other j =
     (if j < length other \<and> same_number a (other ! j)
      then (if Suc j = length other then True else scan_actions as other (Suc j))
      else scan_actions as other 0)"

definition has_equivilent_actions :: "flow_rule \<Rightarrow> flow_rule \<Rightarrow> bool" where
  "has_equivilent_actions R S = (if length (fr_actions R) < length (fr_actions S) then False else scan_actions (fr_actions R) (fr_actions S) 0)"

definition sets_vlan :: "flow_action list \<Rightarrow> bool" where
  "sets_vlan as = list_ex (\<lambda>a. fst a = ''set_vlan_id'') as"

text \<open>Where only one of the rules sets a VLAN, the rule itself is used as if it were an array, which
  ends the program.\<close>

definition merge_actions :: "flow_rule \<Rightarrow> flow_rule \<Rightarrow> flow_rule outcome" where
  "merge_actions R S =
     (if sets_vlan (fr_actions R) \<noteq> sets_vlan (fr_actions S) then Died
      else if compare_actions R S then Done R
      else if has_equivilent_actions R S then Done R
      else Done (R\<lparr>fr_actions := fr_actions R @ fr_actions S\<rparr>))"

definition same_hash :: "flow_match \<Rightarrow> flow_match \<Rightarrow> bool" where
  "same_hash m n \<longleftrightarrow> list_all (\<lambda>(key, v). map_of n key = Some v) m \<and> list_all (\<lambda>(key, v). map_of m key = Some v) n"

definition get_flowrules :: "flow_match option \<Rightarrow> int option \<Rightarrow> flow_rule list \<Rightarrow> flow_rule list" where
  "get_flowrules m d Rs = filter (\<lambda>R. (case m of None \<Rightarrow> True | Some n \<Rightarrow> same_hash n (fr_match R)) \<and>
     (case d of None \<Rightarrow> True | Some e \<Rightarrow> e = num_of (fr_dpid R))) Rs"

section \<open>Removing duplicates (\<^verbatim>\<open>Circuit.pm\<close>)\<close>

fun merge_into :: "flow_rule \<Rightarrow> flow_rule option list \<Rightarrow> (bool \<times> flow_rule option list) outcome" where
  "merge_into f [] = Done (False, [])"
| "merge_into f (None # ds) = (case merge_into f ds of Done (b, es) \<Rightarrow> Done (b, None # es) | Failed e \<Rightarrow> Failed e | Died \<Rightarrow> Died)"
| "merge_into f (Some d # ds) =
     (if num_of (fr_dpid d) = num_of (fr_dpid f) \<and> compare_match d f
      then (case merge_actions d f of
        Done d' \<Rightarrow> (case merge_into f ds of Done (b, es) \<Rightarrow> Done (True, Some d' # es) | Failed e \<Rightarrow> Failed e | Died \<Rightarrow> Died)
      | Failed e \<Rightarrow> Failed e
      | Died \<Rightarrow> Died)
      else (case merge_into f ds of Done (b, es) \<Rightarrow> Done (b, Some d # es) | Failed e \<Rightarrow> Failed e | Died \<Rightarrow> Died))"

fun dedup_from :: "flow_rule option list \<Rightarrow> flow_rule option list \<Rightarrow> flow_rule option list outcome" where
  "dedup_from ds [] = Done ds"
| "dedup_from ds (None # fs) = dedup_from (ds @ [None]) fs"
| "dedup_from ds (Some f # fs) = (case merge_into f ds of
     Done (b, es) \<Rightarrow> dedup_from (if b then es else es @ [Some f]) fs
   | Failed e \<Rightarrow> Failed e
   | Died \<Rightarrow> Died)"

definition dedup_flows :: "flow_rule option list \<Rightarrow> flow_rule option list outcome" where
  "dedup_flows fs = dedup_from [] fs"

section \<open>Every rule is well formed\<close>

definition field_ok :: "nat \<Rightarrow> string \<times> int option \<Rightarrow> bool" where
  "field_ok k x = (case x of (key, v) \<Rightarrow> key \<in> {''in_port'', ''dl_vlan'', ''dl_type'', ''dl_dst''} \<and>
     (key = ''dl_vlan'' \<longrightarrow> - 1 \<le> num_of v \<and> num_of v \<le> 4095) \<and>
     (key = ''in_port'' \<longrightarrow> k = 0 \<longrightarrow> 1 \<le> num_of v \<and> num_of v \<le> 65535))"

definition action_ok :: "nat \<Rightarrow> flow_action \<Rightarrow> bool" where
  "action_ok k a = (case a of (key, v) \<Rightarrow> key \<noteq> ''set_vlan_vid'' \<and>
     (key = ''output'' \<longrightarrow> k = 0 \<longrightarrow> 1 \<le> value_num v \<and> value_num v \<le> 65535))"

definition flow_ok :: "nat \<Rightarrow> flow_rule \<Rightarrow> bool" where
  "flow_ok k R \<longleftrightarrow> 1 \<le> fr_priority R \<and> fr_priority R \<le> 65535 \<and> list_all (field_ok k) (fr_match R) \<and> list_all (action_ok k) (fr_actions R)"

text \<open>The rules the methods of the class make.\<close>

inductive made :: "nat \<Rightarrow> flow_rule \<Rightarrow> bool" for k where
  create: "flow_new k R = Some S \<Longrightarrow> made k S"
| match: "made k R \<Longrightarrow> made k (snd (set_match k m R))"
| actions: "made k R \<Longrightarrow> made k (snd (set_actions k as R))"
| priority: "made k R \<Longrightarrow> made k (snd (set_priority p R))"
| dpid: "made k R \<Longrightarrow> made k (snd (set_dpid d R))"
| merge: "made k R \<Longrightarrow> made k S \<Longrightarrow> merge_actions R S = Done R' \<Longrightarrow> made k R'"

lemma those_Some: "those xs = Some ys \<longleftrightarrow> xs = map Some ys"
  by (induction xs arbitrary: ys) (auto split: option.splits simp: Cons_eq_map_conv)

lemma those_map_ok:
  assumes "those (map f xs) = Some ys" and "\<And>x y. f x = Some y \<Longrightarrow> P y"
  shows "list_all P ys"
unfolding list_all_iff
proof
  fix y assume "y \<in> set ys"
  then have "Some y \<in> set (map f xs)" using assms(1) by (simp add: those_Some)
  then show "P y" using assms(2) by auto
qed

lemma validate_match_ok: "validate_match k m = Some m' \<Longrightarrow> list_all (field_ok k) m'"
  unfolding validate_match_def
  by (erule those_map_ok) (auto simp: validate_field_def field_ok_def validate_port_def validate_vlan_id_def num_of_def split: prod.splits if_splits)

lemma validate_actions_ok: "validate_actions k as = Some as' \<Longrightarrow> list_all (action_ok k) as'"
  unfolding validate_actions_def
  by (erule those_map_ok) (auto simp: validate_action_def action_ok_def validate_port_def split: prod.splits if_splits)

lemma flow_new_ok: "flow_new k R = Some S \<Longrightarrow> flow_ok k S"
  by (auto simp: flow_new_def flow_ok_def validate_priority_def validate_match_ok validate_actions_ok split: option.splits if_splits)

lemma merge_actions_cases:
  assumes "merge_actions R S = Done R'"
  shows "R' = R \<and> (compare_actions R S \<or> has_equivilent_actions R S) \<or> R' = R\<lparr>fr_actions := fr_actions R @ fr_actions S\<rparr>"
  using assms by (auto simp: merge_actions_def split: if_splits)

lemma made_ok: "made k R \<Longrightarrow> flow_ok k R"
proof (induction rule: made.induct)
  case (create R S)
  then show ?case by (rule flow_new_ok)
next
  case (match R m)
  then show ?case by (cases "validate_match k m") (simp_all add: set_match_def flow_ok_def validate_match_ok)
next
  case (actions R as)
  then show ?case by (cases "validate_actions k as") (simp_all add: set_actions_def flow_ok_def validate_actions_ok)
next
  case (merge R S R')
  then show ?case using merge_actions_cases [OF merge(3)] by (elim disjE) (simp_all add: flow_ok_def)
qed (simp_all add: set_priority_def set_dpid_def validate_priority_def flow_ok_def)

text \<open>
  (C13) Whatever sequence of calls made or changed it, a rule is well formed: its priority is
  between 1 and 65535, it matches on no other fields than port, VLAN, type and destination, its
  VLAN is -1 for untagged frames, 0 for all frames or a number up to 4095, and VLANs are set
  under one name.  Its ports are between 1 and 65535 if the log is off for errors; the check of a port returns
  what the logger returns, so with an appender for errors every port is accepted.
\<close>

theorem flow_rules_typed:
  assumes "made k R"
  shows "1 \<le> fr_priority R \<and> fr_priority R \<le> 65535 \<and>
    (\<forall>(key, v)\<in>set (fr_match R). key \<in> {''in_port'', ''dl_vlan'', ''dl_type'', ''dl_dst''} \<and>
       (key = ''dl_vlan'' \<longrightarrow> - 1 \<le> num_of v \<and> num_of v \<le> 4095) \<and>
       (key = ''in_port'' \<longrightarrow> k = 0 \<longrightarrow> 1 \<le> num_of v \<and> num_of v \<le> 65535)) \<and>
    (\<forall>(key, v)\<in>set (fr_actions R). key \<noteq> ''set_vlan_vid'' \<and>
       (key = ''output'' \<longrightarrow> k = 0 \<longrightarrow> 1 \<le> value_num v \<and> value_num v \<le> 65535))"
  using made_ok [OF assms] unfolding flow_ok_def list_all_iff field_ok_def action_ok_def .

definition sample_rule :: "int \<Rightarrow> int \<Rightarrow> flow_rule" where
  "sample_rule p q = \<lparr>fr_priority = 32768, fr_match = [(''dl_vlan'', Some 65535), (''in_port'', Some p)],
     fr_actions = [(''set_vlan_vid'', Some (Num 200)), (''output'', Some (Num q))], fr_dpid = Some 7, fr_idle = 0, fr_hard = 0\<rparr>"

theorem flow_rules_typed_witness:
  "\<exists>R. flow_new 0 (sample_rule 3 4) = Some R \<and> fr_match R = [(''dl_vlan'', Some (- 1)), (''in_port'', Some 3)] \<and>
     fst ` set (fr_actions R) = {''set_vlan_id'', ''output''} \<and> (\<forall>(key, v)\<in>set (fr_actions R). key \<noteq> ''set_vlan_vid'')"
proof -
  obtain R where R: "flow_new 0 (sample_rule 3 4) = Some R" "fr_match R = [(''dl_vlan'', Some (- 1)), (''in_port'', Some 3)]"
    "fst ` set (fr_actions R) = {''set_vlan_id'', ''output''}"
    by (simp add: flow_new_def sample_rule_def validate_match_def validate_actions_def validate_field_def validate_action_def
        validate_port_def validate_vlan_id_def validate_priority_def num_of_def value_num_def)
  show ?thesis using R flow_rules_typed [OF made.create [OF R(1)]] by fastforce
qed

text \<open>With an appender for errors a port out of range passes.\<close>

lemma port_unchecked: "flow_new 1 (sample_rule 70000 (- 5)) \<noteq> None"
  by code_simp

section \<open>From the controller to the switch and back\<close>

text \<open>What a switch reports that keeps the numbers it is sent.\<close>

definition report_field :: "string \<times> dbus_attr \<Rightarrow> (string \<times> int) list" where
  "report_field x = (case x of
     (key, A16 w) \<Rightarrow> if key = ''IN_PORT'' then [(''in_port'', uint w)] else if key = ''DL_VLAN'' then [(''dl_vlan'', uint w)]
       else if key = ''DL_TYPE'' then [(''dl_type'', uint w)] else []
   | (key, A64 w) \<Rightarrow> if key = ''DL_DST'' then [(''dl_dst'', uint w)] else [])"

definition report_action :: "dbus_action \<Rightarrow> stat_action" where
  "report_action a = (case a of DOutput t l p \<Rightarrow> SOutput (uint p)
   | DValue t v \<Rightarrow> if t = 1 then SSetVlan (uint v) else if t = 3 then SStripVlan else SOther (uint t))"

definition report_priority :: "(string \<times> dbus_attr) list \<Rightarrow> int" where
  "report_priority as = (case map_of as ''PRIORITY'' of Some (A16 w) \<Rightarrow> uint w | _ \<Rightarrow> 0)"

text \<open>A rule whose numbers fit: all are defined, none is the wildcard VLAN, and of an action only the
  two kinds the generators of flows use.\<close>

definition field_fits :: "string \<times> int option \<Rightarrow> bool" where
  "field_fits x = (case x of (key, v) \<Rightarrow> v \<noteq> None \<and> (key = ''dl_vlan'' \<longrightarrow> num_of v \<noteq> 0) \<and>
     (key = ''dl_type'' \<longrightarrow> 0 \<le> num_of v \<and> num_of v < 65536) \<and> (key = ''dl_dst'' \<longrightarrow> 0 \<le> num_of v \<and> num_of v < 2 ^ 64))"

definition action_fits :: "flow_action \<Rightarrow> bool" where
  "action_fits a \<longleftrightarrow> (\<exists>n. snd a = Some (Num n) \<and> (fst a = ''output'' \<or> fst a = ''set_vlan_id'' \<and> (n = - 1 \<or> 0 \<le> n \<and> n < 65535)))"

definition rule_fits :: "flow_rule \<Rightarrow> bool" where
  "rule_fits R \<longleftrightarrow> list_all field_fits (fr_match R) \<and> distinct (map fst (fr_match R)) \<and> list_all action_fits (fr_actions R) \<and>
     (\<exists>d. fr_dpid R = Some d \<and> 0 \<le> d \<and> d < 2 ^ 64)"

lemma uint_dbus16: "0 \<le> n \<Longrightarrow> n < 65536 \<Longrightarrow> uint (dbus_uint16 n) = n"
  by (simp add: dbus_uint16_def uint_word_of_int)

lemma uint_dbus16_minus: "uint (dbus_uint16 (- 1)) = 65535"
  unfolding dbus_uint16_def uint_word_of_int by simp

lemma uint_dbus64: "0 \<le> n \<Longrightarrow> n < 2 ^ 64 \<Longrightarrow> uint (dbus_uint64 n) = n"
  by (simp add: dbus_uint64_def uint_word_of_int)

lemma field_back:
  assumes "field_ok 0 x" and "field_fits x"
  obtains y z w where "dbus_field x = Some [y]" "report_field y = [z]" "parse_field z = [w]" "validate_field 0 w = Some x"
    "fst y \<noteq> ''PRIORITY''"
proof -
  obtain key n where x: "x = (key, Some n)" using assms(2) by (cases x) (auto simp: field_fits_def)
  have "key \<in> {''in_port'', ''dl_vlan'', ''dl_type'', ''dl_dst''}"
    using assms(1) unfolding field_ok_def x prod.case by (rule conjunct1)
  then consider "key = ''in_port''" | "key = ''dl_vlan''" | "key = ''dl_type''" | "key = ''dl_dst''"
    by (elim insertE emptyE)
  then show thesis
  proof cases
    case 1
    then have "1 \<le> n" "n \<le> 65535" using assms(1) by (simp_all add: field_ok_def x num_of_def)
    then show ?thesis using 1
      by (intro that [of "(''IN_PORT'', A16 (dbus_uint16 n))" "(''in_port'', n)" "(''in_port'', Some n)"])
        (simp_all add: dbus_field_def report_field_def parse_field_def validate_field_def validate_port_def x num_of_def uint_dbus16)
  next
    case 2
    have "- 1 \<le> n" "n \<le> 4095" "n \<noteq> 0" using 2 assms by (simp_all add: field_ok_def field_fits_def x num_of_def)
    then consider "n = - 1" | "0 < n" "n < 4096" by linarith
    then show ?thesis
    proof cases
      case 1
      with 2 show ?thesis
        by (intro that [of "(''DL_VLAN'', A16 (dbus_uint16 (- 1)))" "(''dl_vlan'', 65535)" "(''dl_vlan'', Some 65535)"])
          (simp_all add: dbus_field_def report_field_def parse_field_def validate_field_def validate_vlan_id_def x num_of_def uint_dbus16_minus)
    next
      case 2
      with \<open>key = ''dl_vlan''\<close> show ?thesis
        by (intro that [of "(''DL_VLAN'', A16 (dbus_uint16 n))" "(''dl_vlan'', n)" "(''dl_vlan'', Some n)"])
          (simp_all add: dbus_field_def report_field_def parse_field_def validate_field_def validate_vlan_id_def x num_of_def uint_dbus16)
    qed
  next
    case 3
    then have "0 \<le> n" "n < 65536" using assms(2) by (simp_all add: field_fits_def x num_of_def)
    then show ?thesis using 3
      by (intro that [of "(''DL_TYPE'', A16 (dbus_uint16 n))" "(''dl_type'', n)" "(''dl_type'', Some n)"])
        (simp_all add: dbus_field_def report_field_def parse_field_def validate_field_def x num_of_def uint_dbus16)
  next
    case 4
    then have "0 \<le> n" "n < 2 ^ 64" using assms(2) by (simp_all add: field_fits_def x num_of_def)
    then show ?thesis using 4
      by (intro that [of "(''DL_DST'', A64 (dbus_uint64 n))" "(''dl_dst'', n)" "(''dl_dst'', Some n)"])
        (simp_all add: dbus_field_def report_field_def parse_field_def validate_field_def x num_of_def uint_dbus64)
  qed
qed

lemma action_back:
  assumes "action_ok 0 a" and "action_fits a"
  obtains b c where "dbus_action_of a = Some [b]" "parse_action (report_action b) = [c]" "validate_action 0 c = Some a"
proof -
  obtain key n where a: "a = (key, Some (Num n))" and k: "key = ''output'' \<or> key = ''set_vlan_id'' \<and> (n = - 1 \<or> 0 \<le> n \<and> n < 65535)"
    using assms(2) by (cases a) (auto simp: action_fits_def)
  have lc: "lc ''output'' = ''output''" "lc ''set_vlan_id'' = ''set_vlan_id''" by code_simp+
  from k consider "key = ''output''" | "key = ''set_vlan_id''" "n = - 1" | "key = ''set_vlan_id''" "0 \<le> n" "n < 65535" by blast
  then show thesis
  proof cases
    case 1
    then have "1 \<le> n" "n \<le> 65535" using assms(1) by (simp_all add: action_ok_def a value_num_def)
    then show ?thesis using 1
      by (intro that [of "DOutput (dbus_uint16 0) (dbus_uint16 65535) (dbus_uint16 n)" "(''output'', Some (Num n))"])
        (simp_all add: dbus_action_of_def dbus_output_def parse_action_def report_action_def validate_action_def validate_port_def a lc
          value_num_def uint_dbus16)
  next
    case 2
    then show ?thesis
      by (intro that [of "DValue (dbus_uint16 3) (dbus_uint16 0)" "(''set_vlan_id'', Some (Num (- 1)))"])
        (simp_all add: dbus_action_of_def dbus_vlan_def parse_action_def report_action_def validate_action_def a lc
          value_num_def dbus_uint16_def)
  next
    case 3
    then show ?thesis
      by (intro that [of "DValue (dbus_uint16 1) (dbus_uint16 n)" "(''set_vlan_id'', Some (Num n))"])
        (simp_all add: dbus_action_of_def dbus_vlan_def parse_action_def report_action_def validate_action_def a lc
          value_num_def uint_dbus16, simp_all add: dbus_uint16_def)
  qed
qed

lemma match_back:
  assumes "concat (map report_field zs) = []" and "list_all (field_ok 0) m" and "list_all field_fits m"
  shows "\<exists>ys. those (map dbus_field m) = Some ys \<and>
    validate_match 0 (concat (map parse_field (concat (map report_field (concat ys @ [(''PRIORITY'', A16 a), (''HARD_TIMEOUT'', A16 b), (''IDLE_TIMEOUT'', A16 c)] @ zs))))) =
      Some m \<and> ''PRIORITY'' \<notin> fst ` set (concat ys)"
  using assms(2,3)
proof (induction m)
  case Nil
  have "concat (map report_field [(''PRIORITY'', A16 a), (''HARD_TIMEOUT'', A16 b), (''IDLE_TIMEOUT'', A16 c)]) = []"
    by (simp add: report_field_def)
  then have "concat (map report_field ([(''PRIORITY'', A16 a), (''HARD_TIMEOUT'', A16 b), (''IDLE_TIMEOUT'', A16 c)] @ zs)) = []"
    using assms(1) by (simp only: map_append concat_append append_Nil)
  then show ?case by (simp add: validate_match_def del: concat_eq_Nil_conv)
next
  case (Cons x m)
  then have "field_ok 0 x" "field_fits x" by simp_all
  then obtain y z w where f: "dbus_field x = Some [y]" "report_field y = [z]" "parse_field z = [w]" "validate_field 0 w = Some x"
    "fst y \<noteq> ''PRIORITY''" by (rule field_back)
  from Cons obtain ys where ys: "those (map dbus_field m) = Some ys" "validate_match 0 (concat (map parse_field (concat (map report_field
      (concat ys @ [(''PRIORITY'', A16 a), (''HARD_TIMEOUT'', A16 b), (''IDLE_TIMEOUT'', A16 c)] @ zs))))) = Some m"
    "''PRIORITY'' \<notin> fst ` set (concat ys)" by (auto simp only: list.pred_inject)
  show ?case by (rule exI [of _ "[y] # ys"]) (use f ys in \<open>simp add: validate_match_def\<close>)
qed

lemma actions_back:
  assumes "list_all (action_ok 0) as" and "list_all action_fits as"
  shows "\<exists>bs. those (map dbus_action_of as) = Some bs \<and> validate_actions 0 (concat (map parse_action (map report_action (concat bs)))) = Some as"
  using assms
proof (induction as)
  case (Cons a as)
  then have "action_ok 0 a" "action_fits a" by simp_all
  then obtain b c where f: "dbus_action_of a = Some [b]" "parse_action (report_action b) = [c]" "validate_action 0 c = Some a"
    by (rule action_back)
  from Cons obtain bs where bs: "those (map dbus_action_of as) = Some bs"
    "validate_actions 0 (concat (map parse_action (map report_action (concat bs)))) = Some as" by (auto simp only: list.pred_inject)
  show ?case by (rule exI [of _ "[b] # bs"]) (use f bs in \<open>simp add: validate_actions_def\<close>)
qed (simp add: validate_actions_def)

lemma match_agrees_refl: "list_all field_fits m \<Longrightarrow> distinct (map fst m) \<Longrightarrow> match_agrees m m"
  unfolding match_agrees_def list_all_iff
proof
  fix x assume a: "\<forall>x\<in>set m. field_fits x" and d: "distinct (map fst m)" and x: "x \<in> set m"
  have "map_of m (fst x) = Some (snd x)" using d x by (simp add: map_of_is_SomeI)
  moreover have "field_fits x" using a x by (rule bspec)
  then have "snd x \<noteq> None" by (cases x) (simp add: field_fits_def)
  ultimately show "case x of (key, v) \<Rightarrow> case map_of m key of Some (Some w) \<Rightarrow> w = num_of v | _ \<Rightarrow> False"
    by (cases x) (auto simp: num_of_def)
qed

lemma same_actions_refl: "list_all action_fits as \<Longrightarrow> list_all2 same_action as as"
  by (induction as) (auto simp: action_fits_def same_action_def same_text_def)

text \<open>
  (C12) A rule survives the way to the switch and back: sent over D-Bus to a switch that reports the
  numbers it was sent, and read back from the statistics, it is the same rule, and
  \<open>compare_flow\<close> says so.  No number is cut off on the way, and untagged frames, -1 in a rule and 65535 in
  16 bits, stay untagged.  The rule must have been made by the class with ports checked, its
  numbers must be defined and fit, and it must not match on the wildcard VLAN 0, which is read
  back as untagged.
\<close>

theorem dbus_roundtrip:
  assumes "made 0 R" and "rule_fits R" and "to_dbus command R = Some (dpid, attrs, as)"
  shows "\<exists>T. parse_stat 0 (uint dpid) (report_priority attrs) (concat (map report_field attrs)) (map report_action as) = Some T \<and>
    fr_match T = fr_match R \<and> fr_actions T = fr_actions R \<and> fr_dpid T = fr_dpid R \<and> fr_priority T = fr_priority R \<and>
    compare_flow R T"
proof -
  have ok: "flow_ok 0 R" using made_ok [OF assms(1)] .
  have fits: "list_all field_fits (fr_match R)" "distinct (map fst (fr_match R))" "list_all action_fits (fr_actions R)"
    using assms(2) by (auto simp: rule_fits_def)
  obtain d where d: "fr_dpid R = Some d" "0 \<le> d" "d < 2 ^ 64" using assms(2) by (auto simp: rule_fits_def)
  let ?zs = "case command of None \<Rightarrow> [] | Some c \<Rightarrow> [(''COMMAND'', A16 (dbus_uint16 c))]"
  have zs: "concat (map report_field ?zs) = []" by (cases command) (simp_all add: report_field_def)
  obtain ys where ys: "those (map dbus_field (fr_match R)) = Some ys"
    "validate_match 0 (concat (map parse_field (concat (map report_field (concat ys @ [(''PRIORITY'', A16 (dbus_uint16 (fr_priority R))),
       (''HARD_TIMEOUT'', A16 (dbus_uint16 (fr_hard R))), (''IDLE_TIMEOUT'', A16 (dbus_uint16 (fr_idle R)))] @ ?zs))))) = Some (fr_match R)"
    "''PRIORITY'' \<notin> fst ` set (concat ys)"
    using match_back [OF zs, of "fr_match R"] ok fits(1) unfolding flow_ok_def by blast
  obtain bs where bs: "those (map dbus_action_of (fr_actions R)) = Some bs"
    "validate_actions 0 (concat (map parse_action (map report_action (concat bs)))) = Some (fr_actions R)"
    using actions_back [of "fr_actions R"] ok fits(3) unfolding flow_ok_def by blast
  have e: "dpid = dbus_uint64 d" "as = concat bs"
    "attrs = concat ys @ [(''PRIORITY'', A16 (dbus_uint16 (fr_priority R))), (''HARD_TIMEOUT'', A16 (dbus_uint16 (fr_hard R))),
       (''IDLE_TIMEOUT'', A16 (dbus_uint16 (fr_idle R)))] @ ?zs"
    using assms(3) ys(1) bs(1) d(1) by (simp_all add: to_dbus_def num_of_def)
  have "map_of (concat ys) ''PRIORITY'' = None" using ys(3) by (simp add: map_of_eq_None_iff)
  then have p: "report_priority attrs = fr_priority R"
    using ok by (simp add: report_priority_def e(3) map_add_def uint_dbus16 flow_ok_def)
  have v: "validate_priority (fr_priority R)" using ok by (simp add: flow_ok_def validate_priority_def)
  let ?T = "\<lparr>fr_priority = fr_priority R, fr_match = fr_match R, fr_actions = fr_actions R, fr_dpid = Some d, fr_idle = 0, fr_hard = 0\<rparr>"
  have "parse_stat 0 (uint dpid) (report_priority attrs) (concat (map report_field attrs)) (map report_action as) = Some ?T"
    using ys(2) bs(2) v unfolding parse_stat_def p e(2) flow_new_def by (simp add: e(1,3) uint_dbus64 [OF d(2,3)] d(1))
  then show ?thesis
    using match_agrees_refl [OF fits(1,2)] same_actions_refl [OF fits(3)] d(1)
    by (simp add: compare_flow_def compare_match_def compare_actions_def)
qed

definition fitting_rule :: flow_rule where
  "fitting_rule = \<lparr>fr_priority = 32768, fr_match = [(''dl_vlan'', Some (- 1)), (''in_port'', Some 3)],
     fr_actions = [(''set_vlan_id'', Some (Num 200)), (''output'', Some (Num 4))], fr_dpid = Some 7, fr_idle = 0, fr_hard = 0\<rparr>"

theorem dbus_roundtrip_witness:
  "\<exists>dpid attrs as T. to_dbus (Some 0) fitting_rule = Some (dpid, attrs, as) \<and>
     parse_stat 0 (uint dpid) (report_priority attrs) (concat (map report_field attrs)) (map report_action as) = Some T \<and> compare_flow fitting_rule T"
proof -
  have "flow_new 0 fitting_rule = Some fitting_rule"
    by (simp add: flow_new_def fitting_rule_def validate_match_def validate_actions_def validate_field_def validate_action_def
        validate_port_def validate_vlan_id_def validate_priority_def num_of_def value_num_def)
  then have "made 0 fitting_rule" by (rule made.create)
  moreover have "rule_fits fitting_rule" by (simp add: rule_fits_def fitting_rule_def field_fits_def action_fits_def num_of_def)
  moreover have "to_dbus (Some 0) fitting_rule \<noteq> None" by code_simp
  then obtain dpid attrs as where "to_dbus (Some 0) fitting_rule = Some (dpid, attrs, as)" by auto
  ultimately show ?thesis using dbus_roundtrip by blast
qed

lemma wildcard_read_as_untagged: "parse_field (''dl_vlan'', uint (dbus_uint16 0)) = [(''dl_vlan'', Some (- 1))]"
  by (simp add: parse_field_def dbus_uint16_def)

section \<open>Removing duplicates keeps what is forwarded\<close>

text \<open>What a rule sends out: VLAN and port.\<close>

fun outputs :: "int \<Rightarrow> flow_action list \<Rightarrow> (int \<times> int) list" where
  "outputs vlan [] = []"
| "outputs vlan ((key, v) # as) =
     (if key = ''set_vlan_id'' then outputs (if v = None \<or> value_num v = 65535 then - 1 else value_num v) as
      else if key = ''output'' then (vlan, value_num v) # outputs vlan as
      else outputs vlan as)"

definition covers :: "flow_match \<Rightarrow> (string \<Rightarrow> int) \<Rightarrow> bool" where
  "covers m frame = list_all (\<lambda>(key, v). key = ''dl_vlan'' \<and> num_of v = 0 \<or> num_of v = frame key) m"

definition applies :: "int \<Rightarrow> int \<Rightarrow> (string \<Rightarrow> int) \<Rightarrow> flow_rule \<Rightarrow> bool" where
  "applies dpid priority frame R \<longleftrightarrow> num_of (fr_dpid R) = dpid \<and> fr_priority R = priority \<and> covers (fr_match R) frame"

definition forwarded :: "flow_rule option list \<Rightarrow> int \<Rightarrow> int \<Rightarrow> (string \<Rightarrow> int) \<Rightarrow> (int \<times> int) set" where
  "forwarded fs dpid priority frame = {x. \<exists>R. Some R \<in> set fs \<and> applies dpid priority frame R \<and> x \<in> set (outputs (frame ''dl_vlan'') (fr_actions R))}"

text \<open>The rules the generators make: numbers only, and the VLAN is set first.\<close>

definition routed :: "flow_rule \<Rightarrow> bool" where
  "routed R \<longleftrightarrow> fr_actions R \<noteq> [] \<and> fst (hd (fr_actions R)) = ''set_vlan_id'' \<and> list_all (\<lambda>a. \<exists>n. snd a = Some (Num n)) (fr_actions R)"

definition same_key :: "flow_rule \<Rightarrow> flow_rule \<Rightarrow> bool" where
  "same_key d f \<longleftrightarrow> num_of (fr_dpid d) = num_of (fr_dpid f) \<and> compare_match d f"

definition merged :: "flow_rule \<Rightarrow> flow_rule \<Rightarrow> flow_rule" where
  "merged f d = (if same_key d f then (case merge_actions d f of Done d' \<Rightarrow> d' | _ \<Rightarrow> d) else d)"

definition all_routed :: "flow_rule option list \<Rightarrow> bool" where
  "all_routed fs \<longleftrightarrow> (\<forall>R. Some R \<in> set fs \<longrightarrow> routed R)"

definition distinct_keys :: "flow_rule option list \<Rightarrow> bool" where
  "distinct_keys fs = sorted_wrt (\<lambda>x y. \<forall>d e. x = Some d \<longrightarrow> y = Some e \<longrightarrow> \<not> same_key d e) fs"

lemma outputs_append: "\<exists>u. outputs v (as @ bs) = outputs v as @ outputs u bs"
  by (induction v as rule: outputs.induct) auto

lemma outputs_routed: "routed R \<Longrightarrow> outputs u (fr_actions R) = outputs v (fr_actions R)"
  by (cases "fr_actions R") (auto simp: routed_def)

lemma routed_sets_vlan: "routed R \<Longrightarrow> sets_vlan (fr_actions R)"
  by (cases "fr_actions R") (auto simp: routed_def sets_vlan_def)

lemma same_number_eq: "same_number a b \<Longrightarrow> snd a = Some (Num n) \<Longrightarrow> snd b = Some (Num m) \<Longrightarrow> a = b"
  by (auto simp: same_number_def value_num_def intro: prod_eqI)

lemma same_action_eq: "same_action a b \<Longrightarrow> snd a = Some (Num n) \<Longrightarrow> a = b"
  by (auto simp: same_action_def same_text_def intro!: prod_eqI split: if_splits option.splits flow_value.splits)

lemma same_actions_eq: "list_all2 same_action as bs \<Longrightarrow> list_all (\<lambda>a. \<exists>n. snd a = Some (Num n)) as \<Longrightarrow> as = bs"
  by (induction rule: list_all2_induct) (auto dest: same_action_eq)

lemma scan_sublist:
  assumes "scan_actions as other j" and "list_all (\<lambda>a. \<exists>n. snd a = Some (Num n)) as" and "list_all (\<lambda>a. \<exists>n. snd a = Some (Num n)) other"
  shows "\<exists>xs ys. take j other @ as = xs @ other @ ys"
  using assms
proof (induction as other j rule: scan_actions.induct)
  case (2 a as other j)
  show ?case
  proof (cases "j < length other \<and> same_number a (other ! j)")
    case True
    have "\<exists>n. snd a = Some (Num n)" using "2.prems"(2) by simp
    moreover have "\<exists>n. snd (other ! j) = Some (Num n)" using "2.prems"(3) True by (simp add: list_all_length)
    ultimately have "a = other ! j" using True same_number_eq by blast
    then have t: "take j other @ a # as = take (Suc j) other @ as" using True by (simp add: take_Suc_conv_app_nth)
    show ?thesis
    proof (cases "Suc j = length other")
      case True
      then have "take j other @ a # as = [] @ other @ as" using t by simp
      then show ?thesis by blast
    next
      case False
      then have "\<exists>xs ys. take (Suc j) other @ as = xs @ other @ ys" using True "2.IH"(1) "2.prems" by simp
      then show ?thesis unfolding t .
    qed
  next
    case False
    then have "\<exists>xs ys. take 0 other @ as = xs @ other @ ys" using "2.IH"(2) "2.prems" by simp
    then obtain xs ys where "as = xs @ other @ ys" by auto
    then have "take j other @ a # as = (take j other @ a # xs) @ other @ ys" by simp
    then show ?thesis by blast
  qed
qed simp

lemma merged_rule:
  assumes "routed d" and "routed f"
  shows "merge_actions d f = Done (merged f d) \<or> \<not> same_key d f"
  using assms by (auto simp: merged_def merge_actions_def routed_sets_vlan split: outcome.splits)

lemma merged_key: "fr_match (merged f d) = fr_match d" "fr_priority (merged f d) = fr_priority d" "fr_dpid (merged f d) = fr_dpid d"
  by (auto simp: merged_def merge_actions_def split: outcome.splits)

lemma merged_routed: "routed d \<Longrightarrow> routed f \<Longrightarrow> routed (merged f d)"
  by (auto simp: merged_def merge_actions_def routed_def split: outcome.splits)

lemma same_key_merged: "same_key (merged f d) x = same_key d x" "same_key x (merged f d) = same_key x d"
  by (simp_all add: same_key_def compare_match_def merged_key)

lemma merged_outputs:
  assumes "routed d" and "routed f"
  shows "set (outputs v (fr_actions (merged f d))) = set (outputs v (fr_actions d)) \<union> (if same_key d f then set (outputs v (fr_actions f)) else {})"
proof (cases "same_key d f")
  case True
  then have "merge_actions d f = Done (merged f d)" using merged_rule [OF assms] by simp
  from merge_actions_cases [OF this]
  consider "merged f d = d" "compare_actions d f" | "merged f d = d" "has_equivilent_actions d f"
    | "merged f d = d\<lparr>fr_actions := fr_actions d @ fr_actions f\<rparr>" by blast
  then show ?thesis
  proof cases
    case 1
    have "fr_actions d = fr_actions f"
      using 1(2) assms(1) unfolding compare_actions_def routed_def by (blast intro: same_actions_eq)
    then show ?thesis using 1 True by simp
  next
    case 2
    then obtain xs ys where "fr_actions d = xs @ fr_actions f @ ys"
      using scan_sublist [of "fr_actions d" "fr_actions f" 0] assms by (auto simp: has_equivilent_actions_def routed_def split: if_splits)
    moreover obtain u w where "outputs v (xs @ fr_actions f @ ys) = outputs v xs @ outputs u (fr_actions f) @ outputs w ys"
      using outputs_append by metis
    ultimately show ?thesis using 2 True outputs_routed [OF assms(2), of u v] by auto
  next
    case 3
    obtain u where "outputs v (fr_actions d @ fr_actions f) = outputs v (fr_actions d) @ outputs u (fr_actions f)" using outputs_append by blast
    then show ?thesis using 3 True outputs_routed [OF assms(2), of u v] by simp
  qed
qed (simp add: merged_def)

definition found :: "flow_rule \<Rightarrow> flow_rule option list \<Rightarrow> bool" where
  "found f ds = list_ex (\<lambda>x. case x of None \<Rightarrow> False | Some d \<Rightarrow> same_key d f) ds"

lemma all_routed_simps:
  "all_routed []" "all_routed (None # ds) = all_routed ds" "all_routed (Some d # ds) \<longleftrightarrow> routed d \<and> all_routed ds"
  "all_routed (ds @ es) \<longleftrightarrow> all_routed ds \<and> all_routed es"
  by (auto simp: all_routed_def)

lemma merge_into_eq:
  assumes "all_routed ds" and "routed f"
  shows "merge_into f ds = Done (found f ds, map (map_option (merged f)) ds)"
  using assms(1)
proof (induction ds)
  case (Cons x ds)
  show ?case
  proof (cases x)
    case (Some d)
    then have r: "routed d" "merge_into f ds = Done (found f ds, map (map_option (merged f)) ds)" using Cons by (simp_all add: all_routed_simps)
    show ?thesis
    proof (cases "same_key d f")
      case True
      then have "merge_actions d f = Done (merged f d)" using merged_rule [OF r(1) assms(2)] by simp
      then show ?thesis using True Some r(2) by (simp add: same_key_def found_def)
    next
      case False
      then have "merged f d = d" by (simp add: merged_def)
      then show ?thesis using Some r(2) False by (auto simp: same_key_def found_def)
    qed
  qed (use Cons in \<open>simp add: all_routed_simps found_def\<close>)
qed (simp add: found_def)

lemma covers_agree:
  assumes "match_agrees m n" and "covers n frame"
  shows "covers m frame"
  unfolding covers_def list_all_iff
proof
  fix x assume x: "x \<in> set m"
  obtain key v where kv: "x = (key, v)" by (cases x)
  have "case map_of n key of Some (Some w) \<Rightarrow> w = num_of v | _ \<Rightarrow> False"
    using bspec [OF assms(1) [unfolded match_agrees_def list_all_iff] x] by (simp add: kv)
  then obtain w where w: "map_of n key = Some (Some w)" "w = num_of v" by (auto split: option.splits)
  have "case (key, Some w) of (key, v) \<Rightarrow> key = ''dl_vlan'' \<and> num_of v = 0 \<or> num_of v = frame key"
    using assms(2) [unfolded covers_def list_all_iff] map_of_SomeD [OF w(1)] by (rule bspec)
  then show "case x of (key, v) \<Rightarrow> key = ''dl_vlan'' \<and> num_of v = 0 \<or> num_of v = frame key"
    using w(2) by (simp add: kv num_of_def)
qed

lemma same_key_applies: "same_key d f \<Longrightarrow> applies n p frame d = applies n p frame f"
  unfolding same_key_def compare_match_def applies_def using covers_agree by metis

lemma applies_merged: "applies n p frame (merged f d) = applies n p frame d"
  by (simp add: applies_def merged_key)

lemma forwarded_simps:
  "forwarded [] n p frame = {}" "forwarded (None # fs) n p frame = forwarded fs n p frame"
  "forwarded (Some R # fs) n p frame =
     (if applies n p frame R then set (outputs (frame ''dl_vlan'') (fr_actions R)) else {}) \<union> forwarded fs n p frame"
  "forwarded (ds @ fs) n p frame = forwarded ds n p frame \<union> forwarded fs n p frame"
  by (auto simp: forwarded_def)

lemma forwarded_merged:
  assumes "all_routed ds" and "routed f"
  shows "forwarded (map (map_option (merged f)) ds) n p frame = forwarded ds n p frame \<union> (if found f ds then forwarded [Some f] n p frame else {})"
  using assms(1)
proof (induction ds)
  case (Cons x ds)
  show ?case
  proof (cases x)
    case (Some d)
    then have d: "routed d" and IH: "forwarded (map (map_option (merged f)) ds) n p frame = forwarded ds n p frame \<union> (if found f ds then forwarded [Some f] n p frame else {})"
      using Cons by (simp_all add: all_routed_simps)
    show ?thesis
      using merged_outputs [OF d assms(2)] IH same_key_applies [of d f n p frame]
      by (auto simp: Some found_def forwarded_simps applies_merged split: if_splits)
  qed (use Cons in \<open>simp add: all_routed_simps found_def forwarded_simps\<close>)
qed (simp add: found_def forwarded_simps)

lemma map_merged_routed: "all_routed ds \<Longrightarrow> routed f \<Longrightarrow> all_routed (map (map_option (merged f)) ds)"
proof (induction ds)
  case (Cons x ds)
  then show ?case by (cases x) (simp_all add: all_routed_simps merged_routed)
qed simp

lemma map_merged_distinct: "distinct_keys ds \<Longrightarrow> distinct_keys (map (map_option (merged f)) ds)"
  unfolding distinct_keys_def sorted_wrt_map by (erule sorted_wrt_mono_rel [rotated]) (auto simp: same_key_merged)

lemma distinct_snoc: "distinct_keys ds \<Longrightarrow> \<not> found f ds \<Longrightarrow> distinct_keys (ds @ [Some f])"
  by (auto simp: distinct_keys_def sorted_wrt_append found_def list_ex_iff)

lemma distinct_snoc_None: "distinct_keys ds \<Longrightarrow> distinct_keys (ds @ [None])"
  by (auto simp: distinct_keys_def sorted_wrt_append)

lemma found_merged: "found f (map (map_option (merged g)) ds) = found f ds"
  by (induction ds) (auto simp: found_def same_key_merged split: option.splits)

lemma dedup_from_forwards:
  assumes "all_routed ds" and "all_routed fs" and "distinct_keys ds"
  shows "\<exists>es. dedup_from ds fs = Done es \<and> all_routed es \<and> distinct_keys es \<and>
    (\<forall>n p frame. forwarded es n p frame = forwarded ds n p frame \<union> forwarded fs n p frame)"
  using assms
proof (induction ds fs rule: dedup_from.induct)
  case (2 ds fs)
  then show ?case by (simp add: all_routed_simps distinct_snoc_None forwarded_simps)
next
  case (3 ds f fs)
  let ?ms = "map (map_option (merged f)) ds" and ?b = "found f ds"
  let ?es = "if ?b then ?ms else ?ms @ [Some f]"
  have f: "routed f" "all_routed fs" using "3.prems"(2) by (simp_all add: all_routed_simps)
  have m: "merge_into f ds = Done (?b, ?ms)" using merge_into_eq [OF "3.prems"(1) f(1)] .
  have r: "all_routed ?es" using map_merged_routed [OF "3.prems"(1) f(1)] f(1) by (simp add: all_routed_simps)
  have k: "distinct_keys ?es" using map_merged_distinct [OF "3.prems"(3)] by (simp add: distinct_snoc found_merged)
  have w: "forwarded ?es n p frame = forwarded ds n p frame \<union> forwarded [Some f] n p frame" for n p frame
    using forwarded_merged [OF "3.prems"(1) f(1), of n p frame] by (simp add: forwarded_simps(4))
  from "3.IH" [OF m refl r f(2) k] obtain es where "dedup_from ?es fs = Done es" "all_routed es" "distinct_keys es"
    "\<forall>n p frame. forwarded es n p frame = forwarded ?es n p frame \<union> forwarded fs n p frame" by blast
  then show ?case using m w by (auto simp: forwarded_simps(3) forwarded_simps(1))
qed (simp add: forwarded_simps)

text \<open>
  (C11) Removing duplicates does not change what a switch forwards: for rules that set the VLAN first,
  as those of a circuit do, the program does not die, no two rules that remain are for the same
  switch with the same priority and match, and for every frame the remaining rules that apply send it
  out on the same ports with the same VLANs as all the rules did.
\<close>

theorem dedup_forwards:
  assumes "\<forall>R. Some R \<in> set fs \<longrightarrow> routed R"
  shows "\<exists>es. dedup_flows fs = Done es \<and>
    (\<forall>i j d e. i < j \<longrightarrow> j < length es \<longrightarrow> es ! i = Some d \<longrightarrow> es ! j = Some e \<longrightarrow>
       \<not> (num_of (fr_dpid d) = num_of (fr_dpid e) \<and> compare_match d e)) \<and>
    (\<forall>n p frame. forwarded es n p frame = forwarded fs n p frame)"
proof -
  obtain es where es: "dedup_flows fs = Done es" "distinct_keys es" "\<forall>n p frame. forwarded es n p frame = forwarded fs n p frame"
    using dedup_from_forwards [of "[]" fs] assms
    by (auto simp: dedup_flows_def all_routed_def distinct_keys_def forwarded_simps)
  have "\<not> same_key d e" if "i < j" "j < length es" "es ! i = Some d" "es ! j = Some e" for i j d e
    using es(2) that unfolding distinct_keys_def sorted_wrt_iff_nth_less by blast
  then show ?thesis using es unfolding same_key_def by blast
qed

definition two_ways :: "int \<Rightarrow> flow_rule" where
  "two_ways q = \<lparr>fr_priority = 32768, fr_match = [(''dl_vlan'', Some 100), (''in_port'', Some 1)],
     fr_actions = [(''set_vlan_id'', Some (Num (200 + q))), (''output'', Some (Num q))], fr_dpid = Some 7, fr_idle = 0, fr_hard = 0\<rparr>"

theorem dedup_forwards_witness:
  "\<exists>es. dedup_flows [Some (two_ways 2), Some (two_ways 3), Some (two_ways 2)] = Done es \<and> length es = 1 \<and>
     forwarded es 7 32768 ((\<lambda>_. 1)(''dl_vlan'' := 100)) = {(202, 2), (203, 3)}"
proof -
  let ?fs = "[Some (two_ways 2), Some (two_ways 3), Some (two_ways 2)]"
  have "\<forall>R. Some R \<in> set ?fs \<longrightarrow> routed R" by (simp add: routed_def two_ways_def)
  from dedup_forwards [OF this] obtain es where es: "dedup_flows ?fs = Done es" "\<forall>n p frame. forwarded es n p frame = forwarded ?fs n p frame"
    by blast
  have "map_outcome length (dedup_flows ?fs) = Done 1" by code_simp
  then have "length es = 1" using es(1) by simp
  moreover have "forwarded ?fs 7 32768 ((\<lambda>_. 1)(''dl_vlan'' := 100)) = {(202, 2), (203, 3)}"
    by (simp add: forwarded_simps applies_def covers_def two_ways_def num_of_def value_num_def insert_commute)
  ultimately show ?thesis using es by metis
qed

text \<open>The scan for actions that are there already starts again too late after a mismatch: the
  actions \<open>b, c\<close> are not found in \<open>b, b, c\<close> and are added a second time.\<close>

lemma scan_misses: "scan_actions [(''output'', Some (Num 1)), (''output'', Some (Num 1)), (''output'', Some (Num 2))]
    [(''output'', Some (Num 1)), (''output'', Some (Num 2))] 0 = False"
  by code_simp

text \<open>A rule that sets a VLAN and one that does not cannot be merged.\<close>

lemma merge_dies: "merge_actions (two_ways 2) ((two_ways 3)\<lparr>fr_actions := [(''output'', Some (Num 3))]\<rparr>) = Died"
  by code_simp

end
