(* ===== verification/Spec2Isabelle.thy ===== *)
theory Spec2Isabelle
  imports ValidateIP Provisioning Session CircuitViews EndpointCards EndpointStore L2Theorems PeeringModal L3Theorems CommandTheorems FormTheorems AclTheorems Phonebook AdminPageTheorems ServerCircuit ServerDiff ServerFlow
begin

text \<open>
  A verification library for OESS, the provisioning system for layer 2 circuits and layer 3
  connections: its web client (\<^verbatim>\<open>src/frontend/www\<close>) and parts of its server (\<^verbatim>\<open>src/frontend/webservice\<close>,
  \<^verbatim>\<open>src/perl-lib/OESS/lib/OESS\<close>).

  \<^bold>\<open>The program.\<close>  The client is a set of pages in the browser.  A page keeps the connection the user
  draws up: a list of endpoints and, for layer 3, their peerings; dialogs edit one endpoint or one
  peering; saving sends the connection to the server.  Other pages show access control lists and the
  directory of entities.  The administration pages are a second client with its own service calls,
  tables and forms (\<^verbatim>\<open>new/admin_new/src\<close>).  The server is a set of services in Perl on one database.  A service
  checks the access of the user, chooses interfaces, VLANs, units and bandwidths for the endpoints of a
  connection, stores them in a transaction, sets up the cloud providers and tells the controller of the network,
  which compares the connection with what is configured.

  \<^bold>\<open>How JavaScript is modelled.\<close>  A value is a \<open>jsval\<close>, an object an association list of its properties in
  insertion order, and a computation that may throw has a result of type \<open>exn + 'a\<close> (\<open>JSValue\<close>).
  Numbers are integers with a value for NaN: the client computes with identifiers,
  positions, VLANs and times only.  Comparisons, truth values, conversions
  and property access follow the language, and \<open>JSJson\<close> and \<open>Uri\<close> model \<^verbatim>\<open>JSON\<close> and the URI
  functions with their round trips.  Effects are a trace of events (\<open>Io\<close>): requests, alerts, questions, navigation
  and dialogs.  The server, the answers of the user and the configuration are the record \<open>env\<close>, an
  argument of every definition that uses them; the server may answer depending on everything
  that happened before, or fail.  Where two names share an object and the code relies on it, the objects are in an
  explicit store (\<open>EndpointStore\<close>).  Elements of the page are records of what the code reads and writes (\<open>Dom\<close>).

  \<^bold>\<open>How Perl is modelled.\<close>  A scalar that may be undefined is an option, a hash a record, or an association
  list where the code iterates over its keys.  A table of the database is a list of rows and a query a
  filter; a transaction returns the tables it leaves, and one that fails leaves the old ones.  Errors that are returned are
  values of a sum type; a call of a method on an undefined value ends the program, which is a value of its own
  (\<open>outcome\<close>, \<open>reply\<close>).  Statements of the database are taken to succeed.

  \<^bold>\<open>The theories.\<close>
  \<^item> \<open>Prelude\<close>: lists and numerals; \<open>Regex\<close>: regular expressions and a matcher by derivatives, correct for their languages.
  \<^item> \<open>IPPatterns\<close>, \<open>ValidateIP\<close> (\<^verbatim>\<open>js_templates/api/validateIP.js\<close>): the patterns as written and which texts they accept,
    in terms of numbers and of the text forms of RFC 4291; the six listeners are interpretations of one locale.
  \<^item> \<open>Provisioning\<close> (\<^verbatim>\<open>api/circuit.js\<close>, \<^verbatim>\<open>api/vrf.js\<close>): what is sent for a connection and which
    connections are refused.  \<open>ApiData\<close> (the other files of \<^verbatim>\<open>api\<close>): every service call; those that
    never throw are interpretations of the locale \<open>getter\<close>.
  \<^item> \<open>Session\<close> (\<^verbatim>\<open>cookie.js\<close>, \<^verbatim>\<open>user_menu.js\<close>): the session in the browser survives a page load, for both kinds of storage.
  \<^item> \<open>CircuitViews\<close> (\<^verbatim>\<open>component.js\<close>, \<^verbatim>\<open>l2/circuit.js\<close>, \<^verbatim>\<open>l2/schedule.js\<close>, \<^verbatim>\<open>edit_circuit_name.js\<close>), \<open>EndpointCards\<close>
    (\<^verbatim>\<open>l2/endpoint.js\<close>, \<^verbatim>\<open>l3/endpoint.js\<close>, \<^verbatim>\<open>l3/peering.js\<close>): what is shown of a connection.
  \<^item> \<open>EndpointStore\<close>, \<open>L2Pages\<close>, \<open>L2Theorems\<close> (\<^verbatim>\<open>provision_l2vpn.js\<close>, \<^verbatim>\<open>modify_l2vpn.js\<close>): the layer 2
    pages.  Every run of handlers, a step relation, refines a plain list of endpoints and keeps the indices of the
    endpoints equal to their positions.
  \<^item> \<open>PeeringModal\<close> (\<^verbatim>\<open>l3/peering_modal.js\<close>), \<open>L3Pages\<close>, \<open>L3Theorems\<close> (\<^verbatim>\<open>provision_cloud.js\<close>, \<^verbatim>\<open>modify_cloud.js\<close>): the
    peering dialog passes on valid peerings only; the layer 3 pages refine a list of endpoints with peerings.
  \<^item> \<open>Commands\<close>, \<open>CommandTheorems\<close> (\<^verbatim>\<open>command/selector.js\<close>): a command is sent for the endpoint that is selected.
  \<^item> \<open>EndpointForms\<close>, \<open>FormTheorems\<close> (\<^verbatim>\<open>l2/endpoint_selection_modal.js\<close>): both forms of the endpoint dialog,
    which VLANs they offer, when they can be submitted and what they submit.
  \<^item> \<open>AclPage\<close>, \<open>AclTheorems\<close> (\<^verbatim>\<open>acl.js\<close>, \<^verbatim>\<open>acl\<close>): the page as a step relation whose events are the answers of the
    server in any order; it settles after finitely many steps.  \<open>Phonebook\<close> (\<^verbatim>\<open>phonebook.js\<close>, \<^verbatim>\<open>entity.js\<close>): the trail, and
    controls for those only who may manage an entity.
  \<^item> \<open>AdminApi\<close>, \<open>AdminForms\<close>, \<open>AdminTheorems\<close>, \<open>AdminPages\<close>, \<open>AdminPageTheorems\<close> (\<^verbatim>\<open>new/admin_new/src\<close>): service calls,
    tables, forms, the page context, the handlers of the pages and the dialog for pending changes, whose
    answers may overlap.
  \<^item> \<open>ServerVlans\<close> (\<^verbatim>\<open>Webservice.pm\<close>, \<^verbatim>\<open>ACL.pm\<close>, \<^verbatim>\<open>Interface.pm\<close>, \<^verbatim>\<open>interface.cgi\<close>): from the ranges an administrator types to
    the VLANs a workgroup may use; the service and the form in the browser accept the same ranges.
  \<^item> \<open>ServerSelect\<close> (\<^verbatim>\<open>Entity.pm\<close>, \<^verbatim>\<open>Cloud/AzureInterfaceSelector.pm\<close>, \<^verbatim>\<open>Cloud/BandwidthValidator.pm\<close>): the interface an entity chooses
    for a VLAN is valid, free, and for Azure one of the ports of the service key.
  \<^item> \<open>ServerAccess\<close> (\<^verbatim>\<open>DB/User.pm\<close>, \<^verbatim>\<open>User.pm\<close>): roles are ranked, and the two ways to decide on access to a circuit agree.
  \<^item> \<open>ServerUnits\<close> (\<^verbatim>\<open>DB/Endpoint.pm\<close>, \<^verbatim>\<open>Endpoint.pm\<close>): endpoints on one interface keep different VLANs and units.
  \<^item> \<open>ServerCircuit\<close> (\<^verbatim>\<open>circuit.cgi\<close>): the service for circuits composes the four theories before; what it stores has passed
    their checks and keeps the tables in order.
  \<^item> \<open>ServerDiff\<close> (\<^verbatim>\<open>L2Circuit.pm\<close>, \<^verbatim>\<open>VRF.pm\<close>): a connection and its configuration have no difference exactly when they agree.
    Endpoints of both layers and peers are compared by the same walk, the locale \<open>diff_texts\<close> with three interpretations.
  \<^item> \<open>ServerFlow\<close> (\<^verbatim>\<open>FlowRule.pm\<close>, \<open>_dedup_flows\<close> of \<^verbatim>\<open>Circuit.pm\<close>): rules for OpenFlow switches are well formed whatever calls made them,
    come back from a switch as they were sent, in fields of 16 and 64 bits, and removing duplicates keeps what a switch forwards.
  \<^item> This theory composes the endpoint dialog with the pages: what the dialog submits is a step of the page
    it was opened from, so the invariants and refinements of the pages hold of connections drawn up with it.

  \<^bold>\<open>Termination and bounds.\<close>  All functions are total; no fuel is used (the search for a unit counts the 11000 numbers
  the code tries).  The timers and the
  answers of the server are events of step relations or arguments, so a handler is a function of its state.

  \<^bold>\<open>Arguments for code that is not part of the sources.\<close>  The server as the client sees it and the user (\<open>env\<close>), the parser of dates
  of the schedule picker, regular expressions the user types into the filter of a table, and whether a path of the
  router fits an address.  For the server: the answers of the cloud providers, the decoding of JSON, the clock, and
  the interfaces and entities as the database gives them (\<open>select_services\<close>, \<open>circuit_env\<close>), and the number of appenders
  a message of the logger reaches.

  \<^bold>\<open>Not modelled.\<close>  The old pages (\<^verbatim>\<open>index.js\<close>, \<^verbatim>\<open>admin.js\<close>, \<^verbatim>\<open>workgroups.js\<close>, \<^verbatim>\<open>welcome.js\<close>, \<^verbatim>\<open>edit_details.js\<close>, \<^verbatim>\<open>interdomain.js\<close>,
  \<^verbatim>\<open>graph.js\<close>, \<^verbatim>\<open>utility.js\<close>, \<^verbatim>\<open>circuit_details_box.js\<close>, \<^verbatim>\<open>js_utilities\<close>) keep their state in the widgets of the YUI library, and the maps
  (\<^verbatim>\<open>maps.js\<close>, \<^verbatim>\<open>map_legend.js\<close>) in those of OpenLayers; neither library's behaviour is given by the sources of
  the client.  Of the pages that are modelled, markup without state, styling and log output are left
  out.  Of the server in Perl, the service for layer 3 connections (\<^verbatim>\<open>vrf.cgi\<close>), the services that only read, the old database
  layer (\<^verbatim>\<open>Database.pm\<close>), the generators of flow rules for a circuit and its paths (\<^verbatim>\<open>Circuit.pm\<close>), the drivers of devices
  (\<^verbatim>\<open>MPLS\<close>, \<^verbatim>\<open>FWDCTL\<close>, \<^verbatim>\<open>NSO\<close>), discovery and the message queue are not modelled: they are
  mostly statements for the database and text sent to devices, whose behaviour the sources do not give.
\<close>

section \<open>The endpoint dialog and the pages\<close>

text \<open>
  What the two submit handlers of the dialog write into the endpoint they are given: neither the index
  nor the peerings.
\<close>

definition dialog_writes :: "props \<Rightarrow> bool" where
  "dialog_writes ws \<longleftrightarrow> \<not> phas ws ''index'' \<and> \<not> phas ws ''peers'' \<and> \<not> phas ws ''false''"

lemma psets_append: "psets (psets ps us) vs = psets ps (us @ vs)"
  by (simp add: psets_def)

lemma interface_submit_writes:
  assumes "interface_submit endpoint F = (Inr (), Some ep')"
  obtains ws where "ep' = psets (case endpoint of None \<Rightarrow> [(''index'', if_index F)] | Some ep \<Rightarrow> ep) ws" "dialog_writes ws"
proof -
  let ?opt = "if_options F ! nat (if_selected F)"
  obtain tag where e: "ep' = psets (psets (case endpoint of None \<Rightarrow> [(''index'', if_index F)] | Some ep \<Rightarrow> ep)
      [(''bandwidth'', JStr (select_get_value (if_bandwidths F))), (''name'', JStr (io_name ?opt)),
       (''interface'', JStr (io_name ?opt)), (''interface_id'', JStr (io_value ?opt)), (''description'', JStr (io_description ?opt)),
       (''node'', JStr (io_node ?opt)), (''entity'', JNull), (''entity_id'', JNull), (''peerings'', JArr []), (''cloud_account_id'', JStr [])])
      [(''tag'', JStr tag), (''jumbo'', JBool (ck_checked (if_jumbo F))),
       (''cloud_interconnect_type'', if io_type ?opt = ''null'' then JNull else JStr (io_type ?opt))]"
    using assms unfolding interface_submit_def Let_def by (auto simp del: psets_Cons split: if_splits sum.splits)
  show thesis by (rule that, subst e, rule psets_append) (simp add: dialog_writes_def phas_def)
qed

lemma gateway_keys: "gateway_writes F = Inr (g, ws) \<Longrightarrow> fst ` set ws \<subseteq> {''mtu''}"
  by (cases "selected_value (ef_gateway F)") (auto simp: gateway_writes_def Let_def split: if_splits)

lemma entity_submit_writes:
  assumes "entity_submit (Some ep) F = (Inr (), Some ep')"
  obtains ws where "ep' = psets ep ws" "dialog_writes ws"
proof -
  obtain g ws bw tag where g: "gateway_writes F = Inr (g, ws)" and e: "ep' = psets (pset (psets ep ws) ''bandwidth'' (JStr bw))
      [(''tag'', JStr tag), (''cloud_account_id'', JStr (trim (ef_account F))), (''entity'', pget (ef_entity F) ''name''),
       (''name'', fst (ef_selected F)), (''node'', snd (ef_selected F)), (''interface'', fst (ef_selected F)),
       (''jumbo'', JBool (ck_checked (ef_jumbo F))), (''cloud_interconnect_type'', pget (ef_entity F) ''cloud_interconnect_type''),
       (''cloud_gateway_type'', g)]"
    using assms unfolding entity_submit_def Let_def by (auto simp del: psets_Cons split: sum.splits prod.splits)
  let ?ws = "(ws @ [(''bandwidth'', JStr bw)]) @ [(''tag'', JStr tag), (''cloud_account_id'', JStr (trim (ef_account F))),
       (''entity'', pget (ef_entity F) ''name''), (''name'', fst (ef_selected F)), (''node'', snd (ef_selected F)),
       (''interface'', fst (ef_selected F)), (''jumbo'', JBool (ck_checked (ef_jumbo F))),
       (''cloud_interconnect_type'', pget (ef_entity F) ''cloud_interconnect_type''), (''cloud_gateway_type'', g)]"
  have "pset (psets ep ws) ''bandwidth'' (JStr bw) = psets (psets ep ws) [(''bandwidth'', JStr bw)]" by simp
  then have "ep' = psets ep ?ws" unfolding e psets_append [symmetric] by presburger
  moreover have "dialog_writes ?ws" using gateway_keys [OF g] by (auto simp: dialog_writes_def phas_def)
  ultimately show thesis by (rule that)
qed

lemma new_form_index:
  assumes "populateInterfaceForm E session None t = (Inr F, t')"
  shows "if_index F = JNum (- 1)"
  using assms unfolding populateInterfaceForm_def loadVlanSelector_def Let_def
  by (auto simp: io_bind_def split: prod.splits sum.splits jsval.splits if_splits)

lemma written_good:
  assumes "good_ep ep" and "dialog_writes ws"
  shows "good_ep (psets ep ws)"
proof -
  have "peers_of (psets ep ws) = peers_of ep" "pget (psets ep ws) ''peers'' = pget ep ''peers''"
    using assms(2) by (simp_all add: peers_of_def dialog_writes_def pget_psets_not_in)
  then show ?thesis using assms by (simp add: good_ep_def draw_throws_def dialog_writes_def)
qed

lemma in_set_present: "a \<in> set (present xs) \<longleftrightarrow> Some a \<in> set xs"
  by (induction xs rule: present.induct) auto

section \<open>Properties\<close>


definition dialog_env :: env where
  "dialog_env = \<lparr>path = [], approval_email = [], serve = (\<lambda>t rq. Inr (JObj [(''results'',
     if t = [] then JArr [JObj [(''interface_id'', JNum 7), (''node'', JStr ''n''), (''name'', JStr ''e'')]]
     else JObj [(''available_vlans'', JArr [JNum 3, JNum 4])])])), answers = (\<lambda>_ _. True)\<rparr>"

definition dialog_form_shown :: "interface_form res" where
  "dialog_form_shown = fst (populateInterfaceForm dialog_env [] None [])"


end
